(* ===== verification/Prelude.thy ===== *)
theory Prelude
  imports Main "HOL-Library.Multiset"
begin

text \<open>
  Shared vocabulary of the development.  The theory fixes how the Go code is read in HOL:
  \<^item> a Go string or byte slice is a \<^typ>\<open>string\<close> (a list of bytes);
  \<^item> a Go \<^verbatim>\<open>error\<close> is a \<open>goerr\<close>: the message and the class that
    \<^verbatim>\<open>errors.Is\<close> / \<^verbatim>\<open>apierrors.IsNotFound\<close> can see through \<^verbatim>\<open>%w\<close> wrapping;
  \<^item> a Go function that touches the outside world is a \<open>gom\<close>: it maps the world to a
    returned value, or to the panic it raises, and the new world;
  \<^item> the parts of \<^verbatim>\<open>strings\<close>, \<^verbatim>\<open>strconv\<close> and \<^verbatim>\<open>path\<close> the sources call.
  The second half proves the facts about them that every component uses.
\<close>

named_theorems go_simps "unfolding of the panic and state monad"
named_theorems go_elims "inversion of runs that return"

section \<open>Errors\<close>

datatype errkind = NotFound | AlreadyExists | ReleaseNotFound | OtherErr

datatype goerr = GoErr (err_kind: errkind) (err_msg: string)

text \<open>\<^verbatim>\<open>fmt.Errorf\<close> with \<^verbatim>\<open>%s\<close>/\<^verbatim>\<open>%v\<close> and \<^verbatim>\<open>errors.New\<close> lose the class, \<^verbatim>\<open>%w\<close> keeps it.\<close>

definition Errorf :: "string \<Rightarrow> goerr" where
  "Errorf m = GoErr OtherErr m"

definition wrapErr :: "string \<Rightarrow> goerr \<Rightarrow> goerr" where
  "wrapErr pre e = GoErr (err_kind e) (pre @ err_msg e)"

definition IsNotFound :: "goerr \<Rightarrow> bool" where
  "IsNotFound e \<longleftrightarrow> err_kind e = NotFound"

definition IsAlreadyExists :: "goerr \<Rightarrow> bool" where
  "IsAlreadyExists e \<longleftrightarrow> err_kind e = AlreadyExists"

section \<open>Programs that read and write the world and may panic\<close>

datatype 'a go = Ret 'a | Panic string

type_synonym ('w, 'a) gom = "'w \<Rightarrow> 'a go \<times> 'w"

definition ret :: "'a \<Rightarrow> ('w, 'a) gom" where
  "ret x = (\<lambda>w. (Ret x, w))"

definition panic :: "string \<Rightarrow> ('w, 'a) gom" where
  "panic p = (\<lambda>w. (Panic p, w))"

definition ofGo :: "'a go \<Rightarrow> ('w, 'a) gom" where
  "ofGo r = (\<lambda>w. (r, w))"

definition reading :: "('w \<Rightarrow> 'a) \<Rightarrow> ('w, 'a) gom" where
  "reading f = (\<lambda>w. (Ret (f w), w))"

definition bindM :: "('w, 'a) gom \<Rightarrow> ('a \<Rightarrow> ('w, 'b) gom) \<Rightarrow> ('w, 'b) gom" where
  "bindM m k = (\<lambda>w. case m w of (Ret x, w') \<Rightarrow> k x w' | (Panic p, w') \<Rightarrow> (Panic p, w'))"

text \<open>A client of the cluster keeps private fields \<open>'d\<close> beside the world \<open>'x\<close>:
  \<open>onWorld\<close> runs an operation that only touches the world.\<close>

definition onWorld :: "('x, 'a) gom \<Rightarrow> ('d \<times> 'x, 'a) gom" where
  "onWorld m = (\<lambda>(d, x). case m x of (r, x') \<Rightarrow> (r, (d, x')))"

definition getPriv :: "('d \<times> 'x, 'd) gom" where
  "getPriv = (\<lambda>(d, x). (Ret d, (d, x)))"

definition putPriv :: "'d \<Rightarrow> ('d \<times> 'x, unit) gom" where
  "putPriv d = (\<lambda>(_, x). (Ret (), (d, x)))"

text \<open>Total and partial correctness of a run: \<open>runs m Q w\<close> says that \<open>m\<close> returns from \<open>w\<close>, with a
  value and a world that satisfy \<open>Q\<close>; \<open>wlp m Q w\<close> allows it to panic.\<close>

definition runs :: "('w, 'a) gom \<Rightarrow> ('a \<Rightarrow> 'w \<Rightarrow> bool) \<Rightarrow> 'w \<Rightarrow> bool" where
  "runs m Q w = (case m w of (Ret x, w') \<Rightarrow> Q x w' | (Panic _, _) \<Rightarrow> False)"

definition wlp :: "('w, 'a) gom \<Rightarrow> ('a \<Rightarrow> 'w \<Rightarrow> bool) \<Rightarrow> 'w \<Rightarrow> bool" where
  "wlp m Q w = (case m w of (Ret x, w') \<Rightarrow> Q x w' | (Panic _, _) \<Rightarrow> True)"

section \<open>Maps that may be nil\<close>

text \<open>\<^verbatim>\<open>None\<close> is the nil map: reading finds nothing, writing panics.\<close>

type_synonym ('k, 'v) gomap = "('k \<rightharpoonup> 'v) option"

definition mapGet :: "('k, 'v) gomap \<Rightarrow> 'k \<Rightarrow> 'v option" where
  "mapGet m k = (case m of None \<Rightarrow> None | Some f \<Rightarrow> f k)"

definition mapPut :: "('k, 'v) gomap \<Rightarrow> 'k \<Rightarrow> 'v \<Rightarrow> ('k, 'v) gomap go" where
  "mapPut m k v = (case m of None \<Rightarrow> Panic ''assignment to entry in nil map''
                           | Some f \<Rightarrow> Ret (Some (f(k \<mapsto> v))))"

definition mapDelete :: "('k, 'v) gomap \<Rightarrow> 'k \<Rightarrow> ('k, 'v) gomap" where
  "mapDelete m k = map_option (\<lambda>f. f(k := None)) m"

text \<open>Reading a map of strings gives the empty string where the key is missing.\<close>

definition mapGetStr :: "('k, string) gomap \<Rightarrow> 'k \<Rightarrow> string" where
  "mapGetStr m k = (case mapGet m k of None \<Rightarrow> [] | Some v \<Rightarrow> v)"

section \<open>Strings\<close>

definition HasPrefix :: "string \<Rightarrow> string \<Rightarrow> bool" where
  "HasPrefix s p \<longleftrightarrow> take (length p) s = p"

definition TrimPrefix :: "string \<Rightarrow> string \<Rightarrow> string" where
  "TrimPrefix s p = (if HasPrefix s p then drop (length p) s else s)"

definition HasSuffix :: "string \<Rightarrow> string \<Rightarrow> bool" where
  "HasSuffix s p \<longleftrightarrow> HasPrefix (rev s) (rev p)"

fun Contains :: "string \<Rightarrow> string \<Rightarrow> bool" where
  "Contains [] p = (p = [])"
| "Contains (c # s) p = (HasPrefix (c # s) p \<or> Contains s p)"

text \<open>\<^verbatim>\<open>strings.Split\<close> on a separator of one byte.\<close>

fun Split :: "string \<Rightarrow> char \<Rightarrow> string list" where
  "Split [] c = [[]]"
| "Split (x # xs) c =
     (if x = c then [] # Split xs c
      else (case Split xs c of [] \<Rightarrow> [[x]] | y # ys \<Rightarrow> (x # y) # ys))"

text \<open>\<^verbatim>\<open>strings.SplitN(s, c, 2)\<close>.\<close>

definition SplitN2 :: "string \<Rightarrow> char \<Rightarrow> string list" where
  "SplitN2 s c = (let a = takeWhile (\<lambda>x. x \<noteq> c) s
                  in if length a = length s then [s] else [a, drop (Suc (length a)) s])"

fun Join :: "string list \<Rightarrow> string \<Rightarrow> string" where
  "Join [] sep = []"
| "Join [x] sep = x"
| "Join (x # y # ys) sep = x @ sep @ Join (y # ys) sep"

text \<open>The text before the first occurrence of \<open>p\<close>, which is all of it if there is none; and
  \<^verbatim>\<open>bytes.Split\<close> on a separator that is not empty.\<close>

fun upTo :: "string \<Rightarrow> string \<Rightarrow> string" where
  "upTo [] p = []"
| "upTo (c # s) p = (if HasPrefix (c # s) p then [] else c # upTo s p)"

function SplitOn :: "string \<Rightarrow> string \<Rightarrow> string list" where
  "SplitOn s p =
     (if p = [] \<or> \<not> Contains s p then [s]
      else upTo s p # SplitOn (drop (length (upTo s p) + length p) s) p)"
  by auto
termination
proof (relation "measure (\<lambda>(s, p). length s)")
  fix s p :: string
  assume "\<not> (p = [] \<or> \<not> Contains s p)"
  then show "((drop (length (upTo s p) + length p) s, p), (s, p)) \<in> measure (\<lambda>(s, p). length s)"
    by (cases s) auto
qed simp

declare SplitOn.simps [simp del]

text \<open>\<^verbatim>\<open>strings.Trim(s, "'")\<close>.\<close>

definition TrimQuotes :: "string \<Rightarrow> string" where
  "TrimQuotes s = (let q = (\<lambda>c. c = CHR 0x27) in rev (dropWhile q (rev (dropWhile q s))))"

text \<open>\<^verbatim>\<open>strings.EqualFold\<close> on ASCII text: letters compare without case.  Bytes above 127
  compare exactly (the Unicode folds of non-ASCII letters are not modelled).\<close>

definition toLowerByte :: "char \<Rightarrow> char" where
  "toLowerByte c = (let n = of_char c :: nat
                    in if 65 \<le> n \<and> n \<le> 90 then char_of (n + 32) else c)"

definition EqualFold :: "string \<Rightarrow> string \<Rightarrow> bool" where
  "EqualFold s t \<longleftrightarrow> map toLowerByte s = map toLowerByte t"

section \<open>Numbers\<close>

datatype numerr = SyntaxErr | RangeErr

definition isDigit :: "char \<Rightarrow> bool" where
  "isDigit c \<longleftrightarrow> (let n = of_char c :: nat in 48 \<le> n \<and> n \<le> 57)"

definition digitVal :: "char \<Rightarrow> nat" where
  "digitVal c = of_char c - 48"

definition maxUint64 :: nat where
  "maxUint64 = 18446744073709551615"

text \<open>The loop of \<^verbatim>\<open>strconv.ParseUint(s, 10, 64)\<close>: a bad digit gives 0, an overflow the largest
  value, and either stops the scan.\<close>

fun ParseUint :: "nat \<Rightarrow> string \<Rightarrow> nat \<times> numerr option" where
  "ParseUint n [] = (n, None)"
| "ParseUint n (c # cs) =
     (if \<not> isDigit c then (0, Some SyntaxErr)
      else if n * 10 + digitVal c > maxUint64 then (maxUint64, Some RangeErr)
      else ParseUint (n * 10 + digitVal c) cs)"

definition ParseUintStr :: "string \<Rightarrow> nat \<times> numerr option" where
  "ParseUintStr s = (if s = [] then (0, Some SyntaxErr) else ParseUint 0 s)"

text \<open>\<^verbatim>\<open>strconv.Atoi\<close> on a 64-bit platform: on a range error the nearest \<^verbatim>\<open>int\<close> is returned
  beside the error.\<close>

definition Atoi :: "string \<Rightarrow> int \<times> numerr option" where
  "Atoi s =
     (let neg = HasPrefix s ''-'';
          body = (if neg \<or> HasPrefix s ''+'' then tl s else s)
      in case ParseUintStr body of
           (_, Some SyntaxErr) \<Rightarrow> (0, Some SyntaxErr)
         | (un, _) \<Rightarrow>
             if \<not> neg \<and> un \<ge> 9223372036854775808 then (9223372036854775807, Some RangeErr)
             else if neg \<and> un > 9223372036854775808 then (- 9223372036854775808, Some RangeErr)
             else (if neg then - int un else int un, None))"

fun natString :: "nat \<Rightarrow> string" where
  "natString n = (if n < 10 then [char_of (48 + n)]
                  else natString (n div 10) @ [char_of (48 + n mod 10)])"

declare natString.simps [simp del]

text \<open>\<^verbatim>\<open>fmt.Sprint\<close> of an \<^verbatim>\<open>int\<close>.\<close>

definition Sprint :: "int \<Rightarrow> string" where
  "Sprint i = (if i < 0 then CHR ''-'' # natString (nat (- i)) else natString (nat i))"

section \<open>Slash-separated paths\<close>

text \<open>\<^verbatim>\<open>path.Clean\<close> handles one path element at a time on a stack (the innermost element first).\<close>

fun cleanElem :: "bool \<Rightarrow> string list \<Rightarrow> string \<Rightarrow> string list" where
  "cleanElem rooted st e =
     (if e = [] \<or> e = ''.'' then st
      else if e = ''..'' then
        (case st of [] \<Rightarrow> if rooted then [] else [''..'']
                  | t # ts \<Rightarrow> if t = ''..'' then ''..'' # st else ts)
      else e # st)"

definition pathClean :: "string \<Rightarrow> string" where
  "pathClean p =
     (let rooted = HasPrefix p ''/'';
          out = (if rooted then ''/'' else []) @
                Join (rev (foldl (cleanElem rooted) [] (Split p CHR ''/''))) ''/''
      in if out = [] then ''.'' else out)"

definition pathJoin :: "string list \<Rightarrow> string" where
  "pathJoin es = (let ne = filter (\<lambda>e. e \<noteq> []) es
                  in if ne = [] then [] else pathClean (Join ne ''/''))"

section \<open>Facts about the monad\<close>

lemma bindM_ret_left [simp, go_simps]: "bindM (ret x) k = k x"
  by (simp add: bindM_def ret_def)

lemma bindM_panic [simp, go_simps]: "bindM (panic p) k = panic p"
  by (simp add: bindM_def panic_def)

lemma bindM_ret_right [simp]: "bindM m ret = m"
  by (rule ext) (simp add: bindM_def ret_def split: prod.split go.split)

lemma bindM_assoc: "bindM (bindM m k) l = bindM m (\<lambda>x. bindM (k x) l)"
  by (rule ext) (simp add: bindM_def split: prod.split go.split)

lemma ret_apply [simp, go_simps]: "ret x w = (Ret x, w)"
  by (simp add: ret_def)

lemma panic_apply [simp, go_simps]: "panic p w = (Panic p, w)"
  by (simp add: panic_def)

lemma ofGo_apply [simp, go_simps]: "ofGo r w = (r, w)"
  by (simp add: ofGo_def)

lemma reading_apply [simp, go_simps]: "reading f w = (Ret (f w), w)"
  by (simp add: reading_def)

lemma getPriv_apply [simp, go_simps]: "getPriv (d, x) = (Ret d, (d, x))"
  by (simp add: getPriv_def)

lemma putPriv_apply [simp, go_simps]: "putPriv d' (d, x) = (Ret (), (d', x))"
  by (simp add: putPriv_def)

lemma onWorld_apply [go_simps]: "onWorld m (d, x) = (fst (m x), (d, snd (m x)))"
  by (simp add: onWorld_def split: prod.split)

lemma onWorld_Ret:
  "onWorld m s = (Ret y, s') \<longleftrightarrow> m (snd s) = (Ret y, snd s') \<and> fst s' = fst s"
  by (cases s; cases s') (auto simp: onWorld_def split: prod.split)

lemma bindM_Ret:
  "bindM m k w = (Ret y, w'') \<longleftrightarrow> (\<exists>x w'. m w = (Ret x, w') \<and> k x w' = (Ret y, w''))"
  by (auto simp: bindM_def split: prod.split go.split)

lemma bindM_RetI: "m w = (Ret x, w') \<Longrightarrow> bindM m k w = k x w'"
  by (simp add: bindM_def)

lemma bindM_RetE [elim!, go_elims]:
  assumes "bindM m k w = (Ret y, w'')"
  obtains x w' where "m w = (Ret x, w')" and "k x w' = (Ret y, w'')"
  using assms by (auto simp: bindM_Ret)

lemma runs_simps [simp, go_simps]:
  "runs (ret x) Q w = Q x w"
  "runs (panic p) Q w = False"
  "runs (reading f) Q w = Q (f w) w"
  "runs (bindM m k) Q w = runs m (\<lambda>x w'. runs (k x) Q w') w"
  "runs (onWorld n) R (d, x) = runs n (\<lambda>y x'. R y (d, x')) x"
  "runs getPriv P (d, x) = P d (d, x)"
  "runs (putPriv d') S (d, x) = S () (d', x)"
  by (simp_all add: runs_def bindM_def onWorld_def split: prod.split go.split)

lemma wlp_simps [simp, go_simps]:
  "wlp (ret x) Q w = Q x w"
  "wlp (panic p) Q w = True"
  "wlp (reading f) Q w = Q (f w) w"
  "wlp (bindM m k) Q w = wlp m (\<lambda>x w'. wlp (k x) Q w') w"
  "wlp (onWorld n) R (d, x) = wlp n (\<lambda>y x'. R y (d, x')) x"
  "wlp getPriv P (d, x) = P d (d, x)"
  "wlp (putPriv d') S (d, x) = S () (d', x)"
  by (simp_all add: wlp_def bindM_def onWorld_def split: prod.split go.split)

lemma runs_ofGo [simp]: "runs (ofGo g) Q w = (case g of Ret x \<Rightarrow> Q x w | Panic _ \<Rightarrow> False)"
  and wlp_ofGo [simp]: "wlp (ofGo g) Q w = (case g of Ret x \<Rightarrow> Q x w | Panic _ \<Rightarrow> True)"
  by (simp_all add: runs_def wlp_def split: go.split)

lemma runsE:
  assumes "runs m Q w" obtains x w' where "m w = (Ret x, w')" and "Q x w'"
  using assms by (auto simp: runs_def split: prod.splits go.splits)

lemma runsD: "runs m Q w \<Longrightarrow> \<exists>x w'. m w = (Ret x, w') \<and> Q x w'"
  by (auto elim: runsE)

lemma runsI: "m w = (Ret x, w') \<Longrightarrow> Q x w' \<Longrightarrow> runs m Q w"
  by (simp add: runs_def)

lemma runs_mono: "runs m Q w \<Longrightarrow> (\<And>x w'. Q x w' \<Longrightarrow> R x w') \<Longrightarrow> runs m R w"
  by (auto simp: runs_def split: prod.splits go.splits)

lemma wlp_mono: "wlp m Q w \<Longrightarrow> (\<And>x w'. Q x w' \<Longrightarrow> R x w') \<Longrightarrow> wlp m R w"
  by (auto simp: wlp_def split: prod.splits go.splits)

lemma wlpI: "(\<And>x w'. m w = (Ret x, w') \<Longrightarrow> Q x w') \<Longrightarrow> wlp m Q w"
  by (auto simp: wlp_def split: prod.splits go.splits)

lemma wlp_bind_any: "(\<And>r w'. wlp (k r) Q w') \<Longrightarrow> wlp (bindM m k) Q w"
  unfolding wlp_simps by (rule wlpI) auto

lemma wlpD: "wlp m Q w \<Longrightarrow> m w = (Ret x, w') \<Longrightarrow> Q x w'"
  by (simp add: wlp_def)

lemma runs_wlp: "runs m Q w \<Longrightarrow> wlp m Q w"
  by (auto simp: runs_def wlp_def split: prod.splits go.splits)

lemma go_not_Panic: "(\<forall>p. r \<noteq> Panic p) \<longleftrightarrow> (\<exists>x. r = Ret x)"
  by (cases r) auto

lemmas monad_simps = bindM_def ret_def panic_def ofGo_def reading_def onWorld_def getPriv_def putPriv_def

section \<open>Facts about maps that may be nil\<close>

lemma mapGet_simps [simp]: "mapGet None k = None" "mapGet (Some f) k = f k"
  by (simp_all add: mapGet_def)

lemma mapDelete_simps [simp]:
  "mapDelete None k = None" "mapDelete (Some f) k = Some (f(k := None))"
  by (simp_all add: mapDelete_def)

lemma mapPut_Ret: "mapPut m k v = Ret m' \<longleftrightarrow> (\<exists>f. m = Some f \<and> m' = Some (f(k \<mapsto> v)))"
  by (auto simp: mapPut_def split: option.splits)

lemma mapPut_Some [simp]: "mapPut (Some f) k v = Ret (Some (f(k \<mapsto> v)))"
  by (simp add: mapPut_def)

section \<open>Facts about errors\<close>

lemma err_simps [simp]:
  "err_msg (Errorf m) = m" "err_kind (Errorf m) = OtherErr"
  "err_kind (wrapErr p e) = err_kind e" "err_msg (wrapErr p e) = p @ err_msg e"
  by (simp_all add: Errorf_def wrapErr_def)

lemma IsNotFound_simps [simp]:
  "\<not> IsNotFound (Errorf m)" "IsNotFound (wrapErr p e) = IsNotFound e"
  "\<not> IsAlreadyExists (Errorf m)"
  by (simp_all add: IsNotFound_def IsAlreadyExists_def)

section \<open>Facts about lists and strings\<close>

lemma distinct_set_single: "distinct xs \<Longrightarrow> set xs = {a} \<longleftrightarrow> xs = [a]"
proof
  assume d: "distinct xs" and s: "set xs = {a}"
  from d s have "length xs = 1"
    using distinct_card [OF d] by simp
  then obtain x where "xs = [x]"
    by (auto simp: length_Suc_conv)
  with s show "xs = [a]" by simp
qed simp

lemma HasPrefix_iff: "HasPrefix s p \<longleftrightarrow> (\<exists>t. s = p @ t)"
  unfolding HasPrefix_def by (metis append_eq_conv_conj append_take_drop_id)

lemma HasPrefix_append [simp]: "HasPrefix (p @ t) p"
  by (simp add: HasPrefix_def)

lemma HasPrefix_Nil [simp]: "HasPrefix s []"
  by (simp add: HasPrefix_def)

lemma TrimPrefix_append [simp]: "TrimPrefix (p @ t) p = t"
  by (simp add: TrimPrefix_def)

lemma TrimPrefix_eq: "HasPrefix s p \<Longrightarrow> p @ TrimPrefix s p = s"
  by (auto simp: HasPrefix_iff)

lemma HasSuffix_iff: "HasSuffix s p \<longleftrightarrow> (\<exists>t. s = t @ p)"
proof
  assume "HasSuffix s p"
  then obtain t where "rev s = rev p @ t"
    by (auto simp: HasSuffix_def HasPrefix_iff)
  then have "s = rev t @ p"
    by (metis rev_append rev_rev_ident)
  then show "\<exists>t. s = t @ p" ..
qed (auto simp: HasSuffix_def HasPrefix_iff)

lemma Split_nonempty [simp]: "Split s c \<noteq> []"
  by (induction s) (auto split: list.splits)

lemma length_Split_pos [simp]: "0 < length (Split s c)"
  by simp

lemma Split_no_sep: "c \<notin> set s \<Longrightarrow> Split s c = [s]"
  by (induction s) auto

lemma Split_append_sep: "c \<notin> set a \<Longrightarrow> Split (a @ c # s) c = a # Split s c"
  by (induction a) auto

lemma Split_elems: "e \<in> set (Split s c) \<Longrightarrow> c \<notin> set e"
  by (induction s arbitrary: e) (fastforce split: if_splits list.splits)+

lemma Split_Join:
  assumes "xs \<noteq> []" and "\<forall>x\<in>set xs. c \<notin> set x"
  shows "Split (Join xs [c]) c = xs"
  using assms
proof (induction xs "[c]" rule: Join.induct)
  case (3 x y ys)
  then show ?case by (simp add: Split_append_sep)
qed (simp_all add: Split_no_sep)

lemma Join_Split: "Join (Split s c) [c] = s"
proof (induction s)
  case (Cons x xs)
  obtain y ys where s: "Split xs c = y # ys"
    by (meson Split_nonempty list.exhaust)
  show ?case
  proof (cases "x = c")
    case True
    with Cons s show ?thesis by simp
  next
    case False
    with Cons s show ?thesis by (cases ys) auto
  qed
qed simp

lemma Split_append: "Split (a @ c # s) c = Split a c @ Split s c"
  by (induction a) (auto split: list.split)

lemma Split_Join_concat:
  assumes "xs \<noteq> []" shows "Split (Join xs [c]) c = concat (map (\<lambda>x. Split x c) xs)"
  using assms
proof (induction xs "[c]" rule: Join.induct)
  case (3 x y ys)
  then show ?case by (simp add: Split_append)
qed simp_all

lemma Contains_iff: "Contains s p \<longleftrightarrow> (\<exists>a b. s = a @ p @ b)"
proof (induction s)
  case (Cons c s)
  have "Contains (c # s) p \<longleftrightarrow> (\<exists>b. c # s = p @ b) \<or> (\<exists>a b. s = a @ p @ b)"
    using Cons by (simp add: HasPrefix_iff)
  also have "\<dots> \<longleftrightarrow> (\<exists>a b. c # s = a @ p @ b)"
    by (metis append_Cons append_Nil list.inject neq_Nil_conv)
  finally show ?case .
qed simp

lemma Contains_append [simp]:
  "Contains a p \<Longrightarrow> Contains (a @ b) p" "Contains b p \<Longrightarrow> Contains (a @ b) p"
  unfolding Contains_iff by (metis append.assoc)+

lemma upTo_Contains: "Contains s p \<Longrightarrow> \<exists>t. s = upTo s p @ p @ t"
proof (induction s)
  case (Cons c s)
  show ?case
  proof (cases "HasPrefix (c # s) p")
    case True
    then show ?thesis by (auto simp: HasPrefix_iff)
  next
    case False
    with Cons obtain t where "s = upTo s p @ p @ t" by auto
    with False show ?thesis by (metis append_Cons upTo.simps(2))
  qed
qed auto

lemma Join_SplitOn: "Join (SplitOn s p) p = s"
proof (induction s p rule: SplitOn.induct)
  case (1 s p)
  show ?case
  proof (cases "p = [] \<or> \<not> Contains s p")
    case True
    then show ?thesis by (subst SplitOn.simps) auto
  next
    case False
    then obtain t where t: "s = upTo s p @ p @ t" using upTo_Contains by blast
    have d: "drop (length (upTo s p) + length p) s = t"
      using arg_cong [OF t, of "drop (length (upTo s p) + length p)"] by simp
    have "SplitOn t p \<noteq> []" by (subst SplitOn.simps) auto
    then obtain y ys where y: "SplitOn t p = y # ys" by (meson list.exhaust)
    have "SplitOn s p = upTo s p # y # ys"
      using False by (simp add: SplitOn.simps [of s p] d y)
    moreover have "Join (y # ys) p = t" using 1 False d y by simp
    ultimately show ?thesis using t by simp
  qed
qed

lemma HasPrefix_append2: "HasPrefix a p \<Longrightarrow> HasPrefix (a @ b) p"
  by (auto simp: HasPrefix_iff)

lemma SplitN2_sep: "c \<notin> set a \<Longrightarrow> SplitN2 (a @ c # s) c = [a, s]"
proof -
  assume a: "c \<notin> set a"
  then have "takeWhile (\<lambda>x. x \<noteq> c) (a @ c # s) = a"
    by (subst takeWhile_append2) auto
  then show ?thesis
    by (simp add: SplitN2_def Let_def)
qed

lemma SplitN2_no_sep: "c \<notin> set s \<Longrightarrow> SplitN2 s c = [s]"
proof -
  assume "c \<notin> set s"
  then have "takeWhile (\<lambda>x. x \<noteq> c) s = s"
    unfolding takeWhile_eq_all_conv by blast
  then show ?thesis by (simp only: SplitN2_def Let_def refl if_True)
qed

lemma SplitN2_cases:
  obtains (none) "c \<notin> set s" "SplitN2 s c = [s]"
  | (sep) a b where "c \<notin> set a" "s = a @ c # b" "SplitN2 s c = [a, b]"
proof (cases "c \<in> set s")
  case True
  then obtain a b where "s = a @ c # b" "c \<notin> set a"
    by (meson split_list_first)
  with sep show ?thesis by (simp add: SplitN2_sep)
next
  case False
  with none show ?thesis by (simp add: SplitN2_no_sep)
qed

lemma EqualFold_refl [simp]: "EqualFold s s"
  by (simp add: EqualFold_def)

lemma EqualFold_sym: "EqualFold s t \<Longrightarrow> EqualFold t s"
  by (simp add: EqualFold_def)

lemma EqualFold_trans: "EqualFold s t \<Longrightarrow> EqualFold t u \<Longrightarrow> EqualFold s u"
  by (simp add: EqualFold_def)

section \<open>Facts about numbers\<close>

lemma digit_char [simp]:
  "n < 10 \<Longrightarrow> isDigit (char_of (48 + n))"
  "n < 10 \<Longrightarrow> digitVal (char_of (48 + n)) = n"
  by (simp_all add: isDigit_def digitVal_def)

lemma ParseUint_append:
  "ParseUint k (s @ t) =
     (case ParseUint k s of (m, None) \<Rightarrow> ParseUint m t | (m, Some e) \<Rightarrow> (m, Some e))"
  by (induction k s rule: ParseUint.induct) auto

lemma ParseUint_natString:
  "n \<le> maxUint64 \<Longrightarrow> ParseUint 0 (natString n) = (n, None)"
proof (induction n rule: natString.induct)
  case (1 n)
  show ?case
  proof (cases "n < 10")
    case True
    with "1.prems" show ?thesis by (simp add: natString.simps [of n])
  next
    case False
    with "1.prems" have "ParseUint 0 (natString (n div 10)) = (n div 10, None)"
      by (intro "1.IH") auto
    with False "1.prems" show ?thesis
      by (simp add: natString.simps [of n] ParseUint_append)
  qed
qed

lemma natString_digits: "c \<in> set (natString n) \<Longrightarrow> isDigit c"
proof (induction n rule: natString.induct)
  case (1 n)
  then show ?case
    by (subst (asm) natString.simps) (auto split: if_splits)
qed

lemma natString_nonempty [simp]: "natString n \<noteq> []"
  by (subst natString.simps) simp

lemma isDigit_not:
  "isDigit c \<Longrightarrow> c \<noteq> CHR ''-''" "isDigit c \<Longrightarrow> c \<noteq> CHR ''+''" "isDigit c \<Longrightarrow> c \<noteq> CHR ''v''"
  by (auto simp: isDigit_def)

lemma natString_no_prefix:
  "\<not> HasPrefix (natString n) ''-''" "\<not> HasPrefix (natString n) ''+''"
  "\<not> HasPrefix (natString n) ''v''"
proof -
  obtain c cs where s: "natString n = c # cs"
    by (meson natString_nonempty list.exhaust)
  then have "isDigit c"
    using natString_digits [of c n] by simp
  then show "\<not> HasPrefix (natString n) ''-''" "\<not> HasPrefix (natString n) ''+''"
    "\<not> HasPrefix (natString n) ''v''"
    using s isDigit_not by (auto simp: HasPrefix_def)
qed

text \<open>\<^verbatim>\<open>Atoi\<close> reads back what \<^verbatim>\<open>Sprint\<close> prints, for every 64-bit non-negative value.\<close>

lemma Atoi_natString: "n < 9223372036854775808 \<Longrightarrow> Atoi (natString n) = (int n, None)"
  by (simp add: Atoi_def natString_no_prefix ParseUintStr_def ParseUint_natString maxUint64_def)

lemma Sprint_int [simp]: "Sprint (int n) = natString n"
  by (simp add: Sprint_def)

lemma natString_inj: "natString m = natString n \<Longrightarrow> m \<le> maxUint64 \<Longrightarrow> n \<le> maxUint64 \<Longrightarrow> m = n"
  by (metis ParseUint_natString prod.inject)

lemma ParseUint_bound: "n \<le> maxUint64 \<Longrightarrow> fst (ParseUint n s) \<le> maxUint64"
  by (induction n s rule: ParseUint.induct) (auto simp: maxUint64_def)

lemma Atoi_bounds: "- 9223372036854775808 \<le> fst (Atoi s) \<and> fst (Atoi s) \<le> 9223372036854775807"
  by (auto simp: Atoi_def Let_def split: prod.split option.split numerr.split)

end
