(* ===== verification/Api_Types.thy ===== *)
theory Api_Types
  imports Prelude Complex_Main
begin

text \<open>
  The custom resources of \<^verbatim>\<open>api/v1alpha1\<close>: \<^verbatim>\<open>Package\<close>, \<^verbatim>\<open>PackageBundle\<close> and
  \<^verbatim>\<open>PackageBundleController\<close> as records, one field per field of the Go struct (of the embedded
  \<^verbatim>\<open>ObjectMeta\<close> the name, the namespace and the annotations, which are all the code reads), and
  the methods of \<^verbatim>\<open>package.go\<close> and \<^verbatim>\<open>packagebundlecontroller.go\<close>.  The state enumerations are
  strings in Go, and any string can be stored there, so they stay strings.
\<close>

section \<open>Configuration values\<close>

text \<open>What \<^verbatim>\<open>interface{}\<close> holds after YAML or JSON was decoded into it.  A nested map is the list
  of its entries by increasing key.\<close>

datatype val =
    VNil
  | VBool bool
  | VNum real
  | VStr string
  | VList "val list"
  | VMap "(string \<times> val) list"

type_synonym gvalues = "(string, val) gomap"

section \<open>Package\<close>

record PackageSpec =
  spec_PackageName :: string
  spec_PackageVersion :: string
  spec_Config :: string
  spec_TargetNamespace :: string

type_synonym StateEnum = string

definition StateInitializing :: StateEnum where "StateInitializing = ''initializing''"
definition StateInstalling :: StateEnum where "StateInstalling = ''installing''"
definition StateInstallingDependencies :: StateEnum where
  "StateInstallingDependencies = ''installing dependencies''"
definition StateInstalled :: StateEnum where "StateInstalled = ''installed''"
definition StateUpdating :: StateEnum where "StateUpdating = ''updating''"
definition StateUninstalling :: StateEnum where "StateUninstalling = ''uninstalling''"
definition StateUnknown :: StateEnum where "StateUnknown = ''unknown''"

lemmas state_defs = StateInitializing_def StateInstalling_def StateInstallingDependencies_def
  StateInstalled_def StateUpdating_def StateUninstalling_def StateUnknown_def

record PackageOCISource =
  oci_Version :: string
  oci_Registry :: string
  oci_Repository :: string
  oci_Digest :: string

record PackageAvailableUpgrade =
  upg_Version :: string
  upg_Tag :: string

record PackageStatus =
  st_Source :: PackageOCISource
  st_CurrentVersion :: string
  st_TargetVersion :: string
  st_State :: StateEnum
  st_Detail :: string
  st_UpgradesAvailable :: "PackageAvailableUpgrade list"
  st_Spec :: PackageSpec

record Package =
  pkg_Kind :: string
  pkg_Name :: string
  pkg_Namespace :: string
  pkg_Annotations :: "(string, string) gomap"
  pkg_Spec :: PackageSpec
  pkg_Status :: PackageStatus

record PackageList =
  pl_Items :: "Package list"

section \<open>PackageBundle\<close>

record VersionImages =
  vi_Repository :: string
  vi_Digest :: string

record SourceVersion =
  sv_Name :: string
  sv_Digest :: string
  sv_Images :: "VersionImages list"
  sv_Schema :: string
  sv_Dependencies :: "string list"

record BundlePackageSource =
  src_Registry :: string
  src_Repository :: string
  src_Versions :: "SourceVersion list"

record BundlePackage =
  bp_Name :: string
  bp_Source :: BundlePackageSource
  bp_WorkloadOnly :: bool

record PackageBundleSpec =
  pbs_Packages :: "BundlePackage list"
  pbs_MinVersion :: string

type_synonym PackageBundleStateEnum = string

definition PackageBundleStateAvailable :: PackageBundleStateEnum where
  "PackageBundleStateAvailable = ''available''"
definition PackageBundleStateIgnored :: PackageBundleStateEnum where
  "PackageBundleStateIgnored = ''ignored''"
definition PackageBundleStateInvalid :: PackageBundleStateEnum where
  "PackageBundleStateInvalid = ''invalid''"
definition PackageBundleStateUpgradeRequired :: PackageBundleStateEnum where
  "PackageBundleStateUpgradeRequired = ''controller upgrade required''"

lemmas bundle_state_defs = PackageBundleStateAvailable_def PackageBundleStateIgnored_def
  PackageBundleStateInvalid_def PackageBundleStateUpgradeRequired_def

record PackageBundleStatus =
  pbst_Spec :: PackageBundleSpec
  pbst_State :: PackageBundleStateEnum

record PackageBundle =
  pb_Kind :: string
  pb_APIVersion :: string
  pb_Name :: string
  pb_Namespace :: string
  pb_Annotations :: "(string, string) gomap"
  pb_Spec :: PackageBundleSpec
  pb_Status :: PackageBundleStatus

record PackageBundleList =
  pbl_Items :: "PackageBundle list"

section \<open>PackageBundleController\<close>

text \<open>Durations are signed counts of nanoseconds.\<close>

type_synonym duration = int

record PackageBundleControllerSpec =
  pbcs_LogLevel :: "int option"
  pbcs_UpgradeCheckInterval :: duration
  pbcs_UpgradeCheckShortInterval :: duration
  pbcs_ActiveBundle :: string
  pbcs_PrivateRegistry :: string
  pbcs_DefaultRegistry :: string
  pbcs_DefaultImageRegistry :: string
  pbcs_BundleRepository :: string
  pbcs_CreateNamespace :: bool

type_synonym BundleControllerStateEnum = string

definition BundleControllerStateIgnored :: BundleControllerStateEnum where
  "BundleControllerStateIgnored = ''ignored''"
definition BundleControllerStateActive :: BundleControllerStateEnum where
  "BundleControllerStateActive = ''active''"
definition BundleControllerStateUpgradeAvailable :: BundleControllerStateEnum where
  "BundleControllerStateUpgradeAvailable = ''upgrade available''"
definition BundleControllerStateDisconnected :: BundleControllerStateEnum where
  "BundleControllerStateDisconnected = ''disconnected''"

lemmas pbc_state_defs = BundleControllerStateIgnored_def BundleControllerStateActive_def
  BundleControllerStateUpgradeAvailable_def BundleControllerStateDisconnected_def

record PackageBundleControllerStatus =
  pbcst_State :: BundleControllerStateEnum
  pbcst_Detail :: string
  pbcst_Spec :: PackageBundleControllerSpec

record PackageBundleController =
  pbc_Kind :: string
  pbc_Name :: string
  pbc_Namespace :: string
  pbc_Spec :: PackageBundleControllerSpec
  pbc_Status :: PackageBundleControllerStatus

section \<open>Zero values\<close>

definition zeroPackageSpec :: PackageSpec where
  "zeroPackageSpec = \<lparr>spec_PackageName = [], spec_PackageVersion = [], spec_Config = [],
     spec_TargetNamespace = []\<rparr>"

definition zeroSource :: PackageOCISource where
  "zeroSource = \<lparr>oci_Version = [], oci_Registry = [], oci_Repository = [], oci_Digest = []\<rparr>"

definition zeroStatus :: PackageStatus where
  "zeroStatus = \<lparr>st_Source = zeroSource, st_CurrentVersion = [], st_TargetVersion = [],
     st_State = [], st_Detail = [], st_UpgradesAvailable = [], st_Spec = zeroPackageSpec\<rparr>"

definition zeroPackage :: Package where
  "zeroPackage = \<lparr>pkg_Kind = [], pkg_Name = [], pkg_Namespace = [], pkg_Annotations = None,
     pkg_Spec = zeroPackageSpec, pkg_Status = zeroStatus\<rparr>"

definition zeroVersion :: SourceVersion where
  "zeroVersion = \<lparr>sv_Name = [], sv_Digest = [], sv_Images = [], sv_Schema = [],
     sv_Dependencies = []\<rparr>"

definition zeroBundleSpec :: PackageBundleSpec where
  "zeroBundleSpec = \<lparr>pbs_Packages = [], pbs_MinVersion = []\<rparr>"

definition zeroBundle :: PackageBundle where
  "zeroBundle = \<lparr>pb_Kind = [], pb_APIVersion = [], pb_Name = [], pb_Namespace = [],
     pb_Annotations = None, pb_Spec = zeroBundleSpec,
     pb_Status = \<lparr>pbst_Spec = zeroBundleSpec, pbst_State = []\<rparr>\<rparr>"

definition zeroPBCSpec :: PackageBundleControllerSpec where
  "zeroPBCSpec = \<lparr>pbcs_LogLevel = None, pbcs_UpgradeCheckInterval = 0,
     pbcs_UpgradeCheckShortInterval = 0, pbcs_ActiveBundle = [], pbcs_PrivateRegistry = [],
     pbcs_DefaultRegistry = [], pbcs_DefaultImageRegistry = [], pbcs_BundleRepository = [],
     pbcs_CreateNamespace = False\<rparr>"

definition zeroPBC :: PackageBundleController where
  "zeroPBC = \<lparr>pbc_Kind = [], pbc_Name = [], pbc_Namespace = [], pbc_Spec = zeroPBCSpec,
     pbc_Status = \<lparr>pbcst_State = [], pbcst_Detail = [], pbcst_Spec = zeroPBCSpec\<rparr>\<rparr>"

lemmas zero_defs = zeroPackageSpec_def zeroSource_def zeroStatus_def zeroPackage_def
  zeroVersion_def zeroBundleSpec_def zeroBundle_def zeroPBCSpec_def zeroPBC_def

section \<open>Methods of Package\<close>

definition PackageKind :: string where "PackageKind = ''Package''"
definition PackageNamespace :: string where "PackageNamespace = ''eksa-packages''"
definition namespacePrefix :: string where "namespacePrefix = PackageNamespace @ ''-''"
definition clusterNameEnvVar :: string where "clusterNameEnvVar = ''CLUSTER_NAME''"

definition NewPackage :: "string \<Rightarrow> string \<Rightarrow> string \<Rightarrow> string \<Rightarrow> Package" where
  "NewPackage packageName name namespace config =
     zeroPackage\<lparr>pkg_Kind := PackageKind, pkg_Name := name, pkg_Namespace := namespace,
       pkg_Spec := zeroPackageSpec\<lparr>spec_PackageName := packageName, spec_Config := config\<rparr>\<rparr>"

text \<open>\<^verbatim>\<open>sigs.k8s.io/yaml\<close> is a parameter: \<open>yamlValues\<close> decodes a document into a map that was made
  empty.  Nothing is assumed of it; in particular its result may be the nil map.\<close>

definition GetValues :: "(string \<Rightarrow> goerr + gvalues) \<Rightarrow> Package \<Rightarrow> goerr + gvalues" where
  "GetValues yamlValues config = yamlValues (spec_Config (pkg_Spec config))"

definition GetClusterName :: "Package \<Rightarrow> string" where
  "GetClusterName config =
     (if HasPrefix (pkg_Namespace config) namespacePrefix
      then TrimPrefix (pkg_Namespace config) namespacePrefix else [])"

definition IsOldNamespace :: "Package \<Rightarrow> bool" where
  "IsOldNamespace config \<longleftrightarrow> GetClusterName config = []"

definition IsValidNamespace :: "Package \<Rightarrow> bool" where
  "IsValidNamespace config =
     (if \<not> HasPrefix (pkg_Namespace config) namespacePrefix
      then (if pkg_Namespace config \<noteq> PackageNamespace then False else True)
      else True)"

definition IsInstalledOnWorkload :: "(string \<Rightarrow> string) \<Rightarrow> Package \<Rightarrow> bool" where
  "IsInstalledOnWorkload getenv config =
     (let clusterName = GetClusterName config;
          managementClusterName = getenv clusterNameEnvVar
      in managementClusterName \<noteq> clusterName)"

section \<open>Methods of PackageBundleController\<close>

definition defaultRegistry :: string where
  "defaultRegistry = ''public.ecr.aws/eks-anywhere''"
definition defaultImageRegistry :: string where
  "defaultImageRegistry = ''783794618700.dkr.ecr.us-west-2.amazonaws.com''"

definition IsIgnored :: "PackageBundleController \<Rightarrow> bool" where
  "IsIgnored config \<longleftrightarrow> pbc_Namespace config \<noteq> PackageNamespace"

definition GetDefaultRegistry :: "PackageBundleController \<Rightarrow> string" where
  "GetDefaultRegistry config =
     (if pbcs_DefaultRegistry (pbc_Spec config) \<noteq> []
      then pbcs_DefaultRegistry (pbc_Spec config) else defaultRegistry)"

definition GetDefaultImageRegistry :: "PackageBundleController \<Rightarrow> string" where
  "GetDefaultImageRegistry config =
     (if pbcs_DefaultImageRegistry (pbc_Spec config) \<noteq> []
      then pbcs_DefaultImageRegistry (pbc_Spec config) else defaultImageRegistry)"

definition GetBundleURI :: "PackageBundleController \<Rightarrow> string" where
  "GetBundleURI config =
     pathJoin [GetDefaultRegistry config, pbcs_BundleRepository (pbc_Spec config)]"

definition GetActiveBundleURI :: "PackageBundleController \<Rightarrow> string" where
  "GetActiveBundleURI config =
     GetBundleURI config @ '':'' @ pbcs_ActiveBundle (pbc_Spec config)"

definition IsDefaultRegistryDefault :: "PackageBundleController \<Rightarrow> bool" where
  "IsDefaultRegistryDefault config \<longleftrightarrow> GetDefaultRegistry config = defaultRegistry"

section \<open>Facts\<close>

lemma defaults_nonempty [simp]: "defaultRegistry \<noteq> []" "defaultImageRegistry \<noteq> []"
  by (simp_all add: defaultRegistry_def defaultImageRegistry_def)

lemma GetDefaultRegistry_nonempty [simp]: "GetDefaultRegistry c \<noteq> []"
  by (simp add: GetDefaultRegistry_def)

lemma GetDefaultImageRegistry_nonempty [simp]: "GetDefaultImageRegistry c \<noteq> []"
  by (simp add: GetDefaultImageRegistry_def)

lemma GetClusterName_prefixed:
  "pkg_Namespace p = namespacePrefix @ c \<Longrightarrow> GetClusterName p = c"
  by (simp add: GetClusterName_def)

lemma HasPrefix_PackageNamespace [simp]: "\<not> HasPrefix PackageNamespace namespacePrefix"
  by (simp add: HasPrefix_def PackageNamespace_def namespacePrefix_def)

lemma IsValidNamespace_iff:
  "IsValidNamespace p \<longleftrightarrow>
     pkg_Namespace p = PackageNamespace \<or> HasPrefix (pkg_Namespace p) namespacePrefix"
  by (auto simp: IsValidNamespace_def)

text \<open>The cluster name determines the namespace of a package whose namespace carries one.\<close>

lemma GetClusterName_namespace:
  "GetClusterName p \<noteq> [] \<Longrightarrow> pkg_Namespace p = namespacePrefix @ GetClusterName p"
  by (auto simp: GetClusterName_def TrimPrefix_eq split: if_splits)

lemma GetClusterName_cong:
  "pkg_Namespace p = pkg_Namespace q \<Longrightarrow> GetClusterName p = GetClusterName q"
  by (simp add: GetClusterName_def)

lemma IsValidNamespace_cong:
  "pkg_Namespace p = pkg_Namespace q \<Longrightarrow> IsValidNamespace p = IsValidNamespace q"
  by (simp add: IsValidNamespace_def)

lemma namespace_simps [simp]:
  "GetClusterName (p\<lparr>pkg_Status := s\<rparr>) = GetClusterName p"
  "IsValidNamespace (p\<lparr>pkg_Status := s\<rparr>) = IsValidNamespace p"
  "GetValues y (p\<lparr>pkg_Status := s\<rparr>) = GetValues y p"
  by (simp_all add: GetClusterName_def IsValidNamespace_def GetValues_def)

end
