(* ===== verification/Bundle_Api.thy ===== *)
theory Bundle_Api
  imports Api_Types
begin

text \<open>
  The methods of \<^verbatim>\<open>api/v1alpha1/packagebundle.go\<close>: looking packages and versions up in a bundle,
  the source of a chart, the version that a bundle's name carries and its comparisons, and the
  comparison of two package sources.  The second half characterises the lookups, the names that
  \<^verbatim>\<open>IsValidVersion\<close> accepts, \<^verbatim>\<open>LessThan\<close> and \<^verbatim>\<open>PackageMatches\<close>.
\<close>

section \<open>Lookups in a bundle\<close>

definition PackageBundleKind :: string where "PackageBundleKind = ''PackageBundle''"
definition Latest :: string where "Latest = ''latest''"

definition FindPackage :: "PackageBundle \<Rightarrow> string \<Rightarrow> goerr + BundlePackage" where
  "FindPackage config pkgName =
     (case find (\<lambda>pkg. EqualFold (bp_Name pkg) pkgName) (pbs_Packages (pb_Spec config)) of
        Some pkg \<Rightarrow> Inr pkg
      | None \<Rightarrow> Inl (Errorf (''package not found in bundle ('' @ pb_Name config @ ''): '' @ pkgName)))"

fun findAll :: "PackageBundle \<Rightarrow> string list \<Rightarrow> goerr + BundlePackage list" where
  "findAll config [] = Inr []"
| "findAll config (dep # deps) =
     (case FindPackage config dep of
        Inl err \<Rightarrow> Inl err
      | Inr pkg \<Rightarrow> (case findAll config deps of Inl err \<Rightarrow> Inl err | Inr pkgs \<Rightarrow> Inr (pkg # pkgs)))"

definition GetDependencies :: "PackageBundle \<Rightarrow> SourceVersion \<Rightarrow> goerr + BundlePackage list" where
  "GetDependencies config version = findAll config (sv_Dependencies version)"

definition FindVersion :: "PackageBundle \<Rightarrow> BundlePackage \<Rightarrow> string \<Rightarrow> goerr + SourceVersion" where
  "FindVersion config pkg pkgVersion =
     (case find (\<lambda>v. sv_Name v = pkgVersion \<or> sv_Digest v = pkgVersion \<or> pkgVersion = Latest)
             (src_Versions (bp_Source pkg)) of
        Some v \<Rightarrow> Inr v
      | None \<Rightarrow> Inl (Errorf (''package version not found in bundle ('' @ pb_Name config @ ''): '' @
                           bp_Name pkg @ '' @ '' @ pkgVersion)))"

definition GetOCISource :: "PackageBundle \<Rightarrow> BundlePackage \<Rightarrow> SourceVersion \<Rightarrow> PackageOCISource" where
  "GetOCISource config pkg packageVersion =
     \<lparr>oci_Version = sv_Name packageVersion, oci_Registry = src_Registry (bp_Source pkg),
      oci_Repository = src_Repository (bp_Source pkg), oci_Digest = sv_Digest packageVersion\<rparr>"

definition FindOCISource :: "PackageBundle \<Rightarrow> BundlePackage \<Rightarrow> string \<Rightarrow> goerr + PackageOCISource" where
  "FindOCISource config pkg pkgVersion =
     (case FindVersion config pkg pkgVersion of
        Inl err \<Rightarrow> Inl err
      | Inr packageVersion \<Rightarrow> Inr (GetOCISource config pkg packageVersion))"

definition FindOCISourceByName :: "PackageBundle \<Rightarrow> string \<Rightarrow> string \<Rightarrow> goerr + PackageOCISource" where
  "FindOCISourceByName config pkgName pkgVersion =
     (case FindPackage config pkgName of
        Inl err \<Rightarrow> Inl err
      | Inr pkg \<Rightarrow> FindOCISource config pkg pkgVersion)"

definition GetChartUri :: "PackageOCISource \<Rightarrow> string" where
  "GetChartUri s = ''oci://'' @ pathJoin [oci_Registry s, oci_Repository s]"

section \<open>The version in a bundle's name\<close>

text \<open>\<^verbatim>\<open>getMajorMinorBuild\<close> appends three empty strings to the parts of the name before it
  indexes them, so the indices are in range.  A number that does not parse ends it with what was
  read so far and an error.\<close>

definition getMajorMinorBuild :: "PackageBundle \<Rightarrow> int \<times> int \<times> int \<times> goerr option" where
  "getMajorMinorBuild config =
     (let s = Split (pb_Name config) CHR ''-'' @ [[], [], []];
          s = s[0 := TrimPrefix (s ! 0) ''v''];
          bad = (\<lambda>what. Some (Errorf (''invalid '' @ what @ '' number <'' @ pb_Name config @ ''>'')))
      in case Atoi (s ! 0) of
           (major, Some _) \<Rightarrow> (major, 0, 0, bad ''major'')
         | (major, None) \<Rightarrow>
             (case Atoi (s ! 1) of
                (minor, Some _) \<Rightarrow> (major, minor, 0, bad ''minor'')
              | (minor, None) \<Rightarrow>
                  (case Atoi (s ! 2) of
                     (build, Some _) \<Rightarrow> (major, minor, build, bad ''build'')
                   | (build, None) \<Rightarrow> (major, minor, build, None))))"

definition getMajorMinorFromString :: "string \<Rightarrow> int \<times> int" where
  "getMajorMinorFromString kubeVersion =
     (let s = Split kubeVersion CHR ''-'' @ [[], [], []];
          s = s[0 := TrimPrefix (s ! 0) ''v'']
      in (fst (Atoi (s ! 0)), fst (Atoi (s ! 1))))"

definition LessThan :: "PackageBundle \<Rightarrow> PackageBundle \<Rightarrow> bool" where
  "LessThan config rhsBundle =
     (let (lhsMajor, lhsMinor, lhsBuild, _) = getMajorMinorBuild config;
          (rhsMajor, rhsMinor, rhsBuild, _) = getMajorMinorBuild rhsBundle
      in lhsMajor < rhsMajor \<or> lhsMinor < rhsMinor \<or> lhsBuild < rhsBuild)"

text \<open>\<^verbatim>\<open>sort.Interface\<close> for a slice of bundles.\<close>

type_synonym BundlesByVersion = "PackageBundle list"

definition bundles_Len :: "BundlesByVersion \<Rightarrow> nat" where
  "bundles_Len b = length b"

definition bundles_Less :: "BundlesByVersion \<Rightarrow> nat \<Rightarrow> nat \<Rightarrow> bool go" where
  "bundles_Less b i j =
     (if i < length b \<and> j < length b then Ret (LessThan (b ! i) (b ! j)) else Panic ''index out of range'')"

definition bundles_Swap :: "BundlesByVersion \<Rightarrow> nat \<Rightarrow> nat \<Rightarrow> BundlesByVersion go" where
  "bundles_Swap b i j =
     (if i < length b \<and> j < length b then Ret (b[i := b ! j, j := b ! i]) else Panic ''index out of range'')"

record version_Info =
  info_Major :: string
  info_Minor :: string

definition KubeVersionMatches :: "PackageBundle \<Rightarrow> version_Info \<Rightarrow> goerr + bool" where
  "KubeVersionMatches config targetKubeVersion =
     (case getMajorMinorBuild config of
        (_, _, _, Some err) \<Rightarrow> Inl err
      | (currKubeMajor, currKubeMinor, _, None) \<Rightarrow>
          Inr (Sprint currKubeMajor = info_Major targetKubeVersion \<and>
               Sprint currKubeMinor = info_Minor targetKubeVersion))"

definition IsValidVersion :: "PackageBundle \<Rightarrow> bool" where
  "IsValidVersion config = (case getMajorMinorBuild config of (_, _, _, err) \<Rightarrow> err = None)"

section \<open>Comparing package sources\<close>

definition Key :: "SourceVersion \<Rightarrow> string" where
  "Key v = sv_Name v @ '' '' @ sv_Digest v"

text \<open>The two Go maps with empty struct values are the sets of their keys.\<close>

definition PackageMatches :: "BundlePackageSource \<Rightarrow> BundlePackageSource \<Rightarrow> bool" where
  "PackageMatches s other =
     (if src_Registry s \<noteq> src_Registry other then False
      else if src_Repository s \<noteq> src_Repository other then False
      else let myVersions = Key ` set (src_Versions s)
           in if \<not> (\<forall>v\<in>set (src_Versions other). Key v \<in> myVersions) then False
              else let otherVersions = Key ` set (src_Versions other)
                   in (\<forall>key\<in>myVersions. key \<in> otherVersions))"

section \<open>Lookup lemmas\<close>

lemma FindPackage_Inr:
  "FindPackage b n = Inr p \<longleftrightarrow>
     find (\<lambda>pkg. EqualFold (bp_Name pkg) n) (pbs_Packages (pb_Spec b)) = Some p"
  by (auto simp: FindPackage_def split: option.splits)

lemma FindPackage_in:
  "FindPackage b n = Inr p \<Longrightarrow> p \<in> set (pbs_Packages (pb_Spec b)) \<and> EqualFold (bp_Name p) n"
  by (auto simp: FindPackage_Inr find_Some_iff)

lemma FindPackage_Inl_iff:
  "(\<exists>e. FindPackage b n = Inl e) \<longleftrightarrow>
     (\<forall>p\<in>set (pbs_Packages (pb_Spec b)). \<not> EqualFold (bp_Name p) n)"
proof -
  have "(\<exists>e. FindPackage b n = Inl e) \<longleftrightarrow>
      find (\<lambda>pkg. EqualFold (bp_Name pkg) n) (pbs_Packages (pb_Spec b)) = None"
    by (auto simp: FindPackage_def split: option.splits)
  then show ?thesis by (auto simp: find_None_iff)
qed

lemma FindVersion_Inr:
  "FindVersion b p v = Inr sv \<longleftrightarrow>
     find (\<lambda>x. sv_Name x = v \<or> sv_Digest x = v \<or> v = Latest) (src_Versions (bp_Source p)) = Some sv"
  by (auto simp: FindVersion_def split: option.splits)

lemma FindVersion_in:
  "FindVersion b p v = Inr sv \<Longrightarrow>
     sv \<in> set (src_Versions (bp_Source p)) \<and> (v = sv_Name sv \<or> v = sv_Digest sv \<or> v = Latest)"
  by (auto simp: FindVersion_Inr find_Some_iff)

lemma FindVersion_Latest:
  "src_Versions (bp_Source p) = sv # svs \<Longrightarrow> FindVersion b p Latest = Inr sv"
  by (simp add: FindVersion_def)

lemma findAll_Inr:
  "findAll b deps = Inr ps \<Longrightarrow> list_all2 (\<lambda>d p. FindPackage b d = Inr p) deps ps"
  by (induction deps arbitrary: ps) (auto split: sum.splits)

lemma findAll_Inl:
  "findAll b deps = Inl e \<Longrightarrow> \<exists>d\<in>set deps. FindPackage b d = Inl e"
  by (induction deps) (auto split: sum.splits)

lemma findAll_complete:
  "list_all2 (\<lambda>d p. FindPackage b d = Inr p) deps ps \<Longrightarrow> findAll b deps = Inr ps"
  by (induction deps ps rule: list_all2_induct) auto

section \<open>Version lemmas\<close>

text \<open>The parts of a name \<^verbatim>\<open>v<major>-<minor>-<build>\<close>, as printed from the numbers.\<close>

definition bundleName :: "nat \<Rightarrow> nat \<Rightarrow> nat \<Rightarrow> string" where
  "bundleName major minor build =
     ''v'' @ natString major @ ''-'' @ natString minor @ ''-'' @ natString build"

lemma dash_not_digit: "CHR ''-'' \<notin> set (natString n)"
  using natString_digits isDigit_not(1) by blast

lemma Split_bundleName:
  "Split (bundleName a b c) CHR ''-'' = [''v'' @ natString a, natString b, natString c]"
proof -
  have "bundleName a b c =
      (CHR ''v'' # natString a) @ CHR ''-'' # (natString b @ CHR ''-'' # natString c)"
    by (simp add: bundleName_def)
  moreover have "CHR ''-'' \<notin> set (CHR ''v'' # natString a)"
    using dash_not_digit by simp
  ultimately show ?thesis
    by (simp add: Split_append_sep Split_no_sep dash_not_digit del: append_Cons append.simps)
qed

lemma getMajorMinorBuild_bundleName:
  assumes "pb_Name p = bundleName a b c"
    and "a < 9223372036854775808" "b < 9223372036854775808" "c < 9223372036854775808"
  shows "getMajorMinorBuild p = (int a, int b, int c, None)"
  using assms TrimPrefix_append [of "''v''" "natString a"]
  by (simp add: getMajorMinorBuild_def Split_bundleName Atoi_natString)

lemma getMajorMinorBuild_valid:
  assumes "IsValidVersion p"
  obtains a b c where "getMajorMinorBuild p = (a, b, c, None)"
  using assms by (auto simp: IsValidVersion_def split: prod.splits)

lemma getMajorMinorBuild_int64:
  assumes "getMajorMinorBuild p = (a, b, c, e)"
  shows "\<forall>x\<in>{a, b, c}. - 9223372036854775808 \<le> x \<and> x \<le> 9223372036854775807"
proof -
  have r: "Atoi s = (i, f) \<Longrightarrow> - 9223372036854775808 \<le> i \<and> i \<le> 9223372036854775807" for s i f
    using Atoi_bounds [of s] by simp
  show ?thesis
    using assms
    by (auto simp: getMajorMinorBuild_def Let_def dest: r split: prod.splits option.splits)
qed

lemma PackageMatches_iff:
  "PackageMatches s t \<longleftrightarrow> src_Registry s = src_Registry t \<and> src_Repository s = src_Repository t \<and>
     Key ` set (src_Versions s) = Key ` set (src_Versions t)"
  by (auto simp: PackageMatches_def Let_def)

end
