(* ===== verification/Kube.thy ===== *)
theory Kube
  imports Bundle_Api
begin

text \<open>
  The libraries the controller calls and does not contain: the controller-runtime client, the
  client-go clientset, the kubeconfig loader and the file system.  Each is a record of functions
  over a world type \<open>'x\<close> and is a parameter of the definitions that use it.  Reads look at the
  world, writes also return the next one; nothing is assumed about any of them here.  The Go
  interfaces of the repository (\<^verbatim>\<open>Authenticator\<close>, \<^verbatim>\<open>TargetClusterClient\<close>, \<^verbatim>\<open>PackageDriver\<close>,
  \<^verbatim>\<open>bundle.Client\<close>, \<^verbatim>\<open>RegistryClient\<close>) are records of the same shape, so that the code that is
  written against an interface is modelled against the record, and the component that implements
  the interface is a value of it.
\<close>

section \<open>Kubernetes objects\<close>

record NamespacedName =
  nn_Namespace :: string
  nn_Name :: string

definition nnString :: "NamespacedName \<Rightarrow> string" where
  "nnString n = nn_Namespace n @ ''/'' @ nn_Name n"

record Secret =
  sec_Name :: string
  sec_Namespace :: string
  sec_Type :: string
  sec_Data :: "(string, string) gomap"

record ConfigMap =
  cm_Name :: string
  cm_Namespace :: string
  cm_Data :: "(string, string) gomap"

record Job =
  job_Name :: string
  job_Namespace :: string
  job_Labels :: "(string, string) gomap"
  job_Spec :: string
  job_Succeeded :: int

record CronJob =
  cj_Suspend :: "bool option"
  cj_JobTemplateSpec :: string

datatype restConfig = RestConfig string
datatype clientConfig = ClientConfig string

type_synonym 'x writes = "'x \<Rightarrow> goerr option \<times> 'x"

definition call :: "('x \<Rightarrow> 'a \<times> 'x) \<Rightarrow> ('x, 'a) gom" where
  "call f = (\<lambda>x. case f x of (r, x') \<Rightarrow> (Ret r, x'))"

section \<open>Clients\<close>

text \<open>\<^verbatim>\<open>sigs.k8s.io/controller-runtime/pkg/client.Client\<close>, at the kinds the code uses.\<close>

record 'x Client =
  cl_GetPackage :: "NamespacedName \<Rightarrow> 'x \<Rightarrow> goerr + Package"
  cl_GetBundle :: "NamespacedName \<Rightarrow> 'x \<Rightarrow> goerr + PackageBundle"
  cl_GetPBC :: "NamespacedName \<Rightarrow> 'x \<Rightarrow> goerr + PackageBundleController"
  cl_GetSecret :: "NamespacedName \<Rightarrow> 'x \<Rightarrow> goerr + Secret"
  cl_GetNamespace :: "string \<Rightarrow> 'x \<Rightarrow> goerr + unit"
  cl_GetConfigMap :: "NamespacedName \<Rightarrow> 'x \<Rightarrow> goerr + ConfigMap"
  cl_ListPackages :: "string \<Rightarrow> 'x \<Rightarrow> goerr + Package list"
  cl_ListBundles :: "string \<Rightarrow> 'x \<Rightarrow> goerr + PackageBundle list"
  cl_CreatePackage :: "Package \<Rightarrow> 'x writes"
  cl_CreateBundle :: "PackageBundle \<Rightarrow> 'x writes"
  cl_CreateConfigMap :: "ConfigMap \<Rightarrow> 'x writes"
  cl_CreateNamespace :: "string \<Rightarrow> 'x writes"
  cl_CreateSecret :: "Secret \<Rightarrow> 'x writes"
  cl_UpdatePBC :: "PackageBundleController \<Rightarrow> 'x writes"
  cl_UpdateSecret :: "Secret \<Rightarrow> 'x writes"
  cl_StatusPackage :: "Package \<Rightarrow> 'x writes"
  cl_StatusBundle :: "PackageBundle \<Rightarrow> 'x writes"
  cl_StatusPBC :: "PackageBundleController \<Rightarrow> 'x writes"

text \<open>\<^verbatim>\<open>k8s.io/client-go/kubernetes.Interface\<close>; the first argument of each is the namespace.\<close>

record 'x Clientset =
  cs_GetConfigMap :: "string \<Rightarrow> string \<Rightarrow> 'x \<Rightarrow> goerr + ConfigMap"
  cs_UpdateConfigMap :: "string \<Rightarrow> ConfigMap \<Rightarrow> 'x writes"
  cs_GetCronJob :: "string \<Rightarrow> string \<Rightarrow> 'x \<Rightarrow> goerr + CronJob"
  cs_CreateJob :: "string \<Rightarrow> Job \<Rightarrow> 'x writes"
  cs_ListJobs :: "string \<Rightarrow> (string \<times> string) \<Rightarrow> 'x \<Rightarrow> goerr + Job list"
  cs_DeleteJob :: "string \<Rightarrow> string \<Rightarrow> 'x writes"
  cs_GetSecret :: "string \<Rightarrow> string \<Rightarrow> 'x \<Rightarrow> goerr + Secret"
  cs_CreateSecret :: "string \<Rightarrow> Secret \<Rightarrow> 'x writes"
  cs_UpdateSecret :: "string \<Rightarrow> Secret \<Rightarrow> 'x writes"
  cs_ListNamespaces :: "'x \<Rightarrow> goerr + string list"

text \<open>Building clients, and the clock and file system of the process.  \<^verbatim>\<open>NewForConfig\<close> takes a
  pointer, which is \<open>None\<close> where it is nil.\<close>

record 'x KubeLib =
  kl_NewForConfig :: "restConfig option \<Rightarrow> (goerr + 'x Clientset) go"
  kl_NewClient :: "restConfig \<Rightarrow> goerr + 'x Client"
  kl_NewDiscovery :: "restConfig \<Rightarrow> goerr option"
  kl_ServerVersion :: "restConfig \<Rightarrow> 'x \<Rightarrow> goerr + version_Info"
  kl_ConfigFromBytes :: "string \<Rightarrow> goerr + clientConfig"
  kl_RawConfig :: "clientConfig \<Rightarrow> goerr + clientConfig"
  kl_ClientConfig :: "clientConfig \<Rightarrow> goerr + restConfig"
  kl_EmptyConfig :: clientConfig
  kl_UnixMilli :: "'x \<Rightarrow> int"
  kl_Stat :: "string \<Rightarrow> 'x \<Rightarrow> goerr option"
  kl_ReadFile :: "string \<Rightarrow> 'x \<Rightarrow> goerr + string"

section \<open>The interfaces of the repository\<close>

record ('d, 'x) Authenticator =
  auth_Initialize :: "string \<Rightarrow> ('d \<times> 'x, goerr option) gom"
  auth_AuthFilename :: "('d \<times> 'x, string) gom"
  auth_AddToConfigMap :: "string \<Rightarrow> string \<Rightarrow> ('d \<times> 'x, goerr option) gom"
  auth_DelFromConfigMap :: "string \<Rightarrow> string \<Rightarrow> ('d \<times> 'x, goerr option) gom"
  auth_GetSecretValues :: "string \<Rightarrow> ('d \<times> 'x, goerr + gvalues) gom"
  auth_AddSecretToAllNamespace :: "('d \<times> 'x, goerr option) gom"

record ('t, 'x) TargetClusterClient =
  tc_Initialize :: "string \<Rightarrow> ('t \<times> 'x, goerr option) gom"
  tc_GetServerVersion :: "string \<Rightarrow> ('t \<times> 'x, goerr + version_Info) gom"
  tc_CreateClusterNamespace :: "string \<Rightarrow> ('t \<times> 'x, goerr option) gom"
  tc_CheckNamespace :: "string \<Rightarrow> ('t \<times> 'x, bool) gom"
  tc_ApplySecret :: "Secret \<Rightarrow> ('t \<times> 'x, goerr option) gom"
  tc_ToRESTConfig :: "('t \<times> 'x, goerr + restConfig) gom"

record ('d, 'x) PackageDriver =
  drv_Initialize :: "string \<Rightarrow> ('d \<times> 'x, goerr option) gom"
  drv_Install :: "string \<Rightarrow> string \<Rightarrow> bool \<Rightarrow> PackageOCISource \<Rightarrow> gvalues \<Rightarrow> ('d \<times> 'x, goerr option) gom"
  drv_Uninstall :: "string \<Rightarrow> ('d \<times> 'x, goerr option) gom"
  drv_IsConfigChanged :: "string \<Rightarrow> gvalues \<Rightarrow> ('d \<times> 'x, goerr + bool) gom"

record 'x BundleClient =
  bc_GetActiveBundle :: "string \<Rightarrow> ('x, goerr + PackageBundle) gom"
  bc_GetPackageBundleController :: "string \<Rightarrow> ('x, goerr + PackageBundleController) gom"
  bc_GetBundleList :: "('x, goerr + PackageBundle list) gom"
  bc_GetBundle :: "string \<Rightarrow> ('x, goerr + PackageBundle option) gom"
  bc_GetSecret :: "string \<Rightarrow> ('x, goerr + Secret option) gom"
  bc_CreateBundle :: "PackageBundle \<Rightarrow> ('x, goerr option) gom"
  bc_CreateClusterConfigMap :: "string \<Rightarrow> ('x, goerr option) gom"
  bc_CreatePackage :: "Package \<Rightarrow> ('x, goerr option) gom"
  bc_GetPackageList :: "string \<Rightarrow> ('x, goerr + PackageList) gom"
  bc_SaveStatus :: "PackageBundleController \<Rightarrow> ('x, goerr option) gom"
  bc_Save :: "PackageBundleController \<Rightarrow> ('x, goerr option) gom"

record 'x RegistryClient =
  rc_LatestBundle :: "string \<Rightarrow> string \<Rightarrow> string \<Rightarrow> string \<Rightarrow> ('x, goerr + PackageBundle) gom"
  rc_DownloadBundle :: "string \<Rightarrow> string \<Rightarrow> ('x, goerr + PackageBundle) gom"

section \<open>Facts\<close>

lemma call_apply [simp, go_simps]: "call f x = (Ret (fst (f x)), snd (f x))"
  by (simp add: call_def split: prod.split)

lemma runs_call [simp, go_simps]: "runs (call f) Q x = Q (fst (f x)) (snd (f x))"
  and wlp_call [simp, go_simps]: "wlp (call f) Q x = Q (fst (f x)) (snd (f x))"
  by (simp_all add: runs_def wlp_def)

lemma nnString_simp [simp]:
  "nnString \<lparr>nn_Namespace = a, nn_Name = b\<rparr> = a @ ''/'' @ b"
  by (simp add: nnString_def)

end
