(* ===== verification/Csset.thy ===== *)
theory Csset
  imports Prelude
begin

text \<open>
  \<^verbatim>\<open>pkg/csset\<close>: a set of strings written as comma-separated text.  The Go map with empty struct
  values is a list without duplicates; the order in which Go ranges over a map is unspecified, so
  \<^verbatim>\<open>String\<close> takes it as a parameter \<open>mapRange\<close>, of which the facts use only that it permutes.
  The locale \<open>string_set\<close> is the contract of the set, interpreted on the operations here, and
  the client lemmas of \<^verbatim>\<open>ecrsecret.go\<close> rest on it.
\<close>

section \<open>Definitions\<close>

record CSSet =
  css_set :: "string list"

definition css_Add :: "CSSet \<Rightarrow> string \<Rightarrow> CSSet" where
  "css_Add c v = c\<lparr>css_set := List.insert v (css_set c)\<rparr>"

definition css_Del :: "CSSet \<Rightarrow> string \<Rightarrow> CSSet" where
  "css_Del c v = c\<lparr>css_set := removeAll v (css_set c)\<rparr>"

definition css_Has :: "CSSet \<Rightarrow> string \<Rightarrow> bool" where
  "css_Has c v \<longleftrightarrow> v \<in> set (css_set c)"

definition css_Size :: "CSSet \<Rightarrow> nat" where
  "css_Size c = length (css_set c)"

definition NewCSSet :: "string \<Rightarrow> CSSet" where
  "NewCSSet s = (let c = \<lparr>css_set = []\<rparr>
                 in if s = [] then c else foldl css_Add c (Split s CHR '',''))"

definition css_String :: "(string list \<Rightarrow> string list) \<Rightarrow> CSSet \<Rightarrow> string" where
  "css_String mapRange c = Join (mapRange (css_set c)) '',''"

text \<open>What Go promises of \<^verbatim>\<open>range\<close> over a map: every key once, in some order.\<close>

definition map_range :: "('k list \<Rightarrow> 'k list) \<Rightarrow> bool" where
  "map_range r \<longleftrightarrow> (\<forall>xs. mset (r xs) = mset xs)"

definition css_wf :: "CSSet \<Rightarrow> bool" where
  "css_wf c \<longleftrightarrow> distinct (css_set c)"

section \<open>The contract of a set of strings\<close>

locale string_set =
  fixes inv :: "'c \<Rightarrow> bool"
    and elems :: "'c \<Rightarrow> string set"
    and parse :: "string \<Rightarrow> 'c"
    and add :: "'c \<Rightarrow> string \<Rightarrow> 'c"
    and del :: "'c \<Rightarrow> string \<Rightarrow> 'c"
    and has :: "'c \<Rightarrow> string \<Rightarrow> bool"
    and size_of :: "'c \<Rightarrow> nat"
  assumes inv_parse: "inv (parse s)"
    and elems_parse: "elems (parse s) = (if s = [] then {} else set (Split s CHR '',''))"
    and inv_add: "inv c \<Longrightarrow> inv (add c v)"
    and elems_add: "inv c \<Longrightarrow> elems (add c v) = insert v (elems c)"
    and inv_del: "inv c \<Longrightarrow> inv (del c v)"
    and elems_del: "inv c \<Longrightarrow> elems (del c v) = elems c - {v}"
    and has_elems: "inv c \<Longrightarrow> has c v \<longleftrightarrow> v \<in> elems c"
    and size_elems: "inv c \<Longrightarrow> size_of c = card (elems c)"
begin

lemmas set_laws = inv_parse elems_parse inv_add elems_add inv_del elems_del has_elems

lemma has_add: "inv c \<Longrightarrow> has (add c v) w \<longleftrightarrow> w = v \<or> has c w"
  by (simp add: set_laws)

lemma has_del: "inv c \<Longrightarrow> has (del c v) w \<longleftrightarrow> w \<noteq> v \<and> has c w"
  by (simp add: set_laws) blast

lemma del_add_elems: "inv c \<Longrightarrow> \<not> has c v \<Longrightarrow> elems (del (add c v) v) = elems c"
  by (simp add: set_laws)

lemma add_idem_elems: "inv c \<Longrightarrow> elems (add (add c v) v) = elems (add c v)"
  by (simp add: set_laws)

lemma parse_empty: "elems (parse []) = {}"
  by (simp add: elems_parse)

end

section \<open>The operations meet the contract\<close>

lemma foldl_css_Add:
  "css_wf c \<Longrightarrow> css_wf (foldl css_Add c xs) \<and>
     set (css_set (foldl css_Add c xs)) = set (css_set c) \<union> set xs"
  by (induction xs arbitrary: c) (auto simp: css_wf_def css_Add_def)

interpretation css: string_set css_wf "\<lambda>c. set (css_set c)" NewCSSet css_Add css_Del css_Has css_Size
proof
  show "css_wf (NewCSSet s)" for s
    using foldl_css_Add [of "\<lparr>css_set = []\<rparr>"] by (simp add: NewCSSet_def css_wf_def Let_def)
  show "set (css_set (NewCSSet s)) = (if s = [] then {} else set (Split s CHR '',''))" for s
    using foldl_css_Add [of "\<lparr>css_set = []\<rparr>"] by (simp add: NewCSSet_def css_wf_def Let_def)
qed (auto simp: css_wf_def css_Add_def css_Del_def css_Has_def css_Size_def distinct_removeAll
       distinct_card)

section \<open>Text and set\<close>

lemma map_range_set [simp]: "map_range r \<Longrightarrow> set (r xs) = set xs"
  unfolding map_range_def by (metis set_mset_mset)

lemma map_range_nil [simp]: "map_range r \<Longrightarrow> r xs = [] \<longleftrightarrow> xs = []"
  unfolding map_range_def by (metis mset_zero_iff)

lemma map_range_Nil_arg [simp]: "map_range r \<Longrightarrow> r [] = []"
  by simp

lemma map_range_distinct: "map_range r \<Longrightarrow> distinct (r xs) \<longleftrightarrow> distinct xs"
  unfolding map_range_def by (metis distinct_count_atmost_1 set_mset_mset)

lemma map_range_length: "map_range r \<Longrightarrow> length (r xs) = length xs"
  unfolding map_range_def by (metis size_mset)

lemma map_range_id: "map_range (\<lambda>xs. xs)"
  by (simp add: map_range_def)

lemma Join_Nil_iff: "Join xs [c] = [] \<longleftrightarrow> xs = [] \<or> xs = [[]]"
  by (induction xs "[c]" rule: Join.induct) auto

text \<open>Elements that came from text have no comma.\<close>

lemma NewCSSet_no_comma: "v \<in> set (css_set (NewCSSet s)) \<Longrightarrow> CHR '','' \<notin> set v"
  by (auto simp: css.elems_parse split: if_splits dest: Split_elems)

lemma NewCSSet_String_elems:
  assumes "map_range r" and "\<forall>v\<in>set (css_set c). CHR '','' \<notin> set v"
    and "css_wf c" and "set (css_set c) \<noteq> {[]}"
  shows "set (css_set (NewCSSet (css_String r c))) = set (css_set c)"
proof (cases "css_set c = []")
  case True
  with assms(1) show ?thesis
    by (simp add: css_String_def css.elems_parse)
next
  case False
  have ne: "r (css_set c) \<noteq> [[]]"
    using assms(1,4) by (metis list.simps(15) map_range_set set_empty)
  have "Split (css_String r c) CHR '','' = r (css_set c)"
    unfolding css_String_def using assms(1,2) False by (intro Split_Join) auto
  moreover have "css_String r c \<noteq> []"
    using assms(1) False ne by (simp add: css_String_def Join_Nil_iff)
  ultimately show ?thesis
    using assms(1) by (simp add: css.elems_parse)
qed

lemma css_String_Nil_iff:
  assumes "map_range r" and "css_wf c"
  shows "css_String r c = [] \<longleftrightarrow> set (css_set c) \<subseteq> {[]}"
proof -
  have "r (css_set c) = [[]] \<longleftrightarrow> css_set c = [[]]"
    using assms map_range_set [OF assms(1), of "css_set c"]
      map_range_distinct [OF assms(1), of "css_set c"]
    by (metis css_wf_def distinct_set_single)
  with assms show ?thesis
    by (simp add: css_String_def Join_Nil_iff subset_singleton_iff css_wf_def distinct_set_single)
qed

end
