(* ===== verification/Authenticator_Ecr.thy ===== *)
theory Authenticator_Ecr
  imports Kube Csset
begin

text \<open>
  \<^verbatim>\<open>pkg/authenticator/ecrsecret.go\<close>: the \<^verbatim>\<open>Authenticator\<close> that keeps the config map from
  namespaces to the packages installed there, starts the job that copies the registry token, and
  names the pull secrets.  The private state is the namespace of the target cluster.  The
  locale \<open>authenticator\<close> is what the Helm driver relies on; \<^verbatim>\<open>ecrSecret\<close> meets it for any
  clientset.
\<close>

section \<open>Definitions\<close>

definition ConfigMapName :: string where "ConfigMapName = ''ns-secret-map''"
definition ecrTokenName :: string where "ecrTokenName = ''ecr-token''"
definition cronJobName :: string where "cronJobName = ''cron-ecr-renew''"
definition jobExecName :: string where "jobExecName = ''eksa-auth-refresher-''"
definition MirrorCredName :: string where "MirrorCredName = ''registry-mirror-cred''"

record ecrSecret =
  ecr_targetCluster :: string

text \<open>The clientset that \<^verbatim>\<open>NewECRSecret\<close> stores in the struct is returned beside the rest of it.\<close>

definition NewECRSecret ::
  "'x KubeLib \<Rightarrow> restConfig option \<Rightarrow> (goerr + 'x Clientset \<times> ecrSecret) go" where
  "NewECRSecret kl config =
     (case kl_NewForConfig kl config of
        Panic p \<Rightarrow> Panic p
      | Ret (Inl err) \<Rightarrow> Ret (Inl err)
      | Ret (Inr clientset) \<Rightarrow> Ret (Inr (clientset, \<lparr>ecr_targetCluster = PackageNamespace\<rparr>)))"

definition ecr_AuthFilename :: "(string \<Rightarrow> string) \<Rightarrow> string" where
  "ecr_AuthFilename getenv =
     (let helmconfig = getenv ''HELM_REGISTRY_CONFIG''
      in if helmconfig \<noteq> [] then helmconfig else [])"

definition ecr_Initialize :: "string \<Rightarrow> (ecrSecret \<times> 'x, goerr option) gom" where
  "ecr_Initialize clusterName =
     bindM getPriv (\<lambda>s.
     bindM (putPriv (s\<lparr>ecr_targetCluster := PackageNamespace @ ''-'' @ clusterName\<rparr>)) (\<lambda>_.
     ret None))"

definition ecr_AddToConfigMap ::
  "(string list \<Rightarrow> string list) \<Rightarrow> 'x Clientset \<Rightarrow> string \<Rightarrow> string \<Rightarrow>
     (ecrSecret \<times> 'x, goerr option) gom" where
  "ecr_AddToConfigMap mapRange clientset name namespace =
     bindM getPriv (\<lambda>s.
     bindM (onWorld (reading (cs_GetConfigMap clientset (ecr_targetCluster s) ConfigMapName))) (\<lambda>r.
     case r of
       Inl err \<Rightarrow> ret (Some err)
     | Inr cm \<Rightarrow>
         let css = css_Add (NewCSSet (mapGetStr (cm_Data cm) namespace)) name in
         bindM (ofGo (mapPut (cm_Data cm) namespace (css_String mapRange css))) (\<lambda>data.
         onWorld (call (cs_UpdateConfigMap clientset (ecr_targetCluster s) (cm\<lparr>cm_Data := data\<rparr>))))))"

definition ecr_DelFromConfigMap ::
  "(string list \<Rightarrow> string list) \<Rightarrow> 'x Clientset \<Rightarrow> string \<Rightarrow> string \<Rightarrow>
     (ecrSecret \<times> 'x, goerr option) gom" where
  "ecr_DelFromConfigMap mapRange clientset name namespace =
     bindM getPriv (\<lambda>s.
     bindM (onWorld (reading (cs_GetConfigMap clientset (ecr_targetCluster s) ConfigMapName))) (\<lambda>r.
     case r of
       Inl err \<Rightarrow> ret (Some err)
     | Inr cm \<Rightarrow>
         let css = css_Del (NewCSSet (mapGetStr (cm_Data cm) namespace)) name in
         bindM (ofGo (mapPut (cm_Data cm) namespace (css_String mapRange css))) (\<lambda>data.
         let data = (if mapGetStr data namespace = [] then mapDelete data namespace else data) in
         onWorld (call (cs_UpdateConfigMap clientset (ecr_targetCluster s) (cm\<lparr>cm_Data := data\<rparr>))))))"

definition pullSecrets :: val where
  "pullSecrets = VList [VMap [(''name'', VStr ecrTokenName)], VMap [(''name'', VStr MirrorCredName)]]"

definition ecr_GetSecretValues :: "string \<Rightarrow> (ecrSecret \<times> 'x, goerr + gvalues) gom" where
  "ecr_GetSecretValues namespace = ret (Inr (Some [''imagePullSecrets'' \<mapsto> pullSecrets]))"

fun deleteSucceeded :: "'x Clientset \<Rightarrow> Job list \<Rightarrow> ('x, goerr option) gom" where
  "deleteSucceeded clientset [] = ret None"
| "deleteSucceeded clientset (job # jobs) =
     (if job_Succeeded job = 1 then
        bindM (call (cs_DeleteJob clientset PackageNamespace (job_Name job))) (\<lambda>r.
        case r of Some err \<Rightarrow> ret (Some err) | None \<Rightarrow> deleteSucceeded clientset jobs)
      else deleteSucceeded clientset jobs)"

definition cleanupPrevRuns :: "'x Clientset \<Rightarrow> ('x, goerr option) gom" where
  "cleanupPrevRuns clientset =
     bindM (reading (cs_ListJobs clientset PackageNamespace (''createdBy'', ''controller''))) (\<lambda>r.
     case r of Inl err \<Rightarrow> ret (Some err) | Inr jobs \<Rightarrow> deleteSucceeded clientset jobs)"

definition refresherJob :: "int \<Rightarrow> CronJob \<Rightarrow> Job" where
  "refresherJob millis cronjob =
     \<lparr>job_Name = jobExecName @ Sprint millis, job_Namespace = PackageNamespace,
      job_Labels = Some [''createdBy'' \<mapsto> ''controller''],
      job_Spec = cj_JobTemplateSpec cronjob, job_Succeeded = 0\<rparr>"

definition ecr_AddSecretToAllNamespace ::
  "'x KubeLib \<Rightarrow> 'x Clientset \<Rightarrow> (ecrSecret \<times> 'x, goerr option) gom" where
  "ecr_AddSecretToAllNamespace kl clientset =
     onWorld (
     bindM (reading (cs_GetCronJob clientset PackageNamespace cronJobName)) (\<lambda>r.
     case r of
       Inl err \<Rightarrow> ret (Some err)
     | Inr cronjob \<Rightarrow>
         (case cj_Suspend cronjob of
            None \<Rightarrow> panic ''nil pointer dereference''
          | Some True \<Rightarrow> ret None
          | Some False \<Rightarrow>
              bindM (reading (kl_UnixMilli kl)) (\<lambda>millis.
              bindM (call (cs_CreateJob clientset PackageNamespace (refresherJob millis cronjob))) (\<lambda>r.
              case r of Some err \<Rightarrow> ret (Some err) | None \<Rightarrow> cleanupPrevRuns clientset)))))"

definition ecrAuthenticator ::
  "(string list \<Rightarrow> string list) \<Rightarrow> (string \<Rightarrow> string) \<Rightarrow> 'x KubeLib \<Rightarrow> 'x Clientset \<Rightarrow>
     (ecrSecret, 'x) Authenticator" where
  "ecrAuthenticator mapRange getenv kl clientset =
     \<lparr>auth_Initialize = ecr_Initialize,
      auth_AuthFilename = ret (ecr_AuthFilename getenv),
      auth_AddToConfigMap = ecr_AddToConfigMap mapRange clientset,
      auth_DelFromConfigMap = ecr_DelFromConfigMap mapRange clientset,
      auth_GetSecretValues = ecr_GetSecretValues,
      auth_AddSecretToAllNamespace = ecr_AddSecretToAllNamespace kl clientset\<rparr>"

section \<open>What the driver relies on\<close>

text \<open>
  Pointing the authenticator at a cluster cannot fail and touches nothing but its own fields, the
  pull secrets are one fixed value, and the calls on the config map keep the target cluster.
\<close>

locale authenticator =
  fixes A :: "('d, 'x) Authenticator"
    and target :: "'d \<Rightarrow> string"
    and pull :: val
  assumes init_ok: "\<exists>d'. auth_Initialize A c (d, x) = (Ret None, (d', x)) \<and>
        target d' = PackageNamespace @ ''-'' @ c"
    and secret_values:
      "auth_GetSecretValues A ns s = (Ret (Inr (Some [''imagePullSecrets'' \<mapsto> pull])), s)"
    and add_target: "auth_AddToConfigMap A n ns (d, x) = (r, (d', x')) \<Longrightarrow> d' = d"
    and del_target: "auth_DelFromConfigMap A n ns (d, x) = (r, (d', x')) \<Longrightarrow> d' = d"
    and all_ns_target: "auth_AddSecretToAllNamespace A (d, x) = (r, (d', x')) \<Longrightarrow> d' = d"
begin

lemma init_run:
  obtains d' where "auth_Initialize A c (d, x) = (Ret None, (d', x))"
    and "target d' = PackageNamespace @ ''-'' @ c"
  using init_ok by blast

lemma auth_keeps_target:
  "auth_AddToConfigMap A n ns s = (r, s') \<Longrightarrow> fst s' = fst s"
  "auth_DelFromConfigMap A n ns s = (r, s') \<Longrightarrow> fst s' = fst s"
  "auth_AddSecretToAllNamespace A s = (r, s') \<Longrightarrow> fst s' = fst s"
  by (cases s; cases s'; auto dest: add_target del_target all_ns_target)+

end

interpretation ecr: authenticator "ecrAuthenticator mapRange getenv kl clientset" ecr_targetCluster
    pullSecrets
  for mapRange getenv kl clientset
proof
  show "auth_AddToConfigMap (ecrAuthenticator mapRange getenv kl clientset) n ns (d, x) =
      (r, (d', x')) \<Longrightarrow> d' = d" for n ns d x r d' x'
    by (auto simp: ecrAuthenticator_def ecr_AddToConfigMap_def monad_simps call_def Let_def
        split: sum.splits go.splits prod.splits)
  show "auth_DelFromConfigMap (ecrAuthenticator mapRange getenv kl clientset) n ns (d, x) =
      (r, (d', x')) \<Longrightarrow> d' = d" for n ns d x r d' x'
    by (auto simp: ecrAuthenticator_def ecr_DelFromConfigMap_def monad_simps call_def Let_def
        split: sum.splits go.splits prod.splits)
  show "auth_AddSecretToAllNamespace (ecrAuthenticator mapRange getenv kl clientset) (d, x) =
      (r, (d', x')) \<Longrightarrow> d' = d" for d x r d' x'
    by (auto simp: ecrAuthenticator_def ecr_AddSecretToAllNamespace_def onWorld_def
        split: prod.splits)
qed (simp_all add: ecrAuthenticator_def ecr_Initialize_def ecr_GetSecretValues_def bindM_def)

section \<open>The config map of namespaces\<close>

text \<open>The packages recorded for a namespace.\<close>

definition nsPackages :: "(string, string) gomap \<Rightarrow> string \<Rightarrow> string set" where
  "nsPackages data ns = set (css_set (NewCSSet (mapGetStr data ns)))"

text \<open>What the API server promises of a config map that was written.\<close>

definition cm_readback :: "'x Clientset \<Rightarrow> bool" where
  "cm_readback cs \<longleftrightarrow> (\<forall>ns cm x x'. cs_UpdateConfigMap cs ns cm x = (None, x') \<longrightarrow>
     cs_GetConfigMap cs ns (cm_Name cm) x' = Inr cm)"

lemma css_add_no_comma:
  assumes "CHR '','' \<notin> set name"
  shows "\<forall>v\<in>set (css_set (css_Add (NewCSSet s) name)). CHR '','' \<notin> set v"
  using assms NewCSSet_no_comma by (auto simp: css.elems_add css.inv_parse)

lemma css_del_no_comma:
  "\<forall>v\<in>set (css_set (css_Del (NewCSSet s) name)). CHR '','' \<notin> set v"
  using NewCSSet_no_comma by (auto simp: css.elems_del css.inv_parse)

lemma add_roundtrip:
  assumes "map_range r" "name \<noteq> []" "CHR '','' \<notin> set name"
  shows "set (css_set (NewCSSet (css_String r (css_Add (NewCSSet s) name)))) =
    insert name (set (css_set (NewCSSet s)))"
proof -
  have "set (css_set (css_Add (NewCSSet s) name)) = insert name (set (css_set (NewCSSet s)))"
    by (simp add: css.elems_add css.inv_parse)
  moreover have "set (css_set (css_Add (NewCSSet s) name)) \<noteq> {[]}"
    using assms(2) by (auto simp: css.elems_add css.inv_parse)
  ultimately show ?thesis
    using assms by (subst NewCSSet_String_elems)
      (auto simp: css.inv_add css.inv_parse css_add_no_comma)
qed

lemma del_roundtrip:
  assumes "map_range r" and "\<not> set (css_set (NewCSSet s)) - {name} \<subseteq> {[]}"
  shows "set (css_set (NewCSSet (css_String r (css_Del (NewCSSet s) name)))) =
    set (css_set (NewCSSet s)) - {name}"
proof -
  have e: "set (css_set (css_Del (NewCSSet s) name)) = set (css_set (NewCSSet s)) - {name}"
    by (simp add: css.elems_del css.inv_parse)
  moreover from e assms(2) have "set (css_set (css_Del (NewCSSet s) name)) \<noteq> {[]}"
    by blast
  ultimately show ?thesis
    using NewCSSet_String_elems [OF assms(1) css_del_no_comma [of s name]]
    by (simp add: css.inv_del css.inv_parse)
qed

lemma ecr_AddToConfigMap_Ret:
  assumes "ecr_AddToConfigMap r cs name ns (s, x) = (Ret res, (s', x'))"
  shows "s' = s \<and>
    (case cs_GetConfigMap cs (ecr_targetCluster s) ConfigMapName x of
       Inl err \<Rightarrow> res = Some err \<and> x' = x
     | Inr cm \<Rightarrow> \<exists>f. cm_Data cm = Some f \<and>
         cs_UpdateConfigMap cs (ecr_targetCluster s) (cm\<lparr>cm_Data := Some (f(ns \<mapsto>
           css_String r (css_Add (NewCSSet (mapGetStr (Some f) ns)) name)))\<rparr>) x = (res, x'))"
  using assms
  by (auto simp: ecr_AddToConfigMap_def onWorld_Ret mapPut_Ret split: sum.splits)

lemma ecr_DelFromConfigMap_Ret:
  assumes "ecr_DelFromConfigMap r cs name ns (s, x) = (Ret res, (s', x'))"
  shows "s' = s \<and>
    (case cs_GetConfigMap cs (ecr_targetCluster s) ConfigMapName x of
       Inl err \<Rightarrow> res = Some err \<and> x' = x
     | Inr cm \<Rightarrow> \<exists>f t. cm_Data cm = Some f \<and>
         t = css_String r (css_Del (NewCSSet (mapGetStr (Some f) ns)) name) \<and>
         cs_UpdateConfigMap cs (ecr_targetCluster s)
           (cm\<lparr>cm_Data := Some (f(ns := if t = [] then None else Some t))\<rparr>) x = (res, x'))"
  using assms
  by (auto simp: ecr_DelFromConfigMap_def onWorld_Ret mapPut_Ret mapGetStr_def Let_def
      split: sum.splits if_splits) (metis prod.collapse)+

end
