(* ===== verification/Base64.thy ===== *)
theory Base64
  imports Prelude
begin

text \<open>
  \<^verbatim>\<open>base64.StdEncoding\<close> of the Go library, which the sources use for schemas, signatures and
  registry tokens.  Decoding skips carriage returns and newlines, requires padding, and ignores the
  unused bits of the last group; the byte offset in Go's error text is left out.  The theory shows
  that decoding inverts encoding.
\<close>

section \<open>Definitions\<close>

definition b64alphabet :: string where
  "b64alphabet = ''ABCDEFGHIJKLMNOPQRSTUVWXYZabcdefghijklmnopqrstuvwxyz0123456789+/''"

definition b64char :: "nat \<Rightarrow> char" where
  "b64char n = b64alphabet ! n"

definition b64val :: "char \<Rightarrow> nat option" where
  "b64val c = map_of (zip b64alphabet [0..<64]) c"

fun b64enc :: "nat list \<Rightarrow> string" where
  "b64enc [] = []"
| "b64enc [a] = [b64char (a div 4), b64char (a mod 4 * 16), CHR ''='', CHR ''='']"
| "b64enc [a, b] = [b64char (a div 4), b64char (a mod 4 * 16 + b div 16),
                    b64char (b mod 16 * 4), CHR ''='']"
| "b64enc (a # b # c # rest) =
     b64char (a div 4) # b64char (a mod 4 * 16 + b div 16) #
     b64char (b mod 16 * 4 + c div 64) # b64char (c mod 64) # b64enc rest"

fun b64dec :: "string \<Rightarrow> nat list option" where
  "b64dec [] = Some []"
| "b64dec (p # q # r # s # rest) =
     (case (b64val p, b64val q) of
        (Some a, Some b) \<Rightarrow>
          (if r = CHR ''='' then
             (if s = CHR ''='' \<and> rest = [] then Some [a * 4 + b div 16] else None)
           else (case b64val r of
             None \<Rightarrow> None
           | Some c \<Rightarrow>
               (if s = CHR ''='' then
                  (if rest = [] then Some [a * 4 + b div 16, b mod 16 * 16 + c div 4] else None)
                else (case (b64val s, b64dec rest) of
                  (Some d, Some bs) \<Rightarrow>
                    Some ((a * 4 + b div 16) # (b mod 16 * 16 + c div 4) # (c mod 4 * 64 + d) # bs)
                | _ \<Rightarrow> None))))
      | _ \<Rightarrow> None)"
| "b64dec _ = None"

definition b64EncodeToString :: "string \<Rightarrow> string" where
  "b64EncodeToString s = b64enc (map of_char s)"

definition b64DecodeString :: "string \<Rightarrow> goerr + string" where
  "b64DecodeString s =
     (case b64dec (filter (\<lambda>c. c \<noteq> CHR 0x0A \<and> c \<noteq> CHR 0x0D) s) of
        None \<Rightarrow> Inl (Errorf ''illegal base64 data'')
      | Some bs \<Rightarrow> Inr (map char_of bs))"

section \<open>Decoding inverts encoding\<close>

lemma b64_table:
  "\<forall>n\<in>set [0..<64]. b64val (b64char n) = Some n \<and> b64char n \<noteq> CHR ''='' \<and>
     b64char n \<noteq> CHR 0x0A \<and> b64char n \<noteq> CHR 0x0D"
  by code_simp

lemma b64_char [simp]:
  assumes "n < 64"
  shows "b64val (b64char n) = Some n" "b64char n \<noteq> CHR ''=''" "b64char n \<noteq> CHR 0x0A"
    "b64char n \<noteq> CHR 0x0D"
  using b64_table assms by auto

lemma group_div_mod:
  fixes k m r :: nat
  assumes "r < m"
  shows "(k * m + r) div m = k" "(k * m + r) mod m = r"
  using assms by simp_all

lemma b64_parts:
  fixes a b c :: nat
  assumes "a < 256" "b < 256" "c < 256"
  shows "a div 4 < 64" "b div 16 < 16" "c div 64 < 4" "a mod 4 < 4" "b mod 16 < 16" "c mod 64 < 64"
  using assms by (simp_all add: less_mult_imp_div_less)

lemma b64_digits:
  fixes a b c :: nat
  assumes "a < 256" "b < 256" "c < 256"
  shows "a div 4 < 64" "a mod 4 * 16 < 64" "a mod 4 * 16 + b div 16 < 64"
    "b mod 16 * 4 < 64" "b mod 16 * 4 + c div 64 < 64" "c mod 64 < 64"
  using b64_parts [OF assms] by linarith+

lemma b64_bytes:
  fixes a b c :: nat
  assumes "a < 256" "b < 256" "c < 256"
  shows "a div 4 * 4 + (a mod 4 * 16 + b div 16) div 16 = a"
    "a div 4 * 4 + a mod 4 * 16 div 16 = a"
    "(a mod 4 * 16 + b div 16) mod 16 * 16 + (b mod 16 * 4 + c div 64) div 4 = b"
    "(a mod 4 * 16 + b div 16) mod 16 * 16 + b mod 16 * 4 div 4 = b"
    "(b mod 16 * 4 + c div 64) mod 4 * 64 + c mod 64 = c"
  using b64_parts [OF assms] by (simp_all only: group_div_mod) simp_all

lemma b64dec_enc: "\<forall>x\<in>set bs. x < 256 \<Longrightarrow> b64dec (b64enc bs) = Some bs"
proof (induction bs rule: b64enc.induct)
  case (2 a)
  then show ?case using b64_digits [of a 0 0] b64_bytes [of a 0 0] by simp
next
  case (3 a b)
  then show ?case using b64_digits [of a b 0] b64_bytes [of a b 0] by simp
next
  case (4 a b c rest)
  then show ?case using b64_digits [of a b c] b64_bytes [of a b c] by simp
qed simp

lemma b64enc_no_newline:
  "\<forall>x\<in>set bs. x < 256 \<Longrightarrow> c \<in> set (b64enc bs) \<Longrightarrow> c \<noteq> CHR 0x0A \<and> c \<noteq> CHR 0x0D"
proof (induction bs rule: b64enc.induct)
  case (2 a)
  then show ?case using b64_digits [of a 0 0] by auto
next
  case (3 a b)
  then show ?case using b64_digits [of a b 0] by auto
next
  case (4 a b c rest)
  then show ?case using b64_digits [of a b c] by auto
qed simp

lemma b64Decode_Encode [simp]: "b64DecodeString (b64EncodeToString s) = Inr s"
proof -
  let ?bs = "map of_char s :: nat list"
  have b: "\<forall>x\<in>set ?bs. x < 256" by auto
  then have "filter (\<lambda>c. c \<noteq> CHR 0x0A \<and> c \<noteq> CHR 0x0D) (b64enc ?bs) = b64enc ?bs"
    using b64enc_no_newline by (intro filter_True) blast
  with b64dec_enc [OF b] show ?thesis
    by (simp add: b64DecodeString_def b64EncodeToString_def comp_def)
qed

lemma b64Encode_nonempty: "b64EncodeToString (c # s) \<noteq> []"
proof
  assume "b64EncodeToString (c # s) = []"
  then have "b64DecodeString (b64EncodeToString (c # s)) = b64DecodeString (b64EncodeToString [])"
    by (simp add: b64EncodeToString_def)
  then show False by simp
qed

end
