(* ===== verification/Registry.thy ===== *)
theory Registry
  imports Authenticator_Ecr Base64
begin

text \<open>
  \<^verbatim>\<open>pkg/registry\<close>: references to artifacts and their parsing, the certificate files of the
  clusters, the injector that copies a cluster's CA certificate into the mounted secret, the
  storage client and \<^verbatim>\<open>PullBytes\<close>, and the injector of ECR credentials.  The oras, docker-config
  and AWS libraries are parameters.  The facts are the round trip of artifact references and what
  the two injectors write.
\<close>

section \<open>Artifacts\<close>

record Artifact =
  art_Registry :: string
  art_Repository :: string
  art_Tag :: string
  art_Digest :: string

definition NewArtifact :: "string \<Rightarrow> string \<Rightarrow> string \<Rightarrow> string \<Rightarrow> Artifact" where
  "NewArtifact registry repository tag digest =
     \<lparr>art_Registry = registry, art_Repository = repository, art_Tag = tag, art_Digest = digest\<rparr>"

definition ParseArtifactFromURI :: "string \<Rightarrow> goerr + Artifact" where
  "ParseArtifactFromURI uri =
     (case SplitN2 uri CHR ''/'' of
        [registry, rol] \<Rightarrow>
          (case SplitN2 rol CHR ''@'' of
             [repository, digest] \<Rightarrow> Inr (NewArtifact registry repository [] digest)
           | _ \<Rightarrow>
               (case SplitN2 rol CHR '':'' of
                  [repository, tag] \<Rightarrow> Inr (NewArtifact registry repository tag [])
                | _ \<Rightarrow> Inl (Errorf ''tag or digest not found'')))
      | _ \<Rightarrow> Inl (Errorf ''registry not found''))"

definition art_Version :: "Artifact \<Rightarrow> string" where
  "art_Version art = (if art_Digest art \<noteq> [] then ''@'' @ art_Digest art else '':'' @ art_Tag art)"

definition VersionedImage :: "Artifact \<Rightarrow> string" where
  "VersionedImage art = art_Registry art @ ''/'' @ art_Repository art @ art_Version art"

section \<open>Certificate files\<close>

definition registryConfigPath :: string where "registryConfigPath = ''/tmp/config/registry''"
definition certFile :: string where "certFile = ''ca.crt''"
definition insecureFile :: string where "insecureFile = ''insecure''"

definition GetRegistryInsecure :: "'x KubeLib \<Rightarrow> string \<Rightarrow> 'x \<Rightarrow> bool" where
  "GetRegistryInsecure kl clusterName x =
     (let caFile = pathJoin [registryConfigPath, clusterName @ ''_'' @ insecureFile]
      in case kl_Stat kl caFile x of Some err \<Rightarrow> False | None \<Rightarrow> True)"

definition GetClusterCertificateFileName :: "'x KubeLib \<Rightarrow> string \<Rightarrow> 'x \<Rightarrow> string" where
  "GetClusterCertificateFileName kl clusterName x =
     (let caFile = pathJoin [registryConfigPath, clusterName @ ''_'' @ certFile]
      in case kl_Stat kl caFile x of Some err \<Rightarrow> [] | None \<Rightarrow> caFile)"

text \<open>A certificate pool is the PEM text it was filled from.\<close>

datatype certPool = CertPool string

definition GetCertificates :: "'x KubeLib \<Rightarrow> string \<Rightarrow> 'x \<Rightarrow> goerr + certPool option" where
  "GetCertificates kl file x =
     (if length file < 1 then Inr None
      else case kl_ReadFile kl (pathClean file) x of
             Inl err \<Rightarrow> Inl (Errorf (''error reading certificate file <'' @ file @ ''>: '' @ err_msg err))
           | Inr fileContents \<Rightarrow> Inr (Some (CertPool fileContents)))"

definition GetClusterCertificate :: "'x KubeLib \<Rightarrow> string \<Rightarrow> 'x \<Rightarrow> goerr + certPool option" where
  "GetClusterCertificate kl clusterName x =
     (let caFile = GetClusterCertificateFileName kl clusterName x
      in if caFile = [] then Inr None else GetCertificates kl caFile x)"

section \<open>The certificate injector\<close>

definition registryMirrorCredName :: string where "registryMirrorCredName = ''registry-mirror-cred''"
definition registryMirrorSecretName :: string where
  "registryMirrorSecretName = ''registry-mirror-secret''"

definition mirrorSecretNN :: "(string \<Rightarrow> string) \<Rightarrow> string \<Rightarrow> NamespacedName" where
  "mirrorSecretNN getenv clusterName =
     (if clusterName \<noteq> getenv clusterNameEnvVar
      then \<lparr>nn_Namespace = PackageNamespace @ ''-'' @ clusterName, nn_Name = registryMirrorSecretName\<rparr>
      else \<lparr>nn_Namespace = PackageNamespace, nn_Name = registryMirrorSecretName\<rparr>)"

definition fetchCertContent ::
  "(string \<Rightarrow> string) \<Rightarrow> 'x Client \<Rightarrow> string \<Rightarrow> ('x, goerr + string option) gom" where
  "fetchCertContent getenv k8sClient clusterName =
     (let nn = mirrorSecretNN getenv clusterName in
      bindM (reading (cl_GetSecret k8sClient nn)) (\<lambda>r.
      case r of
        Inl err \<Rightarrow>
          if IsNotFound err then ret (Inr None)
          else ret (Inl (Errorf (''getting secret '' @ nnString nn @ '': '' @ err_msg err)))
      | Inr registryMirrorSecret \<Rightarrow>
          (case mapGet (sec_Data registryMirrorSecret) ''CACERTCONTENT'' of
             Some content \<Rightarrow> if length content > 0 then ret (Inr (Some content)) else ret (Inr None)
           | None \<Rightarrow> ret (Inr None))))"

definition UpdateIfNeeded ::
  "(string \<Rightarrow> string) \<Rightarrow> 'x Client \<Rightarrow> string \<Rightarrow> ('x, goerr option) gom" where
  "UpdateIfNeeded getenv k8sClient clusterName =
     bindM (fetchCertContent getenv k8sClient clusterName) (\<lambda>c.
     case c of
       Inl err \<Rightarrow> ret (Some (Errorf (''fetching CA cert content: '' @ err_msg err)))
     | Inr None \<Rightarrow> ret None
     | Inr (Some certContent) \<Rightarrow>
         let credSecretName = \<lparr>nn_Namespace = PackageNamespace, nn_Name = registryMirrorCredName\<rparr> in
         bindM (reading (cl_GetSecret k8sClient credSecretName)) (\<lambda>r.
         case r of
           Inl err \<Rightarrow> ret (Some (Errorf (''getting secret '' @ nnString credSecretName @ '': '' @ err_msg err)))
         | Inr registryMirrorCred \<Rightarrow>
             let credCertKey = clusterName @ ''_ca.crt'' in
             (case mapGet (sec_Data registryMirrorCred) credCertKey of
                Some _ \<Rightarrow> ret None
              | None \<Rightarrow>
                  bindM (ofGo (mapPut (sec_Data registryMirrorCred) credCertKey certContent)) (\<lambda>data.
                  bindM (call (cl_UpdateSecret k8sClient (registryMirrorCred\<lparr>sec_Data := data\<rparr>))) (\<lambda>u.
                  case u of
                    Some err \<Rightarrow> ret (Some (Errorf (''updating secret '' @ nnString credSecretName @ '': '' @
                                              err_msg err)))
                  | None \<Rightarrow> ret None)))))"

section \<open>Storage\<close>

text \<open>The docker configuration as far as the constructor of the store looks at it: whether it holds
  credentials, and the name of its store; \<open>detect\<close> is \<^verbatim>\<open>credentials.DetectDefaultStore\<close>.\<close>

record configFile =
  cf_ContainsAuth :: bool
  cf_CredentialsStore :: string

definition NewDockerCredentialStore :: "(string \<Rightarrow> string) \<Rightarrow> configFile \<Rightarrow> configFile" where
  "NewDockerCredentialStore detect cf =
     (if \<not> cf_ContainsAuth cf then cf\<lparr>cf_CredentialsStore := detect (cf_CredentialsStore cf)\<rparr> else cf)"

definition CredentialsConfigLoad :: "(string \<Rightarrow> goerr + configFile) \<Rightarrow> goerr + configFile" where
  "CredentialsConfigLoad load = load registryConfigPath"

record StorageContext =
  sc_host :: string
  sc_project :: string
  sc_credentialStore :: "configFile option"
  sc_certificates :: "certPool option"
  sc_insecure :: bool

text \<open>The credential store is known by the docker configuration it reads; \<open>None\<close> is a nil store.\<close>

definition NewStorageContext ::
  "string \<Rightarrow> configFile option \<Rightarrow> certPool option \<Rightarrow> bool \<Rightarrow> StorageContext" where
  "NewStorageContext host credentialStore certificates insecure =
     \<lparr>sc_host = host, sc_project = [], sc_credentialStore = credentialStore,
      sc_certificates = certificates, sc_insecure = insecure\<rparr>"

record authCredential =
  cred_Username :: string
  cred_Password :: string
  cred_AccessToken :: string
  cred_RefreshToken :: string

record dockerAuthConfig =
  dac_Username :: string
  dac_Password :: string
  dac_RegistryToken :: string
  dac_IdentityToken :: string

text \<open>\<^verbatim>\<open>DockerCredentialStore.Credential\<close>; the docker library's lookup in a configuration is the
  parameter, and a nil store is dereferenced.\<close>

definition Credential ::
  "(configFile \<Rightarrow> string \<Rightarrow> goerr + dockerAuthConfig) \<Rightarrow> configFile option \<Rightarrow> string \<Rightarrow>
     (goerr + authCredential) go" where
  "Credential storeGet cs registry =
     (case cs of
        None \<Rightarrow> Panic ''nil pointer dereference''
      | Some configFile \<Rightarrow>
          (case storeGet configFile registry of
             Inl err \<Rightarrow> Ret (Inl err)
           | Inr authConf \<Rightarrow>
               Ret (Inr \<lparr>cred_Username = dac_Username authConf, cred_Password = dac_Password authConf,
                         cred_AccessToken = dac_RegistryToken authConf,
                         cred_RefreshToken = dac_IdentityToken authConf\<rparr>)))"

definition SetProject :: "string \<Rightarrow> StorageContext \<Rightarrow> StorageContext" where
  "SetProject project sc = sc\<lparr>sc_project := project\<rparr>"

definition Destination :: "StorageContext \<Rightarrow> Artifact \<Rightarrow> string" where
  "Destination sc img =
     pathJoin [sc_host sc, sc_project sc, art_Repository img] @ art_Version img"

text \<open>What the oras library does for an OCI registry: open a repository, fetch a manifest or a blob.  A
  fetch calls back for the credentials when the registry asks for them, so it panics if that does.\<close>

type_synonym credentialFunc = "string \<Rightarrow> (goerr + authCredential) go"

record ('r, 'x) OrasLib =
  oras_Repository :: "StorageContext \<Rightarrow> string \<Rightarrow> 'x \<Rightarrow> goerr + 'r"
  oras_FetchBytes :: "credentialFunc \<Rightarrow> 'r \<Rightarrow> string \<Rightarrow> 'x \<Rightarrow> (goerr + string) go"
  oras_FetchBlob :: "credentialFunc \<Rightarrow> 'r \<Rightarrow> string \<Rightarrow> 'x \<Rightarrow> (goerr + string) go"

record ('r, 'x) StorageClient =
  stc_GetStorage :: "Artifact \<Rightarrow> ('x, goerr + 'r) gom"
  stc_FetchBytes :: "'r \<Rightarrow> Artifact \<Rightarrow> ('x, goerr + string) gom"
  stc_FetchBlob :: "'r \<Rightarrow> string \<Rightarrow> ('x, goerr + string) gom"

definition GetStorage ::
  "('r, 'x) OrasLib \<Rightarrow> StorageContext \<Rightarrow> Artifact \<Rightarrow> ('x, goerr + 'r) gom" where
  "GetStorage oras sc artifact =
     (let dstRepo = pathJoin [sc_project sc, art_Repository artifact] in
      bindM (reading (oras_Repository oras sc dstRepo)) (\<lambda>r.
      case r of
        Inl err \<Rightarrow> ret (Inl (Errorf (''error creating repository '' @ dstRepo @ '': '' @ err_msg err)))
      | Inr repo \<Rightarrow> ret (Inr repo)))"

definition FetchBytes ::
  "('r, 'x) OrasLib \<Rightarrow> credentialFunc \<Rightarrow> 'r \<Rightarrow> Artifact \<Rightarrow> ('x, goerr + string) gom" where
  "FetchBytes oras credential srcStorage artifact =
     bindM (reading (oras_FetchBytes oras credential srcStorage (VersionedImage artifact))) ofGo"

definition FetchBlob ::
  "('r, 'x) OrasLib \<Rightarrow> credentialFunc \<Rightarrow> 'r \<Rightarrow> string \<Rightarrow> ('x, goerr + string) gom" where
  "FetchBlob oras credential srcStorage descriptor =
     bindM (reading (oras_FetchBlob oras credential srcStorage descriptor)) ofGo"

text \<open>The credential function that the client is given looks into the store of the context.\<close>

definition NewOCIRegistry ::
  "(configFile \<Rightarrow> string \<Rightarrow> goerr + dockerAuthConfig) \<Rightarrow> ('r, 'x) OrasLib \<Rightarrow> StorageContext \<Rightarrow>
     ('r, 'x) StorageClient" where
  "NewOCIRegistry storeGet oras sc =
     (let credential = Credential storeGet (sc_credentialStore sc)
      in \<lparr>stc_GetStorage = GetStorage oras sc, stc_FetchBytes = FetchBytes oras credential,
          stc_FetchBlob = FetchBlob oras credential\<rparr>)"

definition GetHost :: "StorageContext \<Rightarrow> string" where
  "GetHost sc = sc_host sc"

text \<open>\<^verbatim>\<open>Resolve\<close> keeps the image it was asked for in the reference of its registry.\<close>

definition Resolve ::
  "('r \<Rightarrow> string \<Rightarrow> 'x \<Rightarrow> goerr + string) \<Rightarrow> 'r \<Rightarrow> string \<Rightarrow> (string \<times> 'x, goerr + string) gom" where
  "Resolve resolve srcStorage versionedImage =
     bindM (putPriv versionedImage) (\<lambda>_.
     bindM getPriv (\<lambda>reference.
     onWorld (reading (resolve srcStorage reference))))"

definition CopyGraph ::
  "('r \<Rightarrow> 'r \<Rightarrow> string \<Rightarrow> 'x writes) \<Rightarrow> 'r \<Rightarrow> 'r \<Rightarrow> string \<Rightarrow> ('x, goerr option) gom" where
  "CopyGraph copy srcStorage dstStorage desc = call (copy srcStorage dstStorage desc)"

text \<open>\<open>manifestLayers\<close> is \<^verbatim>\<open>json.Unmarshal\<close> into an OCI manifest: the descriptors of its layers.\<close>

definition PullBytes ::
  "(string \<Rightarrow> goerr + string list) \<Rightarrow> ('r, 'x) StorageClient \<Rightarrow> Artifact \<Rightarrow>
     ('x, goerr + string) gom" where
  "PullBytes manifestLayers sc artifact =
     bindM (stc_GetStorage sc artifact) (\<lambda>r.
     case r of
       Inl err \<Rightarrow> ret (Inl (Errorf (''repository source: '' @ err_msg err)))
     | Inr srcStorage \<Rightarrow>
         bindM (stc_FetchBytes sc srcStorage artifact) (\<lambda>r.
         case r of
           Inl err \<Rightarrow> ret (Inl (Errorf (''fetch manifest: '' @ err_msg err)))
         | Inr data \<Rightarrow>
             (case manifestLayers data of
                Inl err \<Rightarrow> ret (Inl (Errorf (''unmarshal manifest: '' @ err_msg err)))
              | Inr [] \<Rightarrow> ret (Inl (Errorf ''missing layer''))
              | Inr (layer # _) \<Rightarrow>
                  bindM (stc_FetchBlob sc srcStorage layer) (\<lambda>r.
                  case r of
                    Inl err \<Rightarrow> ret (Inl (Errorf (''fetch blob: '' @ err_msg err)))
                  | Inr blob \<Rightarrow> ret (Inr blob)))))"

section \<open>The injector of ECR credentials\<close>

definition ExtractECRToken :: "string \<Rightarrow> goerr + authCredential" where
  "ExtractECRToken token =
     (case b64DecodeString token of
        Inl err \<Rightarrow> Inl (wrapErr ''invalid token: '' err)
      | Inr decodedToken \<Rightarrow>
          (let parts = SplitN2 decodedToken CHR '':''
           in case parts of
                [user, pass] \<Rightarrow> Inr \<lparr>cred_Username = user, cred_Password = pass, cred_AccessToken = [],
                                     cred_RefreshToken = []\<rparr>
              | _ \<Rightarrow> Inl (Errorf (''invalid token: expected two parts, got '' @
                               natString (length parts)))))"

definition IsECRRegistry :: "string \<Rightarrow> bool" where
  "IsECRRegistry registry = HasSuffix registry ''amazonaws.com''"

definition GetECR :: "(string \<Rightarrow> string) \<Rightarrow> 'x Client \<Rightarrow> ('x, goerr + string) gom" where
  "GetECR getenv k8sClient =
     bindM (reading (cl_GetPBC k8sClient
              \<lparr>nn_Namespace = PackageNamespace, nn_Name = getenv clusterNameEnvVar\<rparr>)) (\<lambda>r.
     case r of
       Inl err \<Rightarrow> ret (Inl err)
     | Inr pbc \<Rightarrow> ret (Inr (hd (Split (pbcs_DefaultRegistry (pbc_Spec pbc)) CHR ''/''))))"

definition GetRegistryMirrorSecret :: "'x Client \<Rightarrow> ('x, goerr + Secret) gom" where
  "GetRegistryMirrorSecret k8sClient =
     reading (cl_GetSecret k8sClient \<lparr>nn_Namespace = PackageNamespace, nn_Name = MirrorCredName\<rparr>)"

text \<open>
  The docker configuration library: reading a configuration from text, and writing it.  A
  configuration is its map of registries to user name and password.
\<close>

record DockerConfigLib =
  dcl_Load :: "string \<Rightarrow> goerr + (string \<rightharpoonup> string \<times> string)"
  dcl_Save :: "(string \<rightharpoonup> string \<times> string) \<Rightarrow> goerr + string"

text \<open>
  The call \<^verbatim>\<open>base64.StdEncoding.Decode(d, configJson)\<close> has the destination first, so it decodes the
  nil slice \<^verbatim>\<open>configJson\<close>, which always succeeds and leaves \<^verbatim>\<open>configJson\<close> nil: the
  configuration is loaded from the empty text.
\<close>

definition InjectCredential ::
  "DockerConfigLib \<Rightarrow> 'x Client \<Rightarrow> Secret \<Rightarrow> string \<Rightarrow> authCredential \<Rightarrow> ('x, goerr option) gom" where
  "InjectCredential dcl k8sClient secret registry cred =
     (let d = mapGet (sec_Data secret) ''config.json'';
          configJson = []
      in case b64DecodeString configJson of
           Inl err \<Rightarrow> ret (Some err)
         | Inr _ \<Rightarrow>
             (case dcl_Load dcl configJson of
                Inl err \<Rightarrow> ret (Some err)
              | Inr authConfigs \<Rightarrow>
                  (case dcl_Save dcl (authConfigs(registry \<mapsto> (cred_Username cred, cred_Password cred))) of
                     Inl err \<Rightarrow> ret (Some err)
                   | Inr buf \<Rightarrow>
                       bindM (ofGo (mapPut (sec_Data secret) ''config.json'' buf)) (\<lambda>data.
                       call (cl_UpdateSecret k8sClient (secret\<lparr>sec_Data := data\<rparr>))))))"

definition awsSecretPath :: string where "awsSecretPath = ''/tmp/aws-secret''"

text \<open>The AWS library: a client of ECR from a configuration file, or from an access key, a secret key, a
  session token and a region; and the authorization tokens that ECR answers with.\<close>

record ('c, 'x) AwsLib =
  al_FromFile :: "string \<Rightarrow> 'x \<Rightarrow> goerr + 'c"
  al_FromKeys :: "string \<Rightarrow> string \<Rightarrow> string \<Rightarrow> string \<Rightarrow> 'x \<Rightarrow> goerr + 'c"
  al_Tokens :: "'c \<Rightarrow> 'x \<Rightarrow> goerr + string option list"

definition fileExists :: "'x KubeLib \<Rightarrow> string \<Rightarrow> 'x \<Rightarrow> bool" where
  "fileExists kl path x = (case kl_Stat kl path x of None \<Rightarrow> True | Some err \<Rightarrow> \<not> IsNotFound err)"

definition getECRClientFromConfig :: "'x KubeLib \<Rightarrow> ('c, 'x) AwsLib \<Rightarrow> 'x \<Rightarrow> 'c option" where
  "getECRClientFromConfig kl A x =
     (let configPath = awsSecretPath @ ''/config'' in
      if \<not> fileExists kl configPath x then None
      else case al_FromFile A configPath x of Inl err \<Rightarrow> None | Inr c \<Rightarrow> Some c)"

text \<open>Files that cannot be read are logged and count as empty.\<close>

definition readTrimmed :: "'x KubeLib \<Rightarrow> string \<Rightarrow> 'x \<Rightarrow> string" where
  "readTrimmed kl path x = TrimQuotes (case kl_ReadFile kl path x of Inl err \<Rightarrow> [] | Inr bytes \<Rightarrow> bytes)"

definition getECRClientFromVariables :: "'x KubeLib \<Rightarrow> ('c, 'x) AwsLib \<Rightarrow> 'x \<Rightarrow> goerr + 'c" where
  "getECRClientFromVariables kl A x =
     (let accessKey = readTrimmed kl (awsSecretPath @ ''/AWS_ACCESS_KEY_ID'') x;
          secretAccessKey = readTrimmed kl (awsSecretPath @ ''/AWS_SECRET_ACCESS_KEY'') x;
          region = readTrimmed kl (awsSecretPath @ ''/REGION'') x;
          sessionTokenPath = awsSecretPath @ ''/AWS_SESSION_TOKEN'';
          sessionToken = (if fileExists kl sessionTokenPath x then readTrimmed kl sessionTokenPath x else [])
      in al_FromKeys A accessKey secretAccessKey sessionToken region x)"

definition GetECRClient :: "'x KubeLib \<Rightarrow> ('c, 'x) AwsLib \<Rightarrow> 'x \<Rightarrow> goerr + 'c" where
  "GetECRClient kl A x =
     (case getECRClientFromConfig kl A x of
        Some c \<Rightarrow> Inr c
      | None \<Rightarrow>
          (case getECRClientFromVariables kl A x of
             Inl err \<Rightarrow> Inl (wrapErr ''Unable to load AWS config, '' err)
           | Inr c \<Rightarrow> Inr c))"

record ('c, 'x) ECRCredInjector =
  inj_k8sClient :: "'x Client"
  inj_ecrClient :: 'c

definition NewECRCredInjector ::
  "'x KubeLib \<Rightarrow> ('c, 'x) AwsLib \<Rightarrow> 'x Client \<Rightarrow> 'x \<Rightarrow> goerr + ('c, 'x) ECRCredInjector" where
  "NewECRCredInjector kl A k8sClient x =
     (case GetECRClient kl A x of
        Inl err \<Rightarrow> Inl err
      | Inr ecrClient \<Rightarrow> Inr \<lparr>inj_k8sClient = k8sClient, inj_ecrClient = ecrClient\<rparr>)"

text \<open>A missing token is the empty string; no authorization data at all is an index out of range.\<close>

definition GetCredential :: "('c, 'x) AwsLib \<Rightarrow> 'c \<Rightarrow> ('x, goerr + authCredential) gom" where
  "GetCredential A ecrClient =
     bindM (reading (al_Tokens A ecrClient)) (\<lambda>r.
     case r of
       Inl err \<Rightarrow> ret (Inl err)
     | Inr [] \<Rightarrow> panic ''index out of range''
     | Inr (token # _) \<Rightarrow>
         (case ExtractECRToken (case token of None \<Rightarrow> [] | Some t \<Rightarrow> t) of
            Inl err \<Rightarrow> ret (Inl err) | Inr cred \<Rightarrow> ret (Inr cred)))"

definition Refresh ::
  "(string \<Rightarrow> string) \<Rightarrow> DockerConfigLib \<Rightarrow> ('c, 'x) AwsLib \<Rightarrow> ('c, 'x) ECRCredInjector \<Rightarrow>
     ('x, goerr option) gom" where
  "Refresh getenv dcl A a =
     bindM (GetCredential A (inj_ecrClient a)) (\<lambda>c.
     case c of
       Inl err \<Rightarrow> ret (Some err)
     | Inr cred \<Rightarrow>
         bindM (GetRegistryMirrorSecret (inj_k8sClient a)) (\<lambda>s.
         case s of
           Inl err \<Rightarrow> ret (Some err)
         | Inr dockerSecret \<Rightarrow>
             bindM (GetECR getenv (inj_k8sClient a)) (\<lambda>g.
             case g of
               Inl err \<Rightarrow> ret (Some err)
             | Inr registry \<Rightarrow>
                 if \<not> IsECRRegistry registry then ret None
                 else InjectCredential dcl (inj_k8sClient a) dockerSecret registry cred)))"

text \<open>\<^verbatim>\<open>Run\<close>: attempts until the first success, then one refresh per hour.  The time that passes is an
  argument: for each wait between attempts whether the context ended in it, and the number of hours;
  when the waits are used up, the run is cut off after one more attempt.\<close>

fun injectUntil :: "('x, goerr option) gom \<Rightarrow> bool list \<Rightarrow> ('x, bool) gom" where
  "injectUntil refresh [] = bindM refresh (\<lambda>err. ret (err = None))"
| "injectUntil refresh (cancelled # waits) =
     bindM refresh (\<lambda>err.
     if err = None then ret True
     else if cancelled then ret False
     else injectUntil refresh waits)"

fun refreshHourly :: "('x, goerr option) gom \<Rightarrow> nat \<Rightarrow> ('x, unit) gom" where
  "refreshHourly refresh 0 = ret ()"
| "refreshHourly refresh (Suc hours) = bindM refresh (\<lambda>_. refreshHourly refresh hours)"

definition Run ::
  "(string \<Rightarrow> string) \<Rightarrow> DockerConfigLib \<Rightarrow> ('c, 'x) AwsLib \<Rightarrow> ('c, 'x) ECRCredInjector \<Rightarrow> bool list \<Rightarrow> nat \<Rightarrow>
     ('x, unit) gom" where
  "Run getenv dcl A a waits hours =
     bindM (injectUntil (Refresh getenv dcl A a) waits) (\<lambda>injected.
     if injected then refreshHourly (Refresh getenv dcl A a) hours else ret ())"

section \<open>Facts about artifact references\<close>

lemma ParseArtifact_digest:
  assumes "CHR ''/'' \<notin> set reg" "CHR ''@'' \<notin> set repo"
  shows "ParseArtifactFromURI (reg @ ''/'' @ repo @ ''@'' @ d) = Inr (NewArtifact reg repo [] d)"
proof -
  have "SplitN2 (reg @ CHR ''/'' # (repo @ CHR ''@'' # d)) CHR ''/'' = [reg, repo @ CHR ''@'' # d]"
    using assms(1) by (rule SplitN2_sep)
  moreover have "SplitN2 (repo @ CHR ''@'' # d) CHR ''@'' = [repo, d]"
    using assms(2) by (rule SplitN2_sep)
  ultimately show ?thesis by (simp add: ParseArtifactFromURI_def)
qed

lemma ParseArtifact_tag:
  assumes "CHR ''/'' \<notin> set reg" "CHR ''@'' \<notin> set repo" "CHR '':'' \<notin> set repo" "CHR ''@'' \<notin> set t"
  shows "ParseArtifactFromURI (reg @ ''/'' @ repo @ '':'' @ t) = Inr (NewArtifact reg repo t [])"
proof -
  have "SplitN2 (reg @ CHR ''/'' # (repo @ CHR '':'' # t)) CHR ''/'' = [reg, repo @ CHR '':'' # t]"
    using assms(1) by (rule SplitN2_sep)
  moreover have "SplitN2 (repo @ CHR '':'' # t) CHR ''@'' = [repo @ CHR '':'' # t]"
    using assms by (intro SplitN2_no_sep) auto
  moreover have "SplitN2 (repo @ CHR '':'' # t) CHR '':'' = [repo, t]"
    using assms(3) by (rule SplitN2_sep)
  ultimately show ?thesis by (simp add: ParseArtifactFromURI_def)
qed

lemma ExtractECRToken_encoded:
  assumes "CHR '':'' \<notin> set user"
  shows "ExtractECRToken (b64EncodeToString (user @ '':'' @ pass)) =
    Inr \<lparr>cred_Username = user, cred_Password = pass, cred_AccessToken = [], cred_RefreshToken = []\<rparr>"
  using SplitN2_sep [OF assms, of pass] by (simp add: ExtractECRToken_def)

section \<open>Facts about the injectors\<close>

text \<open>What the API server promises of a secret that was updated.\<close>

definition secret_readback :: "'x Client \<Rightarrow> bool" where
  "secret_readback cl \<longleftrightarrow>
     (\<forall>s x x'. cl_UpdateSecret cl s x = (None, x') \<longrightarrow>
        cl_GetSecret cl \<lparr>nn_Namespace = sec_Namespace s, nn_Name = sec_Name s\<rparr> x' = Inr s \<and>
        (\<forall>nn. nn \<noteq> \<lparr>nn_Namespace = sec_Namespace s, nn_Name = sec_Name s\<rparr> \<longrightarrow>
           cl_GetSecret cl nn x' = cl_GetSecret cl nn x)) \<and>
     (\<forall>nn s x. cl_GetSecret cl nn x = Inr s \<longrightarrow>
        nn = \<lparr>nn_Namespace = sec_Namespace s, nn_Name = sec_Name s\<rparr>)"

definition credSecretNN :: NamespacedName where
  "credSecretNN = \<lparr>nn_Namespace = PackageNamespace, nn_Name = registryMirrorCredName\<rparr>"

lemma mirrorSecretNN_neq [simp]: "mirrorSecretNN getenv c \<noteq> credSecretNN"
  by (simp add: mirrorSecretNN_def credSecretNN_def registryMirrorSecretName_def
      registryMirrorCredName_def)

lemma fetchCertContent_reads: "wlp (fetchCertContent getenv cl c) (\<lambda>_ x'. x' = x) x"
  by (auto simp: fetchCertContent_def Let_def split: sum.split option.split)

lemma fetchCertContent_cong:
  "cl_GetSecret cl (mirrorSecretNN getenv c) x' = cl_GetSecret cl (mirrorSecretNN getenv c) x \<Longrightarrow>
     fst (fetchCertContent getenv cl c x') = fst (fetchCertContent getenv cl c x)"
  by (simp add: fetchCertContent_def Let_def bindM_def split: sum.split option.split)

lemma UpdateIfNeeded_Ret:
  assumes "UpdateIfNeeded getenv cl c x = (Ret None, x')"
  shows "x' = x \<or> (\<exists>cred content f. fst (fetchCertContent getenv cl c x) = Ret (Inr (Some content)) \<and>
    cl_GetSecret cl credSecretNN x = Inr cred \<and> sec_Data cred = Some f \<and> f (c @ ''_ca.crt'') = None \<and>
    cl_UpdateSecret cl (cred\<lparr>sec_Data := Some (f(c @ ''_ca.crt'' \<mapsto> content))\<rparr>) x = (None, x'))"
proof -
  obtain r y where f: "fetchCertContent getenv cl c x = (r, y)" by (cases "fetchCertContent getenv cl c x")
  then have y: "r = Ret v \<Longrightarrow> y = x" for v
    using wlpD [OF fetchCertContent_reads, of getenv cl c x v y] by simp
  show ?thesis
    using assms f y
    by (auto simp: UpdateIfNeeded_def bindM_def Let_def credSecretNN_def mapPut_def prod_eq_iff
        split: go.splits sum.splits option.splits)
qed

text \<open>A second run writes nothing.\<close>

lemma UpdateIfNeeded_idem:
  assumes rb: "secret_readback cl" and run: "UpdateIfNeeded getenv cl c x = (Ret None, x')"
  shows "UpdateIfNeeded getenv cl c x' = (Ret None, x')"
  using UpdateIfNeeded_Ret [OF run]
proof (elim disjE exE conjE)
  assume "x' = x" with run show ?thesis by simp
next
  fix cred content f
  assume c: "fst (fetchCertContent getenv cl c x) = Ret (Inr (Some content))"
    and g: "cl_GetSecret cl credSecretNN x = Inr cred"
    and u: "cl_UpdateSecret cl (cred\<lparr>sec_Data := Some (f(c @ ''_ca.crt'' \<mapsto> content))\<rparr>) x = (None, x')"
  have nn: "credSecretNN = \<lparr>nn_Namespace = sec_Namespace cred, nn_Name = sec_Name cred\<rparr>"
    using rb g unfolding secret_readback_def by blast
  let ?s = "cred\<lparr>sec_Data := Some (f(c @ ''_ca.crt'' \<mapsto> content))\<rparr>"
  have "cl_GetSecret cl \<lparr>nn_Namespace = sec_Namespace ?s, nn_Name = sec_Name ?s\<rparr> x' = Inr ?s \<and>
      (\<forall>nn. nn \<noteq> \<lparr>nn_Namespace = sec_Namespace ?s, nn_Name = sec_Name ?s\<rparr> \<longrightarrow>
         cl_GetSecret cl nn x' = cl_GetSecret cl nn x)"
    using rb u unfolding secret_readback_def by blast
  then have new: "cl_GetSecret cl credSecretNN x' = Inr ?s"
    and old: "cl_GetSecret cl (mirrorSecretNN getenv c) x' = cl_GetSecret cl (mirrorSecretNN getenv c) x"
    using nn mirrorSecretNN_neq [of getenv c] by simp_all
  have "fst (fetchCertContent getenv cl c x') = Ret (Inr (Some content))"
    using c fetchCertContent_cong [OF old] by simp
  then have "fetchCertContent getenv cl c x' = (Ret (Inr (Some content)), x')"
    using wlpD [OF fetchCertContent_reads] by (metis prod.collapse)
  with new show ?thesis
    by (simp add: UpdateIfNeeded_def bindM_def Let_def credSecretNN_def)
qed

text \<open>Only the entry of the cluster changes, and never one that is there.\<close>

lemma UpdateIfNeeded_stored:
  assumes rb: "secret_readback cl" and run: "UpdateIfNeeded getenv cl c x = (Ret None, x')"
  shows "x' = x \<or> (\<exists>cred content f. cl_GetSecret cl credSecretNN x = Inr cred \<and> sec_Data cred = Some f \<and>
    f (c @ ''_ca.crt'') = None \<and>
    cl_GetSecret cl credSecretNN x' = Inr (cred\<lparr>sec_Data := Some (f(c @ ''_ca.crt'' \<mapsto> content))\<rparr>))"
  using UpdateIfNeeded_Ret [OF run]
proof (elim disjE exE conjE)
  fix cred content f
  assume g: "cl_GetSecret cl credSecretNN x = Inr cred"
    and f: "sec_Data cred = Some f" "f (c @ ''_ca.crt'') = None"
    and u: "cl_UpdateSecret cl (cred\<lparr>sec_Data := Some (f(c @ ''_ca.crt'' \<mapsto> content))\<rparr>) x = (None, x')"
  let ?s = "cred\<lparr>sec_Data := Some (f(c @ ''_ca.crt'' \<mapsto> content))\<rparr>"
  have nn: "credSecretNN = \<lparr>nn_Namespace = sec_Namespace ?s, nn_Name = sec_Name ?s\<rparr>"
    using rb g unfolding secret_readback_def by fastforce
  have "cl_GetSecret cl \<lparr>nn_Namespace = sec_Namespace ?s, nn_Name = sec_Name ?s\<rparr> x' = Inr ?s"
    using rb u unfolding secret_readback_def by blast
  with g f nn show ?thesis by auto
qed simp

text \<open>The configuration that is written starts from the empty text.\<close>

lemma InjectCredential_eq:
  assumes "dcl_Load dcl [] = Inr base"
    and "dcl_Save dcl (base(registry \<mapsto> (cred_Username cred, cred_Password cred))) = Inr buf"
    and "sec_Data secret = Some f"
  shows "InjectCredential dcl cl secret registry cred =
    call (cl_UpdateSecret cl (secret\<lparr>sec_Data := Some (f(''config.json'' \<mapsto> buf))\<rparr>))"
proof -
  have "b64DecodeString [] = Inr []"
    using b64Decode_Encode [of "[]"] by (simp add: b64EncodeToString_def)
  with assms show ?thesis
    by (intro ext) (simp add: InjectCredential_def Let_def mapPut_def bindM_def)
qed

text \<open>A registry that is not one of ECR is left alone: the run writes nothing.\<close>

lemma GetCredential_reads: "wlp (GetCredential A c) (\<lambda>_ x'. x' = x) x"
  by (auto simp: GetCredential_def split: sum.split list.split)

lemma Refresh_other_registry:
  assumes "cl_GetPBC (inj_k8sClient a) \<lparr>nn_Namespace = PackageNamespace, nn_Name = getenv clusterNameEnvVar\<rparr> x = Inr pbc"
    and "\<not> IsECRRegistry (hd (Split (pbcs_DefaultRegistry (pbc_Spec pbc)) CHR ''/''))"
  shows "wlp (Refresh getenv dcl A a) (\<lambda>_ x'. x' = x) x"
  unfolding Refresh_def wlp_simps
  by (rule wlp_mono [OF GetCredential_reads])
    (use assms in \<open>auto simp: GetRegistryMirrorSecret_def GetECR_def split: sum.split\<close>)

end
