(* ===== verification/Target_Cluster.thy ===== *)
theory Target_Cluster
  imports Kube
begin

text \<open>
  \<^verbatim>\<open>pkg/authenticator/target_cluster_client.go\<close>: the client that is pointed at the management
  cluster or, through the kubeconfig secret of a workload cluster, at that cluster.  Its fields
  are the private state; the controller-runtime client and the kubeconfig loader are parameters.
  The locale \<open>target_client\<close> is what the bundle manager and the Helm driver rely on: a client that
  was initialised has a configuration, so reading it does not dereference nil, and initialising
  does not write to any cluster.
\<close>

section \<open>Definitions\<close>

definition eksaSystemNamespace :: string where "eksaSystemNamespace = ''eksa-system''"

record targetClusterClient =
  tcc_Config :: restConfig
  tcc_targetSelf :: bool
  tcc_clientConfig :: "clientConfig option"

definition NewTargetClusterClient :: "restConfig \<Rightarrow> targetClusterClient" where
  "NewTargetClusterClient config =
     \<lparr>tcc_Config = config, tcc_targetSelf = False, tcc_clientConfig = None\<rparr>"

text \<open>\<^verbatim>\<open>%q\<close> of the name of a cluster, which has no character that would be escaped.\<close>

definition quoted :: "string \<Rightarrow> string" where
  "quoted s = CHR 0x22 # s @ [CHR 0x22]"

text \<open>\<open>None\<close> is the nil byte slice: returned for the own cluster, and read from a secret that has
  no \<^verbatim>\<open>value\<close> entry.\<close>

definition getKubeconfig ::
  "(string \<Rightarrow> string) \<Rightarrow> 'x Client \<Rightarrow> string \<Rightarrow> ('x, goerr + string option) gom" where
  "getKubeconfig getenv client clusterName =
     (if clusterName = [] \<or> getenv clusterNameEnvVar = clusterName then ret (Inr None)
      else
        bindM (reading (cl_GetSecret client
                 \<lparr>nn_Namespace = eksaSystemNamespace, nn_Name = clusterName @ ''-kubeconfig''\<rparr>)) (\<lambda>r.
        case r of
          Inl err \<Rightarrow> ret (Inl (wrapErr (''getting kubeconfig for cluster '' @ quoted clusterName @ '': '') err))
        | Inr kubeconfigSecret \<Rightarrow> ret (Inr (mapGet (sec_Data kubeconfigSecret) ''value''))))"

definition tcc_Initialize ::
  "(string \<Rightarrow> string) \<Rightarrow> 'x KubeLib \<Rightarrow> 'x Client \<Rightarrow> string \<Rightarrow>
     (targetClusterClient \<times> 'x, goerr option) gom" where
  "tcc_Initialize getenv kl client clusterName =
     bindM (onWorld (getKubeconfig getenv client clusterName)) (\<lambda>r.
     case r of
       Inl err \<Rightarrow> ret (Some err)
     | Inr kubeconfig \<Rightarrow>
         bindM getPriv (\<lambda>tcc.
         bindM (putPriv (tcc\<lparr>tcc_targetSelf := False\<rparr>)) (\<lambda>_.
         case kubeconfig of
           None \<Rightarrow>
             bindM (putPriv (tcc\<lparr>tcc_targetSelf := True, tcc_clientConfig := Some (kl_EmptyConfig kl)\<rparr>)) (\<lambda>_.
             ret None)
         | Some bytes \<Rightarrow>
             (case kl_ConfigFromBytes kl bytes of
                Inl err \<Rightarrow> ret (Some err)
              | Inr cfg \<Rightarrow>
                  (case kl_RawConfig kl cfg of
                     Inl err \<Rightarrow> ret (Some err)
                   | Inr rawConfig \<Rightarrow>
                       bindM (putPriv (tcc\<lparr>tcc_targetSelf := False, tcc_clientConfig := Some rawConfig\<rparr>)) (\<lambda>_.
                       ret None))))))"

definition tcc_ToRESTConfig ::
  "'x KubeLib \<Rightarrow> (targetClusterClient \<times> 'x, goerr + restConfig) gom" where
  "tcc_ToRESTConfig kl =
     bindM getPriv (\<lambda>tcc.
     if tcc_targetSelf tcc then ret (Inr (tcc_Config tcc))
     else (case tcc_clientConfig tcc of
             None \<Rightarrow> panic ''nil pointer dereference''
           | Some cfg \<Rightarrow> ret (kl_ClientConfig kl cfg)))"

text \<open>The discovery client is known by the configuration it was made from.\<close>

definition tcc_ToDiscoveryClient ::
  "'x KubeLib \<Rightarrow> (targetClusterClient \<times> 'x, goerr + restConfig) gom" where
  "tcc_ToDiscoveryClient kl =
     bindM (tcc_ToRESTConfig kl) (\<lambda>r.
     case r of
       Inl err \<Rightarrow> ret (Inl err)
     | Inr restConfig \<Rightarrow>
         (case kl_NewDiscovery kl restConfig of
            Some err \<Rightarrow> ret (Inl err)
          | None \<Rightarrow> ret (Inr restConfig)))"

text \<open>The mapper is known by the configuration of its discovery client.\<close>

definition tcc_ToRESTMapper ::
  "'x KubeLib \<Rightarrow> (targetClusterClient \<times> 'x, goerr + restConfig) gom" where
  "tcc_ToRESTMapper kl =
     bindM (tcc_ToDiscoveryClient kl) (\<lambda>r.
     case r of Inl err \<Rightarrow> ret (Inl err) | Inr dc \<Rightarrow> ret (Inr dc))"

definition tcc_ToRawKubeConfigLoader :: "(targetClusterClient \<times> 'x, clientConfig option) gom" where
  "tcc_ToRawKubeConfigLoader = bindM getPriv (\<lambda>tcc. ret (tcc_clientConfig tcc))"

definition tcc_GetServerVersion ::
  "(string \<Rightarrow> string) \<Rightarrow> 'x KubeLib \<Rightarrow> 'x Client \<Rightarrow> string \<Rightarrow>
     (targetClusterClient \<times> 'x, goerr + version_Info) gom" where
  "tcc_GetServerVersion getenv kl client clusterName =
     bindM (tcc_Initialize getenv kl client clusterName) (\<lambda>e.
     case e of
       Some err \<Rightarrow> ret (Inl (Errorf (''initializing target client: '' @ err_msg err)))
     | None \<Rightarrow>
         bindM (tcc_ToDiscoveryClient kl) (\<lambda>r.
         case r of
           Inl err \<Rightarrow> ret (Inl (Errorf (''creating discoveryClient client: '' @ err_msg err)))
         | Inr restConfig \<Rightarrow>
             bindM (onWorld (reading (kl_ServerVersion kl restConfig))) (\<lambda>v.
             case v of
               Inl err \<Rightarrow> ret (Inl (wrapErr ''getting server version: '' err))
             | Inr info \<Rightarrow> ret (Inr info))))"

definition tcc_CheckNamespace ::
  "'x KubeLib \<Rightarrow> string \<Rightarrow> (targetClusterClient \<times> 'x, bool) gom" where
  "tcc_CheckNamespace kl namespace =
     bindM getPriv (\<lambda>tcc.
     if tcc_clientConfig tcc = None then ret False
     else
       bindM (tcc_ToRESTConfig kl) (\<lambda>r.
       case r of
         Inl err \<Rightarrow> ret False
       | Inr restConfig \<Rightarrow>
           (case kl_NewClient kl restConfig of
              Inl err \<Rightarrow> ret False
            | Inr k8sClient \<Rightarrow>
                bindM (onWorld (reading (cl_GetNamespace k8sClient namespace))) (\<lambda>g.
                case g of Inl err \<Rightarrow> ret False | Inr _ \<Rightarrow> ret True))))"

definition tcc_CreateClusterNamespace ::
  "(string \<Rightarrow> string) \<Rightarrow> 'x KubeLib \<Rightarrow> 'x Client \<Rightarrow> string \<Rightarrow>
     (targetClusterClient \<times> 'x, goerr option) gom" where
  "tcc_CreateClusterNamespace getenv kl client clusterName =
     bindM (tcc_Initialize getenv kl client clusterName) (\<lambda>e.
     case e of
       Some err \<Rightarrow> ret (Some (Errorf (''initializing target client: '' @ err_msg err)))
     | None \<Rightarrow>
         bindM (tcc_ToRESTConfig kl) (\<lambda>r.
         case r of
           Inl err \<Rightarrow> ret (Some (Errorf (''create rest config for '' @ clusterName @ '': '' @ err_msg err)))
         | Inr restConfig \<Rightarrow>
             (case kl_NewClient kl restConfig of
                Inl err \<Rightarrow> ret (Some (Errorf (''creating client for '' @ clusterName @ '': '' @ err_msg err)))
              | Inr k8sClient \<Rightarrow>
                  bindM (tcc_CheckNamespace kl PackageNamespace) (\<lambda>exists.
                  if exists then ret None
                  else
                    bindM (onWorld (call (cl_CreateNamespace k8sClient PackageNamespace))) (\<lambda>c.
                    case c of
                      Some err \<Rightarrow> ret (Some (Errorf (''create namespace for '' @ quoted clusterName @
                                                '': '' @ err_msg err)))
                    | None \<Rightarrow> ret None)))))"

definition tcc_ApplySecret ::
  "'x KubeLib \<Rightarrow> Secret \<Rightarrow> (targetClusterClient \<times> 'x, goerr option) gom" where
  "tcc_ApplySecret kl secret =
     bindM getPriv (\<lambda>tcc.
     if tcc_clientConfig tcc = None then ret (Some (Errorf ''client is not initialized''))
     else
       bindM (tcc_ToRESTConfig kl) (\<lambda>r.
       case r of
         Inl err \<Rightarrow> ret (Some err)
       | Inr restConfig \<Rightarrow>
           (case kl_NewClient kl restConfig of
              Inl err \<Rightarrow> ret (Some err)
            | Inr k8sClient \<Rightarrow>
                let newSecret = \<lparr>sec_Name = sec_Name secret, sec_Namespace = sec_Namespace secret,
                                 sec_Type = [], sec_Data = sec_Data secret\<rparr> in
                bindM (onWorld (call (cl_CreateSecret k8sClient newSecret))) (\<lambda>c.
                case c of
                  None \<Rightarrow> ret None
                | Some err \<Rightarrow>
                    if \<not> IsAlreadyExists err
                    then ret (Some (Errorf (''create secret for workload cluster '' @ err_msg err)))
                    else
                      bindM (onWorld (call (cl_UpdateSecret k8sClient newSecret))) (\<lambda>u.
                      case u of
                        Some err \<Rightarrow> ret (Some (Errorf (''update secret for workload cluster '' @ err_msg err)))
                      | None \<Rightarrow> ret None)))))"

definition targetCluster ::
  "(string \<Rightarrow> string) \<Rightarrow> 'x KubeLib \<Rightarrow> 'x Client \<Rightarrow> (targetClusterClient, 'x) TargetClusterClient" where
  "targetCluster getenv kl client =
     \<lparr>tc_Initialize = tcc_Initialize getenv kl client,
      tc_GetServerVersion = tcc_GetServerVersion getenv kl client,
      tc_CreateClusterNamespace = tcc_CreateClusterNamespace getenv kl client,
      tc_CheckNamespace = tcc_CheckNamespace kl,
      tc_ApplySecret = tcc_ApplySecret kl,
      tc_ToRESTConfig = tcc_ToRESTConfig kl\<rparr>"

text \<open>A client with a configuration to read.\<close>

definition tcc_ready :: "targetClusterClient \<Rightarrow> bool" where
  "tcc_ready tcc \<longleftrightarrow> tcc_clientConfig tcc \<noteq> None"

section \<open>What the callers rely on\<close>

locale target_client =
  fixes T :: "('t, 'x) TargetClusterClient"
    and ready :: "'t \<Rightarrow> bool"
  assumes init_ret: "\<exists>e t'. tc_Initialize T c (t, x) = (Ret e, (t', x)) \<and>
        (e = None \<longrightarrow> ready t') \<and> (ready t \<longrightarrow> ready t')"
    and rest_ready: "ready t \<Longrightarrow> \<exists>r. tc_ToRESTConfig T (t, x) = (Ret r, (t, x))"
    and version_ret: "\<exists>r t'. tc_GetServerVersion T c (t, x) = (Ret r, (t', x)) \<and>
        (\<forall>i. r = Inr i \<longrightarrow> ready t') \<and> (ready t \<longrightarrow> ready t')"
    and namespace_ret: "\<exists>e t' x'. tc_CreateClusterNamespace T c (t, x) = (Ret e, (t', x')) \<and>
        (e = None \<longrightarrow> ready t') \<and> (ready t \<longrightarrow> ready t')"
    and secret_ret: "\<exists>e x'. tc_ApplySecret T s (t, x) = (Ret e, (t, x'))"
begin

text \<open>Initialising twice in a row leaves a client that can be used, whatever happened before.\<close>

lemma init_then_rest:
  assumes "tc_Initialize T c (t, x) = (Ret None, (t', x'))"
  shows "\<exists>r. tc_ToRESTConfig T (t', x') = (Ret r, (t', x')) \<and> x' = x"
proof -
  from init_ret [of c t x] assms have "ready t'" and "x' = x" by auto
  then show ?thesis using rest_ready by blast
qed

lemma version_then_rest:
  assumes "tc_GetServerVersion T c (t, x) = (Ret (Inr i), (t', x'))"
  shows "\<exists>r. tc_ToRESTConfig T (t', x') = (Ret r, (t', x')) \<and> x' = x"
proof -
  from version_ret [of c t x] assms have "ready t'" and "x' = x" by auto
  then show ?thesis using rest_ready by blast
qed

end

section \<open>The target cluster client meets the contract\<close>

lemma tcc_Initialize_runs:
  "runs (tcc_Initialize getenv kl cl c)
     (\<lambda>e (t', x'). x' = x \<and> (e = None \<longrightarrow> tcc_ready t') \<and> (tcc_ready t \<longrightarrow> tcc_ready t')) (t, x)"
  by (simp add: tcc_Initialize_def getKubeconfig_def tcc_ready_def split: sum.split option.split)

lemma tcc_ToRESTConfig_runs:
  "tcc_ready t \<Longrightarrow> runs (tcc_ToRESTConfig kl) (\<lambda>_ s'. s' = (t, x)) (t, x)"
  by (auto simp: tcc_ToRESTConfig_def tcc_ready_def)

lemma tcc_ToDiscoveryClient_runs:
  "tcc_ready t \<Longrightarrow> runs (tcc_ToDiscoveryClient kl) (\<lambda>_ s'. s' = (t, x)) (t, x)"
  unfolding tcc_ToDiscoveryClient_def runs_simps
  by (rule runs_mono [OF tcc_ToRESTConfig_runs]) (auto split: sum.split option.split)

lemma tcc_CheckNamespace_runs:
  "runs (tcc_CheckNamespace kl ns) (\<lambda>_ s'. s' = (t, x)) (t, x)"
proof (cases "tcc_ready t")
  case True
  have "runs (tcc_ToRESTConfig kl) (\<lambda>r s'. runs (case r of Inl err \<Rightarrow> ret False
      | Inr restConfig \<Rightarrow> (case kl_NewClient kl restConfig of Inl err \<Rightarrow> ret False
          | Inr k8sClient \<Rightarrow> bindM (onWorld (reading (cl_GetNamespace k8sClient ns)))
              (\<lambda>g. case g of Inl err \<Rightarrow> ret False | Inr _ \<Rightarrow> ret True)))
      (\<lambda>_ s'. s' = (t, x)) s') (t, x)"
    by (rule runs_mono [OF tcc_ToRESTConfig_runs [OF True]]) (auto split: sum.split)
  with True show ?thesis
    by (simp add: tcc_CheckNamespace_def tcc_ready_def)
qed (simp add: tcc_CheckNamespace_def tcc_ready_def)

lemma tcc_GetServerVersion_runs:
  "runs (tcc_GetServerVersion getenv kl cl c)
     (\<lambda>r (t', x'). x' = x \<and> (\<forall>i. r = Inr i \<longrightarrow> tcc_ready t') \<and> (tcc_ready t \<longrightarrow> tcc_ready t')) (t, x)"
  unfolding tcc_GetServerVersion_def runs_simps
proof (rule runs_mono [OF tcc_Initialize_runs], clarify, goal_cases)
  case (1 e t' x')
  show ?case
  proof (cases e)
    case None
    with 1 have r: "tcc_ready t'" by simp
    show ?thesis unfolding None option.case runs_simps
      by (rule runs_mono [OF tcc_ToDiscoveryClient_runs [OF r]]) (auto simp: r split: sum.split)
  qed (use 1 in auto)
qed

lemma tcc_CreateClusterNamespace_runs:
  "runs (tcc_CreateClusterNamespace getenv kl cl c)
     (\<lambda>e (t', x'). (e = None \<longrightarrow> tcc_ready t') \<and> (tcc_ready t \<longrightarrow> tcc_ready t')) (t, x)"
  unfolding tcc_CreateClusterNamespace_def runs_simps
proof (rule runs_mono [OF tcc_Initialize_runs], clarify, goal_cases)
  case (1 e t' x')
  show ?case
  proof (cases e)
    case None
    with 1 have r: "tcc_ready t'" by simp
    have check: "runs (tcc_CheckNamespace kl PackageNamespace) Q (t', x)"
      if "\<And>b. Q b (t', x)" for Q
      by (rule runs_mono [OF tcc_CheckNamespace_runs]) (use that in auto)
    show ?thesis unfolding None option.case runs_simps
      by (rule runs_mono [OF tcc_ToRESTConfig_runs [OF r]])
        (auto simp: r split: sum.split option.split intro!: check)
  qed (use 1 in auto)
qed

lemma tcc_ApplySecret_runs: "runs (tcc_ApplySecret kl s) (\<lambda>_ (t', _). t' = t) (t, x)"
proof (cases "tcc_ready t")
  case True
  then have ne: "tcc_clientConfig t \<noteq> None" by (simp add: tcc_ready_def)
  show ?thesis
    unfolding tcc_ApplySecret_def runs_simps if_not_P [OF ne]
    by (rule runs_mono [OF tcc_ToRESTConfig_runs [OF True]])
      (auto simp: Let_def split: sum.split option.split)
qed (simp add: tcc_ApplySecret_def tcc_ready_def)

interpretation tcc: target_client "targetCluster getenv kl client" tcc_ready
  for getenv kl client
proof
  fix c t x s
  show "\<exists>e t'. tc_Initialize (targetCluster getenv kl client) c (t, x) = (Ret e, (t', x)) \<and>
      (e = None \<longrightarrow> tcc_ready t') \<and> (tcc_ready t \<longrightarrow> tcc_ready t')"
    using tcc_Initialize_runs [of getenv kl client c x t]
    by (auto simp: targetCluster_def elim!: runsE)
  show "\<exists>r t'. tc_GetServerVersion (targetCluster getenv kl client) c (t, x) = (Ret r, (t', x)) \<and>
      (\<forall>i. r = Inr i \<longrightarrow> tcc_ready t') \<and> (tcc_ready t \<longrightarrow> tcc_ready t')"
    using tcc_GetServerVersion_runs [of getenv kl client c x t]
    by (fastforce simp: targetCluster_def elim!: runsE)
  show "\<exists>e t' x'. tc_CreateClusterNamespace (targetCluster getenv kl client) c (t, x) =
      (Ret e, (t', x')) \<and> (e = None \<longrightarrow> tcc_ready t') \<and> (tcc_ready t \<longrightarrow> tcc_ready t')"
    using tcc_CreateClusterNamespace_runs [of getenv kl client c t x]
    by (fastforce simp: targetCluster_def elim!: runsE)
  show "\<exists>e x'. tc_ApplySecret (targetCluster getenv kl client) s (t, x) = (Ret e, (t, x'))"
    using tcc_ApplySecret_runs [of kl s t x] by (auto simp: targetCluster_def elim!: runsE)
next
  fix t x
  assume "tcc_ready t"
  then show "\<exists>r. tc_ToRESTConfig (targetCluster getenv kl client) (t, x) = (Ret r, (t, x))"
    using tcc_ToRESTConfig_runs [of t kl x] by (auto simp: targetCluster_def elim!: runsE)
qed

end
