(* ===== verification/Helm_Driver.thy ===== *)
theory Helm_Driver
  imports Registry Target_Cluster
begin

text \<open>
  \<^verbatim>\<open>pkg/driver\<close>: the Helm implementation of \<^verbatim>\<open>PackageDriver\<close>.  The driver owns an authenticator
  and a target cluster client, whose private states are fields of its own, the Helm settings and the
  Helm configuration that \<^verbatim>\<open>Initialize\<close> builds.  The Helm library is a parameter.  The locale
  \<open>package_driver\<close> is the contract the package manager relies on; the locale \<open>helm_parts\<close> collects
  what the driver relies on, is interpreted on the authenticator and the cluster client of the
  repository, and gives the contract for the Helm driver.
\<close>

section \<open>The Helm library\<close>

datatype helmCfg = HelmCfg string

record envSettings =
  set_Namespace :: string
  set_RegistryConfig :: string
  set_Debug :: bool

record helmChart =
  chart_Name :: string
  chart_Values :: gvalues

record helmRelease =
  rel_Namespace :: string
  rel_Config :: gvalues

record helmInstall =
  in_Version :: string
  in_ReleaseName :: string
  in_CreateNamespace :: bool
  in_Namespace :: string

record ('t, 'x) HelmLib =
  hl_Settings :: "'x \<Rightarrow> envSettings"
  hl_NewClient :: "envSettings \<Rightarrow> goerr + string"
  hl_NewClientTLS :: "string \<Rightarrow> string \<Rightarrow> string \<Rightarrow> bool \<Rightarrow> envSettings \<Rightarrow> goerr + string"
  hl_Init :: "string \<Rightarrow> 't \<Rightarrow> string \<Rightarrow> string \<Rightarrow> 'x \<Rightarrow> goerr + helmCfg"
  hl_LocateChart :: "helmCfg \<Rightarrow> helmInstall \<Rightarrow> string \<Rightarrow> envSettings option \<Rightarrow> 'x \<Rightarrow> (goerr + string) \<times> 'x"
  hl_Load :: "string \<Rightarrow> 'x \<Rightarrow> goerr + helmChart"
  hl_Get :: "helmCfg \<Rightarrow> string \<Rightarrow> 'x \<Rightarrow> goerr + helmRelease"
  hl_Install :: "helmCfg \<Rightarrow> helmInstall \<Rightarrow> helmChart \<Rightarrow> gvalues \<Rightarrow> 'x \<Rightarrow> goerr option \<times> 'x"
  hl_Upgrade :: "helmCfg \<Rightarrow> nat \<Rightarrow> string \<Rightarrow> helmChart \<Rightarrow> gvalues \<Rightarrow> 'x \<Rightarrow> goerr option \<times> 'x"
  hl_Uninstall :: "helmCfg \<Rightarrow> string \<Rightarrow> 'x \<Rightarrow> (goerr + helmRelease) \<times> 'x"

section \<open>The driver\<close>

definition varHelmUpgradeMaxHistory :: nat where "varHelmUpgradeMaxHistory = 2"

record ('a, 't) helmDriver =
  hd_cfg :: "helmCfg option"
  hd_settings :: "envSettings option"
  hd_secretAuth :: 'a
  hd_tcc :: 't

definition NewHelm :: "'a \<Rightarrow> 't \<Rightarrow> ('a, 't) helmDriver" where
  "NewHelm secretAuth tcc =
     \<lparr>hd_cfg = None, hd_settings = None, hd_secretAuth = secretAuth, hd_tcc = tcc\<rparr>"

text \<open>Calls on the two parts of the driver change only their fields.\<close>

definition onAuth :: "('a \<times> 'x, 'r) gom \<Rightarrow> (('a, 't) helmDriver \<times> 'x, 'r) gom" where
  "onAuth m = (\<lambda>(d, x). case m (hd_secretAuth d, x) of (r, (a, x')) \<Rightarrow> (r, (d\<lparr>hd_secretAuth := a\<rparr>, x')))"

definition onTcc :: "('t \<times> 'x, 'r) gom \<Rightarrow> (('a, 't) helmDriver \<times> 'x, 'r) gom" where
  "onTcc m = (\<lambda>(d, x). case m (hd_tcc d, x) of (r, (t, x')) \<Rightarrow> (r, (d\<lparr>hd_tcc := t\<rparr>, x')))"

definition newDefaultRegistryClient :: "('t, 'x) HelmLib \<Rightarrow> envSettings \<Rightarrow> goerr + string" where
  "newDefaultRegistryClient H settings =
     (case hl_NewClient H settings of Inl err \<Rightarrow> Inl err | Inr c \<Rightarrow> Inr c)"

definition newRegistryClientWithTLS ::
  "('t, 'x) HelmLib \<Rightarrow> string \<Rightarrow> string \<Rightarrow> string \<Rightarrow> bool \<Rightarrow> envSettings \<Rightarrow> goerr + string" where
  "newRegistryClientWithTLS H certF keyF caF insecureSkipTLSverify settings =
     (case hl_NewClientTLS H certF keyF caF insecureSkipTLSverify settings of
        Inl err \<Rightarrow> Inl err | Inr c \<Rightarrow> Inr c)"

definition newRegistryClient ::
  "('t, 'x) HelmLib \<Rightarrow> string \<Rightarrow> string \<Rightarrow> string \<Rightarrow> bool \<Rightarrow> envSettings \<Rightarrow> goerr + string" where
  "newRegistryClient H certF keyF caF insecureSkipTLSverify settings =
     (if certF \<noteq> [] \<and> keyF \<noteq> [] \<or> caF \<noteq> [] \<or> \<not> insecureSkipTLSverify
      then newRegistryClientWithTLS H certF keyF caF insecureSkipTLSverify settings
      else newDefaultRegistryClient H settings)"

definition hd_Initialize ::
  "(string \<Rightarrow> string) \<Rightarrow> 'x KubeLib \<Rightarrow> ('t, 'x) HelmLib \<Rightarrow> ('a, 'x) Authenticator \<Rightarrow>
     ('t, 'x) TargetClusterClient \<Rightarrow> string \<Rightarrow> (('a, 't) helmDriver \<times> 'x, goerr option) gom" where
  "hd_Initialize getenv kl H A T clusterName =
     bindM (onAuth (auth_Initialize A clusterName)) (\<lambda>_.
     bindM (onTcc (tc_Initialize T clusterName)) (\<lambda>e.
     case e of
       Some err \<Rightarrow> ret (Some (wrapErr (''initialiing target cluster '' @ clusterName @
                                '' client for helm driver: '') err))
     | None \<Rightarrow>
         bindM (onWorld (reading (hl_Settings H))) (\<lambda>settings.
         bindM getPriv (\<lambda>d.
         bindM (putPriv (d\<lparr>hd_settings := Some settings\<rparr>)) (\<lambda>_.
         bindM (onWorld (reading (GetRegistryInsecure kl clusterName))) (\<lambda>insecure.
         bindM (onWorld (reading (GetClusterCertificateFileName kl clusterName))) (\<lambda>caFile.
         case newRegistryClient H [] [] caFile insecure settings of
           Inl err \<Rightarrow> ret (Some (wrapErr ''creating registry client for helm driver: '' err))
         | Inr client \<Rightarrow>
             bindM getPriv (\<lambda>d.
             bindM (onWorld (reading (hl_Init H client (hd_tcc d) (set_Namespace settings)
                                        (getenv ''HELM_DRIVER'')))) (\<lambda>r.
             case r of
               Inl err \<Rightarrow>
                 bindM (putPriv (d\<lparr>hd_cfg := Some (HelmCfg client)\<rparr>)) (\<lambda>_.
                 ret (Some (wrapErr ''initializing helm driver: '' err)))
             | Inr cfg \<Rightarrow>
                 bindM (putPriv (d\<lparr>hd_cfg := Some cfg\<rparr>)) (\<lambda>_. ret None))))))))))"

definition getChart ::
  "('t, 'x) HelmLib \<Rightarrow> helmCfg \<Rightarrow> helmInstall \<Rightarrow> PackageOCISource \<Rightarrow>
     (('a, 't) helmDriver \<times> 'x, goerr + helmChart) gom" where
  "getChart H cfg install source =
     (let url = GetChartUri source in
      bindM getPriv (\<lambda>d.
      bindM (onWorld (call (hl_LocateChart H cfg install url (hd_settings d)))) (\<lambda>r.
      case r of
        Inl err \<Rightarrow> ret (Inl (wrapErr (''locating helm chart '' @ url @ '' tag '' @ oci_Digest source @ '': '') err))
      | Inr chartPath \<Rightarrow> onWorld (reading (hl_Load H chartPath)))))"

definition createRelease ::
  "('t, 'x) HelmLib \<Rightarrow> helmCfg \<Rightarrow> helmInstall \<Rightarrow> helmChart \<Rightarrow> gvalues \<Rightarrow>
     (('a, 't) helmDriver \<times> 'x, goerr option) gom" where
  "createRelease H cfg install helmChart values =
     bindM (onWorld (call (hl_Install H cfg install helmChart values))) (\<lambda>e.
     case e of
       Some err \<Rightarrow> ret (Some (wrapErr (''installing helm chart '' @ in_ReleaseName install @ '': '') err))
     | None \<Rightarrow> ret None)"

definition upgradeRelease ::
  "('t, 'x) HelmLib \<Rightarrow> helmCfg \<Rightarrow> string \<Rightarrow> helmChart \<Rightarrow> gvalues \<Rightarrow>
     (('a, 't) helmDriver \<times> 'x, goerr option) gom" where
  "upgradeRelease H cfg name helmChart values =
     bindM (onWorld (call (hl_Upgrade H cfg varHelmUpgradeMaxHistory name helmChart values))) (\<lambda>e.
     case e of
       Some err \<Rightarrow> ret (Some (wrapErr (''upgrading helm release '' @ name @ '': '') err))
     | None \<Rightarrow> ret None)"

text \<open>\<^verbatim>\<open>for key, val := range secretvals { values[key] = val }\<close>\<close>

definition mapMerge :: "gvalues \<Rightarrow> gvalues \<Rightarrow> gvalues go" where
  "mapMerge values secretvals =
     (case secretvals of
        None \<Rightarrow> Ret values
      | Some sv \<Rightarrow>
          if sv = Map.empty then Ret values
          else (case values of None \<Rightarrow> Panic ''assignment to entry in nil map''
                             | Some v \<Rightarrow> Ret (Some (v ++ sv))))"

definition chartNamespace :: "string \<Rightarrow> helmChart \<Rightarrow> string go" where
  "chartNamespace namespace helmChart =
     (if namespace = [] then
        (case mapGet (chart_Values helmChart) ''defaultNamespace'' of
           Some (VStr chartNS) \<Rightarrow> Ret chartNS
         | Some _ \<Rightarrow> Panic ''interface conversion''
         | None \<Rightarrow> Ret ''default'')
      else Ret namespace)"

definition hd_Install ::
  "('t, 'x) HelmLib \<Rightarrow> ('a, 'x) Authenticator \<Rightarrow> string \<Rightarrow> string \<Rightarrow> bool \<Rightarrow> PackageOCISource \<Rightarrow>
     gvalues \<Rightarrow> (('a, 't) helmDriver \<times> 'x, goerr option) gom" where
  "hd_Install H A name namespace createNamespace source values =
     bindM getPriv (\<lambda>d.
     case hd_cfg d of
       None \<Rightarrow> panic ''nil pointer dereference''
     | Some cfg \<Rightarrow>
         let install = \<lparr>in_Version = oci_Version source, in_ReleaseName = name,
                        in_CreateNamespace = createNamespace, in_Namespace = []\<rparr> in
         bindM (getChart H cfg install source) (\<lambda>c.
         case c of
           Inl err \<Rightarrow> ret (Some (wrapErr (''loading helm chart '' @ name @ '': '') err))
         | Inr helmChart \<Rightarrow>
             bindM (ofGo (chartNamespace namespace helmChart)) (\<lambda>namespace.
             let install = install\<lparr>in_Namespace := namespace\<rparr> in
             bindM (onAuth (auth_GetSecretValues A namespace)) (\<lambda>sv.
             let secretvals = (case sv of Inl err \<Rightarrow> None | Inr v \<Rightarrow> v) in
             bindM (ofGo (mapMerge values secretvals)) (\<lambda>values.
             bindM (onWorld (reading (hl_Get H cfg name))) (\<lambda>g.
             case g of
               Inl err \<Rightarrow>
                 if err_kind err = ReleaseNotFound then
                   bindM (onAuth (auth_AddToConfigMap A name namespace)) (\<lambda>_.
                   bindM (onAuth (auth_AddSecretToAllNamespace A)) (\<lambda>_.
                   bindM (createRelease H cfg install helmChart values) (\<lambda>e.
                   case e of
                     Some err \<Rightarrow>
                       bindM (onAuth (auth_DelFromConfigMap A name namespace)) (\<lambda>_. ret (Some err))
                   | None \<Rightarrow>
                       bindM (onAuth (auth_AddSecretToAllNamespace A)) (\<lambda>_. ret None))))
                 else ret (Some (wrapErr (''getting helm release '' @ name @ '': '') err))
             | Inr _ \<Rightarrow>
                 bindM (upgradeRelease H cfg name helmChart values) (\<lambda>e.
                 case e of
                   Some err \<Rightarrow> ret (Some (wrapErr (''upgrading helm chart '' @ name @ '': '') err))
                 | None \<Rightarrow>
                     bindM (onAuth (auth_AddToConfigMap A name namespace)) (\<lambda>_.
                     bindM (onAuth (auth_AddSecretToAllNamespace A)) (\<lambda>_. ret None))))))))) "

definition hd_Uninstall ::
  "('t, 'x) HelmLib \<Rightarrow> ('a, 'x) Authenticator \<Rightarrow> string \<Rightarrow> (('a, 't) helmDriver \<times> 'x, goerr option) gom" where
  "hd_Uninstall H A name =
     bindM getPriv (\<lambda>d.
     case hd_cfg d of
       None \<Rightarrow> panic ''nil pointer dereference''
     | Some cfg \<Rightarrow>
         bindM (onWorld (call (hl_Uninstall H cfg name))) (\<lambda>r.
         case r of
           Inl err \<Rightarrow>
             if err_kind err = ReleaseNotFound then ret None
             else ret (Some (wrapErr (''uninstalling helm chart '' @ name @ '': '') err))
         | Inr rel \<Rightarrow>
             bindM (onAuth (auth_DelFromConfigMap A name (rel_Namespace rel))) (\<lambda>_. ret None)))"

definition hd_IsConfigChanged ::
  "('t, 'x) HelmLib \<Rightarrow> string \<Rightarrow> gvalues \<Rightarrow> (('a, 't) helmDriver \<times> 'x, goerr + bool) gom" where
  "hd_IsConfigChanged H name values =
     bindM getPriv (\<lambda>d.
     case hd_cfg d of
       None \<Rightarrow> panic ''nil pointer dereference''
     | Some cfg \<Rightarrow>
         bindM (onWorld (reading (hl_Get H cfg name))) (\<lambda>r.
         case r of
           Inl err \<Rightarrow> ret (Inr True)
         | Inr rel \<Rightarrow>
             bindM (ofGo (case mapGet values ''imagePullSecrets'' of
                            Some _ \<Rightarrow> Ret values
                          | None \<Rightarrow>
                              (case mapGet (rel_Config rel) ''imagePullSecrets'' of
                                 Some val \<Rightarrow> mapPut values ''imagePullSecrets'' val
                               | None \<Rightarrow> Ret values))) (\<lambda>values.
             ret (Inr (values \<noteq> rel_Config rel)))))"

definition helmChartURLIsPrefixed :: "string \<Rightarrow> bool" where
  "helmChartURLIsPrefixed url \<longleftrightarrow>
     HasPrefix url ''https://'' \<or> HasPrefix url ''http://'' \<or> HasPrefix url ''oci://''"

definition helmPackageDriver ::
  "(string \<Rightarrow> string) \<Rightarrow> 'x KubeLib \<Rightarrow> ('t, 'x) HelmLib \<Rightarrow> ('a, 'x) Authenticator \<Rightarrow>
     ('t, 'x) TargetClusterClient \<Rightarrow> (('a, 't) helmDriver, 'x) PackageDriver" where
  "helmPackageDriver getenv kl H A T =
     \<lparr>drv_Initialize = hd_Initialize getenv kl H A T,
      drv_Install = hd_Install H A,
      drv_Uninstall = hd_Uninstall H A,
      drv_IsConfigChanged = hd_IsConfigChanged H\<rparr>"

text \<open>A driver that has a Helm configuration to work with.\<close>

definition hd_ready :: "('a, 't) helmDriver \<Rightarrow> bool" where
  "hd_ready d \<longleftrightarrow> hd_cfg d \<noteq> None"

section \<open>The contract of a package driver\<close>

locale package_driver =
  fixes D :: "('d, 'x) PackageDriver"
    and ready :: "'d \<Rightarrow> bool"
  assumes init_runs:
      "runs (drv_Initialize D c) (\<lambda>e (d', x'). x' = x \<and> (e = None \<longrightarrow> ready d')) (d, x)"
    and changed_runs:
      "ready d \<Longrightarrow> runs (drv_IsConfigChanged D n (Some v)) (\<lambda>_ s'. s' = (d, x)) (d, x)"
    and install_ready:
      "ready d \<Longrightarrow> wlp (drv_Install D n ns cr src vals) (\<lambda>_ (d', _). ready d') (d, x)"
    and uninstall_ready:
      "ready d \<Longrightarrow> wlp (drv_Uninstall D n) (\<lambda>_ (d', _). ready d') (d, x)"
begin

text \<open>Initialising and comparing the configuration writes to no cluster and does not panic.\<close>

lemma init_then_changed:
  "runs (bindM (drv_Initialize D c) (\<lambda>e. case e of None \<Rightarrow> drv_IsConfigChanged D n (Some v)
      | Some err \<Rightarrow> ret (Inl err))) (\<lambda>_ (_, x'). x' = x) (d, x)"
  unfolding runs_simps
proof (rule runs_mono [OF init_runs], clarify)
  fix e :: "goerr option" and d' x'
  assume "e = None \<longrightarrow> ready d'"
  then show "runs (case e of None \<Rightarrow> drv_IsConfigChanged D n (Some v) | Some err \<Rightarrow> ret (Inl err))
      (\<lambda>_ (_, x'). x' = x) (d', x)"
    by (cases e) (auto intro: runs_mono [OF changed_runs])
qed

end

section \<open>The Helm driver meets the contract\<close>

lemma onAuth_simps [simp]:
  "runs (onAuth m) Q (d, x) = runs m (\<lambda>r (a, x'). Q r (d\<lparr>hd_secretAuth := a\<rparr>, x')) (hd_secretAuth d, x)"
  "wlp (onAuth m) Q (d, x) = wlp m (\<lambda>r (a, x'). Q r (d\<lparr>hd_secretAuth := a\<rparr>, x')) (hd_secretAuth d, x)"
  by (auto simp: runs_def wlp_def onAuth_def split: prod.splits go.splits)

lemma onTcc_simps [simp]:
  "runs (onTcc m) Q (d, x) = runs m (\<lambda>r (t, x'). Q r (d\<lparr>hd_tcc := t\<rparr>, x')) (hd_tcc d, x)"
  "wlp (onTcc m) Q (d, x) = wlp m (\<lambda>r (t, x'). Q r (d\<lparr>hd_tcc := t\<rparr>, x')) (hd_tcc d, x)"
  by (auto simp: runs_def wlp_def onTcc_def split: prod.splits go.splits)

lemma onAuth_keeps_cfg: "wlp (onAuth m) (\<lambda>_ (d', _). hd_cfg d' = hd_cfg d) (d, x)"
  by (rule wlpI) (auto simp: onAuth_def split: prod.splits)

locale helm_parts = authenticator A target pull + target_client T tready
  for A :: "('a, 'x) Authenticator" and target pull
    and T :: "('t, 'x) TargetClusterClient" and tready
begin

lemma auth_init_runs: "runs (auth_Initialize A c) (\<lambda>e (_, x'). e = None \<and> x' = x) (a, x)"
proof -
  obtain a' where "auth_Initialize A c (a, x) = (Ret None, (a', x))"
    using init_ok by blast
  then show ?thesis by (simp add: runs_def)
qed

lemma tcc_init_runs: "runs (tc_Initialize T c) (\<lambda>_ (_, x'). x' = x) (t, x)"
proof -
  obtain e t' where "tc_Initialize T c (t, x) = (Ret e, (t', x))"
    using init_ret by blast
  then show ?thesis by (simp add: runs_def)
qed

lemma hd_Initialize_runs:
  "runs (hd_Initialize getenv kl H A T c) (\<lambda>e (d', x'). x' = x \<and> (e = None \<longrightarrow> hd_ready d')) (d, x)"
  unfolding hd_Initialize_def runs_simps onAuth_simps
proof (rule runs_mono [OF auth_init_runs], clarify, goal_cases)
  case (1 e a x')
  show ?case
    unfolding runs_simps onTcc_simps
    by (rule runs_mono [OF tcc_init_runs])
      (auto simp: hd_ready_def split: option.split sum.split)
qed

end

lemma hd_IsConfigChanged_runs:
  assumes "hd_ready d"
  shows "runs (hd_IsConfigChanged H n (Some v)) (\<lambda>_ s'. s' = (d, x)) (d, x)"
  using assms
  by (auto simp: hd_IsConfigChanged_def hd_ready_def split: sum.split option.split go.split)

lemma wlp_keeps_cfg:
  assumes "\<And>d x. wlp m (\<lambda>_ (d', _). hd_cfg d' = hd_cfg d) (d, x)"
    and "\<And>r d' x'. hd_cfg d' = hd_cfg d \<Longrightarrow> wlp (k r) Q (d', x')"
  shows "wlp (bindM m k) Q (d, x)"
  unfolding wlp_simps by (rule wlp_mono [OF assms(1)]) (auto intro: assms(2))

lemma getChart_keeps_cfg: "wlp (getChart H cfg i s) (\<lambda>_ (d', _). hd_cfg d' = hd_cfg d) (d, x)"
  by (simp add: getChart_def Let_def split: sum.split)

lemma createRelease_keeps_cfg:
  "wlp (createRelease H cfg i ch v) (\<lambda>_ (d', _). hd_cfg d' = hd_cfg d) (d, x)"
  by (simp add: createRelease_def split: option.split)

lemma upgradeRelease_keeps_cfg:
  "wlp (upgradeRelease H cfg n ch v) (\<lambda>_ (d', _). hd_cfg d' = hd_cfg d) (d, x)"
  by (simp add: upgradeRelease_def split: option.split)

lemma onWorld_keeps_cfg: "wlp (onWorld m) (\<lambda>_ (d', _). hd_cfg d' = hd_cfg d) (d, x)"
  by (simp add: wlp_def onWorld_def split: prod.split go.split)

lemma ofGo_keeps_cfg: "wlp (ofGo g) (\<lambda>_ (d', _). hd_cfg d' = hd_cfg d) (d, x)"
  by (simp split: go.split)

lemmas keeps_cfg = onAuth_keeps_cfg getChart_keeps_cfg createRelease_keeps_cfg
  upgradeRelease_keeps_cfg onWorld_keeps_cfg ofGo_keeps_cfg

lemma hd_Install_keeps_cfg:
  "wlp (hd_Install H A n ns cr src v) (\<lambda>_ (d', _). hd_cfg d' = hd_cfg d) (d, x)"
  unfolding hd_Install_def Let_def
  by (auto split: option.split sum.split intro!: wlp_keeps_cfg keeps_cfg simp del: wlp_simps(4))
    (auto split: option.split sum.split intro!: wlp_keeps_cfg keeps_cfg simp del: wlp_simps(4))?

lemma hd_Uninstall_keeps_cfg:
  "wlp (hd_Uninstall H A n) (\<lambda>_ (d', _). hd_cfg d' = hd_cfg d) (d, x)"
  unfolding hd_Uninstall_def
  by (auto split: option.split sum.split intro!: wlp_keeps_cfg keeps_cfg simp del: wlp_simps(4))

text \<open>What the driver's parts promise gives the contract of a package driver.\<close>

sublocale helm_parts \<subseteq> drv: package_driver "helmPackageDriver getenv kl H A T" hd_ready
  for getenv kl H
proof
  fix c d x
  show "runs (drv_Initialize (helmPackageDriver getenv kl H A T) c)
      (\<lambda>e (d', x'). x' = x \<and> (e = None \<longrightarrow> hd_ready d')) (d, x)"
    by (simp add: helmPackageDriver_def hd_Initialize_runs)
next
  show "runs (drv_IsConfigChanged (helmPackageDriver getenv kl H A T) n (Some v))
      (\<lambda>_ s'. s' = (d, x)) (d, x)" if "hd_ready d" for d n v x
    using that by (simp add: helmPackageDriver_def hd_IsConfigChanged_runs)
next
  show "wlp (drv_Install (helmPackageDriver getenv kl H A T) n ns cr src vals)
      (\<lambda>_ (d', _). hd_ready d') (d, x)" if "hd_ready d" for d n ns cr src vals x
    using that unfolding helmPackageDriver_def PackageDriver.simps
    by (intro wlp_mono [OF hd_Install_keeps_cfg]) (auto simp: hd_ready_def)
next
  show "wlp (drv_Uninstall (helmPackageDriver getenv kl H A T) n)
      (\<lambda>_ (d', _). hd_ready d') (d, x)" if "hd_ready d" for d n x
    using that unfolding helmPackageDriver_def PackageDriver.simps
    by (intro wlp_mono [OF hd_Uninstall_keeps_cfg]) (auto simp: hd_ready_def)
qed

interpretation helm: helm_parts "ecrAuthenticator mapRange getenv kl clientset" ecr_targetCluster
    pullSecrets "targetCluster getenv kl client" tcc_ready
  for mapRange getenv kl clientset client ..

section \<open>What a release holds after an install\<close>

text \<open>What Helm documents of the release record: after an install or an upgrade that succeeds the
  release is found under its name and its configuration is the values that were passed (an upgrade
  with no values at all reuses the old ones).\<close>

definition helm_store :: "('t, 'x) HelmLib \<Rightarrow> bool" where
  "helm_store H \<longleftrightarrow>
     (\<forall>cfg i ch v x x'. hl_Install H cfg i ch (Some v) x = (None, x') \<longrightarrow>
        (\<exists>rel. hl_Get H cfg (in_ReleaseName i) x' = Inr rel \<and> rel_Config rel = Some v)) \<and>
     (\<forall>cfg h n ch v x x'. v \<noteq> Map.empty \<longrightarrow> hl_Upgrade H cfg h n ch (Some v) x = (None, x') \<longrightarrow>
        (\<exists>rel. hl_Get H cfg n x' = Inr rel \<and> rel_Config rel = Some v))"

text \<open>Config maps and jobs are other objects than the releases.\<close>

definition releases_apart :: "('t, 'x) HelmLib \<Rightarrow> 'x Clientset \<Rightarrow> bool" where
  "releases_apart H cs \<longleftrightarrow>
     (\<forall>cfg n ns cm x. hl_Get H cfg n (snd (cs_UpdateConfigMap cs ns cm x)) = hl_Get H cfg n x) \<and>
     (\<forall>cfg n ns j x. hl_Get H cfg n (snd (cs_CreateJob cs ns j x)) = hl_Get H cfg n x) \<and>
     (\<forall>cfg n ns j x. hl_Get H cfg n (snd (cs_DeleteJob cs ns j x)) = hl_Get H cfg n x)"

definition keeps_release :: "('t, 'x) HelmLib \<Rightarrow> ('a \<times> 'x, 'r) gom \<Rightarrow> bool" where
  "keeps_release H m \<longleftrightarrow>
     (\<forall>cfg n a x. wlp m (\<lambda>_ (_, x'). hl_Get H cfg n x' = hl_Get H cfg n x) (a, x))"

text \<open>The release of a package, as an install leaves it.\<close>

definition released :: "('t, 'x) HelmLib \<Rightarrow> helmCfg \<Rightarrow> string \<Rightarrow> (string \<rightharpoonup> val) \<Rightarrow> 'x \<Rightarrow> bool" where
  "released H cfg n v x \<longleftrightarrow> (\<exists>rel. hl_Get H cfg n x = Inr rel \<and> rel_Config rel = Some v)"

lemma keeps_released:
  assumes "keeps_release H m" and "released H cfg n v x"
    and "\<And>r d' x'. released H cfg n v x' \<Longrightarrow> wlp (k r) Q (d', x')"
  shows "wlp (bindM (onAuth m) k) Q (d, x)"
proof -
  have "wlp m (\<lambda>_ (_, x'). hl_Get H cfg n x' = hl_Get H cfg n x) (hd_secretAuth d, x)"
    using assms(1) by (simp add: keeps_release_def)
  then show ?thesis
    unfolding wlp_simps onAuth_simps
    by (rule wlp_mono) (use assms(2,3) in \<open>auto simp: released_def\<close>)
qed

lemma deleteSucceeded_keeps:
  assumes "releases_apart H cs"
  shows "wlp (deleteSucceeded cs js) (\<lambda>_ x'. hl_Get H cfg n x' = hl_Get H cfg n x) x"
proof (induction js arbitrary: x)
  case (Cons j js)
  have "hl_Get H cfg n (snd (cs_DeleteJob cs PackageNamespace (job_Name j) x)) = hl_Get H cfg n x"
    using assms by (simp add: releases_apart_def)
  with Cons [of x] Cons [of "snd (cs_DeleteJob cs PackageNamespace (job_Name j) x)"]
  show ?case by (simp split: option.split)
qed simp

lemma ecr_keeps_release:
  assumes "releases_apart H cs"
  shows "keeps_release H (ecr_AddToConfigMap r cs m ns)"
    and "keeps_release H (ecr_AddSecretToAllNamespace kl cs)"
proof -
  show "keeps_release H (ecr_AddToConfigMap r cs m ns)"
    using assms
    by (simp add: keeps_release_def releases_apart_def ecr_AddToConfigMap_def Let_def
        split: sum.split go.split)
  have "wlp (deleteSucceeded cs js) (\<lambda>_ x'. hl_Get H cfg n x' = hl_Get H cfg n x)
      (snd (cs_CreateJob cs ns j x))" for js cfg n x ns j
    using deleteSucceeded_keeps [OF assms, of js cfg n "snd (cs_CreateJob cs ns j x)"] assms
    by (simp add: releases_apart_def)
  with assms show "keeps_release H (ecr_AddSecretToAllNamespace kl cs)"
    by (simp add: keeps_release_def releases_apart_def ecr_AddSecretToAllNamespace_def
        cleanupPrevRuns_def split: sum.split option.split bool.split)
qed

lemma mapMerge_pull:
  "mapMerge (Some v) (Some [''imagePullSecrets'' \<mapsto> p]) = Ret (Some (v(''imagePullSecrets'' \<mapsto> p)))"
proof -
  have "[''imagePullSecrets'' \<mapsto> p] \<noteq> Map.empty"
    by (metis fun_upd_same option.distinct(1))
  then show ?thesis by (simp add: mapMerge_def)
qed

lemma createRelease_released:
  "helm_store H \<Longrightarrow> in_ReleaseName i = n \<Longrightarrow>
     wlp (createRelease H cfg i ch (Some v)) (\<lambda>e (d', x'). e = None \<longrightarrow> released H cfg n v x') (d, x)"
  by (auto simp: createRelease_def helm_store_def released_def prod_eq_iff split: option.split)

lemma upgradeRelease_released:
  "helm_store H \<Longrightarrow> v \<noteq> Map.empty \<Longrightarrow>
     wlp (upgradeRelease H cfg n ch (Some v)) (\<lambda>e (d', x'). e = None \<longrightarrow> released H cfg n v x') (d, x)"
  by (auto simp: upgradeRelease_def helm_store_def released_def prod_eq_iff split: option.split)

lemma upd_nonempty: "v(k \<mapsto> y) \<noteq> Map.empty"
  by (metis fun_upd_same option.distinct(1))

lemma keeps_released_last:
  "keeps_release H m \<Longrightarrow> released H cfg n v x \<Longrightarrow>
     wlp (bindM (onAuth m) (\<lambda>_. ret y)) (\<lambda>e (_, x'). e = None \<longrightarrow> released H cfg n v x') (d, x)"
  by (rule keeps_released [of H m cfg n v x]) auto

lemma wlp_then_none:
  assumes "wlp m (\<lambda>e (d', x'). e = None \<longrightarrow> P x') (d, x)"
    and "\<And>d' x'. P x' \<Longrightarrow> wlp (k None) (\<lambda>e (d', x'). e = None \<longrightarrow> Q x') (d', x')"
    and "\<And>err d' x'. wlp (k (Some err)) (\<lambda>e (d', x'). e = None \<longrightarrow> Q x') (d', x')"
  shows "wlp (bindM m k) (\<lambda>e (d', x'). e = None \<longrightarrow> Q x') (d, x)"
  unfolding wlp_simps
proof (rule wlp_mono [OF assms(1)], clarify, goal_cases)
  case (1 e d' x')
  then show ?case using assms(2,3) by (cases e) auto
qed

lemma wlp_skip: "(\<And>r d' x'. wlp (k r) Q (d', x')) \<Longrightarrow> wlp (bindM m k) Q (d, x)"
  unfolding wlp_simps by (rule wlpI) auto

lemma wlp_getPriv: "wlp (bindM getPriv k) Q (d, x) = wlp (k d) Q (d, x)"
  and wlp_read: "wlp (bindM (onWorld (reading f)) l) R (d, x) = wlp (l (f x)) R (d, x)"
  by simp_all

lemma mapMerge_bind:
  "wlp (bindM (ofGo (mapMerge (Some v) (Some [''imagePullSecrets'' \<mapsto> p]))) k) Q s =
     wlp (k (Some (v(''imagePullSecrets'' \<mapsto> p)))) Q s"
  by (simp add: mapMerge_pull)

context helm_parts
begin

lemma secret_bind:
  "wlp (bindM (onAuth (auth_GetSecretValues A ns)) k) Q (d, x) =
     wlp (k (Inr (Some [''imagePullSecrets'' \<mapsto> pull]))) Q (d, x)"
  by (simp add: wlp_def bindM_def onAuth_def secret_values)

lemma hd_Install_released:
  assumes store: "helm_store H" and keep: "\<And>m ns. keeps_release H (auth_AddToConfigMap A m ns)"
    "keeps_release H (auth_AddSecretToAllNamespace A)" and cfg: "hd_cfg d = Some cfg"
  shows "wlp (hd_Install H A n ns cr src (Some v))
    (\<lambda>e (_, x'). e = None \<longrightarrow> released H cfg n (v(''imagePullSecrets'' \<mapsto> pull)) x') (d, x)"
proof -
  let ?v = "v(''imagePullSecrets'' \<mapsto> pull)"
  let ?Q = "\<lambda>e (_, x'). e = None \<longrightarrow> released H cfg n ?v x'"
  have create: "wlp (bindM (createRelease H cfg i ch (Some ?v)) (\<lambda>e. case e of
        Some err \<Rightarrow> bindM (onAuth (auth_DelFromConfigMap A n ns)) (\<lambda>_. ret (Some err))
      | None \<Rightarrow> bindM (onAuth (auth_AddSecretToAllNamespace A)) (\<lambda>_. ret None))) ?Q (d', x')"
    if "in_ReleaseName i = n" for i ch ns d' x'
  proof (rule wlp_then_none [OF createRelease_released [OF store that]])
    show "wlp (case None of Some err \<Rightarrow> bindM (onAuth (auth_DelFromConfigMap A n ns)) (\<lambda>_. ret (Some err))
        | None \<Rightarrow> bindM (onAuth (auth_AddSecretToAllNamespace A)) (\<lambda>_. ret None)) ?Q (d', x')"
      if "released H cfg n ?v x'" for d' x'
      unfolding option.case by (rule keeps_released_last [OF keep(2) that])
  qed (simp add: wlp_skip del: wlp_simps(4))
  have upgrade: "wlp (bindM (upgradeRelease H cfg n ch (Some ?v)) (\<lambda>e. case e of
        Some err \<Rightarrow> ret (Some (g err))
      | None \<Rightarrow> bindM (onAuth (auth_AddToConfigMap A n ns)) (\<lambda>_.
                bindM (onAuth (auth_AddSecretToAllNamespace A)) (\<lambda>_. ret None)))) ?Q (d', x')"
    for g ch ns d' x'
  proof (rule wlp_then_none [OF upgradeRelease_released [OF store upd_nonempty]])
    show "wlp (case None of Some err \<Rightarrow> ret (Some (g err))
      | None \<Rightarrow> bindM (onAuth (auth_AddToConfigMap A n ns)) (\<lambda>_.
                bindM (onAuth (auth_AddSecretToAllNamespace A)) (\<lambda>_. ret None))) ?Q (d', x')"
      if "released H cfg n ?v x'" for d' x'
      unfolding option.case
      by (rule keeps_released [OF keep(1) that], rule keeps_released_last [OF keep(2)])
  qed simp
  show ?thesis
    unfolding hd_Install_def wlp_getPriv cfg option.case Let_def
  proof (rule wlp_skip, goal_cases)
    case (1 c d1 x1)
    show ?case
    proof (cases c)
      case (Inr helmChart)
      show ?thesis
        unfolding Inr sum.case
        by (rule wlp_skip)
          (auto simp: secret_bind mapMerge_bind wlp_read split: sum.split
            intro!: wlp_skip create upgrade simp del: wlp_simps(4) onAuth_simps fun_upd_apply)
    qed simp
  qed
qed

end

text \<open>Comparing the values that were installed with the release: they differ exactly when the
  user's values name pull secrets of their own.\<close>

lemma hd_IsConfigChanged_released:
  assumes "hd_cfg d = Some cfg" and "released H cfg n (v(''imagePullSecrets'' \<mapsto> p)) x"
  shows "hd_IsConfigChanged H n (Some v) (d, x) =
    (Ret (Inr (case v ''imagePullSecrets'' of None \<Rightarrow> False | Some q \<Rightarrow> q \<noteq> p)), (d, x))"
proof -
  have "v = v(''imagePullSecrets'' \<mapsto> p) \<longleftrightarrow> v ''imagePullSecrets'' = Some p"
    by (metis fun_upd_same fun_upd_triv)
  with assms show ?thesis
    by (auto simp: hd_IsConfigChanged_def released_def bindM_def onWorld_def mapPut_def
        split: option.split)
qed

end
