(* ===== verification/Package_Manager.thy ===== *)
theory Package_Manager
  imports Helm_Driver
begin

text \<open>
  \<^verbatim>\<open>pkg/packages/manager.go\<close>: the state machine of one package.  A \<^verbatim>\<open>ManagerContext\<close> is a record;
  its driver, its client, the process environment and the YAML decoder are collected in a
  \<open>managerEnv\<close>.  A handler takes the context and returns the flag of the Go function beside the
  context it leaves.  The contract of the driver is the locale \<open>package_driver\<close>; the abstract
  machine is the relation \<open>phase_step\<close>.
\<close>

section \<open>The context\<close>

text \<open>Durations in nanoseconds.\<close>

definition retryNever :: duration where "retryNever = 0"
definition retryNow :: duration where "retryNow = 1"
definition retrySoon :: duration where "retrySoon = 2 * 1000000000"
definition retryShort :: duration where "retryShort = 30 * 1000000000"
definition retryLong :: duration where "retryLong = 60 * 1000000000"
definition retryVeryLong :: duration where "retryVeryLong = 180 * 1000000000"
definition sourceRegistry :: string where "sourceRegistry = ''sourceRegistry''"

lemmas retry_defs = retryNever_def retryNow_def retrySoon_def retryShort_def retryLong_def
  retryVeryLong_def

record ManagerContext =
  mc_Package :: Package
  mc_Source :: PackageOCISource
  mc_PBC :: PackageBundleController
  mc_Version :: SourceVersion
  mc_RequeueAfter :: duration
  mc_Bundle :: "PackageBundle option"

record ('d, 'x) managerEnv =
  env_getenv :: "string \<Rightarrow> string"
  env_yaml :: "string \<Rightarrow> goerr + gvalues"
  env_driver :: "('d, 'x) PackageDriver"
  env_client :: "'x BundleClient"

type_synonym ('d, 'x) handler = "ManagerContext \<Rightarrow> ('d \<times> 'x, bool \<times> ManagerContext) gom"

definition NewManagerContext :: ManagerContext where
  "NewManagerContext = \<lparr>mc_Package = zeroPackage, mc_Source = zeroSource, mc_PBC = zeroPBC,
     mc_Version = zeroVersion, mc_RequeueAfter = 0, mc_Bundle = None\<rparr>"

text \<open>Assignments to fields of the package's status.\<close>

definition setStatus :: "(PackageStatus \<Rightarrow> PackageStatus) \<Rightarrow> ManagerContext \<Rightarrow> ManagerContext" where
  "setStatus f mc = mc\<lparr>mc_Package := (mc_Package mc)\<lparr>pkg_Status := f (pkg_Status (mc_Package mc))\<rparr>\<rparr>"

abbreviation setState :: "StateEnum \<Rightarrow> ManagerContext \<Rightarrow> ManagerContext" where
  "setState s \<equiv> setStatus (\<lambda>st. st\<lparr>st_State := s\<rparr>)"
abbreviation setDetail :: "string \<Rightarrow> ManagerContext \<Rightarrow> ManagerContext" where
  "setDetail d \<equiv> setStatus (\<lambda>st. st\<lparr>st_Detail := d\<rparr>)"
abbreviation setSource :: "PackageOCISource \<Rightarrow> ManagerContext \<Rightarrow> ManagerContext" where
  "setSource s \<equiv> setStatus (\<lambda>st. st\<lparr>st_Source := s\<rparr>)"
abbreviation setCurrentVersion :: "string \<Rightarrow> ManagerContext \<Rightarrow> ManagerContext" where
  "setCurrentVersion v \<equiv> setStatus (\<lambda>st. st\<lparr>st_CurrentVersion := v\<rparr>)"
abbreviation requeue :: "duration \<Rightarrow> ManagerContext \<Rightarrow> ManagerContext" where
  "requeue d mc \<equiv> mc\<lparr>mc_RequeueAfter := d\<rparr>"

definition copySpec :: "ManagerContext \<Rightarrow> ManagerContext" where
  "copySpec mc = setStatus (\<lambda>st. st\<lparr>st_Spec := pkg_Spec (mc_Package mc)\<rparr>) mc"

definition SetUninstalling :: "string \<Rightarrow> string \<Rightarrow> ManagerContext \<Rightarrow> ManagerContext" where
  "SetUninstalling namespace name mc =
     setState StateUninstalling
       (mc\<lparr>mc_Package := (mc_Package mc)\<lparr>pkg_Namespace := namespace, pkg_Name := name\<rparr>\<rparr>)"

text \<open>The type assertion \<^verbatim>\<open>val.(string)\<close> panics on every other type.\<close>

definition getImageRegistry :: "ManagerContext \<Rightarrow> gvalues \<Rightarrow> string go" where
  "getImageRegistry mc values =
     (case mapGet values sourceRegistry of
        Some val \<Rightarrow>
          if val \<noteq> VStr [] then
            (case val of VStr s \<Rightarrow> Ret s | _ \<Rightarrow> Panic ''interface conversion'')
          else Ret (GetDefaultImageRegistry (mc_PBC mc))
      | None \<Rightarrow> Ret (GetDefaultImageRegistry (mc_PBC mc)))"

section \<open>Handlers\<close>

definition processInitializing :: "('d, 'x) handler" where
  "processInitializing mc =
     ret (True, copySpec (requeue retryNow (setState StateInstallingDependencies
                  (setSource (mc_Source mc) mc))))"

definition processUpdating :: "('d, 'x) handler" where
  "processUpdating mc = ret (True, requeue retryNow (setState StateInstallingDependencies mc))"

text \<open>\<^verbatim>\<open>%s\<close> of a \<^verbatim>\<open>SourceVersion\<close>.\<close>

definition formatImages :: "VersionImages \<Rightarrow> string" where
  "formatImages i = ''{'' @ vi_Repository i @ '' '' @ vi_Digest i @ ''}''"

definition formatVersion :: "SourceVersion \<Rightarrow> string" where
  "formatVersion v = ''{'' @ sv_Name v @ '' '' @ sv_Digest v @ '' ['' @
     Join (map formatImages (sv_Images v)) '' '' @ ''] '' @ sv_Schema v @ '' ['' @
     Join (sv_Dependencies v) '' '' @ '']}''"

text \<open>A method call on the bundle pointer: with no dependencies it does not look at the bundle.\<close>

definition bundleDependencies ::
  "PackageBundle option \<Rightarrow> SourceVersion \<Rightarrow> (goerr + BundlePackage list) go" where
  "bundleDependencies b version =
     (case b of
        Some bundle \<Rightarrow> Ret (GetDependencies bundle version)
      | None \<Rightarrow> if sv_Dependencies version = [] then Ret (Inr [])
                else Panic ''nil pointer dereference'')"

text \<open>The inner loop: the last package with the name wins.\<close>

fun matchDep :: "string \<Rightarrow> Package option \<Rightarrow> Package list \<Rightarrow> Package option" where
  "matchDep name pkg [] = pkg"
| "matchDep name pkg (i # items) =
     matchDep name (if spec_PackageName (pkg_Spec i) = name then Some i else pkg) items"

definition dependencyPackage :: "Package \<Rightarrow> BundlePackage \<Rightarrow> Package" where
  "dependencyPackage pkg dep =
     (let p = NewPackage (bp_Name dep) (bp_Name dep) (pkg_Namespace pkg) (spec_Config (pkg_Spec pkg))
      in p\<lparr>pkg_Spec := (pkg_Spec p)\<lparr>spec_TargetNamespace := spec_TargetNamespace (pkg_Spec pkg)\<rparr>\<rparr>)"

text \<open>The outer loop returns the packages that are not ready, and creates the missing ones; an
  error of \<^verbatim>\<open>CreatePackage\<close> is logged.\<close>

fun pkgsNotReady ::
  "'x BundleClient \<Rightarrow> Package \<Rightarrow> Package list \<Rightarrow> BundlePackage list \<Rightarrow> ('x, Package list) gom" where
  "pkgsNotReady client this items [] = ret []"
| "pkgsNotReady client this items (dep # deps) =
     (case matchDep (bp_Name dep) None items of
        Some pkg \<Rightarrow>
          bindM (pkgsNotReady client this items deps) (\<lambda>rest.
          ret (if st_State (pkg_Status pkg) \<noteq> StateInstalled then pkg # rest else rest))
      | None \<Rightarrow>
          let p = dependencyPackage this dep in
          bindM (bc_CreatePackage client p) (\<lambda>_.
          bindM (pkgsNotReady client this items deps) (\<lambda>rest. ret (p # rest))))"

definition processInstallingDependencies :: "('d, 'x) managerEnv \<Rightarrow> ('d, 'x) handler" where
  "processInstallingDependencies env mc =
     bindM (ofGo (bundleDependencies (mc_Bundle mc) (mc_Version mc))) (\<lambda>r.
     case r of
       Inl err \<Rightarrow>
         (case mc_Bundle mc of
            None \<Rightarrow> panic ''nil pointer dereference''
          | Some bundle \<Rightarrow>
              ret (True, requeue retryLong (setDetail
                (''invalid package bundle. ('' @ pkg_Name (mc_Package mc) @ ''@'' @
                 formatVersion (mc_Version mc) @ '' bundle: '' @ pb_Name bundle @ '')'') mc)))
     | Inr dependencies \<Rightarrow>
         bindM (onWorld (bc_GetPackageList (env_client env) (pkg_Namespace (mc_Package mc)))) (\<lambda>l.
         case l of
           Inl err \<Rightarrow> ret (True, setDetail (err_msg err) (requeue retryShort mc))
         | Inr pkgs \<Rightarrow>
             bindM (onWorld (pkgsNotReady (env_client env) (mc_Package mc) (pl_Items pkgs) dependencies))
               (\<lambda>notReady.
             if length notReady > 0 then
               ret (True, requeue retrySoon (setDetail
                 (''Waiting for dependencies: '' @
                  Join (map (\<lambda>pkg. spec_PackageName (pkg_Spec pkg)) notReady) '', '') mc))
             else ret (True, setDetail [] (setState StateInstalling mc)))))"

definition processInstalling :: "('d, 'x) managerEnv \<Rightarrow> ('d, 'x) handler" where
  "processInstalling env mc =
     (let mc = setSource (mc_Source mc) mc in
      case GetValues (env_yaml env) (mc_Package mc) of
        Inl err \<Rightarrow> ret (True, setDetail (err_msg err) mc)
      | Inr values \<Rightarrow>
          bindM (ofGo (getImageRegistry mc values)) (\<lambda>registry.
          bindM (ofGo (mapPut values sourceRegistry (VStr registry))) (\<lambda>values.
          let mc = (if oci_Registry (mc_Source mc) = []
                    then mc\<lparr>mc_Source := (mc_Source mc)\<lparr>oci_Registry := GetDefaultRegistry (mc_PBC mc)\<rparr>\<rparr>
                    else mc) in
          bindM (drv_Initialize (env_driver env) (GetClusterName (mc_Package mc))) (\<lambda>e.
          case e of
            Some err \<Rightarrow> ret (True, setDetail (err_msg err) mc)
          | None \<Rightarrow>
              let createNamespace = pbcs_CreateNamespace (pbc_Spec (mc_PBC mc)) in
              bindM (drv_Install (env_driver env) (pkg_Name (mc_Package mc))
                       (spec_TargetNamespace (pkg_Spec (mc_Package mc))) createNamespace
                       (mc_Source mc) values) (\<lambda>e.
              case e of
                Some err \<Rightarrow> ret (True, setDetail (err_msg err) mc)
              | None \<Rightarrow>
                  let mc = setDetail [] (setCurrentVersion (oci_Version (mc_Source mc))
                             (setState StateInstalled mc));
                      mc = (if length (GetClusterName (mc_Package mc)) = 0
                            then setDetail (''Deprecated package namespace. Move to eksa-packages-'' @
                                   env_getenv env ''CLUSTER_NAME'') mc
                            else mc)
                  in ret (True, copySpec mc))))))"

definition processInstalled :: "('d, 'x) managerEnv \<Rightarrow> ('d, 'x) handler" where
  "processInstalled env mc =
     (if st_Source (pkg_Status (mc_Package mc)) \<noteq> mc_Source mc then
        ret (True, requeue retryShort (setState StateUpdating (setSource (mc_Source mc) mc)))
      else
        case env_yaml env (spec_Config (pkg_Spec (mc_Package mc))) of
          Inl err \<Rightarrow> ret (True, requeue retryShort (setDetail (err_msg err) mc))
        | Inr newValues \<Rightarrow>
            bindM (drv_Initialize (env_driver env) (GetClusterName (mc_Package mc))) (\<lambda>e.
            case e of
              Some err \<Rightarrow> ret (True, setDetail (err_msg err) mc)
            | None \<Rightarrow>
                bindM (ofGo (getImageRegistry mc newValues)) (\<lambda>registry.
                bindM (ofGo (mapPut newValues sourceRegistry (VStr registry))) (\<lambda>newValues.
                bindM (drv_IsConfigChanged (env_driver env) (pkg_Name (mc_Package mc)) newValues) (\<lambda>r.
                case r of
                  Inl err \<Rightarrow> ret (True, requeue retryLong (setDetail (err_msg err) mc))
                | Inr needs \<Rightarrow>
                    if needs then
                      ret (True, copySpec (requeue retryShort (setState StateUpdating mc)))
                    else ret (False, requeue retryVeryLong mc))))))"

definition processUninstalling :: "('d, 'x) managerEnv \<Rightarrow> ('d, 'x) handler" where
  "processUninstalling env mc =
     bindM (drv_Initialize (env_driver env) (GetClusterName (mc_Package mc))) (\<lambda>e.
     case e of
       Some err \<Rightarrow> ret (False, setDetail (err_msg err) mc)
     | None \<Rightarrow>
         bindM (drv_Uninstall (env_driver env) (pkg_Name (mc_Package mc))) (\<lambda>e.
         case e of
           Some err \<Rightarrow> ret (False, setDetail (err_msg err) mc)
         | None \<Rightarrow> ret (False, requeue retryNever (setDetail [] mc))))"

definition processUnknown :: "('d, 'x) handler" where
  "processUnknown mc =
     ret (True, copySpec (requeue retryNever (setDetail
       (''Unknown state: '' @ st_State (pkg_Status (mc_Package mc))) mc)))"

definition processDone :: "('d, 'x) handler" where
  "processDone mc = ret (False, requeue retryNever mc)"

section \<open>Dispatch\<close>

definition packageStates :: "('d, 'x) managerEnv \<Rightarrow> (StateEnum \<times> ('d, 'x) handler) list" where
  "packageStates env =
     [(StateInitializing, processInitializing),
      (StateInstalling, processInstalling env),
      (StateInstallingDependencies, processInstallingDependencies env),
      (StateInstalled, processInstalled env),
      (StateUpdating, processUpdating),
      (StateUninstalling, processUninstalling env),
      (StateUnknown, processDone)]"

definition getState :: "('d, 'x) managerEnv \<Rightarrow> StateEnum \<Rightarrow> ('d, 'x) handler" where
  "getState env stateName =
     (let stateName = (if stateName = [] then StateInitializing else stateName)
      in case map_of (packageStates env) stateName of
           Some val \<Rightarrow> val
         | None \<Rightarrow> processUnknown)"

definition Process :: "('d, 'x) managerEnv \<Rightarrow> ('d, 'x) handler" where
  "Process env mc =
     (let mc = requeue retryLong mc in
      if \<not> IsValidNamespace (mc_Package mc) then
        let mc = requeue retryNever (setDetail (''Packages namespaces must start with: '' @ PackageNamespace) mc)
        in if st_State (pkg_Status (mc_Package mc)) = StateUnknown then ret (False, mc)
           else ret (True, setState StateUnknown mc)
      else getState env (st_State (pkg_Status (mc_Package mc))) mc)"

section \<open>Frame\<close>

lemma setStatus_simps [simp]:
  "pkg_Status (mc_Package (setStatus f mc)) = f (pkg_Status (mc_Package mc))"
  "pkg_Spec (mc_Package (setStatus f mc)) = pkg_Spec (mc_Package mc)"
  "pkg_Name (mc_Package (setStatus f mc)) = pkg_Name (mc_Package mc)"
  "pkg_Namespace (mc_Package (setStatus f mc)) = pkg_Namespace (mc_Package mc)"
  "mc_Source (setStatus f mc) = mc_Source mc"
  "mc_PBC (setStatus f mc) = mc_PBC mc"
  "mc_Version (setStatus f mc) = mc_Version mc"
  "mc_Bundle (setStatus f mc) = mc_Bundle mc"
  "mc_RequeueAfter (setStatus f mc) = mc_RequeueAfter mc"
  "GetClusterName (mc_Package (setStatus f mc)) = GetClusterName (mc_Package mc)"
  "GetValues y (mc_Package (setStatus f mc)) = GetValues y (mc_Package mc)"
  "getImageRegistry (setStatus f mc) v = getImageRegistry mc v"
  by (simp_all add: setStatus_def getImageRegistry_def split: option.split)

lemma copySpec_simps [simp]:
  "pkg_Status (mc_Package (copySpec mc)) =
     (pkg_Status (mc_Package mc))\<lparr>st_Spec := pkg_Spec (mc_Package mc)\<rparr>"
  "mc_RequeueAfter (copySpec mc) = mc_RequeueAfter mc"
  "mc_Source (copySpec mc) = mc_Source mc"
  by (simp_all add: copySpec_def)

text \<open>Two packages that differ in their status only.\<close>

definition sameObject :: "Package \<Rightarrow> Package \<Rightarrow> bool" where
  "sameObject p q \<longleftrightarrow> q = p\<lparr>pkg_Status := pkg_Status q\<rparr>"

lemma sameObject_refl [simp]: "sameObject p p"
  by (simp add: sameObject_def)

lemma sameObject_trans: "sameObject p q \<Longrightarrow> sameObject q r \<Longrightarrow> sameObject p r"
  unfolding sameObject_def by (metis Package.surjective Package.update_convs(6))

lemma sameObject_setStatus [simp]:
  "sameObject p (mc_Package (setStatus f mc)) = sameObject p (mc_Package mc)"
  "sameObject p (mc_Package (copySpec mc)) = sameObject p (mc_Package mc)"
  by (cases p; cases "mc_Package mc"; simp add: sameObject_def setStatus_def copySpec_def)+

lemma state_distinct [simp]:
  "distinct [StateInitializing, StateInstalling, StateInstallingDependencies, StateInstalled,
     StateUpdating, StateUninstalling, StateUnknown, []]"
  by (simp add: state_defs)

lemma getState_simps [simp]:
  "getState env [] = processInitializing"
  "getState env StateInitializing = processInitializing"
  "getState env StateInstalling = processInstalling env"
  "getState env StateInstallingDependencies = processInstallingDependencies env"
  "getState env StateInstalled = processInstalled env"
  "getState env StateUpdating = processUpdating"
  "getState env StateUninstalling = processUninstalling env"
  "getState env StateUnknown = processDone"
  by (simp_all add: getState_def packageStates_def state_defs)

section \<open>The abstract machine\<close>

datatype phase = Initial | Dependencies | Installing | Installed | Updating | Uninstalling
  | Unknown | Foreign

definition phase_of :: "StateEnum \<Rightarrow> phase" where
  "phase_of s =
     (if s = [] \<or> s = StateInitializing then Initial
      else if s = StateInstallingDependencies then Dependencies
      else if s = StateInstalling then Installing
      else if s = StateInstalled then Installed
      else if s = StateUpdating then Updating
      else if s = StateUninstalling then Uninstalling
      else if s = StateUnknown then Unknown
      else Foreign)"

text \<open>\<open>phase_step ok a b\<close>: the machine of a package whose namespace is valid (\<open>ok\<close>) or not.\<close>

inductive phase_step :: "bool \<Rightarrow> phase \<Rightarrow> phase \<Rightarrow> bool" where
  reject: "phase_step False a Unknown"
| start: "phase_step True Initial Dependencies"
| wait_deps: "phase_step True Dependencies Dependencies"
| deps_ready: "phase_step True Dependencies Installing"
| install_retry: "phase_step True Installing Installing"
| install_done: "phase_step True Installing Installed"
| stay_installed: "phase_step True Installed Installed"
| change: "phase_step True Installed Updating"
| update: "phase_step True Updating Dependencies"
| uninstall: "phase_step True Uninstalling Uninstalling"
| unknown: "phase_step True Unknown Unknown"
| foreign: "phase_step True Foreign Foreign"

inductive_simps phase_step_True [simp]: "phase_step True a b"
inductive_simps phase_step_False [simp]: "phase_step False a b"
inductive_cases phase_step_to_Installed: "phase_step ok a Installed"
inductive_cases phase_step_to_Installing: "phase_step ok a Installing"

lemma phase_of_simps [simp]:
  "phase_of [] = Initial" "phase_of StateInitializing = Initial"
  "phase_of StateInstallingDependencies = Dependencies" "phase_of StateInstalling = Installing"
  "phase_of StateInstalled = Installed" "phase_of StateUpdating = Updating"
  "phase_of StateUninstalling = Uninstalling" "phase_of StateUnknown = Unknown"
  by (simp_all add: phase_of_def state_defs)

lemma phase_of_inj:
  "phase_of s = Installed \<longleftrightarrow> s = StateInstalled"
  "phase_of s = Installing \<longleftrightarrow> s = StateInstalling"
  "phase_of s = Dependencies \<longleftrightarrow> s = StateInstallingDependencies"
  "phase_of s = Updating \<longleftrightarrow> s = StateUpdating"
  "phase_of s = Unknown \<longleftrightarrow> s = StateUnknown"
  "phase_of s = Uninstalling \<longleftrightarrow> s = StateUninstalling"
  by (auto simp: phase_of_def state_defs)

lemma getState_foreign: "phase_of s = Foreign \<Longrightarrow> getState env s = processUnknown"
  by (auto simp: phase_of_def getState_def packageStates_def split: if_splits)

text \<open>What every handler does to a context, whatever its driver and client do: a step of the
  machine, no change outside the status, and no change of state that is not reported.\<close>

definition stateOf :: "ManagerContext \<Rightarrow> StateEnum" where
  "stateOf mc = st_State (pkg_Status (mc_Package mc))"

definition goodStep :: "ManagerContext \<Rightarrow> bool \<times> ManagerContext \<Rightarrow> bool" where
  "goodStep mc r \<longleftrightarrow> (case r of (b, mc') \<Rightarrow>
     phase_step (IsValidNamespace (mc_Package mc)) (phase_of (stateOf mc)) (phase_of (stateOf mc')) \<and>
     sameObject (mc_Package mc) (mc_Package mc') \<and>
     (\<not> b \<longrightarrow> pkg_Status (mc_Package mc') =
        (pkg_Status (mc_Package mc))\<lparr>st_Detail := st_Detail (pkg_Status (mc_Package mc'))\<rparr>))"

lemmas stateOf_simps = stateOf_def setStatus_simps copySpec_simps

lemma goodStep_handlers:
  assumes "IsValidNamespace (mc_Package mc)"
  shows "phase_of (stateOf mc) = Initial \<Longrightarrow> wlp (processInitializing mc) (\<lambda>r _. goodStep mc r) w"
    and "stateOf mc = StateUpdating \<Longrightarrow> wlp (processUpdating mc) (\<lambda>r _. goodStep mc r) w"
    and "stateOf mc = StateUnknown \<Longrightarrow> wlp (processDone mc) (\<lambda>r _. goodStep mc r) w"
    and "phase_of (stateOf mc) = Foreign \<Longrightarrow> wlp (processUnknown mc) (\<lambda>r _. goodStep mc r) w"
  using assms
  by (simp_all add: goodStep_def processInitializing_def processUpdating_def processDone_def
      processUnknown_def stateOf_def)

lemma goodStep_dependencies:
  assumes "IsValidNamespace (mc_Package mc)" "stateOf mc = StateInstallingDependencies"
  shows "wlp (processInstallingDependencies env mc) (\<lambda>r _. goodStep mc r) w"
  using assms unfolding processInstallingDependencies_def
  by (auto simp: goodStep_def stateOf_def simp del: wlp_simps(4) intro!: wlp_bind_any
      split: sum.split option.split)

lemma goodStep_installing:
  assumes "IsValidNamespace (mc_Package mc)" "stateOf mc = StateInstalling"
  shows "wlp (processInstalling env mc) (\<lambda>r _. goodStep mc r) w"
  using assms unfolding processInstalling_def
  by (auto simp: goodStep_def stateOf_def Let_def simp del: wlp_simps(4) intro!: wlp_bind_any
      split: sum.split option.split)

lemma goodStep_installed:
  assumes "IsValidNamespace (mc_Package mc)" "stateOf mc = StateInstalled"
  shows "wlp (processInstalled env mc) (\<lambda>r _. goodStep mc r) w"
  using assms unfolding processInstalled_def
  by (auto simp: goodStep_def stateOf_def simp del: wlp_simps(4) intro!: wlp_bind_any
      split: sum.split option.split)

lemma goodStep_uninstalling:
  assumes "IsValidNamespace (mc_Package mc)" "stateOf mc = StateUninstalling"
  shows "wlp (processUninstalling env mc) (\<lambda>r _. goodStep mc r) w"
  using assms unfolding processUninstalling_def
  by (auto simp: goodStep_def stateOf_def simp del: wlp_simps(4) intro!: wlp_bind_any
      split: sum.split option.split)

lemma goodStep_requeue [simp]: "goodStep (requeue d mc) r = goodStep mc r"
  by (simp add: goodStep_def stateOf_def)

lemma stateOf_requeue [simp]: "stateOf (requeue d mc) = stateOf mc"
  by (simp add: stateOf_def)

lemma Process_invalid:
  assumes "\<not> IsValidNamespace (mc_Package mc)"
  shows "Process env mc =
    (let mc' = requeue retryNever (setDetail (''Packages namespaces must start with: '' @ PackageNamespace) mc)
     in if stateOf mc = StateUnknown then ret (False, mc') else ret (True, setState StateUnknown mc'))"
  using assms by (simp add: Process_def Let_def stateOf_def setStatus_def)

lemma Process_valid:
  "IsValidNamespace (mc_Package mc) \<Longrightarrow>
     Process env mc = getState env (stateOf mc) (requeue retryLong mc)"
  by (simp add: Process_def stateOf_def)

lemma goodStep_getState:
  assumes "IsValidNamespace (mc_Package mc)"
  shows "wlp (getState env (stateOf mc) mc) (\<lambda>r _. goodStep mc r) w"
proof (cases "phase_of (stateOf mc)")
  case Initial
  then have "stateOf mc = [] \<or> stateOf mc = StateInitializing"
    by (auto simp: phase_of_def split: if_splits)
  then show ?thesis using goodStep_handlers(1) [OF assms Initial, of w] by auto
next
  case Foreign
  then show ?thesis using goodStep_handlers(4) [OF assms Foreign] getState_foreign by metis
qed (simp_all add: phase_of_inj assms goodStep_handlers goodStep_dependencies goodStep_installing
    goodStep_installed goodStep_uninstalling)

lemma Process_goodStep: "wlp (Process env mc) (\<lambda>r _. goodStep mc r) w"
proof (cases "IsValidNamespace (mc_Package mc)")
  case True
  then show ?thesis
    using goodStep_getState [of "requeue retryLong mc" env w] by (simp add: Process_valid)
next
  case False
  then show ?thesis
    by (auto simp: Process_invalid Let_def goodStep_def stateOf_def)
qed

section \<open>Dependencies\<close>

lemma matchDep_Some:
  "matchDep n acc items = Some p \<Longrightarrow>
     (p \<in> set items \<and> spec_PackageName (pkg_Spec p) = n) \<or> acc = Some p"
  by (induction items arbitrary: acc) (auto split: if_splits)

lemma matchDep_rev:
  "matchDep n acc items =
     (case find (\<lambda>i. spec_PackageName (pkg_Spec i) = n) (rev items) of None \<Rightarrow> acc | Some p \<Rightarrow> Some p)"
proof (induction items arbitrary: acc)
  case (Cons i items)
  have "find P (xs @ [i]) = (case find P xs of None \<Rightarrow> if P i then Some i else None | Some y \<Rightarrow> Some y)"
    for P :: "Package \<Rightarrow> bool" and xs
    by (induction xs) auto
  then show ?case using Cons by (simp split: option.split)
qed simp

text \<open>A dependency is ready when the package found for it is installed.\<close>

definition depReady :: "Package list \<Rightarrow> BundlePackage \<Rightarrow> bool" where
  "depReady items dep \<longleftrightarrow> (case matchDep (bp_Name dep) None items of
     None \<Rightarrow> False | Some p \<Rightarrow> st_State (pkg_Status p) = StateInstalled)"

lemma depReady_installed:
  "depReady items dep \<Longrightarrow>
     \<exists>p\<in>set items. spec_PackageName (pkg_Spec p) = bp_Name dep \<and> st_State (pkg_Status p) = StateInstalled"
  by (auto simp: depReady_def split: option.splits dest: matchDep_Some)

text \<open>The names a package waits for, and the packages that are created, are those of the
  dependencies that are not ready, in order.\<close>

lemma pkgsNotReady_wlp:
  "wlp (pkgsNotReady client this items deps)
     (\<lambda>ps _. map (\<lambda>p. spec_PackageName (pkg_Spec p)) ps =
        map bp_Name (filter (\<lambda>d. \<not> depReady items d) deps)) x"
proof (induction deps arbitrary: x)
  case (Cons dep deps)
  show ?case
  proof (cases "matchDep (bp_Name dep) None items")
    case None
    show ?thesis
      unfolding pkgsNotReady.simps None option.case Let_def
      by (rule wlp_bind_any, unfold wlp_simps, rule wlp_mono [OF Cons])
        (simp add: depReady_def None dependencyPackage_def NewPackage_def)
  next
    case (Some p)
    then have "spec_PackageName (pkg_Spec p) = bp_Name dep" by (auto dest: matchDep_Some)
    then show ?thesis
      unfolding pkgsNotReady.simps Some option.case wlp_simps
      by (intro wlp_mono [OF Cons]) (simp add: depReady_def Some)
  qed
qed simp

text \<open>With every dependency ready the loop touches nothing.\<close>

lemma pkgsNotReady_ready:
  "\<forall>d\<in>set deps. depReady items d \<Longrightarrow> pkgsNotReady client this items deps x = (Ret [], x)"
  by (induction deps arbitrary: x) (auto simp: depReady_def bindM_def split: option.splits)

lemma dependencies_Ret:
  assumes "processInstallingDependencies env mc w = (Ret (b, mc'), w')"
    and "stateOf mc = StateInstallingDependencies"
  shows "stateOf mc' = StateInstalling \<longleftrightarrow>
    (\<exists>deps pkgs w1. bundleDependencies (mc_Bundle mc) (mc_Version mc) = Ret (Inr deps) \<and>
       onWorld (bc_GetPackageList (env_client env) (pkg_Namespace (mc_Package mc))) w =
         (Ret (Inr pkgs), w1) \<and> (\<forall>d\<in>set deps. depReady (pl_Items pkgs) d))"
proof -
  have state: "StateInstallingDependencies \<noteq> StateInstalling" by (simp add: state_defs)
  have ready: "notReady = [] \<longleftrightarrow> (\<forall>d\<in>set deps. depReady items d)"
    if "pkgsNotReady client this items deps x = (Ret notReady, x')"
    for notReady client this items deps and x :: 'b and x'
    using wlpD [OF pkgsNotReady_wlp that] by (metis (mono_tags, lifting) filter_empty_conv map_is_Nil_conv)
  show ?thesis
    using assms state
    by (auto simp: processInstallingDependencies_def stateOf_def onWorld_Ret ready
        split: sum.splits option.splits if_splits)
qed

section \<open>Installing\<close>

text \<open>The chart source that is passed to the driver: the registry of the controller where the
  bundle names none.\<close>

definition chartSource :: "ManagerContext \<Rightarrow> PackageOCISource" where
  "chartSource mc = (if oci_Registry (mc_Source mc) = []
     then (mc_Source mc)\<lparr>oci_Registry := GetDefaultRegistry (mc_PBC mc)\<rparr> else mc_Source mc)"

text \<open>The values a chart gets from a configuration map.\<close>

definition chartValues :: "ManagerContext \<Rightarrow> gvalues \<Rightarrow> gvalues go" where
  "chartValues mc values =
     (case getImageRegistry mc values of
        Panic p \<Rightarrow> Panic p
      | Ret registry \<Rightarrow> mapPut values sourceRegistry (VStr registry))"

lemma chartSource_version [simp]: "oci_Version (chartSource mc) = oci_Version (mc_Source mc)"
  by (simp add: chartSource_def)

lemma chartValues_Ret:
  "chartValues mc values = Ret v \<longleftrightarrow>
     (\<exists>r. getImageRegistry mc values = Ret r \<and> mapPut values sourceRegistry (VStr r) = Ret v)"
  by (auto simp: chartValues_def split: go.splits)

definition installCall ::
  "('d, 'x) managerEnv \<Rightarrow> ManagerContext \<Rightarrow> gvalues \<Rightarrow> ('d \<times> 'x, goerr option) gom" where
  "installCall env mc values =
     drv_Install (env_driver env) (pkg_Name (mc_Package mc))
       (spec_TargetNamespace (pkg_Spec (mc_Package mc))) (pbcs_CreateNamespace (pbc_Spec (mc_PBC mc)))
       (chartSource mc) values"

text \<open>An installation that succeeds: the configuration decodes, the driver connects to the cluster
  and the install returns without an error.\<close>

definition installSucceeds ::
  "('d, 'x) managerEnv \<Rightarrow> ManagerContext \<Rightarrow> 'd \<times> 'x \<Rightarrow> 'd \<times> 'x \<Rightarrow> bool" where
  "installSucceeds env mc w w' \<longleftrightarrow>
    (\<exists>values v w1. GetValues (env_yaml env) (mc_Package mc) = Inr values \<and>
       chartValues mc values = Ret v \<and>
       drv_Initialize (env_driver env) (GetClusterName (mc_Package mc)) w = (Ret None, w1) \<and>
       installCall env mc v w1 = (Ret None, w'))"

lemma processInstalling_Ret:
  assumes "processInstalling env mc w = (Ret (b, mc'), w')" and "stateOf mc = StateInstalling"
  shows "stateOf mc' = StateInstalled \<longleftrightarrow> installSucceeds env mc w w'"
    and "\<not> installSucceeds env mc w w' \<Longrightarrow> stateOf mc' = StateInstalling"
    and "st_Source (pkg_Status (mc_Package mc')) = mc_Source mc"
    and "installSucceeds env mc w w' \<Longrightarrow> st_CurrentVersion (pkg_Status (mc_Package mc')) = oci_Version (mc_Source mc) \<and>
      st_Spec (pkg_Status (mc_Package mc')) = pkg_Spec (mc_Package mc)"
proof -
  have state: "StateInstalling \<noteq> StateInstalled" by (simp add: state_defs)
  note simps = installSucceeds_def processInstalling_def Let_def stateOf_def chartValues_Ret installCall_def
    chartSource_def
  show "stateOf mc' = StateInstalled \<longleftrightarrow> installSucceeds env mc w w'"
    using assms state by (auto simp: simps split: sum.splits option.splits if_splits)
  show "\<not> installSucceeds env mc w w' \<Longrightarrow> stateOf mc' = StateInstalling"
    using assms by (auto simp: simps split: sum.splits option.splits if_splits)
  show "st_Source (pkg_Status (mc_Package mc')) = mc_Source mc"
    using assms by (auto simp: simps split: sum.splits option.splits if_splits)
  show "installSucceeds env mc w w' \<Longrightarrow> st_CurrentVersion (pkg_Status (mc_Package mc')) = oci_Version (mc_Source mc) \<and>
      st_Spec (pkg_Status (mc_Package mc')) = pkg_Spec (mc_Package mc)"
    using assms by (auto simp: simps split: sum.splits option.splits if_splits)
qed

section \<open>Runs of a package\<close>

text \<open>The status records which version is installed.\<close>

definition statusInv :: "Package \<Rightarrow> bool" where
  "statusInv p \<longleftrightarrow> (st_State (pkg_Status p) = StateInstalled \<longrightarrow>
     st_CurrentVersion (pkg_Status p) = oci_Version (st_Source (pkg_Status p)))"

lemma statusInv_off: "phase_of (st_State (pkg_Status p)) \<noteq> Installed \<Longrightarrow> statusInv p"
  by (auto simp: statusInv_def)

lemma statusInv_installing:
  "stateOf mc = StateInstalling \<Longrightarrow>
     wlp (processInstalling env mc) (\<lambda>(b, mc') _. statusInv (mc_Package mc')) w"
proof (rule wlpI, clarify)
  fix b mc' d' x'
  assume "stateOf mc = StateInstalling" and "processInstalling env mc w = (Ret (b, mc'), (d', x'))"
  note run = processInstalling_Ret [OF this(2,1)]
  show "statusInv (mc_Package mc')"
    using run(1,3,4) by (simp add: statusInv_def stateOf_def)
qed

lemma statusInv_installed:
  "statusInv (mc_Package mc) \<Longrightarrow>
     wlp (processInstalled env mc) (\<lambda>(b, mc') _. statusInv (mc_Package mc')) w"
  unfolding processInstalled_def
  by (auto simp: statusInv_def state_defs simp del: wlp_simps(4) intro!: wlp_bind_any
      split: sum.split option.split)

lemma Process_statusInv:
  assumes "statusInv (mc_Package mc)"
  shows "wlp (Process env mc) (\<lambda>(b, mc') _. statusInv (mc_Package mc')) w"
proof -
  let ?ok = "IsValidNamespace (mc_Package mc)" and ?ph = "phase_of (stateOf mc)"
  consider "?ok" "?ph = Installing" | "?ok" "?ph = Installed" | "\<not> ?ok \<or> ?ph \<noteq> Installing \<and> ?ph \<noteq> Installed"
    by blast
  then show ?thesis
  proof cases
    case 1
    then show ?thesis
      using statusInv_installing [of "requeue retryLong mc" env w] by (simp add: Process_valid phase_of_inj)
  next
    case 2
    then show ?thesis
      using statusInv_installed [of "requeue retryLong mc" env w] assms
      by (simp add: Process_valid phase_of_inj)
  next
    case 3
    show ?thesis
      by (rule wlp_mono [OF Process_goodStep])
        (use 3 in \<open>auto simp: goodStep_def stateOf_def elim!: phase_step_to_Installed intro: statusInv_off\<close>)
  qed
qed

text \<open>A package as the reconciler sees it over time: it is created with an empty status, its owner
  edits the spec, and each pass of the manager, in any world and with any source, stores the status
  it reports.\<close>

inductive packageRun :: "('d, 'x) managerEnv \<Rightarrow> Package \<Rightarrow> bool" for env where
  created: "pkg_Status p = zeroStatus \<Longrightarrow> packageRun env p"
| edited: "packageRun env p \<Longrightarrow> packageRun env (p\<lparr>pkg_Spec := spec\<rparr>)"
| stored: "packageRun env (mc_Package mc) \<Longrightarrow> Process env mc w = (Ret (True, mc'), w') \<Longrightarrow>
     packageRun env (mc_Package mc')"

definition runInv :: "Package \<Rightarrow> bool" where
  "runInv p \<longleftrightarrow> statusInv p \<and>
     (let ph = phase_of (st_State (pkg_Status p))
      in if IsValidNamespace p then ph \<in> {Initial, Dependencies, Installing, Installed, Updating}
         else ph \<in> {Initial, Unknown})"

lemma sameObject_namespace: "sameObject p q \<Longrightarrow> IsValidNamespace q = IsValidNamespace p"
  by (metis sameObject_def namespace_simps(2))

lemma packageRun_runInv: "packageRun env p \<Longrightarrow> runInv p"
proof (induction rule: packageRun.induct)
  case (created p)
  then show ?case by (simp add: runInv_def statusInv_def zeroStatus_def state_defs)
next
  case (edited p spec)
  then show ?case by (auto simp: runInv_def statusInv_def Let_def IsValidNamespace_iff split: if_splits)
next
  case (stored mc w mc' w')
  have good: "goodStep mc (True, mc')"
    using wlpD [OF Process_goodStep stored.hyps(2)] .
  then have ns: "IsValidNamespace (mc_Package mc') = IsValidNamespace (mc_Package mc)"
    by (simp add: goodStep_def sameObject_namespace)
  have "statusInv (mc_Package mc')"
    using wlpD [OF Process_statusInv stored.hyps(2)] stored.IH by (simp add: runInv_def)
  then show ?case
    using good stored.IH ns
    by (cases "IsValidNamespace (mc_Package mc)") (auto simp: runInv_def goodStep_def stateOf_def)
qed

section \<open>Passes that succeed\<close>

lemma processInstalling_succeeds:
  assumes "installSucceeds env mc w w'"
  shows "\<exists>mc'. processInstalling env mc w = (Ret (True, mc'), w') \<and> stateOf mc' = StateInstalled \<and>
    st_CurrentVersion (pkg_Status (mc_Package mc')) = oci_Version (mc_Source mc) \<and>
    st_Spec (pkg_Status (mc_Package mc')) = pkg_Spec (mc_Package mc)"
  using assms
  by (auto simp: installSucceeds_def processInstalling_def Let_def stateOf_def chartValues_Ret
      installCall_def chartSource_def bindM_def split: if_splits)

lemma processInstallingDependencies_succeeds:
  assumes "bundleDependencies (mc_Bundle mc) (mc_Version mc) = Ret (Inr deps)"
    and "bc_GetPackageList (env_client env) (pkg_Namespace (mc_Package mc)) x = (Ret (Inr pkgs), x1)"
    and "\<forall>dep\<in>set deps. depReady (pl_Items pkgs) dep"
  shows "processInstallingDependencies env mc (d, x) =
    (Ret (True, setDetail [] (setState StateInstalling mc)), (d, x1))"
  using assms by (simp add: processInstallingDependencies_def bindM_def onWorld_def pkgsNotReady_ready)

text \<open>Consecutive passes of the manager over one context.\<close>

fun passes :: "nat \<Rightarrow> ('d, 'x) managerEnv \<Rightarrow> ManagerContext \<Rightarrow> ('d \<times> 'x, ManagerContext) gom" where
  "passes 0 env mc = ret mc"
| "passes (Suc n) env mc = bindM (Process env mc) (\<lambda>(_, mc'). passes n env mc')"

lemma passes_step:
  "Process env mc w = (Ret (b, mc'), w') \<Longrightarrow> passes (Suc n) env mc w = passes n env mc' w'"
  by (simp add: bindM_def)

lemma installSucceeds_cong:
  assumes "mc_Source mc' = mc_Source mc" "mc_PBC mc' = mc_PBC mc"
    "sameObject (mc_Package mc) (mc_Package mc')"
  shows "installSucceeds env mc' w w' = installSucceeds env mc w w'"
proof -
  have p: "mc_Package mc' = (mc_Package mc)\<lparr>pkg_Status := pkg_Status (mc_Package mc')\<rparr>"
    using assms(3) by (simp add: sameObject_def)
  have "pkg_Name (mc_Package mc') = pkg_Name (mc_Package mc)"
    "pkg_Spec (mc_Package mc') = pkg_Spec (mc_Package mc)"
    "GetClusterName (mc_Package mc') = GetClusterName (mc_Package mc)"
    "GetValues (env_yaml env) (mc_Package mc') = GetValues (env_yaml env) (mc_Package mc)"
    by (subst p, simp)+
  moreover have "chartValues mc' = chartValues mc"
    unfolding chartValues_def getImageRegistry_def assms(2) by (rule refl)
  ultimately show ?thesis
    using assms(1,2) by (simp add: installSucceeds_def installCall_def chartSource_def)
qed

lemma three_passes:
  assumes ns: "IsValidNamespace (mc_Package mc)" and new: "stateOf mc = []"
    and deps: "bundleDependencies (mc_Bundle mc) (mc_Version mc) = Ret (Inr deps)"
    and list: "bc_GetPackageList (env_client env) (pkg_Namespace (mc_Package mc)) x = (Ret (Inr pkgs), x1)"
    and ready: "\<forall>dep\<in>set deps. depReady (pl_Items pkgs) dep"
    and inst: "installSucceeds env mc (d, x1) w'"
  shows "\<exists>mc'. passes 3 env mc (d, x) = (Ret mc', w') \<and> stateOf mc' = StateInstalled \<and>
    st_CurrentVersion (pkg_Status (mc_Package mc')) = oci_Version (mc_Source mc) \<and>
    st_Spec (pkg_Status (mc_Package mc')) = pkg_Spec (mc_Package mc)"
proof -
  define mc1 where "mc1 = copySpec (requeue retryNow (setState StateInstallingDependencies
      (setSource (mc_Source mc) (requeue retryLong mc))))"
  define mc2 where "mc2 = setDetail [] (setState StateInstalling (requeue retryLong mc1))"
  have frame [simp]: "mc_Source mc2 = mc_Source mc" "mc_PBC mc2 = mc_PBC mc"
    "pkg_Spec (mc_Package mc2) = pkg_Spec (mc_Package mc)"
    "mc_Bundle mc1 = mc_Bundle mc" "mc_Version mc1 = mc_Version mc"
    "pkg_Namespace (mc_Package mc1) = pkg_Namespace (mc_Package mc)"
    "stateOf mc1 = StateInstallingDependencies" "stateOf mc2 = StateInstalling"
    by (simp_all add: mc1_def mc2_def copySpec_def stateOf_def)
  have so: "sameObject (mc_Package mc) (mc_Package mc1)" "sameObject (mc_Package mc) (mc_Package mc2)"
    by (simp_all add: mc1_def mc2_def)
  then have ns1: "IsValidNamespace (mc_Package mc1)" and ns2: "IsValidNamespace (mc_Package mc2)"
    using ns sameObject_namespace by blast+
  have 1: "Process env mc w = (Ret (True, mc1), w)" for w
    using ns new by (simp add: Process_valid processInitializing_def mc1_def)
  have 2: "Process env mc1 (d, x) = (Ret (True, mc2), (d, x1))"
    using deps list ready ns1
    by (simp add: Process_valid processInstallingDependencies_succeeds mc2_def)
  have "installSucceeds env (requeue retryLong mc2) (d, x1) w'"
    using inst so(2) installSucceeds_cong [of "requeue retryLong mc2" mc env "(d, x1)" w'] by simp
  from processInstalling_succeeds [OF this] obtain mc3 where
    run3: "processInstalling env (requeue retryLong mc2) (d, x1) = (Ret (True, mc3), w')" and
    r: "stateOf mc3 = StateInstalled"
      "st_CurrentVersion (pkg_Status (mc_Package mc3)) = oci_Version (mc_Source mc)"
      "st_Spec (pkg_Status (mc_Package mc3)) = pkg_Spec (mc_Package mc)"
    by auto
  have 3: "Process env mc2 (d, x1) = (Ret (True, mc3), w')"
    using ns2 run3 by (simp add: Process_valid)
  have "passes 3 env mc (d, x) = (Ret mc3, w')"
    by (simp only: numeral_3_eq_3 passes_step [OF 1] passes_step [OF 2] passes_step [OF 3]
        passes.simps(1) ret_apply)
  with r show ?thesis by blast
qed

section \<open>An installed package\<close>

definition registryOk :: "gvalues \<Rightarrow> bool" where
  "registryOk values \<longleftrightarrow> values \<noteq> None \<and>
     (case mapGet values sourceRegistry of None \<Rightarrow> True | Some (VStr _) \<Rightarrow> True | _ \<Rightarrow> False)"

lemma registryOk_Ret:
  assumes "registryOk values"
  obtains f r where "values = Some f" "getImageRegistry mc values = Ret r"
    "chartValues mc values = Ret (Some (f(sourceRegistry \<mapsto> VStr r)))"
proof -
  obtain f where f: "values = Some f" using assms by (auto simp: registryOk_def)
  have "\<exists>r. getImageRegistry mc values = Ret r"
    using assms by (auto simp: registryOk_def getImageRegistry_def split: option.splits val.splits)
  then obtain r where "getImageRegistry mc values = Ret r" ..
  with f that show thesis by (simp add: chartValues_def mapPut_def)
qed

lemma not_registryOk_panics:
  assumes "\<not> registryOk values"
  shows "\<exists>p. bindM (ofGo (getImageRegistry mc values)) (\<lambda>registry.
    bindM (ofGo (mapPut values sourceRegistry (VStr registry))) k) w = (Panic p, w)"
  using assms
  by (auto simp: registryOk_def getImageRegistry_def mapPut_def bindM_def ofGo_def mapGet_def
      split: option.splits val.splits)

text \<open>Where a pass over an installed package panics: the package is not outdated, its configuration
  decodes to no map or to a registry that is not a string, and the driver is connected.\<close>

definition installedPanics ::
  "('d, 'x) managerEnv \<Rightarrow> ManagerContext \<Rightarrow> 'd \<times> 'x \<Rightarrow> bool" where
  "installedPanics env mc w \<longleftrightarrow>
     st_Source (pkg_Status (mc_Package mc)) = mc_Source mc \<and>
     (case env_yaml env (spec_Config (pkg_Spec (mc_Package mc))) of
        Inl _ \<Rightarrow> False | Inr values \<Rightarrow> \<not> registryOk values) \<and>
     fst (drv_Initialize (env_driver env) (GetClusterName (mc_Package mc)) w) = Ret None"

lemma installedPanics_requeue [simp]:
  "installedPanics env (requeue r mc) w = installedPanics env mc w"
  by (simp add: installedPanics_def)

context package_driver
begin

lemma installed_readonly:
  assumes "env_driver env = D"
  shows "\<exists>r d'. processInstalled env mc (d, x) = (r, (d', x)) \<and>
    ((\<exists>p. r = Panic p) \<longleftrightarrow> installedPanics env mc (d, x))"
proof (cases "env_yaml env (spec_Config (pkg_Spec (mc_Package mc)))")
  case (Inr v)
  obtain e d' where e: "drv_Initialize D (GetClusterName (mc_Package mc)) (d, x) = (Ret e, (d', x))"
    and d': "e = None \<Longrightarrow> ready d'"
    using init_runs [where c = "GetClusterName (mc_Package mc)" and d = d and x = x] by (auto elim!: runsE)
  show ?thesis
  proof (cases "st_Source (pkg_Status (mc_Package mc)) = mc_Source mc \<and> e = None")
    case True
    have into: "processInstalled env mc (d, x) =
        bindM (ofGo (getImageRegistry mc v)) (\<lambda>registry.
        bindM (ofGo (mapPut v sourceRegistry (VStr registry))) (\<lambda>newValues.
        bindM (drv_IsConfigChanged D (pkg_Name (mc_Package mc)) newValues) (\<lambda>r.
        case r of
          Inl err \<Rightarrow> ret (True, requeue retryLong (setDetail (err_msg err) mc))
        | Inr needs \<Rightarrow>
            if needs then ret (True, copySpec (requeue retryShort (setState StateUpdating mc)))
            else ret (False, requeue retryVeryLong mc)))) (d', x)"
      using True by (simp add: processInstalled_def Inr assms bindM_def [of "drv_Initialize D _"] e)
    show ?thesis
    proof (cases "registryOk v")
      case ok: True
      obtain f r where v: "v = Some f" and r: "getImageRegistry mc (Some f) = Ret r"
        by (rule registryOk_Ret [OF ok, of mc]) blast
      obtain c where "drv_IsConfigChanged D (pkg_Name (mc_Package mc))
          (Some (f(sourceRegistry \<mapsto> VStr r))) (d', x) = (Ret c, (d', x))"
        using changed_runs [where d = d' and x = x and n = "pkg_Name (mc_Package mc)"] d' True by (auto elim!: runsE)
      then show ?thesis
        unfolding into using ok
        by (auto simp: v r mapPut_def ofGo_def bindM_def ret_def installedPanics_def Inr
            split: sum.split)
    next
      case False
      then have "installedPanics env mc (d, x)"
        using True by (simp add: installedPanics_def Inr assms e)
      then show ?thesis
        unfolding into using not_registryOk_panics [OF False] by (metis prod.inject)
    qed
  next
    case False
    then show ?thesis
      by (cases e) (auto simp: processInstalled_def installedPanics_def Inr assms bindM_def e ret_def)
  qed
qed (auto simp: processInstalled_def installedPanics_def ret_def)

end

section \<open>When a package is looked at again\<close>

lemma requeue_handlers:
  assumes "mc_RequeueAfter mc = retryLong"
  shows "wlp (processInitializing mc) (\<lambda>(b, mc') _. mc_RequeueAfter mc' > 0) w"
    and "wlp (processUpdating mc) (\<lambda>(b, mc') _. mc_RequeueAfter mc' > 0) w"
    and "wlp (processInstallingDependencies env mc) (\<lambda>(b, mc') _. mc_RequeueAfter mc' > 0) v"
    and "wlp (processInstalling env mc) (\<lambda>(b, mc') _. mc_RequeueAfter mc' > 0) v"
    and "wlp (processInstalled env mc) (\<lambda>(b, mc') _. mc_RequeueAfter mc' > 0) v"
  using assms
  unfolding processInitializing_def processUpdating_def processInstallingDependencies_def
    processInstalling_def processInstalled_def Let_def
  by (auto simp: retry_defs simp del: wlp_simps(4) intro!: wlp_bind_any
      split: sum.split option.split)

lemma requeue_final:
  "wlp (processDone mc) (\<lambda>(b, mc') _. mc_RequeueAfter mc' = 0) w"
  "wlp (processUnknown mc) (\<lambda>(b, mc') _. mc_RequeueAfter mc' = 0) w"
  by (simp_all add: processDone_def processUnknown_def retryNever_def)

text \<open>Uninstalling is over exactly when the driver has connected and removed the release.\<close>

definition uninstallSucceeds ::
  "('d, 'x) managerEnv \<Rightarrow> ManagerContext \<Rightarrow> 'd \<times> 'x \<Rightarrow> 'd \<times> 'x \<Rightarrow> bool" where
  "uninstallSucceeds env mc w w' \<longleftrightarrow>
     (\<exists>w1. drv_Initialize (env_driver env) (GetClusterName (mc_Package mc)) w = (Ret None, w1) \<and>
        drv_Uninstall (env_driver env) (pkg_Name (mc_Package mc)) w1 = (Ret None, w'))"

lemma processUninstalling_Ret:
  assumes "processUninstalling env mc w = (Ret (b, mc'), w')" "mc_RequeueAfter mc = retryLong"
  shows "mc_RequeueAfter mc' = (if uninstallSucceeds env mc w w' then retryNever else retryLong)"
  using assms
  by (auto simp: processUninstalling_def uninstallSucceeds_def split: option.splits)

lemma Process_requeue:
  "wlp (Process env mc) (\<lambda>(b, mc') w'. mc_RequeueAfter mc' = 0 \<longleftrightarrow>
     \<not> IsValidNamespace (mc_Package mc) \<or> phase_of (stateOf mc) \<in> {Unknown, Foreign} \<or>
     stateOf mc = StateUninstalling \<and> uninstallSucceeds env mc w w') w"
proof (cases "IsValidNamespace (mc_Package mc)")
  case True
  let ?mc = "requeue retryLong mc"
  have pos: "wlp m (\<lambda>(b, mc') _. mc_RequeueAfter mc' > 0) w \<Longrightarrow>
      wlp m (\<lambda>(b, mc') w'. mc_RequeueAfter mc' = 0 \<longleftrightarrow> False) w"
    for m :: "('a \<times> 'b, bool \<times> ManagerContext) gom"
    by (erule wlp_mono) auto
  have uninst: "wlp (processUninstalling env ?mc)
      (\<lambda>(b, mc') w'. mc_RequeueAfter mc' = 0 \<longleftrightarrow> uninstallSucceeds env mc w w') w"
    by (rule wlpI) (auto simp: retry_defs uninstallSucceeds_def split: if_splits
        dest!: processUninstalling_Ret)
  have [simp]: "[] \<noteq> StateUninstalling" "StateInitializing \<noteq> StateUninstalling"
    "StateUpdating \<noteq> StateUninstalling" "StateInstalling \<noteq> StateUninstalling"
    "StateInstallingDependencies \<noteq> StateUninstalling" "StateInstalled \<noteq> StateUninstalling"
    by (simp_all add: state_defs)
  show ?thesis
  proof (cases "phase_of (stateOf mc)")
    case Initial
    then have "stateOf mc = [] \<or> stateOf mc = StateInitializing"
      by (auto simp: phase_of_def split: if_splits)
    then show ?thesis
      using True pos [OF requeue_handlers(1) [of ?mc w]] by (auto simp: Process_valid Initial)
  next
    case Foreign
    then show ?thesis
      using True requeue_final(2) [of ?mc w] by (simp add: Process_valid getState_foreign)
  qed (use True requeue_final(1) [of ?mc w] uninst pos [OF requeue_handlers(2) [of ?mc w]]
      pos [OF requeue_handlers(3) [of ?mc env w]] pos [OF requeue_handlers(4) [of ?mc env w]]
      pos [OF requeue_handlers(5) [of ?mc env w]] in
      \<open>auto simp: Process_valid phase_of_inj\<close>)
next
  case False
  then show ?thesis
    by (auto simp: Process_invalid Let_def retryNever_def)
qed

end
