(* ===== verification/Bundle_Client.thy ===== *)
theory Bundle_Client
  imports Registry
begin

text \<open>
  \<^verbatim>\<open>pkg/bundle/client.go\<close>, \<^verbatim>\<open>pkg/bundle/registry_client.go\<close> and \<^verbatim>\<open>pkg/artifacts\<close>: the
  implementation of \<^verbatim>\<open>bundle.Client\<close> over the controller-runtime client, and of
  \<^verbatim>\<open>RegistryClient\<close> over an OCI registry.  The locale \<open>bundle_client\<close> is the contract the bundle
  manager and the reconcilers rely on: no call panics, and the reads leave the world as it was.
\<close>

section \<open>The manager client\<close>

definition mgr_GetPackageBundleController ::
  "(string \<Rightarrow> string) \<Rightarrow> 'x Client \<Rightarrow> string \<Rightarrow> ('x, goerr + PackageBundleController) gom" where
  "mgr_GetPackageBundleController getenv cl clusterName =
     (let clusterName = (if clusterName = [] then getenv ''CLUSTER_NAME'' else clusterName);
          key = \<lparr>nn_Namespace = PackageNamespace, nn_Name = clusterName\<rparr> in
      bindM (reading (cl_GetPBC cl key)) (\<lambda>r.
      case r of
        Inl err \<Rightarrow> ret (Inl (Errorf (''getting PackageBundleController: '' @ err_msg err)))
      | Inr pbc \<Rightarrow> ret (Inr pbc)))"

definition mgr_GetActiveBundle ::
  "(string \<Rightarrow> string) \<Rightarrow> 'x Client \<Rightarrow> string \<Rightarrow> ('x, goerr + PackageBundle) gom" where
  "mgr_GetActiveBundle getenv cl clusterName =
     bindM (mgr_GetPackageBundleController getenv cl clusterName) (\<lambda>r.
     case r of
       Inl err \<Rightarrow> ret (Inl err)
     | Inr pbc \<Rightarrow>
         if pbcs_ActiveBundle (pbc_Spec pbc) = []
         then ret (Inl (Errorf ''no activeBundle set in PackageBundleController''))
         else
           let nn = \<lparr>nn_Namespace = PackageNamespace, nn_Name = pbcs_ActiveBundle (pbc_Spec pbc)\<rparr> in
           bindM (reading (cl_GetBundle cl nn)) (\<lambda>b.
           case b of Inl err \<Rightarrow> ret (Inl err) | Inr activeBundle \<Rightarrow> ret (Inr activeBundle)))"

definition mgr_GetBundle :: "'x Client \<Rightarrow> string \<Rightarrow> ('x, goerr + PackageBundle option) gom" where
  "mgr_GetBundle cl name =
     bindM (reading (cl_GetBundle cl \<lparr>nn_Namespace = PackageNamespace, nn_Name = name\<rparr>)) (\<lambda>r.
     case r of
       Inl err \<Rightarrow> if IsNotFound err then ret (Inr None) else ret (Inl err)
     | Inr namedBundle \<Rightarrow> ret (Inr (Some namedBundle)))"

definition mgr_GetSecret :: "'x Client \<Rightarrow> string \<Rightarrow> ('x, goerr + Secret option) gom" where
  "mgr_GetSecret cl name =
     (let nn = \<lparr>nn_Namespace = PackageNamespace, nn_Name = name\<rparr> in
      bindM (reading (cl_GetSecret cl nn)) (\<lambda>r.
      case r of
        Inl err \<Rightarrow>
          if IsNotFound err then ret (Inr None)
          else ret (Inl (Errorf (''getting secret '' @ nnString nn @ '' error:'' @ err_msg err)))
      | Inr secret \<Rightarrow> ret (Inr (Some secret))))"

definition mgr_GetBundleList :: "'x Client \<Rightarrow> ('x, goerr + PackageBundle list) gom" where
  "mgr_GetBundleList cl =
     bindM (reading (cl_ListBundles cl PackageNamespace)) (\<lambda>r.
     case r of
       Inl err \<Rightarrow> ret (Inl (Errorf (''listing package bundles: '' @ err_msg err)))
     | Inr items \<Rightarrow> ret (Inr items))"

definition mgr_CreateClusterNamespace :: "'x Client \<Rightarrow> string \<Rightarrow> ('x, goerr option) gom" where
  "mgr_CreateClusterNamespace cl clusterName =
     (let name = PackageNamespace @ ''-'' @ clusterName in
      bindM (reading (cl_GetNamespace cl name)) (\<lambda>r.
      case r of
        Inr _ \<Rightarrow> ret None
      | Inl err \<Rightarrow>
          if \<not> IsNotFound err then ret (Some err)
          else bindM (call (cl_CreateNamespace cl name)) (\<lambda>e.
               case e of Some err \<Rightarrow> ret (Some err) | None \<Rightarrow> ret None)))"

text \<open>The config map that a new cluster starts with.\<close>

definition clusterConfigMap :: "string \<Rightarrow> ConfigMap" where
  "clusterConfigMap clusterName =
     (let namespace = PackageNamespace @ ''-'' @ clusterName in
      \<lparr>cm_Name = ConfigMapName, cm_Namespace = namespace,
       cm_Data = Some [namespace \<mapsto> ''eksa-package-controller'',
                       ''emissary-system'' \<mapsto> ''eksa-package-placeholder'']\<rparr>)"

definition mgr_CreateClusterConfigMap :: "'x Client \<Rightarrow> string \<Rightarrow> ('x, goerr option) gom" where
  "mgr_CreateClusterConfigMap cl clusterName =
     (let namespace = PackageNamespace @ ''-'' @ clusterName;
          key = \<lparr>nn_Namespace = namespace, nn_Name = ConfigMapName\<rparr> in
      bindM (reading (cl_GetConfigMap cl key)) (\<lambda>r.
      case r of
        Inr _ \<Rightarrow> ret None
      | Inl err \<Rightarrow>
          if \<not> IsNotFound err then ret (Some err)
          else bindM (call (cl_CreateConfigMap cl (clusterConfigMap clusterName))) (\<lambda>e.
               case e of Some err \<Rightarrow> ret (Some err) | None \<Rightarrow> ret None)))"

definition mgr_CreatePackage :: "'x Client \<Rightarrow> Package \<Rightarrow> ('x, goerr option) gom" where
  "mgr_CreatePackage cl pkg = call (cl_CreatePackage cl pkg)"

text \<open>\<^verbatim>\<open>return list, p.Client.List(ctx, &list, ...)\<close>: the call is evaluated before the list is
  copied to the result, as the Go compiler orders them.\<close>

definition mgr_GetPackageList :: "'x Client \<Rightarrow> string \<Rightarrow> ('x, goerr + PackageList) gom" where
  "mgr_GetPackageList cl namespace =
     bindM (reading (cl_ListPackages cl namespace)) (\<lambda>r.
     case r of Inl err \<Rightarrow> ret (Inl err) | Inr items \<Rightarrow> ret (Inr \<lparr>pl_Items = items\<rparr>))"

definition mgr_CreateBundle :: "'x Client \<Rightarrow> PackageBundle \<Rightarrow> ('x, goerr option) gom" where
  "mgr_CreateBundle cl bundle =
     bindM (call (cl_CreateBundle cl bundle)) (\<lambda>e.
     case e of
       Some err \<Rightarrow> ret (Some (Errorf (''creating new package bundle: '' @ err_msg err)))
     | None \<Rightarrow> ret None)"

definition mgr_SaveStatus :: "'x Client \<Rightarrow> PackageBundleController \<Rightarrow> ('x, goerr option) gom" where
  "mgr_SaveStatus cl object = call (cl_StatusPBC cl object)"

definition mgr_Save :: "'x Client \<Rightarrow> PackageBundleController \<Rightarrow> ('x, goerr option) gom" where
  "mgr_Save cl object = call (cl_UpdatePBC cl object)"

definition managerClient :: "(string \<Rightarrow> string) \<Rightarrow> 'x Client \<Rightarrow> 'x BundleClient" where
  "managerClient getenv cl =
     \<lparr>bc_GetActiveBundle = mgr_GetActiveBundle getenv cl,
      bc_GetPackageBundleController = mgr_GetPackageBundleController getenv cl,
      bc_GetBundleList = mgr_GetBundleList cl,
      bc_GetBundle = mgr_GetBundle cl,
      bc_GetSecret = mgr_GetSecret cl,
      bc_CreateBundle = mgr_CreateBundle cl,
      bc_CreateClusterConfigMap = mgr_CreateClusterConfigMap cl,
      bc_CreatePackage = mgr_CreatePackage cl,
      bc_GetPackageList = mgr_GetPackageList cl,
      bc_SaveStatus = mgr_SaveStatus cl,
      bc_Save = mgr_Save cl\<rparr>"

section \<open>The registry client\<close>

text \<open>Whether \<^verbatim>\<open>bytes.TrimSpace\<close> leaves nothing: every rune of the text is a space of Unicode,
  in its UTF-8 encoding.\<close>

definition asciiSpace :: "nat \<Rightarrow> bool" where
  "asciiSpace a \<longleftrightarrow> a \<in> {9, 10, 11, 12, 13, 32}"

definition wideSpace :: "nat \<Rightarrow> nat \<Rightarrow> nat \<Rightarrow> bool" where
  "wideSpace a b c \<longleftrightarrow>
     a = 225 \<and> b = 154 \<and> c = 128 \<or>
     a = 226 \<and> b = 128 \<and> (128 \<le> c \<and> c \<le> 138 \<or> c = 168 \<or> c = 169 \<or> c = 175) \<or>
     a = 226 \<and> b = 129 \<and> c = 159 \<or>
     a = 227 \<and> b = 128 \<and> c = 128"

fun allSpace :: "nat list \<Rightarrow> bool" where
  "allSpace [] = True"
| "allSpace [a] = asciiSpace a"
| "allSpace [a, b] =
     (if asciiSpace a then asciiSpace b else a = 194 \<and> (b = 133 \<or> b = 160))"
| "allSpace (a # b # c # r) =
     (if asciiSpace a then allSpace (b # c # r)
      else if a = 194 \<and> (b = 133 \<or> b = 160) then allSpace (c # r)
      else wideSpace a b c \<and> allSpace r)"

definition blank :: "string \<Rightarrow> bool" where
  "blank data = allSpace (map of_char data)"

definition DownloadBundle ::
  "(string \<Rightarrow> goerr + PackageBundle) \<Rightarrow> (string \<Rightarrow> string \<Rightarrow> ('x, goerr + string) gom) \<Rightarrow>
     string \<Rightarrow> string \<Rightarrow> ('x, goerr + PackageBundle) gom" where
  "DownloadBundle yamlBundle pull ref clusterName =
     bindM (pull ref clusterName) (\<lambda>r.
     case r of
       Inl err \<Rightarrow> ret (Inl (Errorf (''pulling package bundle: '' @ err_msg err)))
     | Inr data \<Rightarrow>
         if blank data then ret (Inl (Errorf ''package bundle artifact is empty''))
         else (case yamlBundle data of
                 Inl err \<Rightarrow> ret (Inl (Errorf (''unmarshalling package bundle: '' @ err_msg err)))
               | Inr bundle \<Rightarrow> ret (Inr bundle)))"

definition LatestBundle ::
  "(string \<Rightarrow> goerr + PackageBundle) \<Rightarrow> (string \<Rightarrow> string \<Rightarrow> ('x, goerr + string) gom) \<Rightarrow>
     string \<Rightarrow> string \<Rightarrow> string \<Rightarrow> string \<Rightarrow> ('x, goerr + PackageBundle) gom" where
  "LatestBundle yamlBundle pull baseRef kubeMajor kubeMinor clusterName =
     (let tag = ''latest'';
          ref = baseRef @ '':v'' @ kubeMajor @ ''-'' @ kubeMinor @ ''-'' @ tag
      in DownloadBundle yamlBundle pull ref clusterName)"

definition registryClient ::
  "(string \<Rightarrow> goerr + PackageBundle) \<Rightarrow> (string \<Rightarrow> string \<Rightarrow> ('x, goerr + string) gom) \<Rightarrow>
     'x RegistryClient" where
  "registryClient yamlBundle pull =
     \<lparr>rc_LatestBundle = LatestBundle yamlBundle pull,
      rc_DownloadBundle = DownloadBundle yamlBundle pull\<rparr>"

text \<open>\<^verbatim>\<open>RegistryPuller.Pull\<close>: a certificate or a credential file that cannot be read is logged; without
  the file the store stays nil, and the pull panics if the registry asks for credentials.  The docker
  library loads the configuration, detects the default store and looks up credentials;
  \<open>newRegistry\<close> is \<^verbatim>\<open>remote.NewRegistry\<close>.\<close>

record 'x DockerLib =
  dk_Load :: "'x \<Rightarrow> string \<Rightarrow> goerr + configFile"
  dk_DetectDefaultStore :: "string \<Rightarrow> string"
  dk_Get :: "configFile \<Rightarrow> string \<Rightarrow> goerr + dockerAuthConfig"

definition Pull ::
  "'x KubeLib \<Rightarrow> ('r, 'x) OrasLib \<Rightarrow> 'x DockerLib \<Rightarrow> (string \<Rightarrow> goerr + string list) \<Rightarrow>
     (string \<Rightarrow> goerr option) \<Rightarrow> string \<Rightarrow> string \<Rightarrow> ('x, goerr + string) gom" where
  "Pull kl oras docker manifestLayers newRegistry ref clusterName =
     (case ParseArtifactFromURI ref of
        Inl err \<Rightarrow> ret (Inl err)
      | Inr art \<Rightarrow>
          bindM (reading (GetClusterCertificate kl clusterName)) (\<lambda>c.
          let certificates = (case c of Inl err \<Rightarrow> None | Inr pool \<Rightarrow> pool) in
          bindM (reading (\<lambda>x. CredentialsConfigLoad (dk_Load docker x))) (\<lambda>f.
          let store = (case f of
                         Inl err \<Rightarrow> None
                       | Inr configFile \<Rightarrow>
                           Some (NewDockerCredentialStore (dk_DetectDefaultStore docker) configFile));
              sc = NewStorageContext (art_Registry art) store certificates False in
          case newRegistry (art_Registry art) of
            Some err \<Rightarrow> ret (Inl err)
          | None \<Rightarrow> PullBytes manifestLayers (NewOCIRegistry (dk_Get docker) oras sc) art)))"

text \<open>A fetch of the oras library returns when the credential function does.\<close>

definition oras_law :: "('r, 'x) OrasLib \<Rightarrow> bool" where
  "oras_law oras \<longleftrightarrow> (\<forall>credential r i x. (\<forall>h. \<exists>c. credential h = Ret c) \<longrightarrow>
     (\<exists>v. oras_FetchBytes oras credential r i x = Ret v) \<and>
     (\<exists>v. oras_FetchBlob oras credential r i x = Ret v))"

lemma Credential_Some: "\<exists>c. Credential get (Some store) h = Ret c"
  by (simp add: Credential_def split: sum.split)

lemma PullBytes_runs:
  assumes "oras_law oras" and "sc_credentialStore sc = Some store"
  shows "runs (PullBytes ml (NewOCIRegistry get oras sc) art) (\<lambda>_ x'. x' = x) x"
proof -
  have fetch: "\<exists>v. oras_FetchBytes oras (Credential get (Some store)) r i x = Ret v"
    "\<exists>v. oras_FetchBlob oras (Credential get (Some store)) r i x = Ret v" for r i x
    using assms(1) Credential_Some [of get store] by (auto simp: oras_law_def)
  have bytes: "runs (FetchBytes oras (Credential get (Some store)) r a) (\<lambda>_ x'. x' = x) x"
    and blob: "runs (FetchBlob oras (Credential get (Some store)) r i) (\<lambda>_ x'. x' = x) x" for r a i
    using fetch(1) [of r "VersionedImage a" x] fetch(2) [of r i x]
    by (auto simp: FetchBytes_def FetchBlob_def)
  have storage: "runs (GetStorage oras sc art) (\<lambda>_ x'. x' = x) x"
    by (simp add: GetStorage_def Let_def split: sum.split)
  show ?thesis
    unfolding PullBytes_def NewOCIRegistry_def Let_def assms(2) StorageClient.simps runs_simps
    by (rule runs_mono [OF storage])
      (auto intro!: runs_mono [OF bytes] runs_mono [OF blob] split: sum.split list.split)
qed

text \<open>With a credential file that loads, the pull returns and writes nothing.\<close>

lemma Pull_runs:
  assumes "oras_law oras" and "CredentialsConfigLoad (dk_Load docker x) = Inr f"
  shows "runs (Pull kl oras docker ml nr ref c) (\<lambda>_ x'. x' = x) x"
  using PullBytes_runs [OF assms(1)] assms(2)
  by (auto simp: Pull_def Let_def NewStorageContext_def split: sum.split option.split)

section \<open>The contract of a bundle client\<close>

locale bundle_client =
  fixes C :: "'x BundleClient"
  assumes active_reads: "runs (bc_GetActiveBundle C c) (\<lambda>_ x'. x' = x) x"
    and pbc_reads: "runs (bc_GetPackageBundleController C c) (\<lambda>_ x'. x' = x) x"
    and list_reads: "runs (bc_GetBundleList C) (\<lambda>_ x'. x' = x) x"
    and secret_reads: "runs (bc_GetSecret C n) (\<lambda>_ x'. x' = x) x"
    and packages_reads: "runs (bc_GetPackageList C ns) (\<lambda>_ x'. x' = x) x"
    and bundle_runs: "runs (bc_CreateBundle C b) (\<lambda>_ _. True) x"
    and configmap_runs: "runs (bc_CreateClusterConfigMap C c) (\<lambda>_ _. True) x"
    and package_runs: "runs (bc_CreatePackage C p) (\<lambda>_ _. True) x"
    and status_runs: "runs (bc_SaveStatus C pbc) (\<lambda>_ _. True) x"
    and save_runs: "runs (bc_Save C pbc) (\<lambda>_ _. True) x"
begin

text \<open>Reading the controller and then its bundle, as the reconciler of a package does, is one look
  at one world.\<close>

lemma pbc_then_active:
  "runs (bindM (bc_GetPackageBundleController C c) (\<lambda>r. case r of Inl e \<Rightarrow> ret (Inl e)
      | Inr pbc \<Rightarrow> bc_GetActiveBundle C c)) (\<lambda>_ x'. x' = x) x"
  unfolding runs_simps
  by (rule runs_mono [OF pbc_reads]) (auto intro: active_reads split: sum.split)

end

interpretation mgr: bundle_client "managerClient getenv cl"
  for getenv cl
  by unfold_locales
    (simp_all add: managerClient_def mgr_GetActiveBundle_def mgr_GetPackageBundleController_def
      mgr_GetBundleList_def mgr_GetSecret_def mgr_GetPackageList_def mgr_CreateBundle_def
      mgr_CreateClusterConfigMap_def mgr_CreatePackage_def mgr_SaveStatus_def mgr_Save_def Let_def
      split: sum.split option.split)

section \<open>Facts\<close>

lemma clusterConfigMap_packages:
  "nsPackages (cm_Data (clusterConfigMap c)) (PackageNamespace @ ''-'' @ c) =
     {''eksa-package-controller''}"
proof -
  have "''emissary-system'' \<noteq> PackageNamespace @ ''-'' @ c"
    by (simp add: PackageNamespace_def)
  then show ?thesis
    by (simp add: nsPackages_def clusterConfigMap_def Let_def mapGetStr_def NewCSSet_def css_Add_def)
qed

text \<open>The reference of the latest bundle parses back to the registry and the tag.\<close>

lemma LatestBundle_ref:
  assumes "CHR ''/'' \<notin> set reg" "CHR ''@'' \<notin> set repo" "CHR '':'' \<notin> set repo"
    "CHR ''@'' \<notin> set (major @ minor)"
  shows "LatestBundle y pull (reg @ ''/'' @ repo) major minor c =
      DownloadBundle y pull (reg @ ''/'' @ repo @ '':v'' @ major @ ''-'' @ minor @ ''-latest'') c"
    and "ParseArtifactFromURI (reg @ ''/'' @ repo @ '':v'' @ major @ ''-'' @ minor @ ''-latest'') =
      Inr (NewArtifact reg repo (''v'' @ major @ ''-'' @ minor @ ''-latest'') [])"
proof -
  show "ParseArtifactFromURI (reg @ ''/'' @ repo @ '':v'' @ major @ ''-'' @ minor @ ''-latest'') =
      Inr (NewArtifact reg repo (''v'' @ major @ ''-'' @ minor @ ''-latest'') [])"
    using ParseArtifact_tag [of reg repo "''v'' @ major @ ''-'' @ minor @ ''-latest''"] assms by simp
qed (simp add: LatestBundle_def)

text \<open>A download that succeeds decoded a text that is not blank.\<close>

lemma DownloadBundle_Inr:
  assumes "DownloadBundle y pull ref c x = (Ret (Inr b), x')"
  shows "\<exists>data. pull ref c x = (Ret (Inr data), x') \<and> \<not> blank data \<and> y data = Inr b"
  using assms by (auto simp: DownloadBundle_def split: sum.splits if_splits)

end
