(* ===== verification/Bundle_Manager.thy ===== *)
theory Bundle_Manager
  imports Bundle_Client Target_Cluster
begin

text \<open>
  \<^verbatim>\<open>pkg/bundle/manager.go\<close> and \<^verbatim>\<open>pkg/config\<close>: the state of a bundle, and the state machine of a
  bundle controller (of one cluster).  \<^verbatim>\<open>ProcessBundleController\<close> returns its error beside the
  resource it was given, as it leaves it.  The semantic version library is a parameter.
\<close>

section \<open>Configuration\<close>

definition DEVELOPMENT :: string where "DEVELOPMENT = ''development''"

record BuildInfo =
  bi_Version :: string
  bi_GitHash :: string
  bi_BuildTime :: int

record Config =
  cfg_BuildInfo :: BuildInfo

text \<open>The three link-time variables are arguments; \<^verbatim>\<open>strconv.ParseInt\<close> with base 10 and 64 bits is
  \<^verbatim>\<open>Atoi\<close>.\<close>

definition GetConfig :: "string \<Rightarrow> string \<Rightarrow> string \<Rightarrow> Config" where
  "GetConfig version gitHash buildTime =
     (let btime = (case Atoi buildTime of (n, None) \<Rightarrow> n | (_, Some _) \<Rightarrow> 0)
      in \<lparr>cfg_BuildInfo = \<lparr>bi_Version = version, bi_GitHash = gitHash, bi_BuildTime = btime\<rparr>\<rparr>)"

section \<open>Bundles\<close>

definition isCompatibleWith ::
  "(string \<Rightarrow> string \<Rightarrow> int) \<Rightarrow> Config \<Rightarrow> PackageBundle \<Rightarrow> bool" where
  "isCompatibleWith semverCompare config bundle =
     (let currentVersion = bi_Version (cfg_BuildInfo config)
      in currentVersion = DEVELOPMENT \<or> semverCompare currentVersion (pbs_MinVersion (pb_Spec bundle)) \<ge> 0)"

definition setBundleState :: "PackageBundleStateEnum \<Rightarrow> PackageBundle \<Rightarrow> PackageBundle" where
  "setBundleState s b = b\<lparr>pb_Status := \<lparr>pbst_Spec = pb_Spec b, pbst_State = s\<rparr>\<rparr>"

definition ProcessBundle ::
  "(string \<Rightarrow> string \<Rightarrow> int) \<Rightarrow> Config \<Rightarrow> PackageBundle \<Rightarrow> (goerr + bool) \<times> PackageBundle" where
  "ProcessBundle semverCompare config newBundle =
     (if pb_Namespace newBundle \<noteq> PackageNamespace then
        (if pbst_State (pb_Status newBundle) \<noteq> PackageBundleStateIgnored
         then (Inr True, setBundleState PackageBundleStateIgnored newBundle)
         else (Inr False, newBundle))
      else if \<not> isCompatibleWith semverCompare config newBundle then
        (if pbst_State (pb_Status newBundle) \<noteq> PackageBundleStateUpgradeRequired
         then (Inr True, setBundleState PackageBundleStateUpgradeRequired newBundle)
         else (Inr False, newBundle))
      else if \<not> IsValidVersion newBundle then
        (if pbst_State (pb_Status newBundle) \<noteq> PackageBundleStateInvalid
         then (Inr True, setBundleState PackageBundleStateInvalid newBundle)
         else (Inr False, newBundle))
      else if pbst_State (pb_Status newBundle) \<noteq> PackageBundleStateAvailable
        then (Inr True, setBundleState PackageBundleStateAvailable newBundle)
        else (Inr False, newBundle))"

definition hasBundleNamed :: "PackageBundle list \<Rightarrow> string \<Rightarrow> bool" where
  "hasBundleNamed bundles name \<longleftrightarrow> list_ex (\<lambda>b. pb_Name b = name) bundles"

section \<open>Bundle controllers\<close>

text \<open>The fields of the Go struct other than the private state of the target client, which is part
  of the world of the definitions below.\<close>

record ('t, 'x) bundleManager =
  bm_getenv :: "string \<Rightarrow> string"
  bm_kl :: "'x KubeLib"
  bm_bundleClient :: "'x BundleClient"
  bm_registryClient :: "'x RegistryClient"
  bm_targetClient :: "('t, 'x) TargetClusterClient"

abbreviation setPbcState :: "BundleControllerStateEnum \<Rightarrow> PackageBundleController \<Rightarrow> PackageBundleController" where
  "setPbcState s p \<equiv> p\<lparr>pbc_Status := (pbc_Status p)\<lparr>pbcst_State := s\<rparr>\<rparr>"
abbreviation setPbcDetail :: "string \<Rightarrow> PackageBundleController \<Rightarrow> PackageBundleController" where
  "setPbcDetail d p \<equiv> p\<lparr>pbc_Status := (pbc_Status p)\<lparr>pbcst_Detail := d\<rparr>\<rparr>"
abbreviation copyPbcSpec :: "PackageBundleController \<Rightarrow> PackageBundleController" where
  "copyPbcSpec p \<equiv> p\<lparr>pbc_Status := (pbc_Status p)\<lparr>pbcst_Spec := pbc_Spec p\<rparr>\<rparr>"

text \<open>\<^verbatim>\<open>err = m.bundleClient.SaveStatus(ctx, pbc); if err != nil { return fmt.Errorf(...) }\<close> with
  the rest of the function.\<close>

definition saveStatusOr ::
  "('t, 'x) bundleManager \<Rightarrow> string \<Rightarrow> string \<Rightarrow> PackageBundleController \<Rightarrow> goerr option \<Rightarrow>
     ('t \<times> 'x, goerr option \<times> PackageBundleController) gom" where
  "saveStatusOr m what value pbc result =
     bindM (onWorld (bc_SaveStatus (bm_bundleClient m) pbc)) (\<lambda>e.
     case e of
       Some err \<Rightarrow> ret (Some (Errorf (''updating '' @ pbc_Name pbc @ what @ value @ '': '' @ err_msg err)), pbc)
     | None \<Rightarrow> ret (result, pbc))"

text \<open>The reactions to a failure to reach the cluster and to reach the registry.\<close>

definition disconnect ::
  "('t, 'x) bundleManager \<Rightarrow> goerr \<Rightarrow> goerr option \<Rightarrow> PackageBundleController \<Rightarrow>
     ('t \<times> 'x, goerr option \<times> PackageBundleController) gom" where
  "disconnect m err otherwise pbc =
     (if pbcst_State (pbc_Status pbc) = BundleControllerStateActive \<or> pbcst_State (pbc_Status pbc) = []
      then saveStatusOr m '' status to '' BundleControllerStateDisconnected
             (setPbcState BundleControllerStateDisconnected (setPbcDetail (err_msg err) pbc)) None
      else ret (otherwise, pbc))"

text \<open>The branch of an active controller up to the comparison of bundles.  The result is the value
  the function returns early, if it does.\<close>

definition ensureCluster ::
  "('t, 'x) bundleManager \<Rightarrow> PackageBundle list \<Rightarrow> PackageBundleController \<Rightarrow>
     ('t \<times> 'x, goerr option option) gom" where
  "ensureCluster m allBundles pbc =
     bindM (onWorld (bc_CreateClusterConfigMap (bm_bundleClient m) (pbc_Name pbc))) (\<lambda>e.
     case e of
       Some err \<Rightarrow> ret (Some (Some (Errorf (''creating configmap for '' @ pbc_Name pbc @ '': '' @ err_msg err))))
     | None \<Rightarrow>
         bindM (tc_CreateClusterNamespace (bm_targetClient m) (pbc_Name pbc)) (\<lambda>e.
         case e of
           Some err \<Rightarrow> ret (Some (Some (Errorf (''creating workload cluster namespace eksa-packages for '' @
                                            pbc_Name pbc @ '': '' @ err_msg err))))
         | None \<Rightarrow>
             bindM (if pbc_Name pbc \<noteq> bm_getenv m ''CLUSTER_NAME'' then
                      bindM (onWorld (bc_GetSecret (bm_bundleClient m) ''aws-secret'')) (\<lambda>s.
                      case s of
                        Inl err \<Rightarrow> ret (Some (Errorf (''getting aws secret eksa-packages:'' @ err_msg err)))
                      | Inr None \<Rightarrow> ret None
                      | Inr (Some secret) \<Rightarrow>
                          bindM (tc_ApplySecret (bm_targetClient m) secret) (\<lambda>e.
                          case e of
                            Some err \<Rightarrow> ret (Some (Errorf (''creating workload cluster secret aws-secret:'' @
                                                     err_msg err)))
                          | None \<Rightarrow> ret None))
                    else ret None) (\<lambda>e.
             case e of
               Some err \<Rightarrow> ret (Some (Some err))
             | None \<Rightarrow>
                 if length (pbcs_ActiveBundle (pbc_Spec pbc)) > 0 \<and>
                    \<not> hasBundleNamed allBundles (pbcs_ActiveBundle (pbc_Spec pbc)) then
                   bindM (onWorld (rc_DownloadBundle (bm_registryClient m) (GetActiveBundleURI pbc)
                                     (pbc_Name pbc))) (\<lambda>d.
                   case d of
                     Inl err \<Rightarrow> ret (Some None)
                   | Inr activeBundle \<Rightarrow>
                       bindM (onWorld (bc_CreateBundle (bm_bundleClient m) activeBundle)) (\<lambda>e.
                       case e of Some err \<Rightarrow> ret (Some None) | None \<Rightarrow> ret None))
                 else ret None)))"

text \<open>The switch over the state.\<close>

definition switchState ::
  "('t, 'x) bundleManager \<Rightarrow> PackageBundle \<Rightarrow> PackageBundle list \<Rightarrow> PackageBundleController \<Rightarrow>
     ('t \<times> 'x, goerr option \<times> PackageBundleController) gom" where
  "switchState m latestBundle allBundles pbc =
     (let latestBundleIsCurrentBundle = (pb_Name latestBundle = pbcs_ActiveBundle (pbc_Spec pbc));
          pbc = (if pbcs_ActiveBundle (pbc_Spec pbc) = [] then setPbcState [] pbc else pbc);
          state = pbcst_State (pbc_Status pbc);
          activate = copyPbcSpec (setPbcDetail [] (setPbcState BundleControllerStateActive pbc)) in
      if state = BundleControllerStateActive then
        bindM (ensureCluster m allBundles pbc) (\<lambda>early.
        case early of
          Some r \<Rightarrow> ret (r, pbc)
        | None \<Rightarrow>
            if latestBundleIsCurrentBundle then ret (None, pbc)
            else saveStatusOr m '' status to '' BundleControllerStateUpgradeAvailable
                   (copyPbcSpec (setPbcDetail (pb_Name latestBundle @ '' available'')
                      (setPbcState BundleControllerStateUpgradeAvailable pbc))) None)
      else if state = BundleControllerStateUpgradeAvailable then
        (if \<not> latestBundleIsCurrentBundle then
           (if pbcst_Detail (pbc_Status pbc) \<noteq> pb_Name latestBundle @ '' available'' then
              saveStatusOr m '' detail to '' (pb_Name latestBundle @ '' available'')
                (copyPbcSpec (setPbcDetail (pb_Name latestBundle @ '' available'') pbc)) None
            else ret (None, pbc))
         else saveStatusOr m '' status to '' BundleControllerStateActive activate None)
      else if state = BundleControllerStateDisconnected then
        saveStatusOr m '' status to '' BundleControllerStateActive activate None
      else if pbcs_ActiveBundle (pbc_Spec pbc) \<noteq> [] then
        saveStatusOr m '' status to '' BundleControllerStateActive activate None
      else
        let pbc = setPbcDetail [] (pbc\<lparr>pbc_Spec := (pbc_Spec pbc)\<lparr>pbcs_ActiveBundle := pb_Name latestBundle\<rparr>\<rparr>) in
        bindM (onWorld (bc_Save (bm_bundleClient m) pbc)) (\<lambda>e.
        case e of
          Some err \<Rightarrow> ret (Some (Errorf (''updating '' @ pbc_Name pbc @ '' activeBundle to '' @
                                     pbcs_ActiveBundle (pbc_Spec pbc) @ '': '' @ err_msg err)), pbc)
        | None \<Rightarrow> ret (None, pbc)))"

text \<open>\<^verbatim>\<open>auth, _ := authenticator.NewECRSecret(config)\<close> followed by \<^verbatim>\<open>auth.AddSecretToAllNamespace\<close>:
  with no clientset the method dereferences nil.  The sleep after a success is not modelled.\<close>

definition refreshSecrets ::
  "('t, 'x) bundleManager \<Rightarrow> ('t \<times> 'x, unit) gom" where
  "refreshSecrets m =
     bindM (tc_Initialize (bm_targetClient m) (bm_getenv m ''CLUSTER_NAME'')) (\<lambda>_.
     bindM (tc_ToRESTConfig (bm_targetClient m)) (\<lambda>r.
     let config = (case r of Inl _ \<Rightarrow> None | Inr c \<Rightarrow> Some c) in
     bindM (ofGo (NewECRSecret (bm_kl m) config)) (\<lambda>a.
     case a of
       Inl _ \<Rightarrow> panic ''nil pointer dereference''
     | Inr (clientset, s) \<Rightarrow>
         bindM (onWorld (\<lambda>x. case ecr_AddSecretToAllNamespace (bm_kl m) clientset (s, x) of
                              (r, (_, x')) \<Rightarrow> (r, x'))) (\<lambda>_. ret ()))))"

definition ProcessBundleController ::
  "('t, 'x) bundleManager \<Rightarrow> PackageBundleController \<Rightarrow>
     ('t \<times> 'x, goerr option \<times> PackageBundleController) gom" where
  "ProcessBundleController m pbc =
     bindM (tc_GetServerVersion (bm_targetClient m) (pbc_Name pbc)) (\<lambda>v.
     case v of
       Inl err \<Rightarrow> disconnect m err None pbc
     | Inr info \<Rightarrow>
         bindM (refreshSecrets m) (\<lambda>_.
         bindM (onWorld (rc_LatestBundle (bm_registryClient m) (GetBundleURI pbc) (info_Major info)
                           (info_Minor info) (pbc_Name pbc))) (\<lambda>l.
         case l of
           Inl err \<Rightarrow> disconnect m err (Some err) pbc
         | Inr latestBundle \<Rightarrow>
             bindM (onWorld (bc_GetBundleList (bm_bundleClient m))) (\<lambda>a.
             case a of
               Inl err \<Rightarrow> ret (Some (Errorf (''getting bundle list: '' @ err_msg err)), pbc)
             | Inr allBundles \<Rightarrow>
                 bindM (if \<not> hasBundleNamed allBundles (pb_Name latestBundle)
                        then onWorld (bc_CreateBundle (bm_bundleClient m) latestBundle)
                        else ret None) (\<lambda>e.
                 case e of
                   Some err \<Rightarrow> ret (Some err, pbc)
                 | None \<Rightarrow> switchState m latestBundle allBundles pbc)))))"

section \<open>The state of a bundle\<close>

text \<open>The state that a bundle should have, as a function of the bundle.\<close>

definition bundleState :: "(string \<Rightarrow> string \<Rightarrow> int) \<Rightarrow> Config \<Rightarrow> PackageBundle \<Rightarrow> PackageBundleStateEnum" where
  "bundleState cmp config b =
     (if pb_Namespace b \<noteq> PackageNamespace then PackageBundleStateIgnored
      else if \<not> isCompatibleWith cmp config b then PackageBundleStateUpgradeRequired
      else if \<not> IsValidVersion b then PackageBundleStateInvalid
      else PackageBundleStateAvailable)"

lemma ProcessBundle_eq:
  "ProcessBundle cmp config b =
     (if pbst_State (pb_Status b) = bundleState cmp config b then (Inr False, b)
      else (Inr True, setBundleState (bundleState cmp config b) b))"
  by (simp add: ProcessBundle_def bundleState_def)

lemma bundleState_setBundleState [simp]:
  "bundleState cmp config (setBundleState s b) = bundleState cmp config b"
  by (simp add: bundleState_def setBundleState_def isCompatibleWith_def IsValidVersion_def
      getMajorMinorBuild_def Let_def)

lemma ProcessBundle_state:
  "pbst_State (pb_Status (snd (ProcessBundle cmp config b))) = bundleState cmp config b"
  by (simp add: ProcessBundle_eq setBundleState_def)

lemma ProcessBundle_idem:
  "ProcessBundle cmp config (snd (ProcessBundle cmp config b)) =
     (Inr False, snd (ProcessBundle cmp config b))"
proof -
  have "bundleState cmp config (snd (ProcessBundle cmp config b)) = bundleState cmp config b"
    by (simp add: ProcessBundle_eq)
  then show ?thesis
    by (subst ProcessBundle_eq) (simp add: ProcessBundle_state)
qed

section \<open>The machine of a bundle controller\<close>

text \<open>The steps of a controller.  \<open>activate\<close> chooses the latest bundle; \<open>named\<close> notices that a
  bundle has been chosen; a controller that names a bundle keeps it for ever.\<close>

inductive pbc_step :: "string \<Rightarrow> PackageBundleController \<Rightarrow> PackageBundleController \<Rightarrow> bool"
  for latest where
  stay: "pbc_Spec q = pbc_Spec p \<Longrightarrow>
     pbcst_State (pbc_Status q) = pbcst_State (pbc_Status p) \<or>
     pbcs_ActiveBundle (pbc_Spec p) = [] \<and> pbcst_State (pbc_Status q) = [] \<Longrightarrow> pbc_step latest p q"
| lost: "pbcst_State (pbc_Status p) \<in> {BundleControllerStateActive, []} \<Longrightarrow> pbc_Spec q = pbc_Spec p \<Longrightarrow>
     pbcst_State (pbc_Status q) = BundleControllerStateDisconnected \<Longrightarrow> pbc_step latest p q"
| activate: "pbcs_ActiveBundle (pbc_Spec p) = [] \<Longrightarrow>
     pbc_Spec q = (pbc_Spec p)\<lparr>pbcs_ActiveBundle := latest\<rparr> \<Longrightarrow> pbcst_State (pbc_Status q) = [] \<Longrightarrow>
     pbc_step latest p q"
| named: "pbcs_ActiveBundle (pbc_Spec p) \<noteq> [] \<Longrightarrow>
     pbcst_State (pbc_Status p) \<notin> {BundleControllerStateActive, BundleControllerStateUpgradeAvailable} \<Longrightarrow>
     pbc_Spec q = pbc_Spec p \<Longrightarrow> pbcst_State (pbc_Status q) = BundleControllerStateActive \<Longrightarrow>
     pbc_step latest p q"
| upgrade: "pbcs_ActiveBundle (pbc_Spec p) \<noteq> [] \<Longrightarrow> latest \<noteq> pbcs_ActiveBundle (pbc_Spec p) \<Longrightarrow>
     pbcst_State (pbc_Status p) = BundleControllerStateActive \<Longrightarrow> pbc_Spec q = pbc_Spec p \<Longrightarrow>
     pbcst_State (pbc_Status q) = BundleControllerStateUpgradeAvailable \<Longrightarrow>
     pbcst_Detail (pbc_Status q) = latest @ '' available'' \<Longrightarrow> pbc_step latest p q"
| upgraded: "latest = pbcs_ActiveBundle (pbc_Spec p) \<Longrightarrow> latest \<noteq> [] \<Longrightarrow>
     pbcst_State (pbc_Status p) = BundleControllerStateUpgradeAvailable \<Longrightarrow> pbc_Spec q = pbc_Spec p \<Longrightarrow>
     pbcst_State (pbc_Status q) = BundleControllerStateActive \<Longrightarrow> pbc_step latest p q"

inductive_simps pbc_step_iff: "pbc_step latest p q"

definition sameController :: "PackageBundleController \<Rightarrow> PackageBundleController \<Rightarrow> bool" where
  "sameController p q \<longleftrightarrow> pbc_Name q = pbc_Name p \<and> pbc_Namespace q = pbc_Namespace p \<and>
     pbc_Kind q = pbc_Kind p"

text \<open>Every result of one pass, whatever the clients do, is a step towards the bundle that the
  registry names, or a step that does not depend on it.\<close>

definition pbcGood :: "PackageBundleController \<Rightarrow> goerr option \<times> PackageBundleController \<Rightarrow> bool" where
  "pbcGood p r \<longleftrightarrow> sameController p (snd r) \<and> (\<exists>latest. pbc_step latest p (snd r))"

lemma saveStatusOr_wlp:
  "(\<And>e. Q (e, pbc)) \<Longrightarrow> wlp (saveStatusOr m a b pbc r) (\<lambda>res _. Q res) w"
  unfolding saveStatusOr_def by (rule wlp_bind_any) (simp split: option.split)

lemma pbc_step_refl: "pbc_step l p p"
  by (rule pbc_step.stay) simp_all

lemma pbcGood_refl [simp]: "pbcGood pbc (e, pbc)"
  by (simp add: pbcGood_def sameController_def pbc_step_refl)

lemma disconnect_good: "wlp (disconnect m err r pbc) (\<lambda>res _. pbcGood pbc res) w"
proof (cases "pbcst_State (pbc_Status pbc) \<in> {BundleControllerStateActive, []}")
  case True
  let ?q = "setPbcState BundleControllerStateDisconnected (setPbcDetail (err_msg err) pbc)"
  have "pbc_step l pbc ?q" for l
    by (rule pbc_step.lost [OF True]) simp_all
  then have "pbcGood pbc (e, ?q)" for e by (simp add: pbcGood_def sameController_def)
  with True show ?thesis
    by (auto simp: disconnect_def intro: saveStatusOr_wlp)
qed (simp add: disconnect_def)

lemma pbc_state_neq [simp]:
  "BundleControllerStateActive \<noteq> []" "BundleControllerStateUpgradeAvailable \<noteq> []"
  "BundleControllerStateDisconnected \<noteq> []" "[] \<noteq> BundleControllerStateActive"
  "[] \<noteq> BundleControllerStateUpgradeAvailable" "[] \<noteq> BundleControllerStateDisconnected"
  "BundleControllerStateUpgradeAvailable \<noteq> BundleControllerStateActive"
  "BundleControllerStateActive \<noteq> BundleControllerStateUpgradeAvailable"
  "BundleControllerStateDisconnected \<noteq> BundleControllerStateActive"
  "BundleControllerStateActive \<noteq> BundleControllerStateDisconnected"
  "BundleControllerStateDisconnected \<noteq> BundleControllerStateUpgradeAvailable"
  "BundleControllerStateUpgradeAvailable \<noteq> BundleControllerStateDisconnected"
  by (simp_all add: pbc_state_defs)

lemma switchState_step:
  "wlp (switchState m latest all pbc)
     (\<lambda>res _. sameController pbc (snd res) \<and> pbc_step (pb_Name latest) pbc (snd res)) w"
proof (cases "pbcs_ActiveBundle (pbc_Spec pbc) = []")
  case True
  then show ?thesis
    unfolding switchState_def Let_def
    by (auto simp: sameController_def simp del: wlp_simps(4) intro!: wlp_bind_any
        split: option.split, simp_all add: pbc_step.activate)
next
  case False
  then show ?thesis
    unfolding switchState_def Let_def
    by (auto simp: sameController_def pbc_step_iff simp del: wlp_simps(4)
        intro!: wlp_bind_any saveStatusOr_wlp split: option.split)
qed

lemma switchState_good: "wlp (switchState m latest all pbc) (\<lambda>res _. pbcGood pbc res) w"
  by (rule wlp_mono [OF switchState_step]) (auto simp: pbcGood_def)

lemma ProcessBundleController_good:
  "wlp (ProcessBundleController m pbc) (\<lambda>res _. pbcGood pbc res) w"
  unfolding ProcessBundleController_def
  by (auto simp del: wlp_simps(4) intro!: wlp_bind_any disconnect_good switchState_good
      split: sum.split option.split)

lemma pbc_step_spec:
  "pbc_step latest p q \<Longrightarrow> pbc_Spec q = pbc_Spec p \<or>
     pbcs_ActiveBundle (pbc_Spec p) = [] \<and> pbc_Spec q = (pbc_Spec p)\<lparr>pbcs_ActiveBundle := latest\<rparr>"
  by (induction rule: pbc_step.induct) auto

section \<open>What one pass observes, and what it makes of it\<close>

text \<open>What a pass reads before it looks at the state of the controller: the version of the cluster's API
  server, the bundle that the registry has for that version under the tag \<^verbatim>\<open>latest\<close>, and the bundles
  that the cluster knows.\<close>

datatype pbcInput = NoCluster goerr | NoRegistry goerr | NoList goerr
  | Found PackageBundle "PackageBundle list"

definition observe ::
  "('t, 'x) bundleManager \<Rightarrow> PackageBundleController \<Rightarrow> ('t \<times> 'x, pbcInput) gom" where
  "observe m pbc =
     bindM (tc_GetServerVersion (bm_targetClient m) (pbc_Name pbc)) (\<lambda>v.
     case v of
       Inl err \<Rightarrow> ret (NoCluster err)
     | Inr info \<Rightarrow>
         bindM (refreshSecrets m) (\<lambda>_.
         bindM (onWorld (rc_LatestBundle (bm_registryClient m) (GetBundleURI pbc) (info_Major info)
                           (info_Minor info) (pbc_Name pbc))) (\<lambda>l.
         case l of
           Inl err \<Rightarrow> ret (NoRegistry err)
         | Inr latestBundle \<Rightarrow>
             bindM (onWorld (bc_GetBundleList (bm_bundleClient m))) (\<lambda>a.
             case a of Inl err \<Rightarrow> ret (NoList err) | Inr allBundles \<Rightarrow> ret (Found latestBundle allBundles)))))"

text \<open>The specification: what becomes of a controller that cannot be served, and of one whose latest
  bundle is named \<open>l\<close>.\<close>

definition pbcLost :: "goerr \<Rightarrow> PackageBundleController \<Rightarrow> PackageBundleController" where
  "pbcLost err p =
     (if pbcst_State (pbc_Status p) \<in> {BundleControllerStateActive, []}
      then setPbcState BundleControllerStateDisconnected (setPbcDetail (err_msg err) p) else p)"

definition pbcNext :: "string \<Rightarrow> PackageBundleController \<Rightarrow> PackageBundleController" where
  "pbcNext l p =
     (let active = pbcs_ActiveBundle (pbc_Spec p); state = pbcst_State (pbc_Status p);
          available = l @ '' available'' in
      if active = [] then
        setPbcDetail [] (setPbcState [] (p\<lparr>pbc_Spec := (pbc_Spec p)\<lparr>pbcs_ActiveBundle := l\<rparr>\<rparr>))
      else if state = BundleControllerStateActive then
        (if l = active then p
         else copyPbcSpec (setPbcDetail available (setPbcState BundleControllerStateUpgradeAvailable p)))
      else if state = BundleControllerStateUpgradeAvailable \<and> l \<noteq> active then
        (if pbcst_Detail (pbc_Status p) = available then p else copyPbcSpec (setPbcDetail available p))
      else copyPbcSpec (setPbcDetail [] (setPbcState BundleControllerStateActive p)))"

text \<open>A controller whose bundle is not among those of the cluster.\<close>

definition bundleLost :: "PackageBundle list \<Rightarrow> PackageBundleController \<Rightarrow> bool" where
  "bundleLost bundles p \<longleftrightarrow> pbcst_State (pbc_Status p) = BundleControllerStateActive \<and>
     pbcs_ActiveBundle (pbc_Spec p) \<noteq> [] \<and> \<not> hasBundleNamed bundles (pbcs_ActiveBundle (pbc_Spec p))"

text \<open>The API server has accepted the resource, as the last thing that happened: its spec when it was
  given a bundle, its status otherwise.\<close>

definition pbcStored ::
  "('t, 'x) bundleManager \<Rightarrow> pbcInput \<Rightarrow> PackageBundleController \<Rightarrow> PackageBundleController \<Rightarrow>
     't \<times> 'x \<Rightarrow> bool" where
  "pbcStored m i p q w' \<longleftrightarrow>
     (\<exists>x. (if (\<exists>b bs. i = Found b bs) \<and> pbcs_ActiveBundle (pbc_Spec p) = []
          then bc_Save (bm_bundleClient m) q x else bc_SaveStatus (bm_bundleClient m) q x) =
         (Ret None, snd w'))"

text \<open>A pass that observes \<open>i\<close> and returns the error \<open>e\<close> and the resource \<open>q\<close>.\<close>

definition pbcOutcome ::
  "('t, 'x) bundleManager \<Rightarrow> PackageBundleController \<Rightarrow> pbcInput \<Rightarrow>
     goerr option \<times> PackageBundleController \<Rightarrow> 't \<times> 'x \<Rightarrow> bool" where
  "pbcOutcome m p i = (\<lambda>(e, q) w'.
     (case i of
        NoCluster err \<Rightarrow> q = pbcLost err p \<and>
          (e = None \<or> pbcst_State (pbc_Status p) \<in> {BundleControllerStateActive, []})
      | NoRegistry err \<Rightarrow> q = pbcLost err p \<and>
          (e = Some err \<or> pbcst_State (pbc_Status p) \<in> {BundleControllerStateActive, []})
      | NoList err \<Rightarrow> q = p \<and> e \<noteq> None
      | Found b bundles \<Rightarrow> q = pbcNext (pb_Name b) p \<or> q = p \<and> (e \<noteq> None \<or> bundleLost bundles p)) \<and>
     (e = None \<and> q \<noteq> p \<longrightarrow> pbcStored m i p q w'))"

lemma bindM_case_sum:
  "bindM (case v of Inl a \<Rightarrow> f a | Inr b \<Rightarrow> g b) k =
     (case v of Inl a \<Rightarrow> bindM (f a) k | Inr b \<Rightarrow> bindM (g b) k)"
  by (cases v) simp_all

lemma ProcessBundleController_observe:
  "ProcessBundleController m p = bindM (observe m p) (\<lambda>i.
     case i of
       NoCluster err \<Rightarrow> disconnect m err None p
     | NoRegistry err \<Rightarrow> disconnect m err (Some err) p
     | NoList err \<Rightarrow> ret (Some (Errorf (''getting bundle list: '' @ err_msg err)), p)
     | Found b all \<Rightarrow>
         bindM (if \<not> hasBundleNamed all (pb_Name b)
                then onWorld (bc_CreateBundle (bm_bundleClient m) b) else ret None)
           (\<lambda>e. case e of Some err \<Rightarrow> ret (Some err, p) | None \<Rightarrow> switchState m b all p))"
  unfolding ProcessBundleController_def observe_def
  by (simp only: bindM_assoc bindM_case_sum bindM_ret_left pbcInput.case)

lemma saveStatusOr_outcome:
  "wlp (saveStatusOr m a b q r) (\<lambda>(e, q') w'. q' = q \<and>
     (e = None \<longrightarrow> (\<exists>x. bc_SaveStatus (bm_bundleClient m) q x = (Ret None, snd w')))) w"
  by (rule wlpI) (auto simp: saveStatusOr_def onWorld_Ret split: option.splits)

lemma saveStatusOr_wlp_outcome:
  fixes m :: "('t, 'x) bundleManager"
  assumes "pbcs_ActiveBundle (pbc_Spec p) \<noteq> [] \<or> (\<forall>b bs. i \<noteq> Found b bs)"
    and "\<And>e w'. (e = None \<longrightarrow> pbcStored m i p q w') \<Longrightarrow> Q (e, q) w'"
  shows "wlp (saveStatusOr m a b q r) Q w"
proof (rule wlp_mono [OF saveStatusOr_outcome], clarify)
  fix e :: "goerr option" and q' and t :: 't and x
  assume "e = None \<longrightarrow> (\<exists>x'. bc_SaveStatus (bm_bundleClient m) q x' = (Ret None, snd (t, x)))"
  then have "e = None \<longrightarrow> pbcStored m i p q (t, x)"
    using assms(1) by (auto simp: pbcStored_def)
  then show "Q (e, q) (t, x)" by (rule assms(2))
qed

lemma disconnect_outcome:
  assumes "r = None \<and> i = NoCluster err \<or> r = Some err \<and> i = NoRegistry err"
  shows "wlp (disconnect m err r p) (pbcOutcome m p i) w"
proof (cases "pbcst_State (pbc_Status p) \<in> {BundleControllerStateActive, []}")
  case True
  let ?q = "setPbcState BundleControllerStateDisconnected (setPbcDetail (err_msg err) p)"
  have lost: "pbcLost err p = ?q" using True by (simp add: pbcLost_def)
  have none: "\<forall>b bs. i \<noteq> Found b bs" using assms by auto
  have "disconnect m err r p = saveStatusOr m '' status to '' BundleControllerStateDisconnected ?q None"
    using True by (auto simp: disconnect_def)
  moreover have "pbcOutcome m p i (e, ?q) w'" if "e = None \<longrightarrow> pbcStored m i p ?q w'" for e w'
    using assms True that by (auto simp: pbcOutcome_def lost)
  ultimately show ?thesis
    by (simp only:) (rule saveStatusOr_wlp_outcome [where p = p and i = i, OF disjI2 [OF none]])
next
  case False
  then show ?thesis
    using assms by (auto simp: disconnect_def pbcOutcome_def pbcLost_def)
qed

lemma ensureCluster_outcome:
  assumes "pbcst_State (pbc_Status p) = BundleControllerStateActive"
  shows "wlp (ensureCluster m all p) (\<lambda>early _. early = Some None \<longrightarrow> bundleLost all p) w"
  unfolding ensureCluster_def
  by (auto simp: bundleLost_def assms simp del: wlp_simps(4) intro!: wlp_bind_any
      split: option.split sum.split)

lemma switchState_outcome:
  "wlp (switchState m b all p) (pbcOutcome m p (Found b all)) w"
proof (cases "pbcs_ActiveBundle (pbc_Spec p) = []")
  case True
  let ?q = "setPbcDetail [] (setPbcState [] (p\<lparr>pbc_Spec := (pbc_Spec p)\<lparr>pbcs_ActiveBundle := pb_Name b\<rparr>\<rparr>))"
  have q: "pbcNext (pb_Name b) p = ?q" using True by (simp add: pbcNext_def)
  show ?thesis
    by (rule wlpI) (use True q in \<open>auto simp: switchState_def Let_def onWorld_Ret pbcOutcome_def pbcStored_def
        split: option.splits\<close>)
next
  case False
  note save = saveStatusOr_wlp_outcome [where p = p and i = "Found b all", OF disjI1 [OF False]]
  show ?thesis
  proof (cases "pbcst_State (pbc_Status p) = BundleControllerStateActive")
    case True
    have "switchState m b all p = bindM (ensureCluster m all p) (\<lambda>early.
        case early of
          Some r \<Rightarrow> ret (r, p)
        | None \<Rightarrow>
            if pb_Name b = pbcs_ActiveBundle (pbc_Spec p) then ret (None, p)
            else saveStatusOr m '' status to '' BundleControllerStateUpgradeAvailable
                   (copyPbcSpec (setPbcDetail (pb_Name b @ '' available'')
                      (setPbcState BundleControllerStateUpgradeAvailable p))) None)"
      using True False by (simp add: switchState_def Let_def)
    then show ?thesis
      unfolding wlp_simps using True False
      by (auto intro!: wlp_mono [OF ensureCluster_outcome [OF True]] save
          simp: pbcOutcome_def pbcNext_def split: option.split)
  next
    case other: False
    show ?thesis
      unfolding switchState_def Let_def using other False
      by (auto intro!: save simp: pbcOutcome_def pbcNext_def)
  qed
qed

lemma ProcessBundleController_outcome:
  assumes "ProcessBundleController m p w = (Ret r, w')"
  shows "\<exists>i w1. observe m p w = (Ret i, w1) \<and> pbcOutcome m p i r w'"
proof -
  from assms obtain i w1 where ob: "observe m p w = (Ret i, w1)" and k: "(case i of
       NoCluster err \<Rightarrow> disconnect m err None p
     | NoRegistry err \<Rightarrow> disconnect m err (Some err) p
     | NoList err \<Rightarrow> ret (Some (Errorf (''getting bundle list: '' @ err_msg err)), p)
     | Found b all \<Rightarrow>
         bindM (if \<not> hasBundleNamed all (pb_Name b)
                then onWorld (bc_CreateBundle (bm_bundleClient m) b) else ret None)
           (\<lambda>e. case e of Some err \<Rightarrow> ret (Some err, p) | None \<Rightarrow> switchState m b all p)) w1 = (Ret r, w')"
    unfolding ProcessBundleController_observe by (rule bindM_RetE)
  have "pbcOutcome m p i r w'"
  proof (cases i)
    case (Found b all)
    then obtain e w2 where "(case e of Some err \<Rightarrow> ret (Some err, p) | None \<Rightarrow> switchState m b all p) w2 = (Ret r, w')"
      using k by auto
    then show ?thesis
      by (cases e) (auto simp: Found dest: wlpD [OF switchState_outcome], simp add: pbcOutcome_def)
  qed (use k in \<open>auto simp: pbcOutcome_def dest: wlpD [OF disconnect_outcome, rotated]\<close>)
  with ob show ?thesis by blast
qed

text \<open>The specification moves along the machine.\<close>

lemma pbcLost_step: "pbc_step l p (pbcLost err p)"
  by (auto simp: pbcLost_def pbc_step_iff)

lemma pbcNext_step: "pbc_step l p (pbcNext l p)"
  by (auto simp: pbcNext_def pbc_step_iff Let_def)

lemma sameController_next [simp]:
  "sameController p p" "sameController p (pbcLost err p)" "sameController p (pbcNext l p)"
  by (simp_all add: sameController_def pbcLost_def pbcNext_def Let_def)

lemma pbcOutcome_step:
  assumes "pbcOutcome m p i (e, q) w'"
  shows "sameController p q \<and> (\<forall>l. (\<exists>b bs. i = Found b bs \<and> pb_Name b \<noteq> l) \<or> pbc_step l p q)"
  using assms
  by (cases i) (auto simp: pbcOutcome_def pbcLost_step pbcNext_step pbc_step_refl)

section \<open>Passes return\<close>

text \<open>What the bundle manager needs of its parts not to panic: the two contracts, and a registry
  client that returns.\<close>

definition registry_returns :: "'x RegistryClient \<Rightarrow> bool" where
  "registry_returns R \<longleftrightarrow>
     (\<forall>u ma mi c x. runs (rc_LatestBundle R u ma mi c) (\<lambda>_ _. True) x) \<and>
     (\<forall>u c x. runs (rc_DownloadBundle R u c) (\<lambda>_ _. True) x)"

lemma registryClient_returns:
  assumes "\<And>ref c x. runs (pull ref c) (\<lambda>_ _. True) x"
  shows "registry_returns (registryClient yamlBundle pull)"
proof -
  have "runs (DownloadBundle yamlBundle pull u c) (\<lambda>_ _. True) x" for u c x
    unfolding DownloadBundle_def runs_simps
    by (rule runs_mono [OF assms]) (auto split: sum.split)
  then show ?thesis by (simp add: registry_returns_def registryClient_def LatestBundle_def)
qed

locale bundle_parts = bundle_client C + target_client T tready
  for C :: "'x BundleClient" and T :: "('t, 'x) TargetClusterClient" and tready
begin

lemma saveStatusOr_runs:
  assumes "bm_bundleClient m = C"
  shows "runs (saveStatusOr m a b pbc r) (\<lambda>_ _. True) (t, x)"
  unfolding saveStatusOr_def assms
  by (auto intro: runs_mono [OF status_runs] split: option.split)

lemma ns_runs: "runs (tc_CreateClusterNamespace T c) (\<lambda>_ _. True) (t, x)"
  using namespace_ret [of c t x] by (auto intro: runsI)

lemma secret_runs: "runs (tc_ApplySecret T s) (\<lambda>_ _. True) (t, x)"
  using secret_ret [of s t x] by (auto intro: runsI)

lemma runs_bind:
  "runs m (\<lambda>_ _. True) w \<Longrightarrow> (\<And>r t' x'. runs (k r) (\<lambda>_ _. True) (t', x')) \<Longrightarrow>
     runs (bindM m k) (\<lambda>_ _. True) (w :: 't \<times> 'x)"
  unfolding runs_simps by (erule runs_mono) auto

lemma onWorld_runs: "runs m (\<lambda>_ _. True) x \<Longrightarrow> runs (onWorld m) (\<lambda>_ _. True) (t, x)"
  by simp

lemma reads_run: "runs m (\<lambda>_ x'. x' = x) x \<Longrightarrow> runs m (\<lambda>_ _. True) x"
  by (erule runs_mono) simp

lemmas part_runs = onWorld_runs ns_runs secret_runs status_runs save_runs bundle_runs configmap_runs
  reads_run [OF list_reads] reads_run [OF secret_reads]

lemma ensureCluster_runs:
  assumes "bm_bundleClient m = C" "bm_targetClient m = T" "registry_returns (bm_registryClient m)"
  shows "runs (ensureCluster m all pbc) (\<lambda>_ _. True) (t, x)"
  unfolding ensureCluster_def assms(1,2)
  using assms(3) [unfolded registry_returns_def]
  by (auto simp del: runs_simps(4,5) intro!: runs_bind part_runs split: option.split sum.split)

lemma switchState_runs:
  assumes "bm_bundleClient m = C" "bm_targetClient m = T" "registry_returns (bm_registryClient m)"
  shows "runs (switchState m latest all pbc) (\<lambda>_ _. True) (t, x)"
  unfolding switchState_def Let_def assms(1,2)
  by (auto simp del: runs_simps(4,5) intro!: runs_bind part_runs ensureCluster_runs [OF assms]
      saveStatusOr_runs [OF assms(1)] split: option.split sum.split)

lemma disconnect_runs:
  "bm_bundleClient m = C \<Longrightarrow> runs (disconnect m err r pbc) (\<lambda>_ _. True) (t, x)"
  by (simp add: disconnect_def saveStatusOr_runs)

lemma ProcessBundleController_runs:
  assumes m: "bm_bundleClient m = C" "bm_targetClient m = T" "registry_returns (bm_registryClient m)"
    and refresh: "\<And>i t'. tc_GetServerVersion T (pbc_Name pbc) (t, x) = (Ret (Inr i), (t', x)) \<Longrightarrow>
      runs (refreshSecrets m) (\<lambda>_ _. True) (t', x)"
  shows "runs (ProcessBundleController m pbc) (\<lambda>_ _. True) (t, x)"
proof -
  obtain v t' where v: "tc_GetServerVersion T (pbc_Name pbc) (t, x) = (Ret v, (t', x))"
    using version_ret [of "pbc_Name pbc" t x] by blast
  have run: "Q v (t', x) \<Longrightarrow> runs (tc_GetServerVersion T (pbc_Name pbc)) Q (t, x)" for Q
    by (simp add: runs_def v)
  show ?thesis
  proof (cases v)
    case (Inl err)
    show ?thesis
      unfolding ProcessBundleController_def runs_simps(4) m(2)
      by (rule run, unfold Inl sum.case, rule disconnect_runs [OF m(1)])
  next
    case (Inr info)
    show ?thesis
      unfolding ProcessBundleController_def runs_simps(4) m(2)
      by (rule run, unfold Inr sum.case m(1,2))
        (use m(3) in \<open>auto simp: registry_returns_def simp del: runs_simps(4,5)
          intro!: runs_bind part_runs switchState_runs [OF m]
          disconnect_runs [OF m(1)] refresh [OF v [unfolded Inr]] split: sum.split option.split\<close>)
  qed
qed

end

interpretation parts: bundle_parts "managerClient getenv cl" "targetCluster getenv kl cl" tcc_ready
  for getenv cl kl
  by unfold_locales

text \<open>Pointing the target client at the cluster of the manager cannot fail, and gives the
  configuration it was built with.\<close>

lemma tcc_config [simp]:
  "runs (tcc_Initialize getenv kl cl c) (\<lambda>_ (t', _). tcc_Config t' = tcc_Config t) (t, x)"
  by (simp add: tcc_Initialize_def getKubeconfig_def split: sum.split option.split)

lemma version_config:
  assumes "tcc_GetServerVersion getenv kl cl c (t, x) = (Ret v, (t', x'))"
  shows "tcc_Config t' = tcc_Config t"
proof -
  have "wlp (tcc_GetServerVersion getenv kl cl c) (\<lambda>_ (t', _). tcc_Config t' = tcc_Config t) (t, x)"
    unfolding tcc_GetServerVersion_def wlp_simps
    by (rule wlp_mono [OF runs_wlp [OF tcc_config]])
      (auto simp: tcc_ToDiscoveryClient_def tcc_ToRESTConfig_def split: option.split sum.split)
  from wlpD [OF this assms] show ?thesis by simp
qed

lemma own_cluster:
  "bindM (tcc_Initialize getenv kl cl (getenv clusterNameEnvVar)) (\<lambda>_. tcc_ToRESTConfig kl) (t, x) =
     (Ret (Inr (tcc_Config t)), (t\<lparr>tcc_targetSelf := True, tcc_clientConfig := Some (kl_EmptyConfig kl)\<rparr>, x))"
  by (simp add: tcc_Initialize_def getKubeconfig_def tcc_ToRESTConfig_def bindM_def onWorld_def)

text \<open>Refreshing the secrets panics when no clientset can be made, since its error is not looked at, and
  when the cron job has no \<^verbatim>\<open>suspend\<close> field.\<close>

definition canRefresh :: "goerr + 'x Clientset \<Rightarrow> 'x \<Rightarrow> bool" where
  "canRefresh c x =
     (case c of
        Inl _ \<Rightarrow> False
      | Inr clientset \<Rightarrow>
          (case cs_GetCronJob clientset PackageNamespace cronJobName x of
             Inl _ \<Rightarrow> True | Inr cronjob \<Rightarrow> cj_Suspend cronjob \<noteq> None))"

lemma AddSecretToAllNamespace_returns:
  "(\<exists>e w'. ecr_AddSecretToAllNamespace kl cs (s, x) = (Ret e, w')) \<longleftrightarrow> canRefresh (Inr cs) x"
proof -
  have del: "runs (deleteSucceeded cs js) (\<lambda>_ _. True) y" for js y
    by (induction js arbitrary: y) (auto split: option.split)
  have "runs (ecr_AddSecretToAllNamespace kl cs) (\<lambda>_ _. True) (s, x)" if "canRefresh (Inr cs) x"
    using that
    by (auto simp: canRefresh_def ecr_AddSecretToAllNamespace_def cleanupPrevRuns_def del
        split: sum.splits option.split bool.split)
  moreover have "\<exists>p. fst (ecr_AddSecretToAllNamespace kl cs (s, x)) = Panic p" if "\<not> canRefresh (Inr cs) x"
    using that
    by (auto simp: canRefresh_def ecr_AddSecretToAllNamespace_def onWorld_apply bindM_def split: sum.splits)
  ultimately show ?thesis by (fastforce elim!: runsE)
qed

lemma refreshSecrets_returns:
  assumes t: "bm_targetClient m = targetCluster (bm_getenv m) kl cl"
    and c: "kl_NewForConfig (bm_kl m) (Some (tcc_Config t)) = Ret c"
  shows "(\<exists>r w'. refreshSecrets m (t, x) = (Ret r, w')) \<longleftrightarrow> canRefresh c x"
proof -
  have env: "bm_getenv m ''CLUSTER_NAME'' = bm_getenv m clusterNameEnvVar"
    by (simp add: clusterNameEnvVar_def)
  let ?t = "t\<lparr>tcc_targetSelf := True, tcc_clientConfig := Some (kl_EmptyConfig kl)\<rparr>"
  obtain e s1 where own1: "tcc_Initialize (bm_getenv m) kl cl (bm_getenv m clusterNameEnvVar) (t, x) = (Ret e, s1)"
    and own2: "tcc_ToRESTConfig kl s1 = (Ret (Inr (tcc_Config t)), (?t, x))"
    using own_cluster [of "bm_getenv m" kl cl t x] by (auto simp: bindM_Ret)
  have own: "refreshSecrets m (t, x) =
      bindM (ofGo (NewECRSecret (bm_kl m) (Some (tcc_Config t)))) (\<lambda>a.
        case a of
          Inl _ \<Rightarrow> panic ''nil pointer dereference''
        | Inr (clientset, s) \<Rightarrow>
            bindM (onWorld (\<lambda>x. case ecr_AddSecretToAllNamespace (bm_kl m) clientset (s, x) of
                                 (r, (_, x')) \<Rightarrow> (r, x'))) (\<lambda>_. ret ())) (?t, x)"
    unfolding refreshSecrets_def t targetCluster_def TargetClusterClient.simps env
    by (simp add: bindM_def [of "tcc_Initialize _ _ _ _"] bindM_def [of "tcc_ToRESTConfig _"] own1 own2)
  show ?thesis
  proof (cases c)
    case (Inl err)
    then show ?thesis by (simp add: own NewECRSecret_def c bindM_def canRefresh_def)
  next
    case (Inr cs)
    let ?s = "\<lparr>ecr_targetCluster = PackageNamespace\<rparr>"
    obtain a s' x' where a: "ecr_AddSecretToAllNamespace (bm_kl m) cs (?s, x) = (a, (s', x'))"
      by (metis prod.collapse)
    have "(\<exists>r w'. refreshSecrets m (t, x) = (Ret r, w')) \<longleftrightarrow> (\<exists>e. a = Ret e)"
      by (cases a) (simp_all add: own NewECRSecret_def c Inr bindM_def onWorld_def a)
    then show ?thesis
      using AddSecretToAllNamespace_returns [of "bm_kl m" cs ?s x] by (simp add: Inr a)
  qed
qed

lemma refreshSecrets_runs:
  assumes "bm_targetClient m = targetCluster (bm_getenv m) kl cl"
    and "kl_NewForConfig (bm_kl m) (Some (tcc_Config t)) = Ret c" and "canRefresh c x"
  shows "runs (refreshSecrets m) (\<lambda>_ _. True) (t, x)"
  using refreshSecrets_returns [OF assms(1,2), of x] assms(3) by (auto intro: runsI)

lemma ProcessBundleController_refresh_panics:
  assumes "tc_GetServerVersion (bm_targetClient m) (pbc_Name pbc) w = (Ret (Inr i), w1)"
    and "\<nexists>r w'. refreshSecrets m w1 = (Ret r, w')"
  shows "\<nexists>r w'. ProcessBundleController m pbc w = (Ret r, w')"
  using assms by (auto simp: ProcessBundleController_def bindM_Ret)

end
