(* ===== verification/Controllers.thy ===== *)
theory Controllers
  imports Package_Manager Bundle_Manager
begin

text \<open>
  \<^verbatim>\<open>controllers\<close>: the three reconcilers.  A reconciler reads the object of the request, hands it to
  its manager and stores the status the manager reports.  The driver of the package reconciler and
  the target client of the bundle controller reconciler keep their private state between calls.
\<close>

section \<open>Results\<close>

record ctrlResult =
  res_Requeue :: bool
  res_RequeueAfter :: duration

definition zeroResult :: ctrlResult where
  "zeroResult = \<lparr>res_Requeue = False, res_RequeueAfter = 0\<rparr>"

definition after :: "duration \<Rightarrow> ctrlResult" where
  "after d = \<lparr>res_Requeue = False, res_RequeueAfter = d\<rparr>"

text \<open>How controller-runtime reads a result without an error: it looks at the object again when
  either field asks for it.\<close>

definition requeues :: "ctrlResult \<Rightarrow> bool" where
  "requeues r \<longleftrightarrow> res_Requeue r \<or> res_RequeueAfter r > 0"

type_synonym reconciled = "ctrlResult \<times> goerr option"

section \<open>Packages\<close>

definition printableTargetVersion :: "PackageOCISource \<Rightarrow> string \<Rightarrow> string" where
  "printableTargetVersion source targetVersion =
     (if targetVersion = Latest then oci_Version source @ '' ('' @ targetVersion @ '')'' else targetVersion)"

definition mapBundleChangesToPackageUpdate :: "'x Client \<Rightarrow> ('x, NamespacedName list) gom" where
  "mapBundleChangesToPackageUpdate client =
     bindM (reading (cl_ListPackages client PackageNamespace)) (\<lambda>r.
     case r of
       Inl err \<Rightarrow> ret []
     | Inr items \<Rightarrow> ret (map (\<lambda>o'. \<lparr>nn_Namespace = pkg_Namespace o', nn_Name = pkg_Name o'\<rparr>) items))"

text \<open>\<^verbatim>\<open>managerContext.Package.Status.Detail = ...; if err = r.Status().Update(...); err != nil\<close>
  with the two results.\<close>

definition reportDetail ::
  "'x Client \<Rightarrow> ManagerContext \<Rightarrow> string \<Rightarrow> duration \<Rightarrow> ('d \<times> 'x, reconciled) gom" where
  "reportDetail client mc detail onError =
     bindM (onWorld (call (cl_StatusPackage client (mc_Package (setDetail detail mc))))) (\<lambda>e.
     case e of
       Some err \<Rightarrow> ret (after onError, Some err)
     | None \<Rightarrow> ret (after retryLong, None))"

text \<open>The last part of \<^verbatim>\<open>Reconcile\<close>.\<close>

definition processAndStore ::
  "('d, 'x) managerEnv \<Rightarrow> 'x Client \<Rightarrow> ManagerContext \<Rightarrow> ('d \<times> 'x, reconciled) gom" where
  "processAndStore env client mc =
     bindM (Process env mc) (\<lambda>(updateNeeded, mc).
     if updateNeeded then
       bindM (onWorld (call (cl_StatusPackage client (mc_Package mc)))) (\<lambda>e.
       case e of
         Some err \<Rightarrow> ret (after (mc_RequeueAfter mc), Some err)
       | None \<Rightarrow> ret (after (mc_RequeueAfter mc), None))
     else ret (after (mc_RequeueAfter mc), None))"

definition package_Reconcile ::
  "('d, 'x) managerEnv \<Rightarrow> 'x Client \<Rightarrow> NamespacedName \<Rightarrow> ('d \<times> 'x, reconciled) gom" where
  "package_Reconcile env client req =
     (let mc = NewManagerContext in
      bindM (onWorld (reading (cl_GetPackage client req))) (\<lambda>g.
      case g of
        Inl err \<Rightarrow>
          if \<not> IsNotFound err then ret (zeroResult, Some err)
          else processAndStore env client (SetUninstalling (nn_Namespace req) (nn_Name req) mc)
      | Inr package \<Rightarrow>
          let mc = mc\<lparr>mc_Package := package\<rparr> in
          bindM (onWorld (bc_GetPackageBundleController (env_client env) (GetClusterName package))) (\<lambda>r.
          case r of
            Inl err \<Rightarrow> reportDetail client mc (err_msg err) retryLong
          | Inr pbc \<Rightarrow>
              let mc = mc\<lparr>mc_PBC := pbc\<rparr> in
              bindM (onWorld (bc_GetActiveBundle (env_client env) (GetClusterName package))) (\<lambda>r.
              case r of
                Inl err \<Rightarrow> reportDetail client mc (err_msg err) retryLong
              | Inr bundle \<Rightarrow>
                  let mc = mc\<lparr>mc_Bundle := Some bundle\<rparr>;
                      targetVersion = (if spec_PackageVersion (pkg_Spec package) = [] then Latest
                                       else spec_PackageVersion (pkg_Spec package));
                      pkgName = spec_PackageName (pkg_Spec package) in
                  (case FindPackage bundle pkgName of
                     Inl err \<Rightarrow>
                       reportDetail client mc (''Package '' @ pkgName @ '' is not in the active bundle ('' @
                         pb_Name bundle @ '').'') (mc_RequeueAfter mc)
                   | Inr pkg \<Rightarrow>
                       (case FindVersion bundle pkg targetVersion of
                          Inl err \<Rightarrow>
                            reportDetail client mc (''Package '' @ pkgName @ ''@'' @ targetVersion @
                              '' is not in the active bundle ('' @ pb_Name bundle @ '').'') (mc_RequeueAfter mc)
                        | Inr version \<Rightarrow>
                            let mc = mc\<lparr>mc_Version := version, mc_Source := GetOCISource bundle pkg version\<rparr> in
                            processAndStore env client
                              (setStatus (\<lambda>st. st\<lparr>st_TargetVersion :=
                                 printableTargetVersion (mc_Source mc) targetVersion\<rparr>) mc)))))))"

section \<open>Bundles\<close>

definition IgnoreNotFound :: "goerr \<Rightarrow> goerr option" where
  "IgnoreNotFound err = (if IsNotFound err then None else Some err)"

definition bundle_Reconcile ::
  "(string \<Rightarrow> string \<Rightarrow> int) \<Rightarrow> Config \<Rightarrow> 'x Client \<Rightarrow> NamespacedName \<Rightarrow> ('x, reconciled) gom" where
  "bundle_Reconcile semverCompare config client req =
     bindM (reading (cl_GetBundle client req)) (\<lambda>g.
     case g of
       Inl err \<Rightarrow> if IgnoreNotFound err \<noteq> None then ret (zeroResult, Some err) else ret (zeroResult, None)
     | Inr pkgBundle \<Rightarrow>
         (case ProcessBundle semverCompare config pkgBundle of
            (Inl err, _) \<Rightarrow> ret (zeroResult, Some (Errorf (''package bundle update: '' @ err_msg err)))
          | (Inr change, pkgBundle) \<Rightarrow>
              if change then
                bindM (call (cl_StatusBundle client pkgBundle)) (\<lambda>e.
                case e of Some err \<Rightarrow> ret (zeroResult, Some err) | None \<Rightarrow> ret (zeroResult, None))
              else ret (zeroResult, None)))"

definition mapBundleReconcileRequests :: "'x Client \<Rightarrow> ('x, NamespacedName list) gom" where
  "mapBundleReconcileRequests client =
     bindM (reading (cl_ListBundles client PackageNamespace)) (\<lambda>r.
     case r of
       Inl err \<Rightarrow> ret []
     | Inr items \<Rightarrow> ret (map (\<lambda>b. \<lparr>nn_Namespace = pb_Namespace b, nn_Name = pb_Name b\<rparr>) items))"

section \<open>Bundle controllers\<close>

definition DefaultUpgradeCheckInterval :: duration where
  "DefaultUpgradeCheckInterval = 24 * 3600 * 1000000000"
definition webhookInitializationRequeueInterval :: duration where
  "webhookInitializationRequeueInterval = 10 * 1000000000"

definition withoutRequeue :: "ctrlResult \<Rightarrow> ctrlResult" where
  "withoutRequeue result = result\<lparr>res_RequeueAfter := 0\<rparr>"

text \<open>The mutable fields of the reconciler: its own flag, and the target client of its manager.\<close>

record 't pbcReconciler =
  rec_webhookInitialized :: bool
  rec_targetClient :: 't

definition onManager ::
  "('t \<times> 'x, 'a) gom \<Rightarrow> ('t pbcReconciler \<times> 'x, 'a) gom" where
  "onManager m = (\<lambda>(r, x). case m (rec_targetClient r, x) of
     (a, (t, x')) \<Rightarrow> (a, (r\<lparr>rec_targetClient := t\<rparr>, x')))"

definition pbc_Reconcile ::
  "('t, 'x) bundleManager \<Rightarrow> 'x Client \<Rightarrow> NamespacedName \<Rightarrow> ('t pbcReconciler \<times> 'x, reconciled) gom" where
  "pbc_Reconcile m client req =
     (let result = \<lparr>res_Requeue = True, res_RequeueAfter = DefaultUpgradeCheckInterval\<rparr> in
      bindM (onWorld (reading (cl_GetPBC client req))) (\<lambda>g.
      case g of
        Inl err \<Rightarrow>
          if IgnoreNotFound err \<noteq> None
          then ret (result, Some (Errorf (''retrieving package bundle controller: '' @ err_msg err)))
          else ret (withoutRequeue result, None)
      | Inr pbc \<Rightarrow>
          let result = (if pbcs_UpgradeCheckInterval (pbc_Spec pbc) > 0
                        then result\<lparr>res_RequeueAfter := pbcs_UpgradeCheckInterval (pbc_Spec pbc)\<rparr>
                        else result) in
          if IsIgnored pbc then
            (if pbcst_State (pbc_Status pbc) \<noteq> BundleControllerStateIgnored then
               bindM (onWorld (call (cl_StatusPBC client (setPbcState BundleControllerStateIgnored pbc)))) (\<lambda>e.
               case e of
                 Some err \<Rightarrow> ret (withoutRequeue result, None)
               | None \<Rightarrow> ret (withoutRequeue result, None))
             else ret (withoutRequeue result, None))
          else
            bindM (if \<not> IsDefaultRegistryDefault pbc
                   then onWorld (UpdateIfNeeded (bm_getenv m) client (pbc_Name pbc))
                   else ret None) (\<lambda>c.
            case c of
              Some err \<Rightarrow> ret (result, Some (Errorf (''ensuring registry CA cert updated: '' @ err_msg err)))
            | None \<Rightarrow>
                bindM (onManager (ProcessBundleController m pbc)) (\<lambda>(e, pbc).
                bindM getPriv (\<lambda>r.
                case e of
                  Some err \<Rightarrow>
                    if \<not> rec_webhookInitialized r
                    then ret (result\<lparr>res_RequeueAfter := webhookInitializationRequeueInterval\<rparr>, None)
                    else if pbcs_UpgradeCheckShortInterval (pbc_Spec pbc) > 0
                    then ret (result\<lparr>res_RequeueAfter := pbcs_UpgradeCheckShortInterval (pbc_Spec pbc)\<rparr>, None)
                    else ret (result, None)
                | None \<Rightarrow>
                    bindM (putPriv (r\<lparr>rec_webhookInitialized := True\<rparr>)) (\<lambda>_. ret (result, None)))))))"

section \<open>Facts\<close>

text \<open>A package that is gone: the reconciler only uninstalls.\<close>

definition uninstallContext :: "NamespacedName \<Rightarrow> ManagerContext" where
  "uninstallContext req = SetUninstalling (nn_Namespace req) (nn_Name req) NewManagerContext"

lemma uninstallContext_simps [simp]:
  "stateOf (uninstallContext req) = StateUninstalling"
  "pkg_Name (mc_Package (uninstallContext req)) = nn_Name req"
  "pkg_Namespace (mc_Package (uninstallContext req)) = nn_Namespace req"
  by (simp_all add: uninstallContext_def SetUninstalling_def stateOf_def)

lemma processUninstalling_unreported:
  "wlp (processUninstalling env mc) (\<lambda>(b, _) _. \<not> b) w"
  unfolding processUninstalling_def
  by (auto simp del: wlp_simps(4) intro!: wlp_bind_any split: option.split)

lemma uninstalling_pass:
  assumes "IsValidNamespace (mc_Package (uninstallContext req))"
  shows "processAndStore env client (uninstallContext req) =
    bindM (processUninstalling env (requeue retryLong (uninstallContext req)))
      (\<lambda>(_, mc). ret (after (mc_RequeueAfter mc), None))"
proof
  fix w
  show "processAndStore env client (uninstallContext req) w =
    bindM (processUninstalling env (requeue retryLong (uninstallContext req)))
      (\<lambda>(_, mc). ret (after (mc_RequeueAfter mc), None)) w"
    using assms processUninstalling_unreported [of env "requeue retryLong (uninstallContext req)" w]
    by (auto simp: processAndStore_def Process_valid bindM_def wlp_def split: prod.splits go.splits)
qed

lemma package_Reconcile_deleted:
  assumes "cl_GetPackage client req x = Inl err" "IsNotFound err"
    and "IsValidNamespace (mc_Package (uninstallContext req))"
  shows "package_Reconcile env client req (d, x) =
    bindM (processUninstalling env (requeue retryLong (uninstallContext req)))
      (\<lambda>(_, mc). ret (after (mc_RequeueAfter mc), None)) (d, x)"
  using assms uninstalling_pass [OF assms(3), of env client]
  by (simp add: package_Reconcile_def Let_def bindM_def onWorld_def uninstallContext_def)

text \<open>A package whose controller, bundle and version are found goes through one pass of the manager.\<close>

definition foundContext ::
  "Package \<Rightarrow> PackageBundleController \<Rightarrow> PackageBundle \<Rightarrow> BundlePackage \<Rightarrow> SourceVersion \<Rightarrow> ManagerContext" where
  "foundContext p pbc b bp v =
     (let mc = NewManagerContext\<lparr>mc_Package := p, mc_PBC := pbc, mc_Bundle := Some b, mc_Version := v,
                 mc_Source := GetOCISource b bp v\<rparr>
      in setStatus (\<lambda>st. st\<lparr>st_TargetVersion := printableTargetVersion (mc_Source mc)
           (if spec_PackageVersion (pkg_Spec p) = [] then Latest else spec_PackageVersion (pkg_Spec p))\<rparr>) mc)"

lemma foundContext_simps [simp]:
  "mc_PBC (foundContext p pbc b bp v) = pbc" "mc_Bundle (foundContext p pbc b bp v) = Some b"
  "mc_Version (foundContext p pbc b bp v) = v" "mc_Source (foundContext p pbc b bp v) = GetOCISource b bp v"
  "stateOf (foundContext p pbc b bp v) = st_State (pkg_Status p)"
  "sameObject p (mc_Package (foundContext p pbc b bp v))"
  by (simp_all add: foundContext_def Let_def stateOf_def)

lemma package_Reconcile_found:
  assumes "cl_GetPackage client req x = Inr p"
    and "bc_GetPackageBundleController (env_client env) (GetClusterName p) x = (Ret (Inr pbc), x)"
    and "bc_GetActiveBundle (env_client env) (GetClusterName p) x = (Ret (Inr b), x)"
    and "FindPackage b (spec_PackageName (pkg_Spec p)) = Inr bp"
    and "FindVersion b bp (if spec_PackageVersion (pkg_Spec p) = [] then Latest
           else spec_PackageVersion (pkg_Spec p)) = Inr v"
  shows "package_Reconcile env client req (d, x) = processAndStore env client (foundContext p pbc b bp v) (d, x)"
  using assms by (simp add: package_Reconcile_def Let_def bindM_def onWorld_def foundContext_def)

text \<open>The bundle reconciler settles after one pass.\<close>

definition bundle_readback :: "'x Client \<Rightarrow> bool" where
  "bundle_readback client \<longleftrightarrow> (\<forall>b x x'. cl_StatusBundle client b x = (None, x') \<longrightarrow>
     cl_GetBundle client \<lparr>nn_Namespace = pb_Namespace b, nn_Name = pb_Name b\<rparr> x' = Inr b)"

lemma ProcessBundle_name:
  "pb_Name (snd (ProcessBundle cmp cfg b)) = pb_Name b"
  "pb_Namespace (snd (ProcessBundle cmp cfg b)) = pb_Namespace b"
  by (simp_all add: ProcessBundle_eq setBundleState_def)

lemma bundle_Reconcile_settles:
  assumes rb: "bundle_readback client"
    and get: "cl_GetBundle client req x = Inr b"
    and req: "req = \<lparr>nn_Namespace = pb_Namespace b, nn_Name = pb_Name b\<rparr>"
    and run: "bundle_Reconcile cmp cfg client req x = (Ret (zeroResult, None), x')"
  shows "cl_GetBundle client req x' = Inr (snd (ProcessBundle cmp cfg b))"
    and "bundle_Reconcile cmp cfg client req x' = (Ret (zeroResult, None), x')"
proof -
  let ?b = "snd (ProcessBundle cmp cfg b)"
  show stored: "cl_GetBundle client req x' = Inr ?b"
  proof (cases "fst (ProcessBundle cmp cfg b) = Inr True")
    case True
    then obtain b' where p: "ProcessBundle cmp cfg b = (Inr True, b')" by (metis prod.collapse)
    then have "cl_StatusBundle client ?b x = (None, x')"
      using run get
      by (cases "cl_StatusBundle client b' x") (auto simp: bundle_Reconcile_def bindM_def split: option.splits)
    with rb have "cl_GetBundle client \<lparr>nn_Namespace = pb_Namespace ?b, nn_Name = pb_Name ?b\<rparr> x' = Inr ?b"
      unfolding bundle_readback_def by blast
    then show ?thesis by (simp add: ProcessBundle_name req)
  next
    case False
    then have "ProcessBundle cmp cfg b = (Inr False, b)"
      by (auto simp: ProcessBundle_eq split: if_splits)
    with run get show ?thesis by (auto simp: bundle_Reconcile_def bindM_def)
  qed
  show "bundle_Reconcile cmp cfg client req x' = (Ret (zeroResult, None), x')"
    using stored by (simp add: bundle_Reconcile_def bindM_def ProcessBundle_idem)
qed

lemma onManager_any: "wlp (onManager m) (\<lambda>_ _. True) s"
  by (simp add: wlp_def split: prod.split go.split)

text \<open>Every result of the bundle controller's reconciler asks to be looked at again.\<close>

lemma pbc_Reconcile_requeue: "wlp (pbc_Reconcile m client req) (\<lambda>(r, _) _. res_Requeue r) s"
  unfolding pbc_Reconcile_def Let_def
  by (auto simp: withoutRequeue_def simp del: wlp_simps(4) intro!: wlp_bind_any
      split: sum.split option.split)

lemma pbc_Reconcile_deleted:
  assumes "cl_GetPBC client req x = Inl err" "IsNotFound err"
  shows "pbc_Reconcile m client req (r, x) =
    (Ret (\<lparr>res_Requeue = True, res_RequeueAfter = 0\<rparr>, None), (r, x))"
  using assms by (simp add: pbc_Reconcile_def bindM_def onWorld_def IgnoreNotFound_def
      withoutRequeue_def Let_def)

end
