(* ===== verification/Signature.thy ===== *)
theory Signature
  imports Bundle_Api Base64
begin

text \<open>
  \<^verbatim>\<open>pkg/signature\<close>: the signature of a manifest.  The gojq interpreter, the YAML encoder, SHA-256
  and the ECDSA and X.509 libraries are parameters, collected in a \<open>sigLib\<close>; the text of the query,
  the selection of the annotations and the order of the checks are the code's.
\<close>

section \<open>Definitions\<close>

record Domain =
  dom_Name :: string
  dom_Pubkey :: string

definition DomainName :: string where "DomainName = ''eksa.aws.com''"
definition SignatureAnnotation :: string where "SignatureAnnotation = ''signature''"
definition ExcludesAnnotation :: string where "ExcludesAnnotation = ''excludes''"

definition PublicKey :: string where
  "PublicKey = ''MFkwEwYHKoZIzj0CAQYIKoZIzj0DAQcDQgAELSnBPQf4H/GFb6yl6smKB9wwuKnD4goGHQYwg9+yQ1YusQNqZPn/QkVZnWCzJbZ/pksmpkno6dSzb/Hq+dBAMA==''"

definition EksaDomain :: Domain where
  "EksaDomain = \<lparr>dom_Name = DomainName, dom_Pubkey = PublicKey\<rparr>"

definition AlwaysExcluded :: "string list" where
  "AlwaysExcluded =
     [''.status'', ''.metadata.creationTimestamp'', ''.metadata.generation'', ''.metadata.managedFields'',
      ''.metadata.uid'', ''.metadata.resourceVersion'', ''.spec.minControllerVersion'']"

text \<open>The libraries: parsing one selector (whether it is an index term), parsing a query, running it
  on a manifest (the values the iterator yields; \<open>None\<close> is JSON null), encoding a value as YAML,
  hashing, parsing a public key (\<open>None\<close> is a key of another algorithm) and verifying.\<close>

record ('q, 'v, 'k) sigLib =
  sl_SelectorIsIndex :: "string \<Rightarrow> goerr + bool"
  sl_ParseQuery :: "string \<Rightarrow> goerr + 'q"
  sl_Run :: "'q \<Rightarrow> PackageBundle \<Rightarrow> 'v option list"
  sl_YamlMarshal :: "'v option \<Rightarrow> goerr + string"
  sl_Sum256 :: "string \<Rightarrow> string"
  sl_ParsePKIX :: "string \<Rightarrow> goerr + 'k option"
  sl_VerifyASN1 :: "'k \<Rightarrow> string \<Rightarrow> string \<Rightarrow> bool"

definition filter_nonempty :: "string list \<Rightarrow> string list" where
  "filter_nonempty ss = filter (\<lambda>s. s \<noteq> []) ss"

fun checkSelectors :: "(string \<Rightarrow> goerr + bool) \<Rightarrow> string list \<Rightarrow> goerr option" where
  "checkSelectors isIndex [] = None"
| "checkSelectors isIndex (arg # selectors) =
     (case isIndex arg of
        Inl err \<Rightarrow> Some err
      | Inr False \<Rightarrow> Some (Errorf ''invalid selector(s) provided'')
      | Inr True \<Rightarrow> checkSelectors isIndex selectors)"

definition decodeSelectors :: "('q, 'v, 'k) sigLib \<Rightarrow> string \<Rightarrow> goerr + string list" where
  "decodeSelectors L selectorsB64Encoded =
     (case b64DecodeString selectorsB64Encoded of
        Inl err \<Rightarrow> Inl err
      | Inr decoded \<Rightarrow>
          (let selectors = filter_nonempty (Split decoded CHR 0x0A)
           in case checkSelectors (sl_SelectorIsIndex L) selectors of
                Some err \<Rightarrow> Inl err
              | None \<Rightarrow> Inr selectors))"

definition GetMetadataInformation ::
  "('q, 'v, 'k) sigLib \<Rightarrow> PackageBundle \<Rightarrow> Domain \<Rightarrow> goerr + string \<times> string list" where
  "GetMetadataInformation L manifest domain =
     (let annotations = pb_Annotations manifest;
          signature = mapGetStr annotations (pathJoin [dom_Name domain, SignatureAnnotation])
      in case mapGet annotations (pathJoin [dom_Name domain, ExcludesAnnotation]) of
           None \<Rightarrow> Inr (signature, [])
         | Some excludesB64 \<Rightarrow>
             (case decodeSelectors L excludesB64 of
                Inl err \<Rightarrow> Inl err
              | Inr excludes \<Rightarrow> Inr (signature, excludes)))"

text \<open>The rendered template; \<^verbatim>\<open>Escape\<close> puts two backslashes before each dot.\<close>

definition backslash :: char where "backslash = CHR 0x5C"

definition Escape :: "string \<Rightarrow> string" where
  "Escape s = concat (map (\<lambda>c. if c = CHR ''.'' then [backslash, backslash, CHR ''.''] else [c]) s)"

definition renderQuery :: "string list \<Rightarrow> Domain \<Rightarrow> string" where
  "renderQuery excludes domain =
     [CHR 0x0A] @ ''del('' @ Join excludes '', '' @
     '') | (.metadata.annotations | objects) |= with_entries(select(.key | test('' @ [CHR 0x22] @ ''^'' @
     Escape (dom_Name domain) @ ''/(?:includes|excludes)$'' @ [CHR 0x22] @ '') ))'' @ [CHR 0x0A]"

text \<open>\<^verbatim>\<open>Next\<close> of the iterator.\<close>

fun iterNext :: "'v option list \<Rightarrow> ('v option \<times> bool) \<times> 'v option list" where
  "iterNext [] = ((None, False), [])"
| "iterNext (v # vs) = ((v, True), vs)"

definition GetDigest ::
  "('q, 'v, 'k) sigLib \<Rightarrow> PackageBundle \<Rightarrow> Domain \<Rightarrow> goerr + string \<times> string" where
  "GetDigest L manifest domain =
     (case GetMetadataInformation L manifest domain of
        Inl err \<Rightarrow> Inl err
      | Inr (_, excludes) \<Rightarrow>
          (case sl_ParseQuery L (renderQuery (excludes @ AlwaysExcluded) domain) of
             Inl err \<Rightarrow> Inl err
           | Inr query \<Rightarrow>
               (case iterNext (sl_Run L query manifest) of
                  ((filtered, remaining), jsonIt) \<Rightarrow>
                    (case iterNext jsonIt of
                       ((second, rem), _) \<Rightarrow>
                         if remaining \<and> second \<noteq> None \<and> \<not> rem
                         then Inl (Errorf ''multiple result from the query should never happen'')
                         else (case sl_YamlMarshal L filtered of
                                 Inl _ \<Rightarrow> Inl (Errorf ''manifest could not be marshaled to yaml'')
                               | Inr yml \<Rightarrow> Inr (sl_Sum256 L yml, yml))))))"

definition ValidateSignature ::
  "('q, 'v, 'k) sigLib \<Rightarrow> PackageBundle \<Rightarrow> Domain \<Rightarrow> (goerr + bool \<times> string \<times> string) go" where
  "ValidateSignature L manifest domain =
     (case GetMetadataInformation L manifest domain of
        Inl err \<Rightarrow> Ret (Inl err)
      | Inr (metaSig, _) \<Rightarrow>
          if metaSig = [] then Ret (Inl (Errorf ''Missing signature''))
          else (case GetDigest L manifest domain of
                  Inl err \<Rightarrow> Ret (Inl err)
                | Inr (digest, yml) \<Rightarrow>
                    (case b64DecodeString metaSig of
                       Inl _ \<Rightarrow> Ret (Inl (Errorf ''signature in metadata isn't base64 encoded''))
                     | Inr sig \<Rightarrow>
                         (case b64DecodeString (dom_Pubkey domain) of
                            Inl _ \<Rightarrow> Ret (Inl (Errorf ''unable to decode the public key (not base 64)''))
                          | Inr pubdecoded \<Rightarrow>
                              (case sl_ParsePKIX L pubdecoded of
                                 Inl _ \<Rightarrow> Ret (Inl (Errorf ''unable parse the public key (not PKIX)''))
                               | Inr None \<Rightarrow> Panic ''interface conversion''
                               | Inr (Some pubkey) \<Rightarrow>
                                   Ret (Inr (sl_VerifyASN1 L pubkey digest sig, digest, yml)))))))"

section \<open>Facts\<close>

lemma checkSelectors_None:
  "checkSelectors f ss = None \<longleftrightarrow> (\<forall>s\<in>set ss. f s = Inr True)"
  by (induction ss) (auto split: sum.splits bool.splits)

text \<open>The guard against several results compares against the end of the iteration, where the value
  is nil, so it never applies: only the first result is signed.\<close>

lemma GetDigest_first:
  assumes "GetMetadataInformation L b d = Inr (s, excludes)"
    and "sl_ParseQuery L (renderQuery (excludes @ AlwaysExcluded) d) = Inr q"
    and "sl_YamlMarshal L (case sl_Run L q b of [] \<Rightarrow> None | v # _ \<Rightarrow> v) = Inr yml"
  shows "GetDigest L b d = Inr (sl_Sum256 L yml, yml)"
proof -
  obtain x r y where n: "iterNext (sl_Run L q b) = ((x, r), y)" by (metis prod.collapse)
  then have x: "x = (case sl_Run L q b of [] \<Rightarrow> None | v # _ \<Rightarrow> v)"
    by (cases "sl_Run L q b") auto
  obtain z rm u where n2: "iterNext y = ((z, rm), u)" by (metis prod.collapse)
  then have "z \<noteq> None \<longrightarrow> rm" by (cases y) auto
  with assms n n2 x show ?thesis by (auto simp: GetDigest_def)
qed

text \<open>A signature that is accepted was verified, with the key of the domain, over the digest of what
  the query selects.\<close>

lemma ValidateSignature_valid:
  assumes "ValidateSignature L b d = Ret (Inr (True, digest, yml))"
  shows "\<exists>sig key. mapGetStr (pb_Annotations b) (pathJoin [dom_Name d, SignatureAnnotation]) =
      sig \<and> sig \<noteq> [] \<and> GetDigest L b d = Inr (digest, yml) \<and>
      (\<exists>raw der. b64DecodeString sig = Inr raw \<and> b64DecodeString (dom_Pubkey d) = Inr der \<and>
         sl_ParsePKIX L der = Inr (Some key) \<and> sl_VerifyASN1 L key digest raw)"
  using assms
  by (auto simp: ValidateSignature_def GetMetadataInformation_def Let_def
      split: sum.splits prod.splits option.splits if_splits)

lemma pathJoin_signature [simp]:
  "pathJoin [DomainName, SignatureAnnotation] = ''eksa.aws.com/signature''"
  "pathJoin [DomainName, ExcludesAnnotation] = ''eksa.aws.com/excludes''"
  by (simp_all add: DomainName_def SignatureAnnotation_def ExcludesAnnotation_def pathJoin_def
      pathClean_def HasPrefix_def)

end
