(* ===== verification/Webhooks.thy ===== *)
theory Webhooks
  imports Bundle_Client Target_Cluster Signature
begin

text \<open>
  \<^verbatim>\<open>pkg/webhook\<close>: the three admission webhooks, which accept or refuse packages, bundles and bundle
  controllers before the API server stores them, and \<^verbatim>\<open>GetJsonSchema\<close> of
  \<^verbatim>\<open>api/v1alpha1/packagebundle.go\<close>.  Decoding the request is the result of \<open>decode\<close>, an argument.
  The JSON schema, YAML and gzip libraries are collected in a \<open>schemaLib\<close>.
\<close>

section \<open>Responses\<close>

record statusResult =
  sr_Status :: string
  sr_Code :: nat
  sr_Message :: string
  sr_Reason :: string

record admissionResponse =
  ar_Allowed :: bool
  ar_Result :: "statusResult option"

definition Errored :: "nat \<Rightarrow> goerr \<Rightarrow> admissionResponse" where
  "Errored code err = \<lparr>ar_Allowed = False,
     ar_Result = Some \<lparr>sr_Status = [], sr_Code = code, sr_Message = err_msg err, sr_Reason = []\<rparr>\<rparr>"

definition allowedResponse :: admissionResponse where
  "allowedResponse = \<lparr>ar_Allowed = True, ar_Result = None\<rparr>"

definition badRequest :: "string \<Rightarrow> admissionResponse" where
  "badRequest reason = \<lparr>ar_Allowed = False,
     ar_Result = Some \<lparr>sr_Status = ''Failure'', sr_Code = 400, sr_Message = reason, sr_Reason = reason\<rparr>\<rparr>"

section \<open>Schemas\<close>

record 's schemaLib =
  sch_GzipHeader :: "string \<Rightarrow> goerr option"
  sch_GzipRead :: "string \<Rightarrow> goerr + string"
  sch_Compile :: "string \<Rightarrow> goerr + 's"
  sch_YAMLToJSON :: "string \<Rightarrow> goerr + string"
  sch_Validate :: "'s \<Rightarrow> string \<Rightarrow> goerr + string list"

definition GetJsonSchema :: "'s schemaLib \<Rightarrow> BundlePackage \<Rightarrow> SourceVersion \<Rightarrow> goerr + string" where
  "GetJsonSchema S bp pkgVersion =
     (case b64DecodeString (sv_Schema pkgVersion) of
        Inl err \<Rightarrow> Inl (Errorf (''error decoding configurations '' @ err_msg err))
      | Inr decodedConfiguration \<Rightarrow>
          (case sch_GzipHeader S decodedConfiguration of
             Some err \<Rightarrow> Inl (Errorf (''error when uncompressing configurations '' @ err_msg err))
           | None \<Rightarrow>
               (case sch_GzipRead S decodedConfiguration of
                  Inl err \<Rightarrow> Inl (Errorf (''error reading configurations '' @ err_msg err))
                | Inr output \<Rightarrow> Inr output)))"

text \<open>The result of a validation is the list of its errors; it is valid when there are none.\<close>

definition validatePackage :: "'s schemaLib \<Rightarrow> Package \<Rightarrow> string \<Rightarrow> goerr + string list" where
  "validatePackage S p jsonSchema =
     (case sch_Compile S jsonSchema of
        Inl err \<Rightarrow> Inl (Errorf (''error compiling schema '' @ err_msg err))
      | Inr schema \<Rightarrow>
          (case sch_YAMLToJSON S (spec_Config (pkg_Spec p)) of
             Inl err \<Rightarrow> Inl (Errorf (''error converting package configurations to yaml '' @ err_msg err))
           | Inr packageConfigBytes \<Rightarrow>
               sch_Validate S schema
                 (if spec_Config (pkg_Spec p) = [] then ''{}'' else packageConfigBytes)))"

section \<open>Packages\<close>

definition isPackageValid ::
  "(string \<Rightarrow> string) \<Rightarrow> 's schemaLib \<Rightarrow> Package \<Rightarrow> PackageBundle \<Rightarrow> bool \<times> goerr option" where
  "isPackageValid getenv S p activeBundle =
     (case FindPackage activeBundle (spec_PackageName (pkg_Spec p)) of
        Inl err \<Rightarrow> (False, Some err)
      | Inr packageInBundle \<Rightarrow>
          (let version = (if spec_PackageVersion (pkg_Spec p) = [] then Latest
                          else spec_PackageVersion (pkg_Spec p))
           in case FindVersion activeBundle packageInBundle version of
                Inl err \<Rightarrow> (False, Some err)
              | Inr packageVersion \<Rightarrow>
                  if bp_WorkloadOnly packageInBundle \<and> \<not> IsInstalledOnWorkload getenv p
                  then (False, Some (Errorf (''package '' @ pkg_Name p @
                                        '' should only be installed on a workload cluster'')))
                  else (case GetJsonSchema S packageInBundle packageVersion of
                          Inl err \<Rightarrow> (False, Some err)
                        | Inr jsonSchema \<Rightarrow>
                            (case validatePackage S p jsonSchema of
                               Inl err \<Rightarrow> (False, Some err)
                             | Inr errors \<Rightarrow>
                                 if spec_TargetNamespace (st_Spec (pkg_Status p)) \<noteq> [] \<and>
                                    spec_TargetNamespace (st_Spec (pkg_Status p)) \<noteq> spec_TargetNamespace (pkg_Spec p)
                                 then (False, Some (Errorf (''package '' @ pkg_Name p @ '' targetNamespace is immutable'')))
                                 else if errors \<noteq> []
                                 then (False, Some (Errorf (''error validating configurations '' @
                                        concat (map (\<lambda>e. ''- '' @ e @ [CHR 0x0A]) errors))))
                                 else (True, None)))))"

text \<open>\<^verbatim>\<open>%v\<close> of a nil error is \<^verbatim>\<open><nil>\<close>.\<close>

definition errString :: "goerr option \<Rightarrow> string" where
  "errString e = (case e of None \<Rightarrow> ''<nil>'' | Some err \<Rightarrow> err_msg err)"

definition packageValidator_Handle ::
  "(string \<Rightarrow> string) \<Rightarrow> 's schemaLib \<Rightarrow> 'x BundleClient \<Rightarrow> goerr + Package \<Rightarrow>
     ('x, admissionResponse) gom" where
  "packageValidator_Handle getenv S bundleClient decode =
     (case decode of
        Inl err \<Rightarrow> ret (Errored 500 (wrapErr ''decoding request: '' err))
      | Inr p \<Rightarrow>
          if mapGetStr (pkg_Annotations p) ''anywhere.eks.aws.com/internal'' = ''true''
          then ret allowedResponse
          else
            let clusterName = (if GetClusterName p = [] then getenv ''CLUSTER_NAME'' else GetClusterName p) in
            bindM (bc_GetActiveBundle bundleClient clusterName) (\<lambda>r.
            case r of
              Inl err \<Rightarrow> ret (Errored 500 (Errorf (''getting PackageBundle: '' @ err_msg err)))
            | Inr activeBundle \<Rightarrow>
                (case isPackageValid getenv S p activeBundle of
                   (isConfigValid, err) \<Rightarrow>
                     if \<not> isConfigValid
                     then ret (badRequest (''package '' @ pkg_Name p @ '' failed validation with error: '' @
                                 errString err))
                     else ret allowedResponse)))"

section \<open>Bundles\<close>

definition PublicKeyEnvVar :: string where "PublicKeyEnvVar = ''EKSA_PUBLIC_KEY''"

definition signingDomain :: "(string \<Rightarrow> string) \<Rightarrow> Domain" where
  "signingDomain getenv =
     (let keyOverride = getenv PublicKeyEnvVar
      in if keyOverride \<noteq> [] then \<lparr>dom_Name = DomainName, dom_Pubkey = keyOverride\<rparr> else EksaDomain)"

definition isPackageBundleValid ::
  "(string \<Rightarrow> string) \<Rightarrow> ('q, 'v, 'k) sigLib \<Rightarrow> PackageBundle \<Rightarrow> goerr option go" where
  "isPackageBundleValid getenv L pb =
     (if \<not> IsValidVersion pb
      then Ret (Some (Errorf (''Invalid bundle name (should be in the format vx-xx-xxxx where x is a digit): '' @
                        pb_Name pb)))
      else
        let domain = signingDomain getenv in
        (case ValidateSignature L pb domain of
           Panic p \<Rightarrow> Panic p
         | Ret (Inl err) \<Rightarrow> Ret (Some err)
         | Ret (Inr (valid, _, _)) \<Rightarrow>
             if \<not> valid
             then Ret (Some (Errorf (''The signature is invalid for the configured public key: '' @
                               dom_Pubkey domain)))
             else Ret None))"

definition packageBundleValidator_Handle ::
  "(string \<Rightarrow> string) \<Rightarrow> ('q, 'v, 'k) sigLib \<Rightarrow> goerr + PackageBundle \<Rightarrow> admissionResponse go" where
  "packageBundleValidator_Handle getenv L decode =
     (case decode of
        Inl err \<Rightarrow> Ret (Errored 500 (wrapErr ''decoding request: '' err))
      | Inr pb \<Rightarrow>
          (case isPackageBundleValid getenv L pb of
             Panic p \<Rightarrow> Panic p
           | Ret None \<Rightarrow> Ret allowedResponse
           | Ret (Some err) \<Rightarrow>
               Ret (badRequest (''package '' @ pb_Name pb @ '' failed validation with error: '' @ err_msg err))))"

section \<open>Bundle controllers\<close>

definition handleInner ::
  "('t, 'x) TargetClusterClient \<Rightarrow> PackageBundleController \<Rightarrow> PackageBundleList \<Rightarrow>
     ('t \<times> 'x, goerr + admissionResponse) gom" where
  "handleInner tcc pbc bundles =
     (if pbcs_ActiveBundle (pbc_Spec pbc) = [] then ret (Inr allowedResponse)
      else
        case find (\<lambda>b. pb_Name b = pbcs_ActiveBundle (pbc_Spec pbc)) (pbl_Items bundles) of
          None \<Rightarrow> ret (Inr (badRequest (''activeBundle '' @ quoted (pbcs_ActiveBundle (pbc_Spec pbc)) @
                             '' not present on cluster'')))
        | Some theBundle \<Rightarrow>
            bindM (tc_GetServerVersion tcc (pbc_Name pbc)) (\<lambda>v.
            case v of
              Inl err \<Rightarrow> ret (Inl (wrapErr (''getting server version for '' @ pbc_Name pbc @ '': '') err))
            | Inr info \<Rightarrow>
                (case KubeVersionMatches theBundle info of
                   Inl err \<Rightarrow> ret (Inl (wrapErr ''listing package bundles: '' err))
                 | Inr matches \<Rightarrow>
                     if \<not> matches
                     then ret (Inr (badRequest (''kuberneetes version v'' @ info_Major info @ ''-'' @
                                info_Minor info @ '' does not match '' @ pbcs_ActiveBundle (pbc_Spec pbc))))
                     else ret (Inr allowedResponse))))"

definition activeBundleValidator_Handle ::
  "'x Client \<Rightarrow> ('t, 'x) TargetClusterClient \<Rightarrow> goerr + PackageBundleController \<Rightarrow>
     ('t \<times> 'x, admissionResponse) gom" where
  "activeBundleValidator_Handle client tcc decode =
     (case decode of
        Inl err \<Rightarrow> ret (Errored 500 (wrapErr ''decoding request: '' err))
      | Inr pbc \<Rightarrow>
          bindM (onWorld (reading (cl_ListBundles client PackageNamespace))) (\<lambda>l.
          case l of
            Inl err \<Rightarrow> ret (Errored 500 (wrapErr ''listing package bundles: '' err))
          | Inr items \<Rightarrow>
              bindM (handleInner tcc pbc \<lparr>pbl_Items = items\<rparr>) (\<lambda>r.
              case r of Inl err \<Rightarrow> ret (Errored 500 err) | Inr resp \<Rightarrow> ret resp)))"

section \<open>Facts\<close>

lemma response_simps [simp]:
  "ar_Allowed (Errored c e) = False" "ar_Allowed allowedResponse = True"
  "ar_Allowed (badRequest r) = False"
  by (simp_all add: Errored_def allowedResponse_def badRequest_def)

text \<open>What a package must satisfy to be admitted against a bundle.\<close>

definition admissible ::
  "(string \<Rightarrow> string) \<Rightarrow> 's schemaLib \<Rightarrow> PackageBundle \<Rightarrow> Package \<Rightarrow> bool" where
  "admissible getenv S b p \<longleftrightarrow>
     (\<exists>bp sv schema. FindPackage b (spec_PackageName (pkg_Spec p)) = Inr bp \<and>
        FindVersion b bp (if spec_PackageVersion (pkg_Spec p) = [] then Latest
                          else spec_PackageVersion (pkg_Spec p)) = Inr sv \<and>
        (bp_WorkloadOnly bp \<longrightarrow> IsInstalledOnWorkload getenv p) \<and>
        GetJsonSchema S bp sv = Inr schema \<and> validatePackage S p schema = Inr [] \<and>
        spec_TargetNamespace (st_Spec (pkg_Status p)) \<in> {[], spec_TargetNamespace (pkg_Spec p)})"

lemma isPackageValid_iff: "fst (isPackageValid getenv S p b) \<longleftrightarrow> admissible getenv S b p"
  by (auto simp: isPackageValid_def admissible_def Let_def split: sum.splits if_splits)

lemma isPackageBundleValid_None:
  "isPackageBundleValid getenv L pb = Ret None \<longleftrightarrow>
     IsValidVersion pb \<and> (\<exists>d y. ValidateSignature L pb (signingDomain getenv) = Ret (Inr (True, d, y)))"
  by (auto simp: isPackageBundleValid_def Let_def split: go.splits sum.splits prod.splits if_splits)

lemma packageValidator_Handle_eq:
  assumes "bc_GetActiveBundle C (if GetClusterName p = [] then getenv ''CLUSTER_NAME'' else GetClusterName p) x
      = (Ret (Inr b), x')"
    and "mapGetStr (pkg_Annotations p) ''anywhere.eks.aws.com/internal'' \<noteq> ''true''"
  shows "\<exists>resp. packageValidator_Handle getenv S C (Inr p) x = (Ret resp, x') \<and>
    (ar_Allowed resp \<longleftrightarrow> admissible getenv S b p)"
  using assms isPackageValid_iff [of getenv S p b]
  by (auto simp: packageValidator_Handle_def bindM_def Let_def split: prod.splits if_splits)

lemma KubeVersionMatches_Inr:
  "KubeVersionMatches b i = Inr True \<longleftrightarrow>
     (\<exists>ma mi bu. getMajorMinorBuild b = (ma, mi, bu, None) \<and> Sprint ma = info_Major i \<and> Sprint mi = info_Minor i)"
  by (auto simp: KubeVersionMatches_def split: prod.splits option.splits)

context target_client
begin

text \<open>The controller's webhook returns, writes nothing and admits exactly a controller with no
  bundle or with a bundle of the cluster whose version is that of the cluster's API server.\<close>

lemma handleInner_runs:
  "runs (handleInner T pbc bundles)
     (\<lambda>r (_, x'). x' = x \<and> ((\<exists>resp. r = Inr resp \<and> ar_Allowed resp) \<longleftrightarrow>
        pbcs_ActiveBundle (pbc_Spec pbc) = [] \<or>
        (\<exists>b i s. find (\<lambda>b. pb_Name b = pbcs_ActiveBundle (pbc_Spec pbc)) (pbl_Items bundles) = Some b \<and>
           tc_GetServerVersion T (pbc_Name pbc) (t, x) = (Ret (Inr i), s) \<and>
           KubeVersionMatches b i = Inr True))) (t, x)"
proof -
  obtain v t' where v: "tc_GetServerVersion T (pbc_Name pbc) (t, x) = (Ret v, (t', x))"
    using version_ret by blast
  then show ?thesis
    unfolding handleInner_def
    by (auto simp: runs_def bindM_def split: option.split sum.split)
qed

end

end
