(* ===== verification/Server.thy ===== *)
theory Server
  imports Controllers Webhooks
begin

text \<open>
  \<^verbatim>\<open>cmd/server.go\<close>, \<^verbatim>\<open>main.go\<close> and the registration functions of \<^verbatim>\<open>controllers\<close> and
  \<^verbatim>\<open>pkg/webhook\<close>: how the process builds its reconcilers and its admission handlers, in which order
  it hands them to the manager of controller-runtime, and which failures stop it.  The manager, the
  flow-control probe and the command-line parser are parameters.  A struct with mutable fields that a
  constructor allocates is a record whose state field holds the initial state.
\<close>

section \<open>What the process is built from\<close>

text \<open>The environment and the libraries of the process.  \<open>pl_pull\<close> is \<^verbatim>\<open>RegistryPuller.Pull\<close>.\<close>

record 'x processLibs =
  pl_getenv :: "string \<Rightarrow> string"
  pl_kl :: "'x KubeLib"
  pl_helm :: "(targetClusterClient, 'x) HelmLib"
  pl_mapRange :: "string list \<Rightarrow> string list"
  pl_yaml :: "string \<Rightarrow> goerr + gvalues"
  pl_yamlBundle :: "string \<Rightarrow> goerr + PackageBundle"
  pl_pull :: "string \<Rightarrow> string \<Rightarrow> ('x, goerr + string) gom"
  pl_config :: Config

type_synonym driverState = "(ecrSecret, targetClusterClient) helmDriver"

text \<open>\<^verbatim>\<open>bundle.NewBundleManager\<close> stores its arguments; the private state of the target client is kept
  by the caller.\<close>

definition NewBundleManager ::
  "(string \<Rightarrow> string) \<Rightarrow> 'x KubeLib \<Rightarrow> 'x RegistryClient \<Rightarrow> 'x BundleClient \<Rightarrow> ('t, 'x) TargetClusterClient \<Rightarrow>
     ('t, 'x) bundleManager" where
  "NewBundleManager getenv kl rc bc tcc =
     \<lparr>bm_getenv = getenv, bm_kl = kl, bm_bundleClient = bc, bm_registryClient = rc, bm_targetClient = tcc\<rparr>"

record 'x PackageReconciler =
  pr_Client :: "'x Client"
  pr_PackageDriver :: "(driverState, 'x) PackageDriver"
  pr_driverState :: driverState
  pr_bundleManager :: "(targetClusterClient, 'x) bundleManager"
  pr_managerClient :: "'x BundleClient"

definition NewPackageReconciler ::
  "'x Client \<Rightarrow> (driverState, 'x) PackageDriver \<times> driverState \<Rightarrow> (targetClusterClient, 'x) bundleManager \<Rightarrow>
     'x BundleClient \<Rightarrow> 'x PackageReconciler" where
  "NewPackageReconciler client driver bm mc =
     \<lparr>pr_Client = client, pr_PackageDriver = fst driver, pr_driverState = snd driver,
      pr_bundleManager = bm, pr_managerClient = mc\<rparr>"

record 'x PackageBundleReconciler =
  br_Client :: "'x Client"
  br_bundleClient :: "'x BundleClient"
  br_registryClient :: "'x RegistryClient"
  br_bundleManager :: "(targetClusterClient, 'x) bundleManager"

definition NewPackageBundleReconciler ::
  "'x Client \<Rightarrow> 'x BundleClient \<Rightarrow> (targetClusterClient, 'x) bundleManager \<Rightarrow> 'x RegistryClient \<Rightarrow>
     'x PackageBundleReconciler" where
  "NewPackageBundleReconciler client bc bm rc =
     \<lparr>br_Client = client, br_bundleClient = bc, br_registryClient = rc, br_bundleManager = bm\<rparr>"

text \<open>The certificate injector is a client of the cluster and nothing else.\<close>

record 'x PackageBundleControllerReconciler =
  cr_Client :: "'x Client"
  cr_bundleManager :: "(targetClusterClient, 'x) bundleManager"
  cr_certInjector :: "'x Client"
  cr_state :: "targetClusterClient pbcReconciler"

definition NewPackageBundleControllerReconciler ::
  "'x Client \<Rightarrow> (targetClusterClient, 'x) bundleManager \<times> targetClusterClient \<Rightarrow> 'x Client \<Rightarrow>
     'x PackageBundleControllerReconciler" where
  "NewPackageBundleControllerReconciler client bundleManager certInjector =
     \<lparr>cr_Client = client, cr_bundleManager = fst bundleManager, cr_certInjector = certInjector,
      cr_state = \<lparr>rec_webhookInitialized = False, rec_targetClient = snd bundleManager\<rparr>\<rparr>"

text \<open>\<^verbatim>\<open>ManagerContext\<close> gets its driver and its client from the reconciler.\<close>

definition reconcilerEnv :: "'x processLibs \<Rightarrow> 'x PackageReconciler \<Rightarrow> (driverState, 'x) managerEnv" where
  "reconcilerEnv L r = \<lparr>env_getenv = pl_getenv L, env_yaml = pl_yaml L, env_driver = pr_PackageDriver r,
     env_client = pr_managerClient r\<rparr>"

section \<open>The manager of controller-runtime\<close>

datatype 'x reconciler =
    ForPackage "'x PackageReconciler"
  | ForPackageBundle "'x PackageBundleReconciler"
  | ForPackageBundleController "'x PackageBundleControllerReconciler"

text \<open>What a builder hands over: the kind of the requests, the other kinds that are watched with the
  function that maps their events to requests, and the reconciler.\<close>

record 'x controllerSpec =
  ctl_For :: string
  ctl_Watches :: "(string \<times> ('x, NamespacedName list) gom) list"
  ctl_Reconciler :: "'x reconciler"

text \<open>The fields of the three handlers that their \<^verbatim>\<open>Handle\<close> reads.\<close>

datatype 'x admissionHandler =
    packageValidator "'x Client" "'x BundleClient"
  | packageBundleValidator "'x Client" "'x BundleClient"
  | activeBundleValidator "'x Client" "(targetClusterClient, 'x) TargetClusterClient" targetClusterClient

record ('x, 'm) ctrlManager =
  cmgr_GetConfig :: restConfig
  cmgr_GetClient :: "'x Client"
  cmgr_Complete :: "'x controllerSpec \<Rightarrow> 'm writes"
  cmgr_Register :: "string \<Rightarrow> 'x admissionHandler \<Rightarrow> 'm \<Rightarrow> 'm"
  cmgr_AddHealthzCheck :: "string \<Rightarrow> 'm writes"
  cmgr_AddReadyzCheck :: "string \<Rightarrow> 'm writes"
  cmgr_Start :: "'m writes"

definition onManagerState :: "'m writes \<Rightarrow> ('m \<times> 'x, goerr option) gom" where
  "onManagerState f = (\<lambda>(m, x). case f m of (e, m') \<Rightarrow> (Ret e, (m', x)))"

section \<open>Registration\<close>

definition RegisterPackageReconciler ::
  "'x processLibs \<Rightarrow> ('x, 'm) ctrlManager \<Rightarrow> ('m \<times> 'x, goerr option) gom" where
  "RegisterPackageReconciler L mgr =
     (let cfg = cmgr_GetConfig mgr; client = cmgr_GetClient mgr in
      bindM (ofGo (NewECRSecret (pl_kl L) (Some cfg))) (\<lambda>a.
      case a of
        Inl err \<Rightarrow> ret (Some err)
      | Inr (clientset, secretAuth) \<Rightarrow>
          let tcc = targetCluster (pl_getenv L) (pl_kl L) client;
              auth = ecrAuthenticator (pl_mapRange L) (pl_getenv L) (pl_kl L) clientset;
              helmDriver = (helmPackageDriver (pl_getenv L) (pl_kl L) (pl_helm L) auth tcc,
                            NewHelm secretAuth (NewTargetClusterClient cfg));
              rc = registryClient (pl_yamlBundle L) (pl_pull L);
              mc = managerClient (pl_getenv L) client;
              bm = NewBundleManager (pl_getenv L) (pl_kl L) rc mc tcc in
          onManagerState (cmgr_Complete mgr
            \<lparr>ctl_For = ''Package'',
             ctl_Watches = [(''PackageBundle'', mapBundleChangesToPackageUpdate client)],
             ctl_Reconciler = ForPackage (NewPackageReconciler client helmDriver bm mc)\<rparr>)))"

text \<open>The older registration, without the watch of the bundles.\<close>

definition SetupWithManager ::
  "'x PackageReconciler \<Rightarrow> ('x, 'm) ctrlManager \<Rightarrow> ('m \<times> 'x, goerr option) gom" where
  "SetupWithManager r mgr = onManagerState (cmgr_Complete mgr
     \<lparr>ctl_For = ''Package'', ctl_Watches = [], ctl_Reconciler = ForPackage r\<rparr>)"

text \<open>The predicates of the second watch let creation and deletion through, as \<^verbatim>\<open>Funcs\<close> does for the
  events it has no function for.\<close>

definition RegisterPackageBundleReconciler ::
  "'x processLibs \<Rightarrow> ('x, 'm) ctrlManager \<Rightarrow> ('m \<times> 'x, goerr option) gom" where
  "RegisterPackageBundleReconciler L mgr =
     (let client = cmgr_GetClient mgr;
          bundleClient = managerClient (pl_getenv L) client;
          tcc = targetCluster (pl_getenv L) (pl_kl L) client;
          rc = registryClient (pl_yamlBundle L) (pl_pull L);
          bm = NewBundleManager (pl_getenv L) (pl_kl L) rc bundleClient tcc in
      onManagerState (cmgr_Complete mgr
        \<lparr>ctl_For = ''PackageBundle'',
         ctl_Watches = [(''PackageBundleController'', mapBundleReconcileRequests client),
                        (''PackageBundle'', mapBundleReconcileRequests client)],
         ctl_Reconciler = ForPackageBundle (NewPackageBundleReconciler client bundleClient bm rc)\<rparr>))"

definition RegisterPackageBundleControllerReconciler ::
  "'x processLibs \<Rightarrow> ('x, 'm) ctrlManager \<Rightarrow> ('m \<times> 'x, goerr option) gom" where
  "RegisterPackageBundleControllerReconciler L mgr =
     (let client = cmgr_GetClient mgr;
          bundleClient = managerClient (pl_getenv L) client;
          tcc = targetCluster (pl_getenv L) (pl_kl L) client;
          rc = registryClient (pl_yamlBundle L) (pl_pull L);
          bm = NewBundleManager (pl_getenv L) (pl_kl L) rc bundleClient tcc in
      onManagerState (cmgr_Complete mgr
        \<lparr>ctl_For = ''PackageBundleController'', ctl_Watches = [],
         ctl_Reconciler = ForPackageBundleController (NewPackageBundleControllerReconciler client
           (bm, NewTargetClusterClient (cmgr_GetConfig mgr)) client)\<rparr>))"

definition InitPackageValidator ::
  "'x processLibs \<Rightarrow> ('x, 'm) ctrlManager \<Rightarrow> ('m \<times> 'x, goerr option) gom" where
  "InitPackageValidator L mgr = onManagerState (\<lambda>m. (None, cmgr_Register mgr
     ''/validate-packages-eks-amazonaws-com-v1alpha1-package''
     (packageValidator (cmgr_GetClient mgr) (managerClient (pl_getenv L) (cmgr_GetClient mgr))) m))"

definition NewPackageBundleValidator ::
  "'x processLibs \<Rightarrow> ('x, 'm) ctrlManager \<Rightarrow> 'x admissionHandler" where
  "NewPackageBundleValidator L mgr =
     (let client = cmgr_GetClient mgr in packageBundleValidator client (managerClient (pl_getenv L) client))"

definition InitPackageBundleValidator ::
  "'x processLibs \<Rightarrow> ('x, 'm) ctrlManager \<Rightarrow> ('m \<times> 'x, goerr option) gom" where
  "InitPackageBundleValidator L mgr = onManagerState (\<lambda>m. (None, cmgr_Register mgr
     ''/validate-packages-eks-amazonaws-com-v1alpha1-packagebundle'' (NewPackageBundleValidator L mgr) m))"

definition InitPackageBundleControllerValidator ::
  "'x processLibs \<Rightarrow> ('x, 'm) ctrlManager \<Rightarrow> ('m \<times> 'x, goerr option) gom" where
  "InitPackageBundleControllerValidator L mgr =
     (let tcc = NewTargetClusterClient (cmgr_GetConfig mgr) in
      onManagerState (\<lambda>m. (None, cmgr_Register mgr
        ''/validate-packages-eks-amazonaws-com-v1alpha1-packagebundlecontroller''
        (activeBundleValidator (cmgr_GetClient mgr)
           (targetCluster (pl_getenv L) (pl_kl L) (cmgr_GetClient mgr)) tcc) m)))"

section \<open>The server\<close>

text \<open>\<^verbatim>\<open>rest.Config\<close> with the two rate limits, and the options of the manager.\<close>

record serverConfig =
  scf_rest :: restConfig
  scf_QPS :: int
  scf_Burst :: int

record serverContext =
  metricsAddr :: string
  enableLeaderElection :: bool
  probeAddr :: string

record managerOptions =
  mo_BindAddress :: string
  mo_Port :: nat
  mo_HealthProbeBindAddress :: string
  mo_LeaderElection :: bool
  mo_LeaderElectionID :: string

definition clientLimits :: "restConfig \<Rightarrow> goerr + bool \<Rightarrow> serverConfig" where
  "clientLimits cfg enabled =
     (let config = \<lparr>scf_rest = cfg, scf_QPS = 75, scf_Burst = 150\<rparr> in
      if enabled = Inr True then config\<lparr>scf_QPS := -1, scf_Burst := -1\<rparr> else config)"

definition serverOptions :: "serverContext \<Rightarrow> managerOptions" where
  "serverOptions c = \<lparr>mo_BindAddress = metricsAddr c, mo_Port = 9443, mo_HealthProbeBindAddress = probeAddr c,
     mo_LeaderElection = enableLeaderElection c, mo_LeaderElectionID = ''6ef7a950.eks.amazonaws.com''\<rparr>"

text \<open>The flags of the command as \<^verbatim>\<open>init\<close> declares them, each with the value given for it.\<close>

definition serverCommandContext :: "string option \<Rightarrow> string option \<Rightarrow> bool option \<Rightarrow> serverContext" where
  "serverCommandContext metrics probe elect =
     \<lparr>metricsAddr = (case metrics of None \<Rightarrow> '':8080'' | Some a \<Rightarrow> a),
      enableLeaderElection = (case elect of None \<Rightarrow> False | Some b \<Rightarrow> b),
      probeAddr = (case probe of None \<Rightarrow> '':8081'' | Some a \<Rightarrow> a)\<rparr>"

text \<open>\<^verbatim>\<open>if err = f(); err != nil { return fmt.Errorf("...: %v", err) }\<close> before the rest of the function.\<close>

definition orFail ::
  "string \<Rightarrow> ('w, goerr option) gom \<Rightarrow> ('w, goerr option) gom \<Rightarrow> ('w, goerr option) gom" where
  "orFail what m rest =
     bindM m (\<lambda>e. case e of Some err \<Rightarrow> ret (Some (Errorf (what @ err_msg err))) | None \<Rightarrow> rest)"

text \<open>The health checks drop the error they fail with.\<close>

definition orFailPlain ::
  "string \<Rightarrow> ('w, goerr option) gom \<Rightarrow> ('w, goerr option) gom \<Rightarrow> ('w, goerr option) gom" where
  "orFailPlain what m rest =
     bindM m (\<lambda>e. case e of Some err \<Rightarrow> ret (Some (Errorf what)) | None \<Rightarrow> rest)"

definition startManager :: "('x, 'm) ctrlManager \<Rightarrow> ('m \<times> 'x, goerr option) gom" where
  "startManager mgr =
     orFailPlain ''unable to set up health check'' (onManagerState (cmgr_AddHealthzCheck mgr ''healthz''))
       (orFailPlain ''unable to set up ready check'' (onManagerState (cmgr_AddReadyzCheck mgr ''readyz''))
         (orFail ''problem running manager: '' (onManagerState (cmgr_Start mgr)) (ret None)))"

text \<open>The part of \<^verbatim>\<open>server\<close> that talks to the manager.\<close>

definition registerAll ::
  "'x processLibs \<Rightarrow> ('x, 'm) ctrlManager \<Rightarrow> ('m \<times> 'x, goerr option) gom" where
  "registerAll L mgr =
     orFail ''unable to register package bundle controller: '' (RegisterPackageBundleReconciler L mgr)
       (orFail ''unable to register package bundle controller controller: ''
          (RegisterPackageBundleControllerReconciler L mgr)
          (orFail ''unable to register package controller: '' (RegisterPackageReconciler L mgr)
             (if pl_getenv L ''ENABLE_WEBHOOKS'' = ''true'' then
                orFail ''unable to create package bundle webhook: '' (InitPackageBundleValidator L mgr)
                  (orFail ''unable to create package bundle controller webhook: ''
                     (InitPackageBundleControllerValidator L mgr)
                     (orFail ''unable to create package webhook: '' (InitPackageValidator L mgr)
                        (startManager mgr)))
              else startManager mgr)))"

text \<open>\<open>loaded\<close> is what \<^verbatim>\<open>ctrl.GetConfigOrDie\<close> finds: without a configuration it ends the process with
  status 1, the left result.  \<open>newManager\<close> is \<^verbatim>\<open>ctrl.NewManager\<close>, \<open>enabled\<close> the answer of the
  flow-control probe.  Beside the error, the right result holds the credential injector whose loop was
  started.\<close>

definition server ::
  "'x processLibs \<Rightarrow> ('c, 'x) AwsLib \<Rightarrow> serverContext \<Rightarrow> goerr + restConfig \<Rightarrow> goerr + bool \<Rightarrow>
     (serverConfig \<Rightarrow> managerOptions \<Rightarrow> goerr + ('x, 'm) ctrlManager) \<Rightarrow>
     ('m \<times> 'x, int + goerr option \<times> ('c, 'x) ECRCredInjector option) gom" where
  "server L A ctx loaded enabled newManager =
     (case loaded of
        Inl err \<Rightarrow> ret (Inl 1)
      | Inr cfg \<Rightarrow>
     (case newManager (clientLimits cfg enabled) (serverOptions ctx) of
        Inl err \<Rightarrow> ret (Inr (Some (Errorf (''unable to start manager: '' @ err_msg err)), None))
      | Inr mgr \<Rightarrow>
          bindM (onWorld (reading (NewECRCredInjector (pl_kl L) A (cmgr_GetClient mgr)))) (\<lambda>a.
          case a of
            Inl err \<Rightarrow> ret (Inr (Some (Errorf (''unable to create ecrCredAdapter: '' @ err_msg err)), None))
          | Inr ecrCredAdapter \<Rightarrow>
              bindM (registerAll L mgr) (\<lambda>e. ret (Inr (e, Some ecrCredAdapter))))))"

text \<open>\<^verbatim>\<open>runServer\<close> logs the error of \<^verbatim>\<open>server\<close>; the command that cobra ran has no error of its own.
  A left result is the status with which the process has already ended.\<close>

definition runServer :: "('w, int + goerr option \<times> 'i) gom \<Rightarrow> ('w, int + unit) gom" where
  "runServer srv = bindM srv (\<lambda>r. ret (case r of Inl status \<Rightarrow> Inl status | Inr _ \<Rightarrow> Inr ()))"

text \<open>\<open>zapBuild\<close> is the error of building the logger, which \<^verbatim>\<open>log.Fatalf\<close> turns into status 1.\<close>

definition rootPersistentPreRun :: "goerr option \<Rightarrow> int + unit" where
  "rootPersistentPreRun zapBuild = (if zapBuild \<noteq> None then Inl 1 else Inr ())"

text \<open>\<open>parse\<close> is the error of parsing the command line.  The result of \<^verbatim>\<open>main\<close> is the exit status.\<close>

definition Execute ::
  "goerr option \<Rightarrow> goerr option \<Rightarrow> ('w, int + goerr option \<times> 'i) gom \<Rightarrow> ('w, int + goerr option) gom" where
  "Execute parse zapBuild srv =
     (case parse of
        Some err \<Rightarrow> ret (Inr (Some err))
      | None \<Rightarrow>
          (case rootPersistentPreRun zapBuild of
             Inl status \<Rightarrow> ret (Inl status)
           | Inr _ \<Rightarrow>
               bindM (runServer srv) (\<lambda>r. ret (case r of Inl status \<Rightarrow> Inl status | Inr _ \<Rightarrow> Inr None))))"

definition main_exit ::
  "goerr option \<Rightarrow> goerr option \<Rightarrow> ('w, int + goerr option \<times> 'i) gom \<Rightarrow> ('w, int) gom" where
  "main_exit parse zapBuild srv =
     bindM (Execute parse zapBuild srv) (\<lambda>r.
     case r of Inl status \<Rightarrow> ret status | Inr err \<Rightarrow> ret (if err \<noteq> None then -1 else 0))"

section \<open>Facts\<close>

text \<open>What the process asks of the manager, in order.\<close>

datatype event = Completed string | Registered string | Healthz string | Readyz string | Started

definition serverPlan :: "bool \<Rightarrow> event list" where
  "serverPlan webhooks =
     [Completed ''PackageBundle'', Completed ''PackageBundleController'', Completed ''Package''] @
     (if webhooks then
        [Registered ''/validate-packages-eks-amazonaws-com-v1alpha1-packagebundle'',
         Registered ''/validate-packages-eks-amazonaws-com-v1alpha1-packagebundlecontroller'',
         Registered ''/validate-packages-eks-amazonaws-com-v1alpha1-package''] else []) @
     [Healthz ''healthz'', Readyz ''readyz'', Started]"

lemma serverPlan_before: "serverPlan w = before @ [Started] \<Longrightarrow> Started \<notin> set before"
  by (drule arg_cong [where f = butlast]) (auto simp: serverPlan_def butlast_append split: if_splits)

text \<open>The part of a plan up to and including its first failure.\<close>

fun attempted :: "(event \<Rightarrow> goerr option) \<Rightarrow> event list \<Rightarrow> event list" where
  "attempted fails [] = []"
| "attempted fails (ev # plan) = ev # (if fails ev = None then attempted fails plan else [])"

lemma attempted_ok: "\<forall>ev\<in>set plan. fails ev = None \<Longrightarrow> attempted fails plan = plan"
  by (induction plan) auto

lemma attempted_last:
  "ev \<in> set (attempted fails (plan @ [ev])) \<Longrightarrow> ev \<notin> set plan \<Longrightarrow> \<forall>e\<in>set plan. fails e = None"
  by (induction plan) (auto split: if_splits)

text \<open>A manager that remembers what it was asked, and whose answers depend on the request only;
  registering a handler has no answer.\<close>

definition records :: "('m \<Rightarrow> event list) \<Rightarrow> (event \<Rightarrow> goerr option) \<Rightarrow> ('x, 'm) ctrlManager \<Rightarrow> bool" where
  "records asked fails mgr \<longleftrightarrow>
     (\<forall>c m. fst (cmgr_Complete mgr c m) = fails (Completed (ctl_For c)) \<and>
        asked (snd (cmgr_Complete mgr c m)) = asked m @ [Completed (ctl_For c)]) \<and>
     (\<forall>p h m. asked (cmgr_Register mgr p h m) = asked m @ [Registered p]) \<and> (\<forall>p. fails (Registered p) = None) \<and>
     (\<forall>n m. fst (cmgr_AddHealthzCheck mgr n m) = fails (Healthz n) \<and>
        asked (snd (cmgr_AddHealthzCheck mgr n m)) = asked m @ [Healthz n]) \<and>
     (\<forall>n m. fst (cmgr_AddReadyzCheck mgr n m) = fails (Readyz n) \<and>
        asked (snd (cmgr_AddReadyzCheck mgr n m)) = asked m @ [Readyz n]) \<and>
     (\<forall>m. fst (cmgr_Start mgr m) = fails Started \<and> asked (snd (cmgr_Start mgr m)) = asked m @ [Started])"

definition asks ::
  "('m \<Rightarrow> event list) \<Rightarrow> (event \<Rightarrow> goerr option) \<Rightarrow> event \<Rightarrow> ('m \<times> 'x, goerr option) gom \<Rightarrow> bool" where
  "asks asked fails ev f \<longleftrightarrow>
     (\<forall>m x. \<exists>m'. f (m, x) = (Ret (fails ev), (m', x)) \<and> asked m' = asked m @ [ev])"

definition follows ::
  "('m \<Rightarrow> event list) \<Rightarrow> (event \<Rightarrow> goerr option) \<Rightarrow> event list \<Rightarrow> ('m \<times> 'x, goerr option) gom \<Rightarrow> bool" where
  "follows asked fails plan f \<longleftrightarrow>
     (\<forall>m x. \<exists>e m'. f (m, x) = (Ret e, (m', x)) \<and> asked m' = asked m @ attempted fails plan \<and>
        (e = None \<longleftrightarrow> (\<forall>ev\<in>set plan. fails ev = None)))"

lemma follows_end: "follows asked fails [] (ret None)"
  by (simp add: follows_def)

lemma follows_step:
  assumes f: "asks asked fails ev f" and g: "follows asked fails plan g"
  shows "follows asked fails (ev # plan) (orFail what f g)"
    and "follows asked fails (ev # plan) (orFailPlain what f g)"
proof -
  have "\<exists>e m'. orFail what f g (m, x) = (Ret e, (m', x)) \<and>
      asked m' = asked m @ attempted fails (ev # plan) \<and> (e = None \<longleftrightarrow> (\<forall>ev\<in>set (ev # plan). fails ev = None)) \<and>
      (\<exists>e'. orFailPlain what f g (m, x) = (Ret e', (m', x)) \<and> (e' = None \<longleftrightarrow> e = None))" for m x
  proof -
    obtain m1 where m1: "f (m, x) = (Ret (fails ev), (m1, x))" "asked m1 = asked m @ [ev]"
      using f by (auto simp: asks_def)
    have "\<exists>e m'. g (m1, x) = (Ret e, (m', x)) \<and> asked m' = asked m1 @ attempted fails plan \<and>
        (e = None \<longleftrightarrow> (\<forall>ev\<in>set plan. fails ev = None))"
      by (rule g [unfolded follows_def, THEN spec, THEN spec])
    then obtain e m2 where m2: "g (m1, x) = (Ret e, (m2, x))" "asked m2 = asked m1 @ attempted fails plan"
      "e = None \<longleftrightarrow> (\<forall>ev\<in>set plan. fails ev = None)"
      by blast
    show ?thesis
      using m1 m2 by (cases "fails ev") (auto simp: orFail_def orFailPlain_def bindM_def)
  qed
  then show "follows asked fails (ev # plan) (orFail what f g)"
    and "follows asked fails (ev # plan) (orFailPlain what f g)"
    unfolding follows_def by metis+
qed

lemma asks_manager:
  assumes "records asked fails mgr"
  shows "asks asked fails (Completed (ctl_For c)) (onManagerState (cmgr_Complete mgr c))"
    and "asks asked fails (Registered p) (onManagerState (\<lambda>m. (None, cmgr_Register mgr p h m)))"
    and "asks asked fails (Healthz n) (onManagerState (cmgr_AddHealthzCheck mgr n))"
    and "asks asked fails (Readyz n) (onManagerState (cmgr_AddReadyzCheck mgr n))"
    and "asks asked fails Started (onManagerState (cmgr_Start mgr))"
  using assms by (simp_all add: asks_def onManagerState_def records_def prod.case_eq_if)

lemma asks_registration:
  assumes r: "records asked fails mgr"
    and secret: "NewECRSecret (pl_kl L) (Some (cmgr_GetConfig mgr)) = Ret (Inr a)"
  shows "asks asked fails (Completed ''Package'') (RegisterPackageReconciler L mgr)"
    and "asks asked fails (Completed ''PackageBundle'') (RegisterPackageBundleReconciler L mgr)"
    and "asks asked fails (Completed ''PackageBundleController'') (RegisterPackageBundleControllerReconciler L mgr)"
proof -
  obtain cs s where a: "a = (cs, s)" by (cases a)
  show "asks asked fails (Completed ''Package'') (RegisterPackageReconciler L mgr)"
    using asks_manager(1) [OF r, of "\<lparr>ctl_For = ''Package'', ctl_Watches = _, ctl_Reconciler = _\<rparr>"]
    unfolding RegisterPackageReconciler_def Let_def secret a
    by (simp add: asks_def bindM_def ofGo_def)
  show "asks asked fails (Completed ''PackageBundle'') (RegisterPackageBundleReconciler L mgr)"
    using asks_manager(1) [OF r, of "\<lparr>ctl_For = ''PackageBundle'', ctl_Watches = _, ctl_Reconciler = _\<rparr>"]
    by (simp add: RegisterPackageBundleReconciler_def Let_def)
  show "asks asked fails (Completed ''PackageBundleController'') (RegisterPackageBundleControllerReconciler L mgr)"
    using asks_manager(1) [OF r, of "\<lparr>ctl_For = ''PackageBundleController'', ctl_Watches = _, ctl_Reconciler = _\<rparr>"]
    by (simp add: RegisterPackageBundleControllerReconciler_def Let_def)
qed

lemma registerAll_follows:
  assumes r: "records asked fails mgr"
    and secret: "NewECRSecret (pl_kl L) (Some (cmgr_GetConfig mgr)) = Ret (Inr a)"
  shows "follows asked fails (serverPlan (pl_getenv L ''ENABLE_WEBHOOKS'' = ''true'')) (registerAll L mgr)"
  unfolding serverPlan_def registerAll_def startManager_def InitPackageValidator_def
    InitPackageBundleValidator_def InitPackageBundleControllerValidator_def Let_def
  by (auto intro!: follows_step follows_end asks_manager [OF r] asks_registration [OF r secret])

lemma server_run:
  assumes "newManager (clientLimits cfg enabled) (serverOptions ctx) = Inr mgr"
    and "NewECRCredInjector (pl_kl L) A (cmgr_GetClient mgr) x = Inr ci"
    and "records asked fails mgr"
    and "NewECRSecret (pl_kl L) (Some (cmgr_GetConfig mgr)) = Ret (Inr a)"
    and plan: "serverPlan (pl_getenv L ''ENABLE_WEBHOOKS'' = ''true'') = plan"
  shows "\<exists>e m'. server L A ctx (Inr cfg) enabled newManager (m, x) = (Ret (Inr (e, Some ci)), (m', x)) \<and>
    asked m' = asked m @ attempted fails plan \<and> (e = None \<longleftrightarrow> (\<forall>ev\<in>set plan. fails ev = None))"
proof -
  have "follows asked fails plan (registerAll L mgr)"
    using registerAll_follows [OF assms(3,4)] by (simp only: plan)
  from this [unfolded follows_def, THEN spec, THEN spec, of m x] obtain e m' where
    "registerAll L mgr (m, x) = (Ret e, (m', x))" "asked m' = asked m @ attempted fails plan"
    "e = None \<longleftrightarrow> (\<forall>ev\<in>set plan. fails ev = None)"
    by blast
  then show ?thesis
    using assms(1,2) by (simp add: server_def bindM_def onWorld_def)
qed

text \<open>The exit status: whatever error \<^verbatim>\<open>server\<close> returns, the process ends with status 0.\<close>

lemma main_exit_served:
  "srv w = (Ret (Inr r), w') \<Longrightarrow> main_exit None None srv w = (Ret 0, w')"
  by (simp add: main_exit_def Execute_def rootPersistentPreRun_def runServer_def bindM_def)

lemma main_exit_died:
  "srv w = (Ret (Inl status), w') \<Longrightarrow> main_exit None None srv w = (Ret status, w')"
  by (simp add: main_exit_def Execute_def rootPersistentPreRun_def runServer_def bindM_def)

lemma main_exit_unserved:
  "main_exit (Some err) z srv w = (Ret (-1), w)" "main_exit None (Some err) srv w = (Ret 1, w)"
  by (simp_all add: main_exit_def Execute_def rootPersistentPreRun_def)

end
