(* ===== verification/World_Relation.thy ===== *)
theory World_Relation
  imports Controllers
begin

text \<open>
  What an operation may do to the world, as a preorder \<open>R\<close> on worlds: \<open>moves R m\<close> says that every run
  of \<open>m\<close>, whether it returns or panics, leads to an \<open>R\<close>-later world.  The locale \<open>world_relation\<close>
  carries the rule for every construct of the panic and state monad, so that the operations of a
  component are covered by unfolding them, and then the fact for every operation of the controller: they
  touch the world through the libraries only.  It is interpreted in the theory of the running
  system.
\<close>

named_theorems moves_rules "what the constructs and operations do to the world"

definition moves :: "('x \<Rightarrow> 'x \<Rightarrow> bool) \<Rightarrow> ('x, 'a) gom \<Rightarrow> bool" where
  "moves R m \<longleftrightarrow> (\<forall>x. R x (snd (m x)))"

text \<open>The same for an operation with private state beside the world.\<close>

definition movesP :: "('x \<Rightarrow> 'x \<Rightarrow> bool) \<Rightarrow> ('d \<times> 'x, 'a) gom \<Rightarrow> bool" where
  "movesP R m \<longleftrightarrow> (\<forall>d x. R x (snd (snd (m (d, x)))))"

definition movesW :: "('x \<Rightarrow> 'x \<Rightarrow> bool) \<Rightarrow> ('x \<Rightarrow> 'a \<times> 'x) \<Rightarrow> bool" where
  "movesW R f \<longleftrightarrow> (\<forall>x. R x (snd (f x)))"

text \<open>The writes of a client of the cluster, except the one of the status of a package.\<close>

definition client_moves :: "('x \<Rightarrow> 'x \<Rightarrow> bool) \<Rightarrow> 'x Client \<Rightarrow> bool" where
  "client_moves R cl \<longleftrightarrow>
     (\<forall>p. movesW R (cl_CreatePackage cl p)) \<and> (\<forall>b. movesW R (cl_CreateBundle cl b)) \<and>
     (\<forall>c. movesW R (cl_CreateConfigMap cl c)) \<and> (\<forall>n. movesW R (cl_CreateNamespace cl n)) \<and>
     (\<forall>s. movesW R (cl_CreateSecret cl s)) \<and> (\<forall>p. movesW R (cl_UpdatePBC cl p)) \<and>
     (\<forall>s. movesW R (cl_UpdateSecret cl s)) \<and> (\<forall>b. movesW R (cl_StatusBundle cl b)) \<and>
     (\<forall>p. movesW R (cl_StatusPBC cl p))"

definition clientset_moves :: "('x \<Rightarrow> 'x \<Rightarrow> bool) \<Rightarrow> 'x Clientset \<Rightarrow> bool" where
  "clientset_moves R cs \<longleftrightarrow>
     (\<forall>n c. movesW R (cs_UpdateConfigMap cs n c)) \<and> (\<forall>n j. movesW R (cs_CreateJob cs n j)) \<and>
     (\<forall>n j. movesW R (cs_DeleteJob cs n j))"

text \<open>Every client that the library builds.\<close>

definition kube_moves :: "('x \<Rightarrow> 'x \<Rightarrow> bool) \<Rightarrow> 'x KubeLib \<Rightarrow> bool" where
  "kube_moves R kl \<longleftrightarrow>
     (\<forall>c cl. kl_NewClient kl c = Inr cl \<longrightarrow> client_moves R cl) \<and>
     (\<forall>c cs. kl_NewForConfig kl c = Ret (Inr cs) \<longrightarrow> clientset_moves R cs)"

definition helm_moves :: "('x \<Rightarrow> 'x \<Rightarrow> bool) \<Rightarrow> ('t, 'x) HelmLib \<Rightarrow> bool" where
  "helm_moves R H \<longleftrightarrow>
     (\<forall>c i u s. movesW R (hl_LocateChart H c i u s)) \<and> (\<forall>c i h v. movesW R (hl_Install H c i h v)) \<and>
     (\<forall>c k n h v. movesW R (hl_Upgrade H c k n h v)) \<and> (\<forall>c n. movesW R (hl_Uninstall H c n))"

text \<open>The same for whole components, behind the interfaces of the repository.\<close>

definition bundleClient_moves :: "('x \<Rightarrow> 'x \<Rightarrow> bool) \<Rightarrow> 'x BundleClient \<Rightarrow> bool" where
  "bundleClient_moves R C \<longleftrightarrow>
     (\<forall>c. moves R (bc_GetActiveBundle C c)) \<and> (\<forall>c. moves R (bc_GetPackageBundleController C c)) \<and>
     moves R (bc_GetBundleList C) \<and> (\<forall>n. moves R (bc_GetSecret C n)) \<and> (\<forall>b. moves R (bc_CreateBundle C b)) \<and>
     (\<forall>c. moves R (bc_CreateClusterConfigMap C c)) \<and> (\<forall>p. moves R (bc_CreatePackage C p)) \<and>
     (\<forall>n. moves R (bc_GetPackageList C n)) \<and> (\<forall>p. moves R (bc_SaveStatus C p)) \<and> (\<forall>p. moves R (bc_Save C p))"

definition target_moves :: "('x \<Rightarrow> 'x \<Rightarrow> bool) \<Rightarrow> ('t, 'x) TargetClusterClient \<Rightarrow> bool" where
  "target_moves R T \<longleftrightarrow>
     (\<forall>c. movesP R (tc_Initialize T c)) \<and> (\<forall>c. movesP R (tc_GetServerVersion T c)) \<and>
     (\<forall>c. movesP R (tc_CreateClusterNamespace T c)) \<and> (\<forall>n. movesP R (tc_CheckNamespace T n)) \<and>
     (\<forall>s. movesP R (tc_ApplySecret T s)) \<and> movesP R (tc_ToRESTConfig T)"

definition auth_moves :: "('x \<Rightarrow> 'x \<Rightarrow> bool) \<Rightarrow> ('a, 'x) Authenticator \<Rightarrow> bool" where
  "auth_moves R A \<longleftrightarrow>
     (\<forall>c. movesP R (auth_Initialize A c)) \<and> (\<forall>n s. movesP R (auth_AddToConfigMap A n s)) \<and>
     (\<forall>n s. movesP R (auth_DelFromConfigMap A n s)) \<and> (\<forall>n. movesP R (auth_GetSecretValues A n)) \<and>
     movesP R (auth_AddSecretToAllNamespace A)"

definition driver_moves :: "('x \<Rightarrow> 'x \<Rightarrow> bool) \<Rightarrow> ('d, 'x) PackageDriver \<Rightarrow> bool" where
  "driver_moves R D \<longleftrightarrow>
     (\<forall>c. movesP R (drv_Initialize D c)) \<and> (\<forall>n s c src v. movesP R (drv_Install D n s c src v)) \<and>
     (\<forall>n. movesP R (drv_Uninstall D n)) \<and> (\<forall>n v. movesP R (drv_IsConfigChanged D n v))"

lemmas component_moves = bundleClient_moves_def target_moves_def auth_moves_def driver_moves_def

definition registry_moves :: "('x \<Rightarrow> 'x \<Rightarrow> bool) \<Rightarrow> 'x RegistryClient \<Rightarrow> bool" where
  "registry_moves R rc \<longleftrightarrow>
     (\<forall>a b c d. moves R (rc_LatestBundle rc a b c d)) \<and> (\<forall>a b. moves R (rc_DownloadBundle rc a b))"

locale world_relation =
  fixes R :: "'x \<Rightarrow> 'x \<Rightarrow> bool"
  assumes R_refl: "R x x" and R_trans: "R x y \<Longrightarrow> R y z \<Longrightarrow> R x z"
begin

text \<open>The constructs.\<close>

lemma moves_basic [moves_rules]:
  "moves R (ret a)" "moves R (panic e)" "moves R (ofGo g)" "moves R (reading f)" "moves R (Pair r)"
  "movesP R (ret a)" "movesP R (panic e)" "movesP R (ofGo g)" "movesP R (reading h)"
  "movesP R getPriv" "movesP R (putPriv d)" "movesP R (Pair r)"
  by (auto simp: moves_def movesP_def ret_def panic_def ofGo_def reading_def getPriv_def putPriv_def R_refl)

lemma moves_bind [moves_rules]:
  "moves R m \<Longrightarrow> (\<And>a. moves R (k a)) \<Longrightarrow> moves R (bindM m k)"
  by (auto simp: moves_def bindM_def split: prod.split go.split) (metis R_trans snd_conv)+

lemma movesP_bind [moves_rules]:
  "movesP R m \<Longrightarrow> (\<And>a. movesP R (k a)) \<Longrightarrow> movesP R (bindM m k)"
  by (auto simp: movesP_def bindM_def split: prod.split go.split) (metis R_trans snd_conv)+

lemma movesP_ofGo: "(\<And>a. g = Ret a \<Longrightarrow> movesP R (k a)) \<Longrightarrow> movesP R (bindM (ofGo g) k)"
  by (cases g) (auto simp: movesP_def bindM_def ofGo_def R_refl)

lemma moves_lifts [moves_rules]:
  "moves R m \<Longrightarrow> movesP R (onWorld m)"
  "movesW R f \<Longrightarrow> moves R (call f)"
  by (auto simp: moves_def movesP_def movesW_def onWorld_def prod.case_eq_if)

lemma movesP_parts [moves_rules]:
  "movesP R a \<Longrightarrow> movesP R (onAuth a)"
  "movesP R t \<Longrightarrow> movesP R (onTcc t)"
  "movesP R t \<Longrightarrow> movesP R (onManager t)"
  by (auto simp: movesP_def onAuth_def onTcc_def onManager_def prod.case_eq_if)

text \<open>The components, one after the other.\<close>

lemma managerClient_moves:
  "client_moves R cl \<Longrightarrow> bundleClient_moves R (managerClient getenv cl)"
  unfolding bundleClient_moves_def client_moves_def managerClient_def
  by (auto simp: mgr_GetActiveBundle_def mgr_GetPackageBundleController_def mgr_GetBundleList_def
      mgr_GetSecret_def mgr_GetPackageList_def mgr_CreateBundle_def mgr_CreateClusterConfigMap_def
      mgr_CreatePackage_def mgr_SaveStatus_def mgr_Save_def Let_def intro!: moves_rules
      split: sum.split option.split)

lemma registryClient_moves:
  assumes "\<And>r c. moves R (pull r c)"
  shows "registry_moves R (registryClient yamlBundle pull)"
  unfolding registry_moves_def registryClient_def
  by (auto simp: LatestBundle_def DownloadBundle_def Let_def intro!: moves_rules assms split: sum.split)

lemma ecrAuthenticator_moves:
  assumes "clientset_moves R cs"
  shows "auth_moves R (ecrAuthenticator mapRange getenv kl cs)"
proof -
  have w: "movesW R (cs_UpdateConfigMap cs n c)" "movesW R (cs_CreateJob cs n j)" "movesW R (cs_DeleteJob cs n i)"
    for n c j i using assms by (auto simp: clientset_moves_def)
  have jobs: "moves R (deleteSucceeded cs js)" for js
    by (induction js) (auto intro!: moves_rules w split: option.split)
  show ?thesis
    unfolding auth_moves_def ecrAuthenticator_def
    by (auto simp: ecr_Initialize_def ecr_AddToConfigMap_def ecr_DelFromConfigMap_def ecr_GetSecretValues_def
        ecr_AddSecretToAllNamespace_def cleanupPrevRuns_def Let_def intro!: moves_rules w jobs
        split: sum.split option.split bool.split)
qed

lemma targetCluster_moves:
  assumes "kube_moves R kl"
  shows "target_moves R (targetCluster getenv kl cl)"
proof -
  have init: "movesP R (tcc_Initialize getenv kl cl c)" for c
    by (auto simp: tcc_Initialize_def getKubeconfig_def intro!: moves_rules split: sum.split option.split)
  have rest: "movesP R (tcc_ToRESTConfig kl)"
    by (auto simp: tcc_ToRESTConfig_def intro!: moves_rules split: option.split)
  have check: "movesP R (tcc_CheckNamespace kl n)" for n
    by (auto simp: tcc_CheckNamespace_def intro!: moves_rules rest split: sum.split)
  have w: "kl_NewClient kl c = Inr k \<Longrightarrow> movesW R (cl_CreateNamespace k n)"
    "kl_NewClient kl c = Inr k \<Longrightarrow> movesW R (cl_CreateSecret k s)"
    "kl_NewClient kl c = Inr k \<Longrightarrow> movesW R (cl_UpdateSecret k s)" for c k n s
    using assms by (auto simp: kube_moves_def client_moves_def)
  show ?thesis
    unfolding target_moves_def targetCluster_def
    by (auto simp: tcc_GetServerVersion_def tcc_ToDiscoveryClient_def tcc_CreateClusterNamespace_def
        tcc_ApplySecret_def Let_def intro!: moves_rules init rest check w split: sum.split option.split)
qed

lemma helmDriver_moves:
  assumes "helm_moves R H" and a: "auth_moves R A" and t: "target_moves R T"
  shows "driver_moves R (helmPackageDriver getenv kl H A T)"
proof -
  have h: "movesW R (hl_LocateChart H c i u st)" "movesW R (hl_Install H c i ch v)"
    "movesW R (hl_Upgrade H c k n ch v)" "movesW R (hl_Uninstall H c n)" for c i u st ch v k n
    using assms(1) by (auto simp: helm_moves_def)
  have chart: "movesP R (getChart H c i src)" "movesP R (createRelease H c i ch v)"
    "movesP R (upgradeRelease H c n ch v)" for c i src ch v n
    by (auto simp: getChart_def createRelease_def upgradeRelease_def Let_def intro!: moves_rules h
        split: sum.split option.split)
  show ?thesis
    using a t unfolding driver_moves_def helmPackageDriver_def auth_moves_def target_moves_def
    by (auto simp: hd_Initialize_def hd_Install_def hd_Uninstall_def hd_IsConfigChanged_def Let_def
        intro!: moves_rules chart h split: sum.split option.split)
qed

text \<open>Against the interfaces.\<close>

lemma Process_moves:
  assumes d: "driver_moves R (env_driver env)" and c: "bundleClient_moves R (env_client env)"
  shows "movesP R (Process env mc)"
proof -
  have c': "moves R (bc_CreatePackage (env_client env) p)" "moves R (bc_GetPackageList (env_client env) ns)"
    for p ns using c by (auto simp: bundleClient_moves_def)
  have d': "movesP R (drv_Initialize (env_driver env) cl)" "movesP R (drv_Install (env_driver env) n s cr src v)"
    "movesP R (drv_Uninstall (env_driver env) n)" "movesP R (drv_IsConfigChanged (env_driver env) n v)"
    for cl n s cr src v using d by (auto simp: driver_moves_def)
  have p: "moves R (pkgsNotReady (env_client env) this items deps)" for this items deps
    by (induction deps) (auto simp: Let_def intro!: moves_rules c' split: option.split)
  have h: "movesP R (processInitializing mc)" "movesP R (processUpdating mc)" "movesP R (processDone mc)"
    "movesP R (processUnknown mc)" "movesP R (processInstallingDependencies env mc)"
    "movesP R (processInstalling env mc)" "movesP R (processInstalled env mc)"
    "movesP R (processUninstalling env mc)" for mc
    unfolding processInitializing_def processUpdating_def processDone_def processUnknown_def
      processInstallingDependencies_def processInstalling_def processInstalled_def processUninstalling_def Let_def
    by (auto intro!: moves_rules p c' d' split: sum.split option.split)
  have "movesP R (getState env s mc)" for s mc
    by (auto simp: getState_def packageStates_def Let_def h split: option.split dest: if_split [THEN iffD1])
  then show ?thesis
    unfolding Process_def Let_def by (auto intro!: moves_rules)
qed

lemma ProcessBundleController_moves:
  assumes c: "bundleClient_moves R (bm_bundleClient m)" and r: "registry_moves R (bm_registryClient m)"
    and t: "target_moves R (bm_targetClient m)" and k: "kube_moves R (bm_kl m)"
  shows "movesP R (ProcessBundleController m pbc)"
proof -
  have c': "moves R (bc_GetBundleList (bm_bundleClient m))" "moves R (bc_GetSecret (bm_bundleClient m) n)"
    "moves R (bc_CreateBundle (bm_bundleClient m) b)" "moves R (bc_CreateClusterConfigMap (bm_bundleClient m) n)"
    "moves R (bc_SaveStatus (bm_bundleClient m) p)" "moves R (bc_Save (bm_bundleClient m) p)" for n b p
    using c by (auto simp: bundleClient_moves_def)
  have r': "moves R (rc_LatestBundle (bm_registryClient m) u v w z)"
    "moves R (rc_DownloadBundle (bm_registryClient m) u v)" for u v w z
    using r by (auto simp: registry_moves_def)
  have t': "movesP R (tc_Initialize (bm_targetClient m) n)" "movesP R (tc_GetServerVersion (bm_targetClient m) n)"
    "movesP R (tc_CreateClusterNamespace (bm_targetClient m) n)" "movesP R (tc_ApplySecret (bm_targetClient m) s)"
    "movesP R (tc_ToRESTConfig (bm_targetClient m))" for n s
    using t by (auto simp: target_moves_def)
  have save: "movesP R (saveStatusOr m a b p e)" for a b p e
    by (auto simp: saveStatusOr_def intro!: moves_rules c' split: option.split)
  have secrets: "moves R (\<lambda>x. case ecr_AddSecretToAllNamespace (bm_kl m) cs (s, x) of (r, (_, x')) \<Rightarrow> (r, x'))"
    if "NewECRSecret (bm_kl m) cfg = Ret (Inr (cs, s))" for cfg cs s
  proof -
    have "clientset_moves R cs"
      using that k by (auto simp: NewECRSecret_def kube_moves_def split: go.splits sum.splits)
    then have "movesP R (auth_AddSecretToAllNamespace (ecrAuthenticator id (\<lambda>_. []) (bm_kl m) cs))"
      using ecrAuthenticator_moves by (auto simp: auth_moves_def)
    then show ?thesis
      by (auto simp: ecrAuthenticator_def movesP_def moves_def prod.case_eq_if)
  qed
  have refresh: "movesP R (refreshSecrets m)"
    unfolding refreshSecrets_def Let_def
    by (auto intro!: movesP_bind moves_basic movesP_ofGo moves_lifts t' dest!: secrets split: sum.split)
  have ensure: "movesP R (ensureCluster m bs p)" for bs p
    by (auto simp: ensureCluster_def intro!: moves_rules c' r' t' split: sum.split option.split)
  have switch: "movesP R (switchState m b bs p)" for b bs p
    by (auto simp: switchState_def Let_def intro!: moves_rules c' save ensure split: option.split)
  show ?thesis
    by (auto simp: ProcessBundleController_def disconnect_def intro!: moves_rules c' r' t' save refresh switch
        split: sum.split option.split)
qed

lemma UpdateIfNeeded_moves:
  assumes "client_moves R cl"
  shows "moves R (UpdateIfNeeded getenv cl n)"
proof -
  have w: "movesW R (cl_UpdateSecret cl s)" for s using assms by (auto simp: client_moves_def)
  show ?thesis
    by (auto simp: UpdateIfNeeded_def fetchCertContent_def Let_def intro!: moves_rules w
        split: sum.split option.split)
qed

lemma Refresh_moves:
  assumes "client_moves R (inj_k8sClient a)"
  shows "moves R (Refresh getenv dcl A a)"
proof -
  have w: "movesW R (cl_UpdateSecret (inj_k8sClient a) s)" for s using assms by (auto simp: client_moves_def)
  show ?thesis
    by (auto simp: Refresh_def GetCredential_def GetRegistryMirrorSecret_def GetECR_def InjectCredential_def
        Let_def intro!: moves_rules w split: sum.split option.split list.split)
qed

lemma bundle_Reconcile_moves:
  assumes "client_moves R cl"
  shows "moves R (bundle_Reconcile cmp cfg cl req)"
proof -
  have w: "movesW R (cl_StatusBundle cl b)" for b using assms by (auto simp: client_moves_def)
  show ?thesis
    by (auto simp: bundle_Reconcile_def intro!: moves_rules w split: sum.split prod.split option.split)
qed

lemma pbc_Reconcile_moves:
  assumes cl: "client_moves R cl"
    and "bundleClient_moves R (bm_bundleClient m)" "registry_moves R (bm_registryClient m)"
    "target_moves R (bm_targetClient m)" "kube_moves R (bm_kl m)"
  shows "movesP R (pbc_Reconcile m cl req)"
proof -
  have w: "movesW R (cl_StatusPBC cl p)" for p using cl by (auto simp: client_moves_def)
  show ?thesis
    by (auto simp: pbc_Reconcile_def Let_def intro!: moves_rules w UpdateIfNeeded_moves cl
        ProcessBundleController_moves assms(2-) split: sum.split option.split)
qed

end

end
