(* ===== verification/System.thy ===== *)
theory System
  imports Server World_Relation
begin

text \<open>
  The running system: the three reconcilers, the loop of the credential injector, restarts of the
  process and everybody else who writes to the cluster, as the steps of one transition relation.
  The store of packages is seen through \<^verbatim>\<open>Get\<close> of the client.  Every library call but the write of
  a package's status leaves each stored package as it was, up to edits by its owner, or new; this is
  the relation \<open>evolves\<close>, on which \<open>world_relation\<close> is interpreted.  The state machine of one
  package then lifts to the system.
\<close>

section \<open>The store of packages\<close>

definition keyOf :: "Package \<Rightarrow> NamespacedName" where
  "keyOf p = \<lparr>nn_Namespace = pkg_Namespace p, nn_Name = pkg_Name p\<rparr>"

text \<open>The same object with the same status: its owner may have changed the rest.\<close>

definition ownerEdit :: "Package \<Rightarrow> Package \<Rightarrow> bool" where
  "ownerEdit p q \<longleftrightarrow> keyOf q = keyOf p \<and> pkg_Status q = pkg_Status p"

text \<open>Packages are created without a status, edited and deleted.\<close>

definition evolves :: "'x Client \<Rightarrow> 'x \<Rightarrow> 'x \<Rightarrow> bool" where
  "evolves client x x' \<longleftrightarrow> (\<forall>nn q. cl_GetPackage client nn x' = Inr q \<longrightarrow>
     pkg_Status q = zeroStatus \<or> (\<exists>p. cl_GetPackage client nn x = Inr p \<and> ownerEdit p q))"

lemma ownerEdit_trans: "ownerEdit p q \<Longrightarrow> ownerEdit q r \<Longrightarrow> ownerEdit p r"
  by (simp add: ownerEdit_def)

lemma evolves_get:
  "evolves client x x' \<Longrightarrow> cl_GetPackage client nn x' = Inr q \<Longrightarrow>
     pkg_Status q = zeroStatus \<or> (\<exists>p. cl_GetPackage client nn x = Inr p \<and> ownerEdit p q)"
  by (simp add: evolves_def)

lemma evolves_refl: "evolves client x x"
  by (simp add: evolves_def ownerEdit_def)

lemma evolves_trans: "evolves client x y \<Longrightarrow> evolves client y z \<Longrightarrow> evolves client x z"
  unfolding evolves_def ownerEdit_def by metis

interpretation store: world_relation "evolves client" for client :: "'x Client"
  by unfold_locales (auto intro: evolves_refl evolves_trans)

text \<open>The API server: an object is found under its own name, and a write of a status changes one
  object, whose status becomes the one that was sent.\<close>

definition package_api :: "'x Client \<Rightarrow> bool" where
  "package_api client \<longleftrightarrow>
     (\<forall>nn x p. cl_GetPackage client nn x = Inr p \<longrightarrow> keyOf p = nn) \<and>
     (\<forall>p x nn q. cl_GetPackage client nn (snd (cl_StatusPackage client p x)) = Inr q \<longrightarrow>
        pkg_Status q = zeroStatus \<or>
        (\<exists>p'. cl_GetPackage client nn x = Inr p' \<and> ownerEdit p' q) \<or> nn = keyOf p \<and> ownerEdit p q)"

text \<open>Worlds after some evolution and at most one write of the status of a package with \<open>Q\<close>.\<close>

definition stored :: "'x Client \<Rightarrow> (Package \<Rightarrow> bool) \<Rightarrow> 'x \<Rightarrow> 'x \<Rightarrow> bool" where
  "stored client Q x x' \<longleftrightarrow> evolves client x x' \<or>
     (\<exists>p x1. Q p \<and> evolves client x x1 \<and> x' = snd (cl_StatusPackage client p x1))"

lemma stored_get:
  assumes api: "package_api client" and st: "stored client Q x x'" and get: "cl_GetPackage client nn x' = Inr q"
  shows "pkg_Status q = zeroStatus \<or> (\<exists>p. cl_GetPackage client nn x = Inr p \<and> ownerEdit p q) \<or>
    (\<exists>p. Q p \<and> nn = keyOf p \<and> ownerEdit p q)"
  using st unfolding stored_def
proof (elim disjE exE conjE)
  fix p x1
  assume Q: "Q p" and e: "evolves client x x1" and x': "x' = snd (cl_StatusPackage client p x1)"
  consider "pkg_Status q = zeroStatus" | p' where "cl_GetPackage client nn x1 = Inr p'" "ownerEdit p' q"
    | "nn = keyOf p" "ownerEdit p q"
    using api get unfolding package_api_def x' by blast
  then show ?thesis
  proof cases
    case 2
    then show ?thesis using evolves_get [OF e 2(1)] ownerEdit_trans by (auto simp: ownerEdit_def)
  qed (use Q in blast)+
qed (use evolves_get [OF _ get] in blast)

lemma moves_stored: "movesP (evolves client) m \<Longrightarrow> movesP (stored client Q) m"
  by (simp add: movesP_def stored_def)

lemma stored_after: "evolves client x y \<Longrightarrow> stored client Q y z \<Longrightarrow> stored client Q x z"
  unfolding stored_def by (elim disjE exE conjE) (auto intro: evolves_trans)

lemma stored_bind:
  assumes "movesP (evolves client) m" "\<And>w. wlp m (\<lambda>a _. P a) w" "\<And>a. P a \<Longrightarrow> movesP (stored client Q) (k a)"
  shows "movesP (stored client Q) (bindM m k)"
  unfolding movesP_def
proof (intro allI)
  fix d x
  obtain r d' x' where m: "m (d, x) = (r, (d', x'))" by (metis prod.collapse)
  then have e: "evolves client x x'" using assms(1) by (metis movesP_def snd_conv)
  show "stored client Q x (snd (snd (bindM m k (d, x))))"
  proof (cases r)
    case (Ret a)
    then have "P a" using assms(2) [of "(d, x)"] m by (simp add: wlp_def)
    from assms(3) [OF this] have "stored client Q x' (snd (snd (k a (d', x'))))"
      by (simp add: movesP_def)
    with e Ret m show ?thesis by (simp add: bindM_def stored_after)
  qed (use e m in \<open>simp add: bindM_def stored_def\<close>)
qed

lemma stored_write:
  assumes "Q p" "\<And>e. movesP (=) (k e)"
  shows "movesP (stored client Q) (bindM (onWorld (call (cl_StatusPackage client p))) k)"
  unfolding movesP_def
proof (intro allI)
  fix d x
  have "snd (snd (k e (d, x'))) = x'" for e x' using assms(2) [of e] by (simp add: movesP_def)
  then show "stored client Q x (snd (snd (bindM (onWorld (call (cl_StatusPackage client p))) k (d, x))))"
    using assms(1) evolves_refl [of client x] by (auto simp: bindM_def onWorld_def stored_def)
qed

section \<open>One pass over one package\<close>

text \<open>What the status that is written has to do with the package that was read.\<close>

definition passOf :: "Package \<Rightarrow> Package \<Rightarrow> bool" where
  "passOf p q \<longleftrightarrow> sameObject p q \<and>
     (let a = phase_of (st_State (pkg_Status p)); b = phase_of (st_State (pkg_Status q))
      in a = b \<or> phase_step (IsValidNamespace p) a b) \<and>
     (statusInv p \<longrightarrow> statusInv q)"

lemma sameObject_key: "sameObject p q \<Longrightarrow> keyOf q = keyOf p"
proof -
  assume "sameObject p q"
  then have "keyOf q = keyOf (p\<lparr>pkg_Status := pkg_Status q\<rparr>)" by (simp add: sameObject_def)
  then show ?thesis by (simp add: keyOf_def)
qed

text \<open>A package that was not found gets a status only where its namespace is not one of packages.\<close>

definition rejectedAt :: "NamespacedName \<Rightarrow> Package \<Rightarrow> bool" where
  "rejectedAt req q \<longleftrightarrow> keyOf q = req \<and> \<not> IsValidNamespace q \<and> st_State (pkg_Status q) = StateUnknown"

definition writtenBy :: "NamespacedName \<Rightarrow> goerr + Package \<Rightarrow> Package \<Rightarrow> bool" where
  "writtenBy req g q \<longleftrightarrow> (case g of Inl err \<Rightarrow> rejectedAt req q | Inr p \<Rightarrow> passOf p q)"

lemma goodStep_passOf:
  "goodStep mc r \<Longrightarrow> (statusInv (mc_Package mc) \<Longrightarrow> statusInv (mc_Package (snd r))) \<Longrightarrow>
     passOf (mc_Package mc) (mc_Package (snd r))"
  by (cases r) (simp add: passOf_def goodStep_def stateOf_def Let_def)

lemma Process_pass:
  "wlp (Process env mc) (\<lambda>r _. passOf (mc_Package mc) (mc_Package (snd r))) w"
proof (rule wlpI)
  fix r w'
  assume run: "Process env mc w = (Ret r, w')"
  have "statusInv (mc_Package (snd r))" if "statusInv (mc_Package mc)"
    using wlpD [OF Process_statusInv [OF that] run] by (simp add: case_prod_unfold)
  then show "passOf (mc_Package mc) (mc_Package (snd r))"
    by (rule goodStep_passOf [OF wlpD [OF Process_goodStep run]])
qed

lemma processAndStore_stored:
  assumes "movesP (evolves client) (Process env mc)"
    and "\<And>w. wlp (Process env mc) (\<lambda>r _. fst r \<longrightarrow> Q (mc_Package (snd r))) w"
  shows "movesP (stored client Q) (processAndStore env client mc)"
  unfolding processAndStore_def
proof (rule stored_bind [OF assms], clarify)
  fix updateNeeded mc'
  assume Q: "fst (updateNeeded, mc') \<longrightarrow> Q (mc_Package (snd (updateNeeded, mc')))"
  have end_: "movesP (=) (case e of None \<Rightarrow> ret (after (mc_RequeueAfter mc'), None)
      | Some err \<Rightarrow> ret (after (mc_RequeueAfter mc'), Some err))" for e :: "goerr option"
    by (cases e) (simp_all add: movesP_def)
  show "movesP (stored client Q)
     (if updateNeeded then bindM (onWorld (call (cl_StatusPackage client (mc_Package mc')))) (\<lambda>e.
        case e of None \<Rightarrow> ret (after (mc_RequeueAfter mc'), None)
        | Some err \<Rightarrow> ret (after (mc_RequeueAfter mc'), Some err))
      else ret (after (mc_RequeueAfter mc'), None))"
  proof (cases updateNeeded)
    case True
    then show ?thesis using stored_write [OF _ end_, of Q "mc_Package mc'" client] Q by simp
  next
    case False
    then show ?thesis by (simp add: moves_stored store.moves_basic)
  qed
qed

lemma reportDetail_stored:
  assumes "Q (mc_Package (setDetail detail mc))"
  shows "movesP (stored client Q) (reportDetail client mc detail t)"
proof -
  have "movesP (=) (case e of None \<Rightarrow> ret (after retryLong, None) | Some err \<Rightarrow> ret (after t, Some err))"
    for e :: "goerr option"
    by (cases e) (simp_all add: movesP_def)
  then show ?thesis unfolding reportDetail_def by (intro stored_write assms)
qed

text \<open>Changes of the detail and of the target version do not count as steps.\<close>

lemma passOf_report: "passOf p (mc_Package (setDetail d (mc\<lparr>mc_Package := p\<rparr>)))"
  by (simp add: passOf_def statusInv_def)

lemma passOf_target:
  "passOf (mc_Package (setStatus (\<lambda>st. st\<lparr>st_TargetVersion := v\<rparr>) mc)) q \<Longrightarrow> passOf (mc_Package mc) q"
  using sameObject_trans [of "mc_Package mc" "mc_Package (setStatus (\<lambda>st. st\<lparr>st_TargetVersion := v\<rparr>) mc)" q]
  by (auto simp: passOf_def statusInv_def Let_def sameObject_namespace [of "mc_Package mc"
      "mc_Package (setStatus (\<lambda>st. st\<lparr>st_TargetVersion := v\<rparr>) mc)"])

lemma uninstall_rejected:
  "wlp (Process env (uninstallContext req)) (\<lambda>r _. fst r \<longrightarrow> rejectedAt req (mc_Package (snd r))) w"
proof (cases "IsValidNamespace (mc_Package (uninstallContext req))")
  case True
  then show ?thesis
    using processUninstalling_unreported [of env "requeue retryLong (uninstallContext req)" w]
    by (auto simp: Process_valid intro: wlp_mono)
next
  case False
  have "IsValidNamespace (mc_Package (setStatus f mc)) = IsValidNamespace (mc_Package mc)" for f mc
    by (rule sameObject_namespace) simp
  with False show ?thesis
    by (auto simp: Process_invalid Let_def rejectedAt_def keyOf_def state_defs)
qed

lemma stored_bind_world:
  "moves (evolves client) m \<Longrightarrow> (\<And>a. movesP (stored client Q) (k a)) \<Longrightarrow>
     movesP (stored client Q) (bindM (onWorld m) k)"
  by (rule stored_bind [where P = "\<lambda>_. True"]) (auto intro: store.moves_lifts simp: wlp_def split: prod.split go.split)

lemma bind_read:
  "bindM (onWorld (reading f)) k (d, x) = k (f x) (d, x)"
  by (simp add: bindM_def onWorld_def)

lemma movesP_D: "movesP S m \<Longrightarrow> S x (snd (snd (m (d, x))))"
  by (simp add: movesP_def)

lemma package_Reconcile_stored:
  assumes d: "driver_moves (evolves client) (env_driver env)"
    and c: "bundleClient_moves (evolves client) (env_client env)"
  shows "stored client (writtenBy req (cl_GetPackage client req x)) x
    (snd (snd (package_Reconcile env client req (d, x))))"
proof -
  note proc = store.Process_moves [OF d c]
  have b: "moves (evolves client) (bc_GetPackageBundleController (env_client env) n)"
    "moves (evolves client) (bc_GetActiveBundle (env_client env) n)" for n
    using c by (auto simp: bundleClient_moves_def)
  have found: "movesP (stored client (passOf p))
      (processAndStore env client (setStatus (\<lambda>st. st\<lparr>st_TargetVersion := v\<rparr>) mc))"
    if "mc_Package mc = p" for mc v p unfolding that [symmetric]
    by (rule processAndStore_stored [OF proc]) (auto intro!: wlp_mono [OF Process_pass] dest: passOf_target)
  have lost: "movesP (stored client (rejectedAt req)) (processAndStore env client
      (SetUninstalling (nn_Namespace req) (nn_Name req) NewManagerContext))"
    using processAndStore_stored [OF proc uninstall_rejected] by (simp add: uninstallContext_def)
  have quiet: "movesP (stored client Q) (Pair a)" for Q and a :: "reconciled go"
    by (simp add: moves_stored store.moves_basic)
  have report: "movesP (stored client (passOf p)) (reportDetail client mc d t)"
    if "mc_Package mc = p" for mc d t p unfolding that [symmetric]
    by (rule reportDetail_stored) (simp add: passOf_def statusInv_def)
  show ?thesis
  proof (cases "cl_GetPackage client req x")
    case (Inl err)
    show ?thesis
      unfolding package_Reconcile_def Let_def bind_read Inl sum.case writtenBy_def
      by (rule movesP_D [of "stored client (rejectedAt req)"]) (simp add: lost quiet)
  next
    case (Inr p)
    show ?thesis
      unfolding package_Reconcile_def Let_def bind_read Inr sum.case writtenBy_def
      by (rule movesP_D [of "stored client (passOf p)"])
        (auto intro!: stored_bind_world b report found split: sum.split)
  qed
qed

section \<open>The system\<close>

record ('d, 't, 'x) sys =
  sys_driver :: 'd
  sys_pbc :: "'t pbcReconciler"
  sys_world :: 'x

text \<open>The parts of the process: what the reconcilers are built from, and the operation that the loop of
  the credential injector repeats.\<close>

record ('d, 't, 'x) parts =
  sp_env :: "('d, 'x) managerEnv"
  sp_client :: "'x Client"
  sp_semver :: "string \<Rightarrow> string \<Rightarrow> int"
  sp_config :: Config
  sp_manager :: "('t, 'x) bundleManager"
  sp_refresh :: "('x, goerr option) gom"
  sp_driver0 :: 'd
  sp_pbc0 :: "'t pbcReconciler"

text \<open>A reconciler takes a request for any name at any time; the requests of one system are handled one
  after the other.  A restart, after a panic or otherwise, loses the private state.\<close>

inductive sysStep :: "('d, 't, 'x) parts \<Rightarrow> ('d, 't, 'x) sys \<Rightarrow> ('d, 't, 'x) sys \<Rightarrow> bool" for S where
  package: "package_Reconcile (sp_env S) (sp_client S) req (sys_driver s, sys_world s) = (r, (d', x')) \<Longrightarrow>
     sysStep S s (s\<lparr>sys_driver := d', sys_world := x'\<rparr>)"
| pbundle: "bundle_Reconcile (sp_semver S) (sp_config S) (sp_client S) req (sys_world s) = (r, x') \<Longrightarrow>
     sysStep S s (s\<lparr>sys_world := x'\<rparr>)"
| controller: "pbc_Reconcile (sp_manager S) (sp_client S) req (sys_pbc s, sys_world s) = (r, (t', x')) \<Longrightarrow>
     sysStep S s (s\<lparr>sys_pbc := t', sys_world := x'\<rparr>)"
| credentials: "sp_refresh S (sys_world s) = (r, x') \<Longrightarrow> sysStep S s (s\<lparr>sys_world := x'\<rparr>)"
| others: "evolves (sp_client S) (sys_world s) x' \<Longrightarrow> sysStep S s (s\<lparr>sys_world := x'\<rparr>)"
| restart: "sysStep S s (s\<lparr>sys_driver := sp_driver0 S, sys_pbc := sp_pbc0 S\<rparr>)"

text \<open>The first world has no status that somebody else wrote.\<close>

inductive sysReachable :: "('d, 't, 'x) parts \<Rightarrow> ('d, 't, 'x) sys \<Rightarrow> bool" for S where
  boot: "(\<And>nn p. cl_GetPackage (sp_client S) nn x = Inr p \<Longrightarrow> pkg_Status p = zeroStatus) \<Longrightarrow>
     sysReachable S \<lparr>sys_driver = sp_driver0 S, sys_pbc = sp_pbc0 S, sys_world = x\<rparr>"
| step: "sysReachable S s \<Longrightarrow> sysStep S s s' \<Longrightarrow> sysReachable S s'"

text \<open>The libraries of the process write packages as the API server does.\<close>

definition libs_api :: "'x processLibs \<Rightarrow> 'x Client \<Rightarrow> bool" where
  "libs_api L client \<longleftrightarrow> package_api client \<and>
     client_moves (evolves client) client \<and> kube_moves (evolves client) (pl_kl L) \<and>
     helm_moves (evolves client) (pl_helm L) \<and> (\<forall>r c. moves (evolves client) (pl_pull L r c))"

definition parts_api :: "('d, 't, 'x) parts \<Rightarrow> bool" where
  "parts_api S \<longleftrightarrow> package_api (sp_client S) \<and>
     client_moves (evolves (sp_client S)) (sp_client S) \<and>
     driver_moves (evolves (sp_client S)) (env_driver (sp_env S)) \<and>
     bundleClient_moves (evolves (sp_client S)) (env_client (sp_env S)) \<and>
     bundleClient_moves (evolves (sp_client S)) (bm_bundleClient (sp_manager S)) \<and>
     registry_moves (evolves (sp_client S)) (bm_registryClient (sp_manager S)) \<and>
     target_moves (evolves (sp_client S)) (bm_targetClient (sp_manager S)) \<and>
     kube_moves (evolves (sp_client S)) (bm_kl (sp_manager S)) \<and>
     moves (evolves (sp_client S)) (sp_refresh S)"

section \<open>The parts that are registered\<close>

text \<open>The reconcilers as the registration functions build them, from the clientset and the
  authenticator of \<^verbatim>\<open>NewECRSecret\<close>.\<close>

definition builtManager :: "'x processLibs \<Rightarrow> 'x Client \<Rightarrow> (targetClusterClient, 'x) bundleManager" where
  "builtManager L client = NewBundleManager (pl_getenv L) (pl_kl L) (registryClient (pl_yamlBundle L) (pl_pull L))
     (managerClient (pl_getenv L) client) (targetCluster (pl_getenv L) (pl_kl L) client)"

definition builtPackageReconciler ::
  "'x processLibs \<Rightarrow> 'x Client \<Rightarrow> restConfig \<Rightarrow> 'x Clientset \<times> ecrSecret \<Rightarrow> 'x PackageReconciler" where
  "builtPackageReconciler L client cfg a = NewPackageReconciler client
     (helmPackageDriver (pl_getenv L) (pl_kl L) (pl_helm L)
        (ecrAuthenticator (pl_mapRange L) (pl_getenv L) (pl_kl L) (fst a))
        (targetCluster (pl_getenv L) (pl_kl L) client), NewHelm (snd a) (NewTargetClusterClient cfg))
     (builtManager L client) (managerClient (pl_getenv L) client)"

definition builtControllerReconciler ::
  "'x processLibs \<Rightarrow> 'x Client \<Rightarrow> restConfig \<Rightarrow> 'x PackageBundleControllerReconciler" where
  "builtControllerReconciler L client cfg =
     NewPackageBundleControllerReconciler client (builtManager L client, NewTargetClusterClient cfg) client"

lemma Register_built:
  "NewECRSecret (pl_kl L) (Some (cmgr_GetConfig mgr)) = Ret (Inr a) \<Longrightarrow>
     RegisterPackageReconciler L mgr = onManagerState (cmgr_Complete mgr
       \<lparr>ctl_For = ''Package'',
        ctl_Watches = [(''PackageBundle'', mapBundleChangesToPackageUpdate (cmgr_GetClient mgr))],
        ctl_Reconciler = ForPackage (builtPackageReconciler L (cmgr_GetClient mgr) (cmgr_GetConfig mgr) a)\<rparr>)"
  "RegisterPackageBundleControllerReconciler L mgr = onManagerState (cmgr_Complete mgr
     \<lparr>ctl_For = ''PackageBundleController'', ctl_Watches = [],
      ctl_Reconciler = ForPackageBundleController
        (builtControllerReconciler L (cmgr_GetClient mgr) (cmgr_GetConfig mgr))\<rparr>)"
  by (auto simp: RegisterPackageReconciler_def RegisterPackageBundleControllerReconciler_def
      builtPackageReconciler_def builtControllerReconciler_def builtManager_def Let_def bindM_def ofGo_def fun_eq_iff
      split: prod.split)

definition registeredParts ::
  "'x processLibs \<Rightarrow> (string \<Rightarrow> string \<Rightarrow> int) \<Rightarrow> DockerConfigLib \<Rightarrow> ('c, 'x) AwsLib \<Rightarrow> ('c, 'x) ECRCredInjector \<Rightarrow>
     'x Client \<Rightarrow> restConfig \<Rightarrow> 'x Clientset \<times> ecrSecret \<Rightarrow> (driverState, targetClusterClient, 'x) parts" where
  "registeredParts L semver dcl A ci client cfg a =
     (let pr = builtPackageReconciler L client cfg a; cr = builtControllerReconciler L client cfg in
      \<lparr>sp_env = reconcilerEnv L pr, sp_client = pr_Client pr, sp_semver = semver, sp_config = pl_config L,
       sp_manager = cr_bundleManager cr, sp_refresh = Refresh (pl_getenv L) dcl A ci,
       sp_driver0 = pr_driverState pr, sp_pbc0 = cr_state cr\<rparr>)"

lemma registeredParts_client: "sp_client (registeredParts L semver dcl A ci client cfg a) = client"
  by (simp add: registeredParts_def Let_def builtPackageReconciler_def NewPackageReconciler_def)

lemma registeredParts_api:
  assumes L: "libs_api L client" and ci: "inj_k8sClient ci = client"
    and a: "NewECRSecret (pl_kl L) (Some cfg) = Ret (Inr a)"
  shows "parts_api (registeredParts L semver dcl A ci client cfg a)"
proof -
  let ?R = "evolves client"
  have k: "kube_moves ?R (pl_kl L)" and c: "client_moves ?R client" and h: "helm_moves ?R (pl_helm L)"
    and p: "\<And>r n. moves ?R (pl_pull L r n)" and api: "package_api client"
    using L by (auto simp: libs_api_def)
  have "clientset_moves ?R (fst a)"
    using a k by (auto simp: NewECRSecret_def kube_moves_def split: go.splits sum.splits)
  then have d: "driver_moves ?R (helmPackageDriver (pl_getenv L) (pl_kl L) (pl_helm L)
      (ecrAuthenticator (pl_mapRange L) (pl_getenv L) (pl_kl L) (fst a)) (targetCluster (pl_getenv L) (pl_kl L) client))"
    by (intro store.helmDriver_moves h store.ecrAuthenticator_moves store.targetCluster_moves k)
  show ?thesis
    using d store.Refresh_moves [of client ci] store.managerClient_moves [OF c] store.registryClient_moves [OF p]
      store.targetCluster_moves [OF k] k c api
    by (simp add: parts_api_def registeredParts_def Let_def builtPackageReconciler_def builtControllerReconciler_def
        NewPackageReconciler_def NewPackageBundleControllerReconciler_def reconcilerEnv_def builtManager_def
        NewBundleManager_def ci)
qed

section \<open>What a step does to a package\<close>

text \<open>A stored package is new, edited, the result of one pass of the manager (and perhaps edited since),
  or rejected because nothing was found under its name and the name is not one for packages.\<close>

lemma sysStep_package:
  assumes api: "parts_api S" and step: "sysStep S s s'" and get: "cl_GetPackage (sp_client S) nn (sys_world s') = Inr q"
  shows "pkg_Status q = zeroStatus \<or>
    (\<exists>p p'. cl_GetPackage (sp_client S) nn (sys_world s) = Inr p \<and> (p' = p \<or> passOf p p') \<and> ownerEdit p' q) \<or>
    (\<exists>p'. rejectedAt nn p' \<and> ownerEdit p' q)"
proof -
  let ?cl = "sp_client S"
  have quiet: ?thesis if "evolves ?cl (sys_world s) (sys_world s')"
    using evolves_get [OF that get] by blast
  from step show ?thesis
  proof cases
    case (package req r d' x')
    then have st: "stored ?cl (writtenBy req (cl_GetPackage ?cl req (sys_world s))) (sys_world s) (sys_world s')"
      using package_Reconcile_stored [of ?cl "sp_env S" req "sys_world s" "sys_driver s"] api
      by (simp add: parts_api_def)
    have pa: "package_api ?cl" using api by (simp add: parts_api_def)
    consider "pkg_Status q = zeroStatus" | p where "cl_GetPackage ?cl nn (sys_world s) = Inr p" "ownerEdit p q"
      | p where "writtenBy req (cl_GetPackage ?cl req (sys_world s)) p" "nn = keyOf p" "ownerEdit p q"
      using stored_get [OF pa st get] by blast
    then show ?thesis
    proof cases
      case (3 p)
      show ?thesis
      proof (cases "cl_GetPackage ?cl req (sys_world s)")
        case (Inl err)
        with 3 have "rejectedAt nn p" by (simp add: writtenBy_def rejectedAt_def)
        with 3 show ?thesis by blast
      next
        case (Inr p0)
        with 3 have "passOf p0 p" by (simp add: writtenBy_def)
        moreover have "keyOf p = keyOf p0"
          using \<open>passOf p0 p\<close> by (simp add: passOf_def sameObject_key)
        moreover have "keyOf p0 = req" using pa Inr by (simp add: package_api_def)
        ultimately show ?thesis using 3 Inr by auto
      qed
    qed blast+
  next
    case (pbundle req r x')
    then show ?thesis
      using api store.bundle_Reconcile_moves [of ?cl ?cl "sp_semver S" "sp_config S" req]
      by (intro quiet) (metis moves_def parts_api_def snd_conv sys.select_convs(3) sys.surjective sys.update_convs(3))
  next
    case (controller req r t' x')
    then show ?thesis
      using api store.pbc_Reconcile_moves [of ?cl ?cl "sp_manager S" req]
      by (intro quiet) (auto simp: movesP_def parts_api_def dest!: spec [of _ "sys_pbc s"] spec [of _ "sys_world s"])
  next
    case (credentials r x')
    then show ?thesis
      using api by (intro quiet) (auto simp: moves_def parts_api_def dest!: spec [of _ "sys_world s"])
  next
    case others
    then show ?thesis by (intro quiet) simp
  next
    case restart
    then show ?thesis by (intro quiet) (simp add: evolves_refl)
  qed
qed

section \<open>The invariant and the machine of the system\<close>

lemma ownerEdit_cong:
  assumes "ownerEdit p q"
  shows "IsValidNamespace q = IsValidNamespace p" "pkg_Status q = pkg_Status p" "runInv q = runInv p"
  using assms by (auto simp: ownerEdit_def keyOf_def IsValidNamespace_iff runInv_def statusInv_def)

lemma runInv_new: "pkg_Status p = zeroStatus \<Longrightarrow> runInv p"
  by (simp add: runInv_def statusInv_def zeroStatus_def state_defs)

lemma runInv_rejected: "rejectedAt nn p \<Longrightarrow> runInv p"
  by (simp add: runInv_def rejectedAt_def statusInv_def) (simp add: state_defs)

lemma runInv_pass: "passOf p q \<Longrightarrow> runInv p \<Longrightarrow> runInv q"
  by (cases "IsValidNamespace p") (auto simp: passOf_def runInv_def Let_def sameObject_namespace)

lemma sysReachable_runInv:
  assumes api: "parts_api S"
  shows "sysReachable S s \<Longrightarrow> cl_GetPackage (sp_client S) nn (sys_world s) = Inr p \<Longrightarrow> runInv p"
proof (induction arbitrary: p rule: sysReachable.induct)
  case (boot x)
  then show ?case by (auto intro: runInv_new)
next
  case (step s s')
  consider "pkg_Status p = zeroStatus"
    | p0 p' where "cl_GetPackage (sp_client S) nn (sys_world s) = Inr p0" "p' = p0 \<or> passOf p0 p'" "ownerEdit p' p"
    | p' where "rejectedAt nn p'" "ownerEdit p' p"
    using sysStep_package [OF api step.hyps(2) step.prems] by blast
  then show ?case
    by cases (auto simp: ownerEdit_cong(3) intro: runInv_new runInv_pass runInv_rejected step.IH)
qed

text \<open>Between two states a package that keeps a status makes at most one step of its machine.\<close>

lemma sysStep_phase:
  assumes api: "parts_api S" and step: "sysStep S s s'"
    and old: "cl_GetPackage (sp_client S) nn (sys_world s) = Inr p"
    and new: "cl_GetPackage (sp_client S) nn (sys_world s') = Inr q"
  shows "pkg_Status q = zeroStatus \<or>
    (let a = phase_of (st_State (pkg_Status p)); b = phase_of (st_State (pkg_Status q))
     in a = b \<or> phase_step (IsValidNamespace p) a b)"
proof -
  have key: "keyOf p = nn" using api old by (simp add: parts_api_def package_api_def)
  have rejected: "phase_step (IsValidNamespace p) a (phase_of (st_State (pkg_Status q)))"
    if "rejectedAt nn p'" "ownerEdit p' q" for p' a
  proof -
    have "pkg_Namespace p' = pkg_Namespace p" using that key by (auto simp: rejectedAt_def keyOf_def)
    then have "\<not> IsValidNamespace p" using that by (simp add: rejectedAt_def IsValidNamespace_iff)
    then show ?thesis using that ownerEdit_cong(2) [OF that(2)] by (simp add: rejectedAt_def)
  qed
  show ?thesis
    using sysStep_package [OF api step new] old rejected
    by (auto simp: Let_def passOf_def ownerEdit_def)
qed

text \<open>Histories of the system, with the latest state first.\<close>

inductive sysTrace :: "('d, 't, 'x) parts \<Rightarrow> ('d, 't, 'x) sys list \<Rightarrow> bool" for S where
  boot: "(\<And>nn p. cl_GetPackage (sp_client S) nn x = Inr p \<Longrightarrow> pkg_Status p = zeroStatus) \<Longrightarrow>
     sysTrace S [\<lparr>sys_driver = sp_driver0 S, sys_pbc = sp_pbc0 S, sys_world = x\<rparr>]"
| step: "sysTrace S (s # ss) \<Longrightarrow> sysStep S s s' \<Longrightarrow> sysTrace S (s' # s # ss)"

lemma sysTrace_reachable: "sysTrace S tr \<Longrightarrow> sysReachable S (hd tr)"
  by (induction rule: sysTrace.induct) (auto intro: sysReachable.intros)

text \<open>The phase of the package under a name, where there is one.\<close>

definition phaseAt :: "'x Client \<Rightarrow> NamespacedName \<Rightarrow> ('d, 't, 'x) sys \<Rightarrow> phase option" where
  "phaseAt client nn s = (case cl_GetPackage client nn (sys_world s) of
     Inl _ \<Rightarrow> None | Inr p \<Rightarrow> Some (phase_of (st_State (pkg_Status p))))"

lemma sysStep_back:
  assumes api: "parts_api S" and step: "sysStep S s s'" and now: "phaseAt (sp_client S) nn s' = Some b"
    and b: "b \<noteq> Initial" "b \<noteq> Unknown"
  shows "\<exists>a. phaseAt (sp_client S) nn s = Some a \<and> (a = b \<or> phase_step True a b)"
proof -
  obtain q where get: "cl_GetPackage (sp_client S) nn (sys_world s') = Inr q"
    and q: "phase_of (st_State (pkg_Status q)) = b"
    using now by (auto simp: phaseAt_def split: sum.splits)
  have "pkg_Status q \<noteq> zeroStatus" using q b by (auto simp: zeroStatus_def)
  moreover have "\<not> (rejectedAt nn p' \<and> ownerEdit p' q)" for p'
    using q b ownerEdit_cong(2) [of p' q] by (auto simp: rejectedAt_def)
  ultimately obtain p p' where p: "cl_GetPackage (sp_client S) nn (sys_world s) = Inr p"
    "p' = p \<or> passOf p p'" "ownerEdit p' q"
    using sysStep_package [OF api step get] by blast
  then show ?thesis
    using q b(2) by (cases "IsValidNamespace p") (auto simp: phaseAt_def passOf_def Let_def ownerEdit_def)
qed

lemma sysTrace_back:
  assumes api: "parts_api S" and "sysTrace S tr" and "phaseAt (sp_client S) nn (hd tr) = Some b"
    and b: "b \<noteq> Initial" "b \<noteq> Unknown" and pre: "\<And>a. phase_step True a b \<Longrightarrow> a = b \<or> a = c"
  shows "\<exists>us t ws. tl tr = us @ t # ws \<and> phaseAt (sp_client S) nn t = Some c \<and> sysTrace S (t # ws)"
  using assms(2,3)
proof (induction rule: sysTrace.induct)
  case (boot x)
  then show ?case using b(1) by (auto simp: phaseAt_def zeroStatus_def split: sum.splits)
next
  case (step s ss s')
  obtain a where a: "phaseAt (sp_client S) nn s = Some a" "a = b \<or> phase_step True a b"
    using sysStep_back [OF api step.hyps(2) _ b] step.prems by auto
  then consider "a = b" | "a = c" using pre by blast
  then show ?case
  proof cases
    case 1
    then obtain us t ws where "ss = us @ t # ws" "phaseAt (sp_client S) nn t = Some c" "sysTrace S (t # ws)"
      using step.IH a(1) by auto
    then have "tl (s' # s # ss) = (s # us) @ t # ws" by simp
    with \<open>phaseAt (sp_client S) nn t = Some c\<close> \<open>sysTrace S (t # ws)\<close> show ?thesis by blast
  next
    case 2
    then show ?thesis using a(1) step.hyps(1) by (intro exI [of _ "[]"]) auto
  qed
qed

lemma sysTrace_installed:
  assumes api: "parts_api S" and tr: "sysTrace S (s # ss)" and now: "phaseAt (sp_client S) nn s = Some Installed"
  shows "\<exists>us t vs u ws. ss = us @ t # vs @ u # ws \<and>
    phaseAt (sp_client S) nn t = Some Installing \<and> phaseAt (sp_client S) nn u = Some Dependencies"
proof -
  obtain us t vs where t: "ss = us @ t # vs" "phaseAt (sp_client S) nn t = Some Installing" "sysTrace S (t # vs)"
    using sysTrace_back [OF api tr, of nn Installed Installing] now by auto
  moreover obtain vs' u ws where "vs = vs' @ u # ws" "phaseAt (sp_client S) nn u = Some Dependencies"
    using sysTrace_back [OF api t(3), of nn Installing Dependencies] t(2) by auto
  ultimately show ?thesis by blast
qed

end
