(* ===== verification/Scenario.thy ===== *)
theory Scenario
  imports Controllers Webhooks
begin

text \<open>
  A small cluster in memory, on which the development is evaluated: a world with lists of objects,
  the client, the clientset, the Kubernetes and Helm libraries over it, and one bundle controller,
  bundle and package.  It is an instance of every parameter of the model, so that the hypotheses
  about the libraries are seen to hold of something; nothing else rests on it.
\<close>

section \<open>The world\<close>

record world =
  w_packages :: "Package list"
  w_bundles :: "PackageBundle list"
  w_pbcs :: "PackageBundleController list"
  w_secrets :: "Secret list"
  w_configMaps :: "ConfigMap list"
  w_releases :: "(string \<times> helmRelease) list"

definition missing :: goerr where "missing = GoErr NotFound ''not found''"

definition lookupObj :: "('a \<Rightarrow> bool) \<Rightarrow> 'a list \<Rightarrow> goerr + 'a" where
  "lookupObj P xs = (case find P xs of None \<Rightarrow> Inl missing | Some y \<Rightarrow> Inr y)"

text \<open>Replacing an object, or adding it.\<close>

definition putObj :: "('a \<Rightarrow> 'k) \<Rightarrow> 'a \<Rightarrow> 'a list \<Rightarrow> 'a list" where
  "putObj key y xs = y # filter (\<lambda>z. key z \<noteq> key y) xs"

lemma lookup_putObj [simp]: "P y \<Longrightarrow> lookupObj P (putObj key y xs) = Inr y"
  by (simp add: lookupObj_def putObj_def)

definition memClient :: "world Client" where
  "memClient =
     \<lparr>cl_GetPackage = (\<lambda>nn w. lookupObj (\<lambda>p. pkg_Namespace p = nn_Namespace nn \<and> pkg_Name p = nn_Name nn) (w_packages w)),
      cl_GetBundle = (\<lambda>nn w. lookupObj (\<lambda>b. pb_Namespace b = nn_Namespace nn \<and> pb_Name b = nn_Name nn) (w_bundles w)),
      cl_GetPBC = (\<lambda>nn w. lookupObj (\<lambda>b. pbc_Namespace b = nn_Namespace nn \<and> pbc_Name b = nn_Name nn) (w_pbcs w)),
      cl_GetSecret = (\<lambda>nn w. lookupObj (\<lambda>s. sec_Namespace s = nn_Namespace nn \<and> sec_Name s = nn_Name nn) (w_secrets w)),
      cl_GetNamespace = (\<lambda>_ w. Inr ()),
      cl_GetConfigMap = (\<lambda>nn w. lookupObj (\<lambda>c. cm_Namespace c = nn_Namespace nn \<and> cm_Name c = nn_Name nn) (w_configMaps w)),
      cl_ListPackages = (\<lambda>ns w. Inr (filter (\<lambda>p. pkg_Namespace p = ns) (w_packages w))),
      cl_ListBundles = (\<lambda>ns w. Inr (filter (\<lambda>b. pb_Namespace b = ns) (w_bundles w))),
      cl_CreatePackage = (\<lambda>p w. (None, w\<lparr>w_packages := p\<lparr>pkg_Status := zeroStatus\<rparr> # w_packages w\<rparr>)),
      cl_CreateBundle = (\<lambda>b w. (None, w\<lparr>w_bundles := b # w_bundles w\<rparr>)),
      cl_CreateConfigMap = (\<lambda>c w. (None, w\<lparr>w_configMaps := c # w_configMaps w\<rparr>)),
      cl_CreateNamespace = (\<lambda>_ w. (None, w)),
      cl_CreateSecret = (\<lambda>s w. (None, w\<lparr>w_secrets := s # w_secrets w\<rparr>)),
      cl_UpdatePBC = (\<lambda>p w. (None, w\<lparr>w_pbcs := putObj (\<lambda>p. (pbc_Namespace p, pbc_Name p)) p (w_pbcs w)\<rparr>)),
      cl_UpdateSecret = (\<lambda>s w. (None, w\<lparr>w_secrets := putObj (\<lambda>s. (sec_Namespace s, sec_Name s)) s (w_secrets w)\<rparr>)),
      cl_StatusPackage = (\<lambda>p w. (None, w\<lparr>w_packages := putObj (\<lambda>p. (pkg_Namespace p, pkg_Name p)) p (w_packages w)\<rparr>)),
      cl_StatusBundle = (\<lambda>b w. (None, w\<lparr>w_bundles := putObj (\<lambda>b. (pb_Namespace b, pb_Name b)) b (w_bundles w)\<rparr>)),
      cl_StatusPBC = (\<lambda>p w. (None, w\<lparr>w_pbcs := putObj (\<lambda>p. (pbc_Namespace p, pbc_Name p)) p (w_pbcs w)\<rparr>))\<rparr>"

definition memClientset :: "world Clientset" where
  "memClientset =
     \<lparr>cs_GetConfigMap = (\<lambda>ns n w. lookupObj (\<lambda>c. cm_Name c = n) (w_configMaps w)),
      cs_UpdateConfigMap = (\<lambda>ns c w. (None, w\<lparr>w_configMaps := putObj cm_Name c (w_configMaps w)\<rparr>)),
      cs_GetCronJob = (\<lambda>_ _ w. Inr \<lparr>cj_Suspend = Some True, cj_JobTemplateSpec = []\<rparr>),
      cs_CreateJob = (\<lambda>_ _ w. (None, w)),
      cs_ListJobs = (\<lambda>_ _ w. Inr []),
      cs_DeleteJob = (\<lambda>_ _ w. (None, w)),
      cs_GetSecret = (\<lambda>ns n w. lookupObj (\<lambda>s. sec_Name s = n) (w_secrets w)),
      cs_CreateSecret = (\<lambda>_ s w. (None, w)),
      cs_UpdateSecret = (\<lambda>_ s w. (None, w)),
      cs_ListNamespaces = (\<lambda>w. Inr [])\<rparr>"

definition memKube :: "world KubeLib" where
  "memKube =
     \<lparr>kl_NewForConfig = (\<lambda>c. case c of None \<Rightarrow> Panic ''nil pointer dereference'' | Some _ \<Rightarrow> Ret (Inr memClientset)),
      kl_NewClient = (\<lambda>_. Inr memClient),
      kl_NewDiscovery = (\<lambda>_. None),
      kl_ServerVersion = (\<lambda>_ _. Inr \<lparr>info_Major = ''1'', info_Minor = ''28''\<rparr>),
      kl_ConfigFromBytes = (\<lambda>s. Inr (ClientConfig s)),
      kl_RawConfig = Inr,
      kl_ClientConfig = (\<lambda>c. Inr (RestConfig ''remote'')),
      kl_EmptyConfig = ClientConfig [],
      kl_UnixMilli = (\<lambda>_. 1),
      kl_Stat = (\<lambda>_ _. Some missing),
      kl_ReadFile = (\<lambda>_ _. Inl missing)\<rparr>"

definition memHelm :: "('t, world) HelmLib" where
  "memHelm =
     \<lparr>hl_Settings = (\<lambda>_. \<lparr>set_Namespace = ''default'', set_RegistryConfig = [], set_Debug = False\<rparr>),
      hl_NewClient = (\<lambda>_. Inr ''plain''),
      hl_NewClientTLS = (\<lambda>_ _ _ _ _. Inr ''tls''),
      hl_Init = (\<lambda>c _ _ _ _. Inr (HelmCfg c)),
      hl_LocateChart = (\<lambda>_ _ url _ w. (Inr url, w)),
      hl_Load = (\<lambda>path _. Inr \<lparr>chart_Name = path, chart_Values = None\<rparr>),
      hl_Get = (\<lambda>_ n w. case map_of (w_releases w) n of
          None \<Rightarrow> Inl (GoErr ReleaseNotFound ''release: not found'') | Some rel \<Rightarrow> Inr rel),
      hl_Install = (\<lambda>_ i _ v w. (None, w\<lparr>w_releases :=
          (in_ReleaseName i, \<lparr>rel_Namespace = in_Namespace i, rel_Config = v\<rparr>) # w_releases w\<rparr>)),
      hl_Upgrade = (\<lambda>_ _ n _ v w. (None, w\<lparr>w_releases :=
          (n, \<lparr>rel_Namespace = [], rel_Config = v\<rparr>) # w_releases w\<rparr>)),
      hl_Uninstall = (\<lambda>_ n w. case map_of (w_releases w) n of
          None \<Rightarrow> (Inl (GoErr ReleaseNotFound ''release: not found''), w)
        | Some rel \<Rightarrow> (Inr rel, w\<lparr>w_releases := filter (\<lambda>r. fst r \<noteq> n) (w_releases w)\<rparr>))\<rparr>"

lemma memHelm_store: "helm_store memHelm"
  by (simp add: helm_store_def memHelm_def)

lemma memHelm_apart: "releases_apart memHelm memClientset"
  by (simp add: releases_apart_def memHelm_def memClientset_def)

lemma memClientset_readback: "cm_readback memClientset"
  by (auto simp: cm_readback_def memClientset_def)

section \<open>Objects\<close>

definition memEnv :: "string \<Rightarrow> string" where
  "memEnv v = (if v = ''CLUSTER_NAME'' then ''mgmt'' else [])"

definition memVersion :: SourceVersion where
  "memVersion = \<lparr>sv_Name = ''1.0'', sv_Digest = ''sha256:1'', sv_Images = [], sv_Schema = [], sv_Dependencies = []\<rparr>"

definition memBundlePackage :: BundlePackage where
  "memBundlePackage = \<lparr>bp_Name = ''hello'',
     bp_Source = \<lparr>src_Registry = [], src_Repository = ''hello-eks'', src_Versions = [memVersion]\<rparr>,
     bp_WorkloadOnly = False\<rparr>"

definition memBundle :: PackageBundle where
  "memBundle = zeroBundle\<lparr>pb_Name := ''v1-28-1'', pb_Namespace := PackageNamespace,
     pb_Spec := \<lparr>pbs_Packages = [memBundlePackage], pbs_MinVersion = ''v0''\<rparr>\<rparr>"

definition memPBC :: PackageBundleController where
  "memPBC = zeroPBC\<lparr>pbc_Name := ''mgmt'', pbc_Namespace := PackageNamespace,
     pbc_Spec := zeroPBCSpec\<lparr>pbcs_ActiveBundle := ''v1-28-1'', pbcs_BundleRepository := ''eks-anywhere-packages-bundles''\<rparr>\<rparr>"

definition memPackage :: Package where
  "memPackage = NewPackage ''hello'' ''my-hello'' ''eksa-packages-mgmt'' ''{}''"

definition memWorld :: world where
  "memWorld = \<lparr>w_packages = [memPackage], w_bundles = [memBundle], w_pbcs = [memPBC], w_secrets = [],
     w_configMaps = [clusterConfigMap ''mgmt''], w_releases = []\<rparr>"

section \<open>Components\<close>

text \<open>The empty document is null, and decodes to the nil map.\<close>

definition memYaml :: "string \<Rightarrow> goerr + gvalues" where
  "memYaml s = (if s = [] then Inr None else if s = ''{}'' then Inr (Some Map.empty) else Inl (Errorf ''yaml''))"

type_synonym memDriver = "(ecrSecret, targetClusterClient) helmDriver"

definition memManagerEnv :: "(memDriver, world) managerEnv" where
  "memManagerEnv =
     \<lparr>env_getenv = memEnv, env_yaml = memYaml,
      env_driver = helmPackageDriver memEnv memKube memHelm
        (ecrAuthenticator id memEnv memKube memClientset) (targetCluster memEnv memKube memClient),
      env_client = managerClient memEnv memClient\<rparr>"

definition memDriver0 :: memDriver where
  "memDriver0 = NewHelm \<lparr>ecr_targetCluster = PackageNamespace\<rparr> (NewTargetClusterClient (RestConfig ''self''))"

text \<open>A registry that asks for credentials and answers with the text of a bundle.\<close>

definition memOras :: "(unit, world) OrasLib" where
  "memOras =
     \<lparr>oras_Repository = (\<lambda>sc repo x. Inr ()),
      oras_FetchBytes = (\<lambda>credential r i x. case credential ''registry'' of
                           Panic p \<Rightarrow> Panic p | Ret _ \<Rightarrow> Ret (Inr ''manifest'')),
      oras_FetchBlob = (\<lambda>credential r i x. Ret (Inr ''bundle''))\<rparr>"

definition memDockerLib :: "world DockerLib" where
  "memDockerLib =
     \<lparr>dk_Load = (\<lambda>x path. Inr \<lparr>cf_ContainsAuth = True, cf_CredentialsStore = []\<rparr>),
      dk_DetectDefaultStore = id,
      dk_Get = (\<lambda>store host. Inr \<lparr>dac_Username = ''AWS'', dac_Password = ''secret'', dac_RegistryToken = [],
                                     dac_IdentityToken = []\<rparr>)\<rparr>"

definition memPull :: "string \<Rightarrow> string \<Rightarrow> (world, goerr + string) gom" where
  "memPull = Pull memKube memOras memDockerLib (\<lambda>_. Inr [''layer'']) (\<lambda>_. None)"

lemma memOras_law: "oras_law memOras"
  by (auto simp: oras_law_def memOras_def split: go.split) (metis go.distinct(1))

lemma memDockerLib_loads: "CredentialsConfigLoad (dk_Load memDockerLib x) =
    Inr \<lparr>cf_ContainsAuth = True, cf_CredentialsStore = []\<rparr>"
  by (simp add: CredentialsConfigLoad_def memDockerLib_def)

definition memBundleManager :: "(targetClusterClient, world) bundleManager" where
  "memBundleManager =
     \<lparr>bm_getenv = memEnv, bm_kl = memKube, bm_bundleClient = managerClient memEnv memClient,
      bm_registryClient = registryClient (\<lambda>_. Inr memBundle) memPull,
      bm_targetClient = targetCluster memEnv memKube memClient\<rparr>"

definition memContext :: ManagerContext where
  "memContext = NewManagerContext\<lparr>mc_Package := memPackage, mc_PBC := memPBC, mc_Bundle := Some memBundle,
     mc_Version := memVersion, mc_Source := GetOCISource memBundle memBundlePackage memVersion\<rparr>"

lemmas mem_objects = memVersion_def memBundlePackage_def memBundle_def memPBC_def memPackage_def
  memWorld_def memContext_def NewPackage_def NewManagerContext_def zero_defs GetOCISource_def
  PackageNamespace_def PackageKind_def

lemmas mem_libs = memClient_def memClientset_def memKube_def memHelm_def memEnv_def memYaml_def
  memManagerEnv_def memDriver0_def memBundleManager_def

section \<open>Evaluation\<close>

text \<open>The driver on this cluster: connecting, and a first install.\<close>

lemma mem_cluster [simp]: "GetClusterName memPackage = ''mgmt''"
  by (simp add: GetClusterName_def mem_objects namespacePrefix_def HasPrefix_def TrimPrefix_def)

lemma mem_valid [simp]: "IsValidNamespace memPackage"
  by (simp add: IsValidNamespace_iff mem_objects namespacePrefix_def HasPrefix_def)

definition memDriver1 :: memDriver where
  "memDriver1 = \<lparr>hd_cfg = Some (HelmCfg ''tls''),
     hd_settings = Some \<lparr>set_Namespace = ''default'', set_RegistryConfig = [], set_Debug = False\<rparr>,
     hd_secretAuth = \<lparr>ecr_targetCluster = ''eksa-packages-mgmt''\<rparr>,
     hd_tcc = \<lparr>tcc_Config = RestConfig ''self'', tcc_targetSelf = True, tcc_clientConfig = Some (ClientConfig [])\<rparr>\<rparr>"

lemma mem_Initialize:
  "drv_Initialize (env_driver memManagerEnv) ''mgmt'' (memDriver0, w) = (Ret None, (memDriver1, w))"
  by (simp add: mem_libs helmPackageDriver_def hd_Initialize_def ecrAuthenticator_def
      ecr_Initialize_def targetCluster_def tcc_Initialize_def getKubeconfig_def clusterNameEnvVar_def
      GetRegistryInsecure_def GetClusterCertificateFileName_def newRegistryClient_def
      newRegistryClientWithTLS_def NewHelm_def NewTargetClusterClient_def onAuth_def onTcc_def
      bindM_def onWorld_def memDriver1_def PackageNamespace_def Let_def)

text \<open>Worlds that differ from the first one in the packages and the secrets only.\<close>

definition memLike :: "world \<Rightarrow> bool" where
  "memLike w \<longleftrightarrow> w_releases w = [] \<and> w_configMaps w = [clusterConfigMap ''mgmt''] \<and>
     w_bundles w = [memBundle] \<and> w_pbcs w = [memPBC]"

lemma memLike_first [simp]: "memLike memWorld"
  by (simp add: memLike_def memWorld_def)

lemma mem_configMap:
  "memLike w \<Longrightarrow> cs_GetConfigMap memClientset ns ConfigMapName w = Inr (clusterConfigMap ''mgmt'')"
  by (simp add: memClientset_def memLike_def lookupObj_def clusterConfigMap_def Let_def)

lemma mem_AddToConfigMap:
  "memLike w \<Longrightarrow> runs (ecr_AddToConfigMap id memClientset n ns)
     (\<lambda>_ (s', w'). s' = s \<and> w_releases w' = w_releases w) (s, w)"
  by (simp add: ecr_AddToConfigMap_def mem_configMap mapPut_def Let_def clusterConfigMap_def)
    (simp add: memClientset_def)

lemma mem_AddSecret: "ecr_AddSecretToAllNamespace memKube memClientset (s, w) = (Ret None, (s, w))"
  by (simp add: ecr_AddSecretToAllNamespace_def memClientset_def onWorld_def bindM_def)

lemma mem_Install:
  assumes "v \<noteq> None" and like: "memLike w0"
  shows "runs (drv_Install (env_driver memManagerEnv) n ns cr src v)
     (\<lambda>e (d', _). e = None \<and> d' = memDriver1) (memDriver1, w0)"
proof -
  obtain f where f: "v = Some f" using assms by auto
  have get: "hl_Get memHelm c n w0 = Inl (GoErr ReleaseNotFound ''release: not found'')" for c
    using like by (simp add: memHelm_def memLike_def)
  have chart: "runs (getChart memHelm c i src) (\<lambda>r s'. s' = (d, w) \<and> (\<exists>ch. r = Inr ch \<and> chart_Values ch = None)) (d, w)"
    for c i d w by (simp add: getChart_def memHelm_def Let_def)
  have create: "runs (createRelease memHelm c i ch u) (\<lambda>e (d', _). e = None \<and> d' = d) (d, w)"
    for c i ch u d w by (simp add: createRelease_def memHelm_def)
  have sec: "runs (ecr_AddSecretToAllNamespace memKube memClientset) (\<lambda>_ s'. s' = (s, w)) (s, w)" for s w
    by (simp add: runs_def mem_AddSecret)
  have cfg: "hd_cfg memDriver1 = Some (HelmCfg ''tls'')" by (simp add: memDriver1_def)
  show ?thesis
    by (simp add: memManagerEnv_def helmPackageDriver_def hd_Install_def cfg ecrAuthenticator_def Let_def f)
      (auto intro!: runs_mono [OF chart] runs_mono [OF mem_AddToConfigMap [OF like]] runs_mono [OF sec]
        runs_mono [OF create] simp: chartNamespace_def ecr_GetSecretValues_def mapMerge_pull get)
qed

lemma mem_installs:
  assumes "memLike w"
  shows "\<exists>w'. installSucceeds memManagerEnv memContext (memDriver0, w) (memDriver1, w')"
proof -
  have v: "GetValues (env_yaml memManagerEnv) (mc_Package memContext) = Inr (Some Map.empty)"
    by (simp add: GetValues_def memManagerEnv_def memYaml_def mem_objects)
  obtain u where u: "chartValues memContext (Some Map.empty) = Ret u" "u \<noteq> None"
    by (rule registryOk_Ret [of "Some Map.empty" memContext]) (auto simp: registryOk_def)
  obtain w' where w': "installCall memManagerEnv memContext u (memDriver1, w) = (Ret None, (memDriver1, w'))"
    unfolding installCall_def by (rule runsE [OF mem_Install [OF u(2) assms]]) auto
  have "mc_Package memContext = memPackage" by (simp add: memContext_def)
  with v u w' show ?thesis
    unfolding installSucceeds_def by (metis mem_Initialize mem_cluster)
qed

lemmas mem_installSucceeds = mem_installs [OF memLike_first]

section \<open>Passes over the package\<close>

definition memContextIn :: "StateEnum \<Rightarrow> ManagerContext" where
  "memContextIn s = setState s memContext"

lemma memContext_simps [simp]:
  "mc_Package memContext = memPackage" "st_State (pkg_Status memPackage) = []"
  "stateOf memContext = []"
  by (simp_all add: memContext_def memPackage_def NewPackage_def zero_defs stateOf_def)

lemma memContextIn_simps [simp]:
  "stateOf (memContextIn s) = s" "IsValidNamespace (mc_Package (memContextIn s))"
  "mc_Bundle (memContextIn s) = mc_Bundle memContext" "mc_Version (memContextIn s) = mc_Version memContext"
  "mc_Source (memContextIn s) = mc_Source memContext" "mc_PBC (memContextIn s) = mc_PBC memContext"
  "pkg_Namespace (mc_Package (memContextIn s)) = pkg_Namespace memPackage"
  "sameObject memPackage (mc_Package (memContextIn s))"
  by (simp_all add: memContextIn_def stateOf_def setStatus_def sameObject_def)

lemma mem_pass_new:
  "\<exists>mc'. Process memManagerEnv memContext w = (Ret (True, mc'), w) \<and>
     stateOf mc' = StateInstallingDependencies \<and> mc_RequeueAfter mc' = retryNow"
proof -
  have "Process memManagerEnv memContext w = processInitializing (requeue retryLong memContext) w"
    by (simp add: Process_valid)
  then show ?thesis
    by (simp add: processInitializing_def) (simp add: stateOf_def)
qed

lemma mem_dependencies:
  "bundleDependencies (mc_Bundle memContext) (mc_Version memContext) = Ret (Inr [])"
  by (simp add: memContext_def bundleDependencies_def GetDependencies_def memVersion_def)

lemma mem_packageList:
  "bc_GetPackageList (env_client memManagerEnv) ns memWorld =
     (Ret (Inr \<lparr>pl_Items = filter (\<lambda>p. pkg_Namespace p = ns) [memPackage]\<rparr>), memWorld)"
  by (simp add: memManagerEnv_def managerClient_def mgr_GetPackageList_def memClient_def memWorld_def bindM_def)

lemma mem_pass_dependencies:
  "\<exists>mc'. Process memManagerEnv (memContextIn StateInstallingDependencies) (d, memWorld) =
     (Ret (True, mc'), (d, memWorld)) \<and> stateOf mc' = StateInstalling"
proof -
  have "processInstallingDependencies memManagerEnv (requeue retryLong (memContextIn StateInstallingDependencies))
      (d, memWorld) = (Ret (True, setDetail [] (setState StateInstalling
        (requeue retryLong (memContextIn StateInstallingDependencies)))), (d, memWorld))"
    by (rule processInstallingDependencies_succeeds [where deps = "[]"])
      (auto simp: mem_dependencies mem_packageList)
  then show ?thesis by (simp add: Process_valid) (simp add: stateOf_def)
qed

lemma mem_pass_installing:
  "\<exists>mc' w'. Process memManagerEnv (memContextIn StateInstalling) (memDriver0, memWorld) =
     (Ret (True, mc'), (memDriver1, w')) \<and> stateOf mc' = StateInstalled"
proof -
  obtain w' where "installSucceeds memManagerEnv memContext (memDriver0, memWorld) (memDriver1, w')"
    using mem_installSucceeds by blast
  then have "installSucceeds memManagerEnv (requeue retryLong (memContextIn StateInstalling))
      (memDriver0, memWorld) (memDriver1, w')"
    by (subst installSucceeds_cong [of _ memContext]) simp_all
  from processInstalling_succeeds [OF this] show ?thesis by (auto simp: Process_valid)
qed

text \<open>A package that was installed from its current source.\<close>

definition memInstalled :: "string \<Rightarrow> ManagerContext" where
  "memInstalled config =
     (let mc = setSource (mc_Source memContext) (memContextIn StateInstalled)
      in mc\<lparr>mc_Package := (mc_Package mc)\<lparr>pkg_Spec := (pkg_Spec (mc_Package mc))\<lparr>spec_Config := config\<rparr>\<rparr>\<rparr>)"

lemma memInstalled_simps [simp]:
  "stateOf (memInstalled config) = StateInstalled" "IsValidNamespace (mc_Package (memInstalled config))"
  "GetClusterName (mc_Package (memInstalled config)) = ''mgmt''"
  "spec_Config (pkg_Spec (mc_Package (memInstalled config))) = config"
  "st_Source (pkg_Status (mc_Package (memInstalled config))) = mc_Source (memInstalled config)"
proof -
  have "pkg_Namespace (mc_Package (memInstalled config)) = ''eksa-packages-mgmt''"
    by (simp add: memInstalled_def memContextIn_def setStatus_def Let_def memContext_def memPackage_def NewPackage_def)
  then show "IsValidNamespace (mc_Package (memInstalled config))"
    "GetClusterName (mc_Package (memInstalled config)) = ''mgmt''"
    by (simp_all add: IsValidNamespace_iff GetClusterName_def namespacePrefix_def PackageNamespace_def
        HasPrefix_def TrimPrefix_def)
qed (simp_all add: memInstalled_def memContextIn_def stateOf_def setStatus_def Let_def)

lemma mem_installedPanics:
  "config = [] \<or> config = ''{}'' \<Longrightarrow>
     installedPanics memManagerEnv (memInstalled config) (memDriver0, w) \<longleftrightarrow> config = []"
  by (auto simp: installedPanics_def mem_Initialize) (auto simp: memManagerEnv_def memYaml_def registryOk_def)

section \<open>The other components\<close>

lemma find_putObj_other:
  "(\<And>z. key z = key y \<Longrightarrow> \<not> P z) \<Longrightarrow> lookupObj P (putObj key y xs) = lookupObj P xs"
proof -
  assume n: "\<And>z. key z = key y \<Longrightarrow> \<not> P z"
  have "find P (filter (\<lambda>z. key z \<noteq> key y) xs) = find P xs"
    using n by (induction xs) auto
  with n show ?thesis by (auto simp: lookupObj_def putObj_def)
qed

lemma lookupObj_Inr: "lookupObj P xs = Inr y \<Longrightarrow> P y"
  by (auto simp: lookupObj_def find_Some_iff split: option.splits)

lemma memClient_secret_readback: "secret_readback memClient"
  unfolding secret_readback_def
proof (intro conjI allI impI)
  fix s :: Secret and x x' nn
  assume u: "cl_UpdateSecret memClient s x = (None, x')"
  then have x': "w_secrets x' = putObj (\<lambda>s. (sec_Namespace s, sec_Name s)) s (w_secrets x)"
    by (auto simp: memClient_def)
  show "cl_GetSecret memClient \<lparr>nn_Namespace = sec_Namespace s, nn_Name = sec_Name s\<rparr> x' = Inr s"
    by (simp add: memClient_def x')
  assume "nn \<noteq> \<lparr>nn_Namespace = sec_Namespace s, nn_Name = sec_Name s\<rparr>"
  then show "cl_GetSecret memClient nn x' = cl_GetSecret memClient nn x"
    by (cases nn) (auto simp: memClient_def x' intro!: find_putObj_other)
next
  fix nn and s :: Secret and x
  assume "cl_GetSecret memClient nn x = Inr s"
  then show "nn = \<lparr>nn_Namespace = sec_Namespace s, nn_Name = sec_Name s\<rparr>"
    by (cases nn) (auto simp: memClient_def dest!: lookupObj_Inr)
qed

lemma mem_controller_pass:
  "\<exists>r w'. ProcessBundleController memBundleManager memPBC (NewTargetClusterClient (RestConfig ''self''), memWorld) =
     (Ret r, w')"
proof -
  have "runs (refreshSecrets memBundleManager) (\<lambda>_ _. True) (t, memWorld)" for t
    by (rule refreshSecrets_runs [where kl = memKube and cl = memClient and c = "Inr memClientset"])
      (auto simp: memBundleManager_def memKube_def memClientset_def canRefresh_def)
  moreover have "registry_returns (registryClient (\<lambda>_. Inr memBundle) memPull)"
    unfolding memPull_def
    by (rule registryClient_returns) (rule runs_mono [OF Pull_runs [OF memOras_law memDockerLib_loads]], simp)
  ultimately have "runs (ProcessBundleController memBundleManager memPBC) (\<lambda>_ _. True)
      (NewTargetClusterClient (RestConfig ''self''), memWorld)"
    by (intro parts.ProcessBundleController_runs [where cl = memClient and kl = memKube and getenv = memEnv])
      (simp_all add: memBundleManager_def)
  then show ?thesis by (auto elim!: runsE)
qed

lemma memClient_bundle_readback: "bundle_readback memClient"
  by (auto simp: bundle_readback_def memClient_def)

text \<open>Libraries of the webhooks that accept every text.\<close>

definition memSchema :: "unit schemaLib" where
  "memSchema = \<lparr>sch_GzipHeader = (\<lambda>_. None), sch_GzipRead = Inr, sch_Compile = (\<lambda>_. Inr ()),
     sch_YAMLToJSON = Inr, sch_Validate = (\<lambda>_ _. Inr [])\<rparr>"

definition memSig :: "(string, string, string) sigLib" where
  "memSig = \<lparr>sl_SelectorIsIndex = (\<lambda>_. Inr True), sl_ParseQuery = Inr, sl_Run = (\<lambda>q b. [Some (pb_Name b)]),
     sl_YamlMarshal = (\<lambda>v. case v of None \<Rightarrow> Inr [] | Some y \<Rightarrow> Inr y), sl_Sum256 = id,
     sl_ParsePKIX = (\<lambda>s. Inr (Some s)), sl_VerifyASN1 = (\<lambda>k d s. d = s)\<rparr>"

lemma mem_activeBundle:
  "mgr_GetActiveBundle memEnv memClient ''mgmt'' memWorld = (Ret (Inr memBundle), memWorld)"
  by (simp add: mgr_GetActiveBundle_def mgr_GetPackageBundleController_def memClient_def memWorld_def
      memPBC_def memBundle_def lookupObj_def zero_defs bindM_def Let_def)

lemma mem_uninstall:
  assumes "nn_Namespace req = ''eksa-packages-mgmt''"
  shows "\<exists>b mc' w'. processUninstalling memManagerEnv (requeue retryLong (uninstallContext req))
    (memDriver0, memWorld) = (Ret (b, mc'), w')"
proof -
  have c: "GetClusterName (mc_Package (requeue retryLong (uninstallContext req))) = ''mgmt''"
    using assms by (simp add: GetClusterName_def namespacePrefix_def PackageNamespace_def HasPrefix_def
        TrimPrefix_def)
  have cfg: "hd_cfg memDriver1 = Some (HelmCfg ''tls'')" by (simp add: memDriver1_def)
  have "hl_Uninstall (memHelm :: (targetClusterClient, world) HelmLib) c n memWorld = (Inl (GoErr ReleaseNotFound ''release: not found''), memWorld)" for c n
    by (simp add: memHelm_def memWorld_def)
  then have u: "drv_Uninstall (env_driver memManagerEnv) n (memDriver1, memWorld) = (Ret None, (memDriver1, memWorld))" for n
    by (simp add: memManagerEnv_def helmPackageDriver_def hd_Uninstall_def cfg bindM_def onWorld_def)
  show ?thesis
    unfolding processUninstalling_def c
    by (auto simp: bindM_def mem_Initialize u)
qed

text \<open>A bundle with a signature that verifies in this library, for a key of the environment.\<close>

definition memKeyEnv :: "string \<Rightarrow> string" where
  "memKeyEnv v = (if v = ''EKSA_PUBLIC_KEY'' then b64EncodeToString ''key'' else [])"

definition memSigned :: PackageBundle where
  "memSigned = memBundle\<lparr>pb_Annotations := Some [''eksa.aws.com/signature'' \<mapsto> b64EncodeToString ''v1-28-1'']\<rparr>"

lemma mem_version: "getMajorMinorBuild memSigned = (1, 28, 1, None)"
proof -
  have "bundleName 1 28 1 = ''v1-28-1''" by code_simp
  then show ?thesis
    using getMajorMinorBuild_bundleName [of memSigned 1 28 1] by (simp add: memSigned_def memBundle_def)
qed

lemma mem_signature:
  "ValidateSignature memSig memSigned (signingDomain memKeyEnv) = Ret (Inr (True, ''v1-28-1'', ''v1-28-1''))"
proof -
  have d: "signingDomain memKeyEnv = \<lparr>dom_Name = DomainName, dom_Pubkey = b64EncodeToString ''key''\<rparr>"
    using b64Encode_nonempty [of "CHR ''k''" "''ey''"]
    by (simp add: signingDomain_def memKeyEnv_def PublicKeyEnvVar_def Let_def)
  have g: "GetMetadataInformation memSig memSigned (signingDomain memKeyEnv) =
      Inr (b64EncodeToString ''v1-28-1'', [])"
    by (simp add: d GetMetadataInformation_def memSigned_def mapGetStr_def Let_def)
  have "GetDigest memSig memSigned (signingDomain memKeyEnv) = Inr (''v1-28-1'', ''v1-28-1'')"
    by (simp add: GetDigest_def g) (simp add: memSig_def memSigned_def memBundle_def)
  with g b64Encode_nonempty [of "CHR ''v''" "''1-28-1''"] show ?thesis
    by (simp add: ValidateSignature_def d) (simp add: memSig_def)
qed

lemma mem_signed_handled:
  "\<exists>resp. packageBundleValidator_Handle memKeyEnv memSig (Inr memSigned) = Ret resp"
  using mem_version mem_signature
  by (simp add: packageBundleValidator_Handle_def isPackageBundleValid_def IsValidVersion_def Let_def)

end
