(* ===== verification/Admission_Race.thy ===== *)
theory Admission_Race
  imports Server
begin

text \<open>
  \<^verbatim>\<open>pkg/webhook/packagebundlecontroller_webhook.go\<close> under concurrent requests.  The webhook server
  serves every request in a goroutine of its own, and all of them share the one target client of the
  handler.  A request that is checked against the version of its cluster touches that client twice: it
  points it at the cluster (\<^verbatim>\<open>Initialize\<close>), and then reads the version through it
  (\<^verbatim>\<open>ToDiscoveryClient\<close>, \<^verbatim>\<open>ServerVersion\<close>).  The relation \<open>admStep\<close> interleaves these two
  accesses of any number of requests.
\<close>

section \<open>The two accesses\<close>

text \<open>\<^verbatim>\<open>GetServerVersion\<close> after \<^verbatim>\<open>Initialize\<close>.\<close>

definition readVersion :: "'x KubeLib \<Rightarrow> (targetClusterClient \<times> 'x, goerr + version_Info) gom" where
  "readVersion kl =
     bindM (tcc_ToDiscoveryClient kl) (\<lambda>r.
     case r of
       Inl err \<Rightarrow> ret (Inl (Errorf (''creating discoveryClient client: '' @ err_msg err)))
     | Inr restConfig \<Rightarrow>
         bindM (onWorld (reading (kl_ServerVersion kl restConfig))) (\<lambda>v.
         case v of
           Inl err \<Rightarrow> ret (Inl (wrapErr ''getting server version: '' err))
         | Inr info \<Rightarrow> ret (Inr info)))"

lemma GetServerVersion_accesses:
  "tcc_GetServerVersion getenv kl client clusterName =
     bindM (tcc_Initialize getenv kl client clusterName) (\<lambda>e.
     case e of
       Some err \<Rightarrow> ret (Inl (Errorf (''initializing target client: '' @ err_msg err)))
     | None \<Rightarrow> readVersion kl)"
  unfolding tcc_GetServerVersion_def readVersion_def by (rule refl)

text \<open>The end of \<^verbatim>\<open>handleInner\<close> and \<^verbatim>\<open>Handle\<close>: the response for a version.\<close>

definition versionResponse ::
  "PackageBundleController \<Rightarrow> PackageBundle \<Rightarrow> goerr + version_Info \<Rightarrow> admissionResponse" where
  "versionResponse pbc theBundle v =
     (case v of
        Inl err \<Rightarrow> Errored 500 (wrapErr (''getting server version for '' @ pbc_Name pbc @ '': '') err)
      | Inr info \<Rightarrow>
          (case KubeVersionMatches theBundle info of
             Inl err \<Rightarrow> Errored 500 (wrapErr ''listing package bundles: '' err)
           | Inr matches \<Rightarrow>
               if \<not> matches
               then badRequest (''kuberneetes version v'' @ info_Major info @ ''-'' @
                      info_Minor info @ '' does not match '' @ pbcs_ActiveBundle (pbc_Spec pbc))
               else allowedResponse))"

text \<open>A request for a controller whose active bundle is on the cluster goes this way.\<close>

definition checksVersion :: "'x Client \<Rightarrow> 'x \<Rightarrow> PackageBundleController \<Rightarrow> PackageBundle \<Rightarrow> bool" where
  "checksVersion client x pbc theBundle \<longleftrightarrow> pbcs_ActiveBundle (pbc_Spec pbc) \<noteq> [] \<and>
     (\<exists>items. cl_ListBundles client PackageNamespace x = Inr items \<and>
        find (\<lambda>b. pb_Name b = pbcs_ActiveBundle (pbc_Spec pbc)) items = Some theBundle)"

lemma Handle_checks:
  assumes "checksVersion client x pbc theBundle"
  shows "activeBundleValidator_Handle client (targetCluster getenv kl cl) (Inr pbc) (t, x) =
    bindM (tcc_GetServerVersion getenv kl cl (pbc_Name pbc)) (\<lambda>v. ret (versionResponse pbc theBundle v)) (t, x)"
proof -
  obtain r w where Pair: "tcc_GetServerVersion getenv kl cl (pbc_Name pbc) (t, x) = (r, w)"
    by (rule prod.exhaust)
  note defs = checksVersion_def activeBundleValidator_Handle_def handleInner_def targetCluster_def bindM_def
    onWorld_def
  show ?thesis
  proof (cases r)
    case (Ret v)
    show ?thesis
    proof (cases v)
      case (Inr info)
      with assms Pair Ret show ?thesis
        by (cases "KubeVersionMatches theBundle info") (auto simp: defs versionResponse_def)
    qed (use assms Pair Ret in \<open>auto simp: defs versionResponse_def\<close>)
  qed (use assms Pair in \<open>auto simp: defs\<close>)
qed

section \<open>Interleaving\<close>

datatype admRequest =
    Arrived PackageBundleController PackageBundle
  | Pointed PackageBundleController PackageBundle
  | Served PackageBundleController admissionResponse

record 'x admState =
  adm_tcc :: targetClusterClient
  adm_world :: 'x
  adm_requests :: "admRequest list"

inductive admStep ::
  "(string \<Rightarrow> string) \<Rightarrow> 'x KubeLib \<Rightarrow> 'x Client \<Rightarrow> 'x admState \<Rightarrow> 'x admState \<Rightarrow> bool" for getenv kl client where
  point: "i < length (adm_requests s) \<Longrightarrow> adm_requests s ! i = Arrived pbc b \<Longrightarrow>
     tcc_Initialize getenv kl client (pbc_Name pbc) (adm_tcc s, adm_world s) = (Ret None, (t, x)) \<Longrightarrow>
     admStep getenv kl client s \<lparr>adm_tcc = t, adm_world = x, adm_requests = (adm_requests s)[i := Pointed pbc b]\<rparr>"
| fail: "i < length (adm_requests s) \<Longrightarrow> adm_requests s ! i = Arrived pbc b \<Longrightarrow>
     tcc_Initialize getenv kl client (pbc_Name pbc) (adm_tcc s, adm_world s) = (Ret (Some err), (t, x)) \<Longrightarrow>
     admStep getenv kl client s \<lparr>adm_tcc = t, adm_world = x, adm_requests = (adm_requests s)[i :=
       Served pbc (versionResponse pbc b (Inl (Errorf (''initializing target client: '' @ err_msg err))))]\<rparr>"
| serve: "i < length (adm_requests s) \<Longrightarrow> adm_requests s ! i = Pointed pbc b \<Longrightarrow>
     readVersion kl (adm_tcc s, adm_world s) = (Ret v, (t, x)) \<Longrightarrow>
     admStep getenv kl client s
       \<lparr>adm_tcc = t, adm_world = x, adm_requests = (adm_requests s)[i := Served pbc (versionResponse pbc b v)]\<rparr>"

text \<open>A request whose two accesses follow each other gets the response of the sequential handler.\<close>

lemma adm_alone:
  assumes i: "i < length (adm_requests s)" "adm_requests s ! i = Arrived pbc b"
    and check: "checksVersion client (adm_world s) pbc b"
    and run: "activeBundleValidator_Handle client (targetCluster getenv kl client) (Inr pbc) (adm_tcc s, adm_world s) =
      (Ret resp, (t, x))"
  shows "(admStep getenv kl client)\<^sup>*\<^sup>* s
    \<lparr>adm_tcc = t, adm_world = x, adm_requests = (adm_requests s)[i := Served pbc resp]\<rparr>"
proof -
  have run': "bindM (tcc_GetServerVersion getenv kl client (pbc_Name pbc)) (\<lambda>v. ret (versionResponse pbc b v))
      (adm_tcc s, adm_world s) = (Ret resp, (t, x))"
    using run Handle_checks [OF check, of getenv kl client "adm_tcc s"] by simp
  obtain e t1 x1 where init: "tcc_Initialize getenv kl client (pbc_Name pbc) (adm_tcc s, adm_world s) = (Ret e, (t1, x1))"
    using run' by (auto simp: GetServerVersion_accesses bindM_def split: prod.splits go.splits)
  show ?thesis
  proof (cases e)
    case (Some err)
    have "resp = versionResponse pbc b (Inl (Errorf (''initializing target client: '' @ err_msg err)))"
      "t = t1" "x = x1"
      using run' init Some by (auto simp: GetServerVersion_accesses bindM_def)
    then show ?thesis using admStep.fail [OF i, of getenv kl client err t1 x1] init Some by auto
  next
    case None
    then obtain v where v: "readVersion kl (t1, x1) = (Ret v, (t, x))" "resp = versionResponse pbc b v"
      using run' init by (auto simp: GetServerVersion_accesses bindM_def split: prod.splits go.splits)
    let ?s1 = "\<lparr>adm_tcc = t1, adm_world = x1, adm_requests = (adm_requests s)[i := Pointed pbc b]\<rparr>"
    have "admStep getenv kl client s ?s1" using i init None by (auto intro: admStep.point)
    moreover have "admStep getenv kl client ?s1
        \<lparr>adm_tcc = t, adm_world = x, adm_requests = (adm_requests s)[i := Served pbc resp]\<rparr>"
      using admStep.serve [of i ?s1 pbc b kl v t x getenv client] i(1) v by simp
    ultimately show ?thesis by auto
  qed
qed

text \<open>Two requests whose accesses interleave: both are answered for the cluster of the second.\<close>

lemma adm_mixes:
  assumes init1: "tcc_Initialize getenv kl client (pbc_Name p1) (t, x) = (Ret None, (t1, x))"
    and init2: "tcc_Initialize getenv kl client (pbc_Name p2) (t1, x) = (Ret None, (t2, x))"
    and read2: "readVersion kl (t2, x) = (Ret v2, (t2, x))"
  shows "\<exists>s. (admStep getenv kl client)\<^sup>*\<^sup>*
      \<lparr>adm_tcc = t, adm_world = x, adm_requests = [Arrived p1 b1, Arrived p2 b2]\<rparr> s \<and>
    adm_requests s = [Served p1 (versionResponse p1 b1 v2), Served p2 (versionResponse p2 b2 v2)]"
proof -
  let ?R = "admStep getenv kl client"
  let ?s = "\<lambda>t rs. \<lparr>adm_tcc = t, adm_world = x, adm_requests = rs\<rparr>"
  have "?R (?s t [Arrived p1 b1, Arrived p2 b2]) (?s t1 [Pointed p1 b1, Arrived p2 b2])"
    using admStep.point [of 0 "?s t [Arrived p1 b1, Arrived p2 b2]" p1 b1 getenv kl client t1 x] init1 by simp
  moreover have "?R (?s t1 [Pointed p1 b1, Arrived p2 b2]) (?s t2 [Pointed p1 b1, Pointed p2 b2])"
    using admStep.point [of 1 "?s t1 [Pointed p1 b1, Arrived p2 b2]" p2 b2 getenv kl client t2 x] init2 by simp
  moreover have "?R (?s t2 [Pointed p1 b1, Pointed p2 b2])
      (?s t2 [Served p1 (versionResponse p1 b1 v2), Pointed p2 b2])"
    using admStep.serve [of 0 "?s t2 [Pointed p1 b1, Pointed p2 b2]" p1 b1 kl v2 t2 x getenv client] read2 by simp
  moreover have "?R (?s t2 [Served p1 (versionResponse p1 b1 v2), Pointed p2 b2])
      (?s t2 [Served p1 (versionResponse p1 b1 v2), Served p2 (versionResponse p2 b2 v2)])"
    using admStep.serve [of 1 "?s t2 [Served p1 (versionResponse p1 b1 v2), Pointed p2 b2]" p2 b2 kl v2 t2 x getenv client]
      read2 by simp
  ultimately have path: "?R\<^sup>*\<^sup>* (?s t [Arrived p1 b1, Arrived p2 b2])
      (?s t2 [Served p1 (versionResponse p1 b1 v2), Served p2 (versionResponse p2 b2 v2)])"
    by (meson rtranclp.rtrancl_into_rtrancl rtranclp.rtrancl_refl)
  show ?thesis by (rule exI, rule conjI, rule path) (simp only: admState.select_convs)
qed

lemma Handle_alone:
  assumes check: "checksVersion client x p b"
    and init: "tcc_Initialize getenv kl client (pbc_Name p) (t, x) = (Ret None, (t1, x))"
    and read: "readVersion kl (t1, x) = (Ret v, (t1, x))"
  shows "activeBundleValidator_Handle client (targetCluster getenv kl client) (Inr p) (t, x) =
    (Ret (versionResponse p b v), (t1, x))"
  unfolding Handle_checks [OF check] GetServerVersion_accesses by (simp add: bindM_def init read)

end
