(* ===== verification/System_Scenario.thy ===== *)
theory System_Scenario
  imports System Scenario Admission_Race
begin

text \<open>
  The cluster in memory as the world of a running system: its libraries write packages as the API
  server does, and the package of the scenario is installed in three passes of its reconciler.
\<close>

definition memLibs :: "world processLibs" where
  "memLibs = \<lparr>pl_getenv = memEnv, pl_kl = memKube, pl_helm = memHelm, pl_mapRange = id, pl_yaml = memYaml,
     pl_yamlBundle = (\<lambda>_. Inr memBundle), pl_pull = (\<lambda>ref c. reading (\<lambda>_. Inr ''bundle'')),
     pl_config = \<lparr>cfg_BuildInfo = \<lparr>bi_Version = DEVELOPMENT, bi_GitHash = ''HEAD'', bi_BuildTime = 0\<rparr>\<rparr>\<rparr>"

definition memAwsLib :: "(unit, world) AwsLib" where
  "memAwsLib = \<lparr>al_FromFile = (\<lambda>_ _. Inr ()), al_FromKeys = (\<lambda>_ _ _ _ _. Inr ()),
     al_Tokens = (\<lambda>_ _. Inl (Errorf ''no credentials''))\<rparr>"

definition memDocker :: DockerConfigLib where
  "memDocker = \<lparr>dcl_Load = (\<lambda>_. Inr Map.empty), dcl_Save = (\<lambda>_. Inr [])\<rparr>"

definition memInjector :: "(unit, world) ECRCredInjector" where
  "memInjector = \<lparr>inj_k8sClient = memClient, inj_ecrClient = ()\<rparr>"

definition memSecretAuth :: "world Clientset \<times> ecrSecret" where
  "memSecretAuth = (memClientset, \<lparr>ecr_targetCluster = PackageNamespace\<rparr>)"

abbreviation memParts :: "(driverState, targetClusterClient, world) parts" where
  "memParts \<equiv> registeredParts memLibs (\<lambda>_ _. 0) memDocker memAwsLib memInjector memClient (RestConfig ''self'') memSecretAuth"

lemma memSecretAuth_new: "NewECRSecret (pl_kl memLibs) (Some (RestConfig ''self'')) = Ret (Inr memSecretAuth)"
  by (simp add: NewECRSecret_def memLibs_def memKube_def memSecretAuth_def)

lemma memParts_simps:
  "sp_env memParts = memManagerEnv" "sp_client memParts = memClient" "sp_driver0 memParts = memDriver0"
  by (simp_all add: registeredParts_def Let_def builtPackageReconciler_def NewPackageReconciler_def
      reconcilerEnv_def memLibs_def memManagerEnv_def memSecretAuth_def memDriver0_def)

section \<open>The API server in memory\<close>

lemma mem_evolves: "w_packages x' = w_packages x \<Longrightarrow> evolves memClient x x'"
  by (auto simp: evolves_def memClient_def ownerEdit_def)

lemma mem_creates: "evolves memClient x (x\<lparr>w_packages := p\<lparr>pkg_Status := zeroStatus\<rparr> # w_packages x\<rparr>)"
  by (auto simp: evolves_def memClient_def lookupObj_def ownerEdit_def split: if_splits)

lemma mem_package_api: "package_api memClient"
  unfolding package_api_def
proof (intro conjI allI impI)
  fix nn :: NamespacedName and x and p :: Package
  assume "cl_GetPackage memClient nn x = Inr p"
  then show "keyOf p = nn" by (cases nn) (auto simp: memClient_def keyOf_def dest!: lookupObj_Inr)
next
  fix p :: Package and x and nn :: NamespacedName and q
  let ?key = "\<lambda>p :: Package. (pkg_Namespace p, pkg_Name p)"
  let ?P = "\<lambda>p :: Package. pkg_Namespace p = nn_Namespace nn \<and> pkg_Name p = nn_Name nn"
  assume "cl_GetPackage memClient nn (snd (cl_StatusPackage memClient p x)) = Inr q"
  then have q: "lookupObj ?P (putObj ?key p (w_packages x)) = Inr q" by (simp add: memClient_def)
  show "pkg_Status q = zeroStatus \<or> (\<exists>p'. cl_GetPackage memClient nn x = Inr p' \<and> ownerEdit p' q) \<or>
      nn = keyOf p \<and> ownerEdit p q"
  proof (cases "?P p")
    case True
    with q have "q = p" by simp
    with True show ?thesis by (cases nn) (auto simp: keyOf_def ownerEdit_def)
  next
    case False
    then have "lookupObj ?P (putObj ?key p (w_packages x)) = lookupObj ?P (w_packages x)"
      by (intro find_putObj_other) auto
    with q show ?thesis by (auto simp: memClient_def ownerEdit_def)
  qed
qed

lemma memClient_moves: "client_moves (evolves memClient) memClient"
proof -
  have "movesW (evolves memClient) (cl_CreatePackage memClient p)" for p
    using mem_creates by (simp add: movesW_def memClient_def)
  then show ?thesis
    unfolding client_moves_def movesW_def by (auto intro!: mem_evolves) (simp_all add: memClient_def)
qed

lemma mem_libs_api: "libs_api memLibs memClient"
proof -
  have cs: "clientset_moves (evolves memClient) memClientset"
    unfolding clientset_moves_def movesW_def by (auto intro!: mem_evolves) (simp_all add: memClientset_def)
  have "kube_moves (evolves memClient) memKube"
    using cs memClient_moves by (auto simp: kube_moves_def memKube_def split: option.splits)
  moreover have "helm_moves (evolves memClient) memHelm"
    unfolding helm_moves_def movesW_def
    by (auto intro!: mem_evolves) (simp_all add: memHelm_def split: option.split)
  ultimately show ?thesis
    using mem_package_api memClient_moves
    by (auto simp: libs_api_def memLibs_def moves_def evolves_refl)
qed

section \<open>A run that installs the package\<close>

definition memNN :: NamespacedName where
  "memNN = \<lparr>nn_Namespace = ''eksa-packages-mgmt'', nn_Name = ''my-hello''\<rparr>"

abbreviation memFound :: "Package \<Rightarrow> ManagerContext" where
  "memFound p \<equiv> foundContext p memPBC memBundle memBundlePackage memVersion"

lemma memPackage_simps [simp]:
  "pkg_Namespace memPackage = nn_Namespace memNN" "pkg_Name memPackage = nn_Name memNN"
  by (simp_all add: memNN_def memPackage_def NewPackage_def)

lemma sameObject_memPackage:
  assumes "sameObject memPackage p"
  shows "GetClusterName p = ''mgmt''" "IsValidNamespace p" "pkg_Spec p = pkg_Spec memPackage"
    "pkg_Namespace p = nn_Namespace memNN" "pkg_Name p = nn_Name memNN"
proof -
  have p: "p = memPackage\<lparr>pkg_Status := pkg_Status p\<rparr>" using assms by (simp add: sameObject_def)
  show "GetClusterName p = ''mgmt''" "IsValidNamespace p" "pkg_Spec p = pkg_Spec memPackage"
    "pkg_Namespace p = nn_Namespace memNN" "pkg_Name p = nn_Name memNN"
    by (subst p, simp)+
qed

text \<open>Everything that a pass reads is there.\<close>

lemma mem_reads:
  assumes "memLike w"
  shows "bc_GetPackageBundleController (env_client memManagerEnv) ''mgmt'' w = (Ret (Inr memPBC), w)"
    and "bc_GetActiveBundle (env_client memManagerEnv) ''mgmt'' w = (Ret (Inr memBundle), w)"
  using assms
  by (simp_all add: memManagerEnv_def managerClient_def mgr_GetActiveBundle_def mgr_GetPackageBundleController_def
      memClient_def memLike_def memPBC_def memBundle_def lookupObj_def zero_defs bindM_def Let_def)

lemma mem_finds:
  "FindPackage memBundle (spec_PackageName (pkg_Spec memPackage)) = Inr memBundlePackage"
  "FindVersion memBundle memBundlePackage Latest = Inr memVersion"
  "spec_PackageVersion (pkg_Spec memPackage) = []"
  by (simp_all add: mem_objects FindPackage_def EqualFold_def FindVersion_def)

lemma mem_pass:
  assumes like: "memLike w" and get: "cl_GetPackage memClient memNN w = Inr p" and p: "sameObject memPackage p"
    and run: "Process memManagerEnv (memFound p) (d, w) = (Ret (True, mc'), (d', w'))"
  shows "\<exists>r w''. package_Reconcile memManagerEnv memClient memNN (d, w) = (r, (d', w'')) \<and>
    cl_GetPackage memClient memNN w'' = Inr (mc_Package mc') \<and> sameObject memPackage (mc_Package mc') \<and>
    (memLike w' \<longrightarrow> memLike w'')"
proof -
  note sm = sameObject_memPackage [OF p]
  let ?w = "snd (cl_StatusPackage memClient (mc_Package mc') w')"
  have "package_Reconcile memManagerEnv memClient memNN (d, w) =
      processAndStore memManagerEnv memClient (memFound p) (d, w)"
    by (rule package_Reconcile_found [OF get]) (simp_all add: sm mem_reads [OF like] mem_finds)
  moreover have "processAndStore memManagerEnv memClient (memFound p) (d, w) =
      (Ret (after (mc_RequeueAfter mc'), None), (d', ?w))"
    using run by (simp add: processAndStore_def bindM_def onWorld_def memClient_def)
  moreover have so: "sameObject memPackage (mc_Package mc')"
    using wlpD [OF Process_goodStep run] p sameObject_trans foundContext_simps(6)
    unfolding goodStep_def by blast
  moreover have "cl_GetPackage memClient memNN ?w = Inr (mc_Package mc')"
    using sameObject_memPackage(4,5) [OF so] by (simp add: memClient_def)
  moreover have "memLike w' \<longrightarrow> memLike ?w" by (simp add: memLike_def memClient_def)
  ultimately show ?thesis by auto
qed

lemma mem_same_install:
  assumes p: "sameObject memPackage p" and like: "memLike w"
  shows "\<exists>w'. installSucceeds memManagerEnv (requeue retryLong (memFound p)) (memDriver0, w) (memDriver1, w')"
proof -
  obtain w' where "installSucceeds memManagerEnv memContext (memDriver0, w) (memDriver1, w')"
    using mem_installs [OF like] by blast
  moreover have "sameObject memPackage (mc_Package (memFound p))"
    using sameObject_trans [OF p foundContext_simps(6)] .
  ultimately have "installSucceeds memManagerEnv (requeue retryLong (memFound p)) (memDriver0, w) (memDriver1, w')"
    by (subst installSucceeds_cong [of _ memContext]) (simp_all add: memContext_def)
  then show ?thesis ..
qed

lemma mem_valid_found: "sameObject memPackage p \<Longrightarrow> IsValidNamespace (mc_Package (memFound p))"
  using sameObject_memPackage(2) sameObject_trans foundContext_simps(6) by blast

text \<open>The three passes of the manager.\<close>

lemma mem_pass1:
  assumes p: "sameObject memPackage p" "st_State (pkg_Status p) = []"
  shows "\<exists>mc'. Process memManagerEnv (memFound p) (d, w) = (Ret (True, mc'), (d, w)) \<and>
    stateOf mc' = StateInstallingDependencies"
  using mem_valid_found [OF p(1)] p(2)
  by (auto simp: Process_valid processInitializing_def) (simp add: stateOf_def)

lemma mem_pass2:
  assumes p: "sameObject memPackage p" "st_State (pkg_Status p) = StateInstallingDependencies"
  shows "\<exists>mc'. Process memManagerEnv (memFound p) (d, w) = (Ret (True, mc'), (d, w)) \<and> stateOf mc' = StateInstalling"
proof -
  have "bundleDependencies (Some memBundle) memVersion = Ret (Inr [])"
    using mem_dependencies by (simp add: memContext_def)
  moreover have "bc_GetPackageList (env_client memManagerEnv) ns w =
      (Ret (Inr \<lparr>pl_Items = filter (\<lambda>p. pkg_Namespace p = ns) (w_packages w)\<rparr>), w)" for ns
    by (simp add: memManagerEnv_def managerClient_def mgr_GetPackageList_def memClient_def bindM_def)
  ultimately have "processInstallingDependencies memManagerEnv (requeue retryLong (memFound p)) (d, w) =
      (Ret (True, setDetail [] (setState StateInstalling (requeue retryLong (memFound p)))), (d, w))"
    by (intro processInstallingDependencies_succeeds [where deps = "[]"]) auto
  then show ?thesis
    using mem_valid_found [OF p(1)] p(2) by (simp add: Process_valid) (simp add: stateOf_def)
qed

lemma mem_pass3:
  assumes p: "sameObject memPackage p" "st_State (pkg_Status p) = StateInstalling" and like: "memLike w"
  shows "\<exists>mc' w'. Process memManagerEnv (memFound p) (memDriver0, w) = (Ret (True, mc'), (memDriver1, w')) \<and>
    stateOf mc' = StateInstalled"
proof -
  obtain w' where "installSucceeds memManagerEnv (requeue retryLong (memFound p)) (memDriver0, w) (memDriver1, w')"
    using mem_same_install [OF p(1) like] by blast
  from processInstalling_succeeds [OF this] show ?thesis
    using mem_valid_found [OF p(1)] p(2) by (auto simp: Process_valid)
qed

lemma mem_step:
  assumes "package_Reconcile memManagerEnv memClient req (d, w) = (r, (d', w'))"
  shows "sysStep memParts \<lparr>sys_driver = d, sys_pbc = t, sys_world = w\<rparr> \<lparr>sys_driver = d', sys_pbc = t, sys_world = w'\<rparr>"
  using sysStep.package [of memParts req "\<lparr>sys_driver = d, sys_pbc = t, sys_world = w\<rparr>" r d' w'] assms
  by (simp add: memParts_simps)

lemma mem_trace_steps:
  "\<exists>s s0 ss p q. sysTrace memParts (s # s0 # ss) \<and> sysStep memParts s0 s \<and>
     cl_GetPackage memClient memNN (sys_world s) = Inr p \<and> st_State (pkg_Status p) = StateInstalled \<and>
     cl_GetPackage memClient memNN (sys_world s0) = Inr q \<and> IsValidNamespace q \<and>
     st_State (pkg_Status q) = StateInstalling"
proof -
  let ?S = "\<lambda>d w. \<lparr>sys_driver = d, sys_pbc = sp_pbc0 memParts, sys_world = w\<rparr>"
  have get0: "cl_GetPackage memClient memNN memWorld = Inr memPackage"
    by (simp add: memClient_def lookupObj_def memWorld_def)
  have boot: "sysTrace memParts [?S memDriver0 memWorld]"
    by (rule sysTrace.boot [of memParts memWorld, unfolded memParts_simps])
      (auto simp: memClient_def lookupObj_def memWorld_def memPackage_def NewPackage_def zero_defs split: if_splits)
  obtain mc1 where "Process memManagerEnv (memFound memPackage) (memDriver0, memWorld) = (Ret (True, mc1), (memDriver0, memWorld))"
    and st1: "stateOf mc1 = StateInstallingDependencies"
    using mem_pass1 [of memPackage] by auto
  from mem_pass [OF memLike_first get0 sameObject_refl this(1)] obtain r1 w1 where
    rec1: "package_Reconcile memManagerEnv memClient memNN (memDriver0, memWorld) = (r1, (memDriver0, w1))"
    and get1: "cl_GetPackage memClient memNN w1 = Inr (mc_Package mc1)"
    and so1: "sameObject memPackage (mc_Package mc1)" and like1: "memLike w1" by auto
  obtain mc2 where "Process memManagerEnv (memFound (mc_Package mc1)) (memDriver0, w1) = (Ret (True, mc2), (memDriver0, w1))"
    and st2: "stateOf mc2 = StateInstalling"
    using mem_pass2 [OF so1] st1 by (auto simp: stateOf_def)
  from mem_pass [OF like1 get1 so1 this(1)] obtain r2 w2 where
    rec2: "package_Reconcile memManagerEnv memClient memNN (memDriver0, w1) = (r2, (memDriver0, w2))"
    and get2: "cl_GetPackage memClient memNN w2 = Inr (mc_Package mc2)"
    and so2: "sameObject memPackage (mc_Package mc2)" and like2: "memLike w2" using like1 by auto
  obtain mc3 w3' where "Process memManagerEnv (memFound (mc_Package mc2)) (memDriver0, w2) = (Ret (True, mc3), (memDriver1, w3'))"
    and st3: "stateOf mc3 = StateInstalled"
    using mem_pass3 [OF so2 _ like2] st2 by (auto simp: stateOf_def)
  from mem_pass [OF like2 get2 so2 this(1)] obtain r3 w3 where
    rec3: "package_Reconcile memManagerEnv memClient memNN (memDriver0, w2) = (r3, (memDriver1, w3))"
    and get3: "cl_GetPackage memClient memNN w3 = Inr (mc_Package mc3)" by auto
  have "sysTrace memParts [?S memDriver1 w3, ?S memDriver0 w2, ?S memDriver0 w1, ?S memDriver0 memWorld]"
    by (intro sysTrace.step boot mem_step [OF rec1] mem_step [OF rec2] mem_step [OF rec3])
  with get3 st3 get2 st2 sameObject_memPackage(2) [OF so2] mem_step [OF rec3] show ?thesis
    by (intro exI [of _ "?S memDriver1 w3"] exI [of _ "?S memDriver0 w2"] exI conjI) (auto simp: stateOf_def)
qed

lemma mem_trace:
  "\<exists>s ss p. sysTrace memParts (s # ss) \<and> cl_GetPackage memClient memNN (sys_world s) = Inr p \<and>
     st_State (pkg_Status p) = StateInstalled"
  using mem_trace_steps by blast

section \<open>Two clusters behind one target client\<close>

text \<open>The management cluster runs Kubernetes 1.28, the workload cluster 1.27.\<close>

definition twoKube :: "world KubeLib" where
  "twoKube = memKube\<lparr>kl_ServerVersion := (\<lambda>c _.
     Inr \<lparr>info_Major = ''1'', info_Minor = (if c = RestConfig ''self'' then ''28'' else ''27'')\<rparr>)\<rparr>"

definition twoWorld :: world where
  "twoWorld = memWorld\<lparr>w_secrets := [\<lparr>sec_Name = ''wl-kubeconfig'', sec_Namespace = eksaSystemNamespace,
     sec_Type = [], sec_Data = Some [''value'' \<mapsto> ''kubeconfig'']\<rparr>]\<rparr>"

definition workloadPBC :: PackageBundleController where
  "workloadPBC = memPBC\<lparr>pbc_Name := ''wl''\<rparr>"

lemmas two_defs = twoKube_def twoWorld_def workloadPBC_def

lemma two_kubeconfig:
  "getKubeconfig memEnv memClient ''wl'' twoWorld = (Ret (Inr (Some ''kubeconfig'')), twoWorld)"
  "getKubeconfig memEnv memClient ''mgmt'' x = (Ret (Inr None), x)"
  by (simp_all add: getKubeconfig_def memClient_def twoWorld_def lookupObj_def bindM_def memEnv_def clusterNameEnvVar_def)

lemma two_Initialize:
  "tcc_Initialize memEnv twoKube memClient ''wl'' (t, twoWorld) =
     (Ret None, (t\<lparr>tcc_targetSelf := False, tcc_clientConfig := Some (ClientConfig ''kubeconfig'')\<rparr>, twoWorld))"
  "tcc_Initialize memEnv twoKube memClient ''mgmt'' (t, x) =
     (Ret None, (t\<lparr>tcc_targetSelf := True, tcc_clientConfig := Some (ClientConfig [])\<rparr>, x))"
  by (simp_all add: tcc_Initialize_def onWorld_def bindM_def two_kubeconfig)
    (simp_all add: twoKube_def memKube_def bindM_def)

lemma two_readVersion:
  "tcc_targetSelf t \<Longrightarrow> tcc_Config t = RestConfig ''self'' \<Longrightarrow>
     readVersion twoKube (t, x) = (Ret (Inr \<lparr>info_Major = ''1'', info_Minor = ''28''\<rparr>), (t, x))"
  "\<not> tcc_targetSelf t \<Longrightarrow> tcc_clientConfig t = Some c \<Longrightarrow>
     readVersion twoKube (t, x) = (Ret (Inr \<lparr>info_Major = ''1'', info_Minor = ''27''\<rparr>), (t, x))"
  by (simp_all add: readVersion_def tcc_ToDiscoveryClient_def tcc_ToRESTConfig_def bindM_def onWorld_def)
    (simp_all add: twoKube_def memKube_def bindM_def onWorld_def)

lemma mem_bundle_version: "getMajorMinorBuild memBundle = (1, 28, 1, None)"
proof -
  have "bundleName 1 28 1 = ''v1-28-1''" by code_simp
  then show ?thesis
    using getMajorMinorBuild_bundleName [of memBundle 1 28 1] by (simp add: memBundle_def)
qed

lemma two_versions:
  "KubeVersionMatches memBundle \<lparr>info_Major = ''1'', info_Minor = ''28''\<rparr> = Inr True"
  "KubeVersionMatches memBundle \<lparr>info_Major = ''1'', info_Minor = ''27''\<rparr> = Inr False"
proof -
  have "Sprint 1 = ''1''" "Sprint 28 = ''28''" by code_simp+
  then show "KubeVersionMatches memBundle \<lparr>info_Major = ''1'', info_Minor = ''28''\<rparr> = Inr True"
    "KubeVersionMatches memBundle \<lparr>info_Major = ''1'', info_Minor = ''27''\<rparr> = Inr False"
    by (simp_all add: KubeVersionMatches_def mem_bundle_version)
qed

lemma two_checks: "checksVersion memClient twoWorld workloadPBC memBundle"
  by (simp add: checksVersion_def workloadPBC_def memPBC_def zero_defs memClient_def twoWorld_def memWorld_def
      memBundle_def)

section \<open>A manager of controller-runtime\<close>

text \<open>It remembers what it is asked; the ready check cannot be added.\<close>

definition memFails :: "event \<Rightarrow> goerr option" where
  "memFails ev = (if ev = Readyz ''readyz'' then Some (Errorf ''taken'') else None)"

definition memCtrl :: "(world, event list) ctrlManager" where
  "memCtrl = \<lparr>cmgr_GetConfig = RestConfig ''self'', cmgr_GetClient = memClient,
     cmgr_Complete = (\<lambda>c m. (memFails (Completed (ctl_For c)), m @ [Completed (ctl_For c)])),
     cmgr_Register = (\<lambda>p h m. m @ [Registered p]),
     cmgr_AddHealthzCheck = (\<lambda>n m. (memFails (Healthz n), m @ [Healthz n])),
     cmgr_AddReadyzCheck = (\<lambda>n m. (memFails (Readyz n), m @ [Readyz n])),
     cmgr_Start = (\<lambda>m. (memFails Started, m @ [Started]))\<rparr>"

lemma memCtrl_records: "records id memFails memCtrl"
  by (simp add: records_def memCtrl_def) (simp add: memFails_def)

lemma memCtrl_simps: "cmgr_GetConfig memCtrl = RestConfig ''self''" "cmgr_GetClient memCtrl = memClient"
  by (simp_all add: memCtrl_def)

lemma mem_injector_made: "NewECRCredInjector (pl_kl memLibs) memAwsLib memClient memWorld = Inr memInjector"
  by (cases "getECRClientFromConfig memKube memAwsLib memWorld")
    (simp_all add: NewECRCredInjector_def GetECRClient_def getECRClientFromVariables_def Let_def memLibs_def
      memInjector_def, simp add: memAwsLib_def)

end
