(* ===== verification/Token_Refresher.thy ===== *)
theory Token_Refresher
  imports Kube Csset Base64
begin

text \<open>
  \<^verbatim>\<open>ecrtokenrefresher\<close>: the job that distributes registry credentials to the namespaces of every
  cluster.  A \<^verbatim>\<open>ClusterClientSet\<close> and a \<^verbatim>\<open>ClusterCredential\<close> are Go maps by cluster, here lists of
  entries with distinct keys, and the order in which Go ranges over them is the parameter
  \<open>mapRange\<close>; \<open>mapKeys\<close> ranges over the data of a config map.  The AWS services, the process
  environment and the JSON encoder are parameters, collected in a \<open>refresherLib\<close>.
\<close>

section \<open>Credentials\<close>

record rfCredential =
  crd_Registry :: string
  crd_Username :: string
  crd_Password :: string
  crd_CA :: string
  crd_Insecure :: string

type_synonym 'v amap = "(string \<times> 'v) list"

definition amapPut :: "string \<Rightarrow> 'v \<Rightarrow> 'v amap \<Rightarrow> 'v amap" where
  "amapPut k v m = filter (\<lambda>p. fst p \<noteq> k) m @ [(k, v)]"

type_synonym 'x ClusterClientSet = "'x Clientset amap"
type_synonym ClusterCredential = "rfCredential list amap"

definition rfConfigMapName :: string where "rfConfigMapName = ''ns-secret-map''"
definition EksaSystemNamespace :: string where "EksaSystemNamespace = ''eksa-system''"
definition PackagesNamespace :: string where "PackagesNamespace = ''eksa-packages''"
definition NamespacePrefix :: string where "NamespacePrefix = PackagesNamespace @ ''-''"
definition DefaultClusterNameKey :: string where "DefaultClusterNameKey = ''CLUSTER_NAME''"
definition DockerConfigJsonKey :: string where "DockerConfigJsonKey = ''.dockerconfigjson''"
definition SecretTypeDockerConfigJson :: string where
  "SecretTypeDockerConfigJson = ''kubernetes.io/dockerconfigjson''"

section \<open>Kubernetes calls\<close>

definition k8s_GetSecret :: "'x Clientset \<Rightarrow> string \<Rightarrow> string \<Rightarrow> ('x, goerr + Secret) gom" where
  "k8s_GetSecret clientSet name namespace = reading (cs_GetSecret clientSet namespace name)"

definition k8s_CreateSecret ::
  "'x Clientset \<Rightarrow> string \<Rightarrow> string \<Rightarrow> (string, string) gomap \<Rightarrow> ('x, goerr option) gom" where
  "k8s_CreateSecret clientSet name namespace data =
     call (cs_CreateSecret clientSet namespace \<lparr>sec_Name = name, sec_Namespace = namespace,
       sec_Type = SecretTypeDockerConfigJson, sec_Data = data\<rparr>)"

text \<open>The loop over the new data writes into the map of the secret, which must not be nil unless there
  is nothing to write.\<close>

definition k8s_UpdateSecret ::
  "'x Clientset \<Rightarrow> string \<Rightarrow> Secret \<Rightarrow> (string \<rightharpoonup> string) \<Rightarrow> ('x, goerr option) gom" where
  "k8s_UpdateSecret clientSet namespace secret data =
     (case sec_Data secret of
        None \<Rightarrow>
          if data = Map.empty then call (cs_UpdateSecret clientSet namespace secret)
          else panic ''assignment to entry in nil map''
      | Some old \<Rightarrow> call (cs_UpdateSecret clientSet namespace (secret\<lparr>sec_Data := Some (old ++ data)\<rparr>)))"

definition k8s_GetNamespaces :: "'x Clientset \<Rightarrow> ('x, goerr + string list) gom" where
  "k8s_GetNamespaces clientSet = reading (cs_ListNamespaces clientSet)"

definition k8s_GetConfigMap :: "'x Clientset \<Rightarrow> string \<Rightarrow> ('x, goerr + ConfigMap) gom" where
  "k8s_GetConfigMap clientSet namespace = reading (cs_GetConfigMap clientSet namespace rfConfigMapName)"

section \<open>Common\<close>

definition getClusterNameFromNamespaces :: "'x Clientset \<Rightarrow> ('x, goerr + string list) gom" where
  "getClusterNameFromNamespaces clientSet =
     bindM (k8s_GetNamespaces clientSet) (\<lambda>r.
     case r of
       Inl err \<Rightarrow> ret (Inl err)
     | Inr items \<Rightarrow>
         ret (Inr (map (\<lambda>ns. TrimPrefix ns NamespacePrefix)
                       (filter (\<lambda>ns. HasPrefix ns NamespacePrefix) items))))"

text \<open>\<open>inCluster\<close> is the configuration of a pod; outside a cluster the kubeconfig file is used.\<close>

definition GetDefaultClientSet ::
  "'x KubeLib \<Rightarrow> (string \<Rightarrow> 'x \<Rightarrow> string option) \<Rightarrow> goerr + restConfig \<Rightarrow> (string \<Rightarrow> 'x \<Rightarrow> goerr + restConfig) \<Rightarrow>
     ('x, goerr + 'x Clientset) gom" where
  "GetDefaultClientSet kl lookupEnv inCluster fromFile =
     bindM (reading (\<lambda>x.
       case inCluster of
         Inr config \<Rightarrow> Inr config
       | Inl err \<Rightarrow>
           (case lookupEnv ''KUBECONFIG'' x of
              Some val \<Rightarrow> fromFile val x
            | None \<Rightarrow>
                fromFile (pathJoin [case lookupEnv ''HOME'' x of None \<Rightarrow> [] | Some home \<Rightarrow> home,
                  ''.kube'', ''config'']) x))) (\<lambda>r.
     case r of
       Inl err \<Rightarrow> ret (Inl err)
     | Inr config \<Rightarrow> ofGo (kl_NewForConfig kl (Some config)))"

fun remoteClientSets ::
  "'x KubeLib \<Rightarrow> 'x Clientset \<Rightarrow> string list \<Rightarrow> 'x ClusterClientSet \<Rightarrow>
     ('x, goerr + 'x ClusterClientSet) gom" where
  "remoteClientSets kl defaultClientset [] acc = ret (Inr acc)"
| "remoteClientSets kl defaultClientset (clusterName # clusterNames) acc =
     bindM (k8s_GetSecret defaultClientset (clusterName @ ''-kubeconfig'') EksaSystemNamespace) (\<lambda>r.
     case r of
       Inl err \<Rightarrow> ret (Inl err)
     | Inr kubeconfigSecret \<Rightarrow>
         let kubeconfig = mapGetStr (sec_Data kubeconfigSecret) ''value'' in
         if length kubeconfig \<le> 0 then ret (Inl (Errorf ''kubeconfig string in secret not set''))
         else (case kl_ConfigFromBytes kl kubeconfig of
                 Inl err \<Rightarrow> ret (Inl (Errorf (''creating client config: '' @ err_msg err)))
               | Inr clientConfig \<Rightarrow>
                   (case kl_ClientConfig kl clientConfig of
                      Inl err \<Rightarrow> ret (Inl (Errorf (''creating rest config config: '' @ err_msg err)))
                    | Inr config \<Rightarrow>
                        bindM (ofGo (kl_NewForConfig kl (Some config))) (\<lambda>n.
                        case n of
                          Inl err \<Rightarrow> ret (Inl err)
                        | Inr remoteClientSet \<Rightarrow>
                            remoteClientSets kl defaultClientset clusterNames
                              (amapPut clusterName remoteClientSet acc)))))"

definition GetRemoteClientSets ::
  "'x KubeLib \<Rightarrow> 'x Clientset \<Rightarrow> ('x, goerr + 'x ClusterClientSet) gom" where
  "GetRemoteClientSets kl defaultClientset =
     bindM (getClusterNameFromNamespaces defaultClientset) (\<lambda>r.
     case r of
       Inl err \<Rightarrow> ret (Inl err)
     | Inr clusterNames \<Rightarrow> remoteClientSets kl defaultClientset clusterNames [])"

record dockerAuth =
  da_Username :: string
  da_Password :: string
  da_Email :: string
  da_Auth :: string

type_synonym dockerConfig = "string \<rightharpoonup> dockerAuth"

definition defaultEmail :: string where "defaultEmail = ''test@test.com''"

definition credentialAuth :: "rfCredential \<Rightarrow> dockerAuth" where
  "credentialAuth cred =
     (let username = (if crd_Username cred = [] then ''username'' else crd_Username cred);
          password = (if crd_Password cred = [] then ''password'' else crd_Password cred)
      in \<lparr>da_Username = username, da_Password = password, da_Email = defaultEmail,
          da_Auth = b64EncodeToString (username @ '':'' @ password)\<rparr>)"

definition CreateDockerAuthConfig :: "rfCredential list \<Rightarrow> dockerConfig" where
  "CreateDockerAuthConfig creds =
     foldl (\<lambda>auths cred. auths(crd_Registry cred \<mapsto> credentialAuth cred)) Map.empty creds"

definition getNamespacesFromConfigMap ::
  "((string \<rightharpoonup> string) \<Rightarrow> string list) \<Rightarrow> 'x Clientset \<Rightarrow> string \<Rightarrow> ('x, goerr + string list) gom" where
  "getNamespacesFromConfigMap mapKeys clientSet namespace =
     bindM (k8s_GetConfigMap clientSet namespace) (\<lambda>r.
     case r of
       Inl err \<Rightarrow> ret (Inl err)
     | Inr cm \<Rightarrow> ret (Inr (case cm_Data cm of None \<Rightarrow> [] | Some f \<Rightarrow> mapKeys f)))"

text \<open>The loop over the namespaces; errors are logged.\<close>

fun broadcastLoop ::
  "'x Clientset \<Rightarrow> string \<Rightarrow> string \<Rightarrow> string list \<Rightarrow> ('x, unit) gom" where
  "broadcastLoop remoteClientSet secretName configJson [] = ret ()"
| "broadcastLoop remoteClientSet secretName configJson (ns # namespaces) =
     bindM (k8s_GetSecret remoteClientSet secretName ns) (\<lambda>r.
     bindM (case r of
              Inl _ \<Rightarrow> k8s_CreateSecret remoteClientSet secretName ns (Some [DockerConfigJsonKey \<mapsto> configJson])
            | Inr secret \<Rightarrow> k8s_UpdateSecret remoteClientSet ns secret [DockerConfigJsonKey \<mapsto> configJson]) (\<lambda>_.
     broadcastLoop remoteClientSet secretName configJson namespaces))"

text \<open>A client set that is missing from a map is a nil interface.\<close>

definition theClientSet :: "'c option \<Rightarrow> ('x, 'c) gom" where
  "theClientSet c = (case c of None \<Rightarrow> panic ''nil pointer dereference'' | Some cs \<Rightarrow> ret cs)"

definition BroadcastDockerAuthConfig ::
  "((string \<rightharpoonup> string) \<Rightarrow> string list) \<Rightarrow> string \<Rightarrow> 'x Clientset option \<Rightarrow> 'x Clientset option \<Rightarrow>
     string \<Rightarrow> string \<Rightarrow> ('x, unit) gom" where
  "BroadcastDockerAuthConfig mapKeys configJson defaultClientSet remoteClientSet secretName clusterName =
     bindM (theClientSet defaultClientSet) (\<lambda>cs.
     bindM (getNamespacesFromConfigMap mapKeys cs (NamespacePrefix @ clusterName)) (\<lambda>r.
     case r of
       Inl err \<Rightarrow> ret ()
     | Inr [] \<Rightarrow> ret ()
     | Inr namespaces \<Rightarrow>
         bindM (theClientSet remoteClientSet) (\<lambda>remote.
         broadcastLoop remote secretName configJson namespaces)))"

section \<open>The AWS secret\<close>

text \<open>One entry of ECR's answer: the token and the endpoint, \<open>None\<close> for a nil pointer.\<close>

record authData =
  ad_Token :: "string option"
  ad_Endpoint :: "string option"

record roleCredentials =
  role_AccessKeyId :: string
  role_SecretAccessKey :: string
  role_SessionToken :: string

record 'x refresherLib =
  rl_LookupEnv :: "string \<Rightarrow> 'x \<Rightarrow> string option"
  rl_Setenv :: "string \<Rightarrow> string \<Rightarrow> 'x writes"
  rl_ReadFile :: "string \<Rightarrow> 'x \<Rightarrow> goerr + string"
  rl_NewSession :: "'x \<Rightarrow> goerr option"
  rl_AssumeRole :: "string \<Rightarrow> string \<Rightarrow> string \<Rightarrow> nat \<Rightarrow> 'x \<Rightarrow> goerr + roleCredentials"
  rl_AuthToken :: "string list \<Rightarrow> 'x \<Rightarrow> goerr + authData list option"
  rl_Marshal :: "dockerConfig \<Rightarrow> goerr + string"

definition rl_Getenv :: "'x refresherLib \<Rightarrow> string \<Rightarrow> 'x \<Rightarrow> string" where
  "rl_Getenv L v x = (case rl_LookupEnv L v x of None \<Rightarrow> [] | Some s \<Rightarrow> s)"

record 'x AwsSecret =
  aws_secretName :: string
  aws_mgmtClusterName :: string
  aws_clientSets :: "'x ClusterClientSet"
  aws_clusterCredentials :: ClusterCredential

definition envVarAwsSecret :: string where "envVarAwsSecret = ''ECR_TOKEN_SECRET_NAME''"
definition envVarIRSAToken :: string where "envVarIRSAToken = ''AWS_WEB_IDENTITY_TOKEN_FILE''"
definition envRoleARN :: string where "envRoleARN = ''AWS_ROLE_ARN''"
definition envWebTokenFile :: string where "envWebTokenFile = ''AWS_WEB_IDENTITY_TOKEN_FILE''"
definition sessionName :: string where "sessionName = ''GetECRTOKENSession''"
definition sessionTimeSeconds :: nat where "sessionTimeSeconds = 1000"
definition defaultAccountID :: string where "defaultAccountID = ''783794618700''"
definition devAccountID :: string where "devAccountID = ''857151390494''"
definition envRegionName :: string where "envRegionName = ''AWS_REGION''"
definition envVarAwsAccessKeyID :: string where "envVarAwsAccessKeyID = ''AWS_ACCESS_KEY_ID''"
definition envVarAwsAccessKey :: string where "envVarAwsAccessKey = ''AWS_SECRET_ACCESS_KEY''"
definition envSessionToken :: string where "envSessionToken = ''AWS_SESSION_TOKEN''"
definition regionDefault :: string where "regionDefault = ''us-west-2''"

definition setupIRSA :: "'x refresherLib \<Rightarrow> ('x, goerr option) gom" where
  "setupIRSA L =
     bindM (reading (rl_Getenv L envRoleARN)) (\<lambda>roleArn.
     if roleArn = []
     then ret (Some (Errorf (''environment variable '' @ envRoleARN @
                       '' missing, check that Webhook for IRSA is setup'')))
     else
       bindM (reading (rl_Getenv L envWebTokenFile)) (\<lambda>webIdentityTokenFile.
       if webIdentityTokenFile = []
       then ret (Some (Errorf (''environment variable '' @ envWebTokenFile @
                         '' missing, check that token is mounted'')))
       else
         bindM (reading (rl_ReadFile L (pathClean webIdentityTokenFile))) (\<lambda>t.
         case t of
           Inl err \<Rightarrow> ret (Some err)
         | Inr webIdentityToken \<Rightarrow>
             bindM (reading (rl_NewSession L)) (\<lambda>s.
             case s of
               Some err \<Rightarrow> ret (Some err)
             | None \<Rightarrow>
                 bindM (reading (rl_AssumeRole L roleArn sessionName webIdentityToken sessionTimeSeconds)) (\<lambda>a.
                 case a of
                   Inl err \<Rightarrow> ret (Some err)
                 | Inr result \<Rightarrow>
                     bindM (call (rl_Setenv L envVarAwsAccessKeyID (role_AccessKeyId result))) (\<lambda>e.
                     case e of
                       Some err \<Rightarrow> ret (Some err)
                     | None \<Rightarrow>
                         bindM (call (rl_Setenv L envVarAwsAccessKey (role_SecretAccessKey result))) (\<lambda>e.
                         case e of
                           Some err \<Rightarrow> ret (Some err)
                         | None \<Rightarrow>
                             call (rl_Setenv L envSessionToken (role_SessionToken result)))))))))"

definition aws_Init ::
  "'x refresherLib \<Rightarrow> string \<Rightarrow> 'x ClusterClientSet \<Rightarrow> 'x AwsSecret \<Rightarrow>
     ('x, goerr option \<times> 'x AwsSecret) gom" where
  "aws_Init L mgmtClusterName clientSets aws =
     bindM (reading (rl_Getenv L envVarAwsSecret)) (\<lambda>secretname.
     if secretname = []
     then ret (Some (Errorf (''environment variable '' @ envVarAwsSecret @ '' is required'')), aws)
     else
       let aws = aws\<lparr>aws_secretName := secretname\<rparr> in
       bindM (reading (rl_Getenv L envVarIRSAToken)) (\<lambda>webIdentityTokenFile.
       bindM (if webIdentityTokenFile \<noteq> [] then setupIRSA L else ret None) (\<lambda>e.
       case e of
         Some err \<Rightarrow> ret (Some err, aws)
       | None \<Rightarrow> ret (None, aws\<lparr>aws_mgmtClusterName := mgmtClusterName, aws_clientSets := clientSets\<rparr>))))"

definition aws_IsActive :: "'x refresherLib \<Rightarrow> 'x AwsSecret \<Rightarrow> ('x, bool) gom" where
  "aws_IsActive L aws =
     bindM (reading (rl_Getenv L envVarAwsAccessKeyID)) (\<lambda>val.
     if val = [] then ret False
     else
       bindM (reading (rl_Getenv L envVarAwsAccessKey)) (\<lambda>val.
       if val = [] then ret False else ret True))"

definition aws_GetName :: "'x AwsSecret \<Rightarrow> string" where
  "aws_GetName aws = aws_secretName aws"

fun tokenCredentials :: "authData list \<Rightarrow> (goerr + rfCredential list) go" where
  "tokenCredentials [] = Ret (Inr [])"
| "tokenCredentials (auth # auths) =
     (case ad_Token auth of
        None \<Rightarrow> Panic ''nil pointer dereference''
      | Some token \<Rightarrow>
          (case b64DecodeString token of
             Inl err \<Rightarrow> Ret (Inl err)
           | Inr decode \<Rightarrow>
               (case Split decode CHR '':'' of
                  [user, pass] \<Rightarrow>
                    (case ad_Endpoint auth of
                       None \<Rightarrow> Panic ''nil pointer dereference''
                     | Some endpoint \<Rightarrow>
                         (case tokenCredentials auths of
                            Panic p \<Rightarrow> Panic p
                          | Ret (Inl err) \<Rightarrow> Ret (Inl err)
                          | Ret (Inr creds) \<Rightarrow>
                              Ret (Inr (\<lparr>crd_Registry = endpoint, crd_Username = user, crd_Password = pass,
                                         crd_CA = [], crd_Insecure = []\<rparr> # creds))))
                | _ \<Rightarrow> Ret (Inl (Errorf ''error parsing username and password from authorization token'')))))"

text \<open>\<^verbatim>\<open>session.Must\<close> panics when the session cannot be made.\<close>

definition getCredentials :: "'x refresherLib \<Rightarrow> ('x, goerr + rfCredential list) gom" where
  "getCredentials L =
     bindM (reading (rl_LookupEnv L envRegionName)) (\<lambda>region.
     bindM (case region of None \<Rightarrow> call (rl_Setenv L envRegionName regionDefault) | Some _ \<Rightarrow> ret None) (\<lambda>e.
     case e of
       Some err \<Rightarrow> ret (Inl err)
     | None \<Rightarrow>
         bindM (reading (rl_NewSession L)) (\<lambda>s.
         case s of
           Some err \<Rightarrow> panic (err_msg err)
         | None \<Rightarrow>
             bindM (reading (rl_AuthToken L [defaultAccountID, devAccountID])) (\<lambda>t.
             case t of
               Inl err \<Rightarrow> ret (Inl err)
             | Inr None \<Rightarrow> ret (Inl (Errorf ''response output from ECR was nil''))
             | Inr (Some []) \<Rightarrow> ret (Inl (Errorf ''authorization data was empty''))
             | Inr (Some auths) \<Rightarrow> ofGo (tokenCredentials auths)))))"

definition aws_GetClusterCredentials ::
  "'x refresherLib \<Rightarrow> 'x ClusterClientSet \<Rightarrow> ('x, goerr + ClusterCredential) gom" where
  "aws_GetClusterCredentials L clientSets =
     bindM (getCredentials L) (\<lambda>r.
     case r of
       Inl err \<Rightarrow> ret (Inl err)
     | Inr creds \<Rightarrow> ret (Inr (map (\<lambda>(clusterName, _). (clusterName, creds)) clientSets)))"

fun aws_broadcastLoop ::
  "((string \<rightharpoonup> string) \<Rightarrow> string list) \<Rightarrow> 'x refresherLib \<Rightarrow> 'x AwsSecret \<Rightarrow> string list \<Rightarrow>
     ('x, goerr option) gom" where
  "aws_broadcastLoop mapKeys L aws [] = ret None"
| "aws_broadcastLoop mapKeys L aws (clusterName # clusterNames) =
     (let creds = the (map_of (aws_clusterCredentials aws) clusterName) in
      case rl_Marshal L (CreateDockerAuthConfig creds) of
        Inl err \<Rightarrow> ret (Some err)
      | Inr configJson \<Rightarrow>
          bindM (BroadcastDockerAuthConfig mapKeys configJson
                   (map_of (aws_clientSets aws) (aws_mgmtClusterName aws))
                   (map_of (aws_clientSets aws) clusterName) (aws_secretName aws) clusterName) (\<lambda>_.
          aws_broadcastLoop mapKeys L aws clusterNames))"

definition aws_BroadcastCredentials ::
  "(string list \<Rightarrow> string list) \<Rightarrow> ((string \<rightharpoonup> string) \<Rightarrow> string list) \<Rightarrow> 'x refresherLib \<Rightarrow> 'x AwsSecret \<Rightarrow>
     ('x, goerr option \<times> 'x AwsSecret) gom" where
  "aws_BroadcastCredentials mapRange mapKeys L aws =
     bindM (aws_GetClusterCredentials L (aws_clientSets aws)) (\<lambda>r.
     case r of
       Inl err \<Rightarrow> ret (Some err, aws\<lparr>aws_clusterCredentials := []\<rparr>)
     | Inr cc \<Rightarrow>
         let aws = aws\<lparr>aws_clusterCredentials := cc\<rparr> in
         bindM (aws_broadcastLoop mapKeys L aws (mapRange (map fst (aws_clusterCredentials aws)))) (\<lambda>e.
         ret (e, aws)))"

section \<open>The registry mirror secret\<close>

record 'x RegistryMirrorSecret =
  rms_credName :: string
  rms_mgmtClusterName :: string
  rms_clientSets :: "'x ClusterClientSet"
  rms_clusterCredentials :: ClusterCredential

definition credName :: string where "credName = ''registry-mirror-cred''"
definition secretName :: string where "secretName = ''registry-mirror-secret''"

definition mirrorCredential :: "Secret \<Rightarrow> rfCredential" where
  "mirrorCredential secret =
     \<lparr>crd_Registry = mapGetStr (sec_Data secret) ''ENDPOINT'',
      crd_Username = mapGetStr (sec_Data secret) ''USERNAME'',
      crd_Password = mapGetStr (sec_Data secret) ''PASSWORD'',
      crd_CA = mapGetStr (sec_Data secret) ''CACERTCONTENT'',
      crd_Insecure = mapGetStr (sec_Data secret) ''INSECURE''\<rparr>"

fun mirrorCredentials ::
  "'x Clientset option \<Rightarrow> string \<Rightarrow> string list \<Rightarrow> ClusterCredential \<Rightarrow>
     ('x, goerr + ClusterCredential) gom" where
  "mirrorCredentials defaultClientSet mgmt [] acc = ret (Inr acc)"
| "mirrorCredentials defaultClientSet mgmt (clusterName # clusterNames) acc =
     (let namespace = (if clusterName \<noteq> mgmt then NamespacePrefix @ clusterName else PackagesNamespace) in
      bindM (theClientSet defaultClientSet) (\<lambda>cs.
      bindM (k8s_GetSecret cs secretName namespace) (\<lambda>r.
      case r of
        Inr secret \<Rightarrow>
          mirrorCredentials defaultClientSet mgmt clusterNames
            (amapPut clusterName [mirrorCredential secret] acc)
      | Inl err \<Rightarrow> ret (Inl err))))"

definition mirror_GetClusterCredentials ::
  "(string list \<Rightarrow> string list) \<Rightarrow> 'x RegistryMirrorSecret \<Rightarrow> 'x ClusterClientSet \<Rightarrow>
     ('x, goerr + ClusterCredential) gom" where
  "mirror_GetClusterCredentials mapRange mirror clientSets =
     mirrorCredentials (map_of (rms_clientSets mirror) (rms_mgmtClusterName mirror))
       (rms_mgmtClusterName mirror) (mapRange (map fst clientSets)) []"

definition mirror_Init ::
  "(string list \<Rightarrow> string list) \<Rightarrow> string \<Rightarrow> 'x ClusterClientSet \<Rightarrow> 'x RegistryMirrorSecret \<Rightarrow>
     ('x, goerr option \<times> 'x RegistryMirrorSecret) gom" where
  "mirror_Init mapRange mgmtClusterName clientSets mirror =
     (let mirror = mirror\<lparr>rms_credName := credName, rms_mgmtClusterName := mgmtClusterName,
                          rms_clientSets := clientSets\<rparr> in
      bindM (mirror_GetClusterCredentials mapRange mirror (rms_clientSets mirror)) (\<lambda>r.
      case r of
        Inl err \<Rightarrow> ret (Some err, mirror\<lparr>rms_clusterCredentials := []\<rparr>)
      | Inr cc \<Rightarrow> ret (None, mirror\<lparr>rms_clusterCredentials := cc\<rparr>)))"

definition mirror_IsActive :: "'x RegistryMirrorSecret \<Rightarrow> bool" where
  "mirror_IsActive mirror \<longleftrightarrow> length (rms_clusterCredentials mirror) > 0"

definition mirror_GetName :: "'x RegistryMirrorSecret \<Rightarrow> string" where
  "mirror_GetName mirror = rms_credName mirror"

text \<open>What one cluster adds to the data of the secret that the controller mounts.\<close>

definition mountData ::
  "string \<Rightarrow> string \<Rightarrow> rfCredential \<Rightarrow> string \<Rightarrow> (string \<rightharpoonup> string) \<Rightarrow> (string \<rightharpoonup> string)" where
  "mountData mgmt clusterName cred configJson data =
     (let data = (if clusterName = mgmt then data(DockerConfigJsonKey \<mapsto> configJson) else data);
          data = (if length (crd_CA cred) > 0 then data(clusterName @ ''_ca.crt'' \<mapsto> crd_CA cred) else data);
          data = data(''config.json'' \<mapsto> configJson)
      in if crd_Insecure cred = ''true'' then data(clusterName @ ''_insecure'' \<mapsto> crd_Insecure cred) else data)"

fun mirror_broadcastLoop ::
  "((string \<rightharpoonup> string) \<Rightarrow> string list) \<Rightarrow> 'x refresherLib \<Rightarrow> 'x RegistryMirrorSecret \<Rightarrow> string list \<Rightarrow>
     (string \<rightharpoonup> string) \<Rightarrow> ('x, goerr + (string \<rightharpoonup> string)) gom" where
  "mirror_broadcastLoop mapKeys L mirror [] data = ret (Inr data)"
| "mirror_broadcastLoop mapKeys L mirror (clusterName # clusterNames) data =
     (let creds = the (map_of (rms_clusterCredentials mirror) clusterName) in
      case rl_Marshal L (CreateDockerAuthConfig creds) of
        Inl err \<Rightarrow> ret (Inl err)
      | Inr configJson \<Rightarrow>
          bindM (BroadcastDockerAuthConfig mapKeys configJson
                   (map_of (rms_clientSets mirror) (rms_mgmtClusterName mirror))
                   (map_of (rms_clientSets mirror) clusterName) (rms_credName mirror) clusterName) (\<lambda>_.
          case creds of
            [] \<Rightarrow> panic ''index out of range''
          | cred # _ \<Rightarrow>
              mirror_broadcastLoop mapKeys L mirror clusterNames
                (mountData (rms_mgmtClusterName mirror) clusterName cred configJson data)))"

definition emptyCredential :: rfCredential where
  "emptyCredential = \<lparr>crd_Registry = [], crd_Username = [], crd_Password = [], crd_CA = [], crd_Insecure = []\<rparr>"

definition mirror_BroadcastCredentials ::
  "(string list \<Rightarrow> string list) \<Rightarrow> ((string \<rightharpoonup> string) \<Rightarrow> string list) \<Rightarrow> 'x refresherLib \<Rightarrow>
     'x RegistryMirrorSecret \<Rightarrow> ('x, goerr option) gom" where
  "mirror_BroadcastCredentials mapRange mapKeys L mirror =
     bindM (mirror_broadcastLoop mapKeys L mirror (mapRange (map fst (rms_clusterCredentials mirror))) Map.empty) (\<lambda>r.
     case r of
       Inl err \<Rightarrow> ret (Some err)
     | Inr data \<Rightarrow>
         let data = (case data DockerConfigJsonKey of
                       Some _ \<Rightarrow> data
                     | None \<Rightarrow> data(DockerConfigJsonKey \<mapsto>
                         (case rl_Marshal L (CreateDockerAuthConfig [emptyCredential]) of
                            Inl _ \<Rightarrow> [] | Inr configJson \<Rightarrow> configJson))) in
         bindM (theClientSet (map_of (rms_clientSets mirror) (rms_mgmtClusterName mirror))) (\<lambda>defaultClientSet.
         bindM (k8s_GetSecret defaultClientSet credName PackagesNamespace) (\<lambda>s.
         case s of
           Inl _ \<Rightarrow> k8s_CreateSecret defaultClientSet credName PackagesNamespace (Some data)
         | Inr secret \<Rightarrow> k8s_UpdateSecret defaultClientSet PackagesNamespace secret data)))"

section \<open>The program\<close>

text \<open>\<^verbatim>\<open>main\<close> from the point where the default client set is made: errors are logged, and
  \<^verbatim>\<open>os.Exit(0)\<close> ends it.\<close>

definition refresher_main ::
  "(string list \<Rightarrow> string list) \<Rightarrow> ((string \<rightharpoonup> string) \<Rightarrow> string list) \<Rightarrow> 'x KubeLib \<Rightarrow> 'x refresherLib \<Rightarrow>
     goerr + 'x Clientset \<Rightarrow> ('x, unit) gom" where
  "refresher_main mapRange mapKeys kl L defaultClientSet =
     (case defaultClientSet of
        Inl err \<Rightarrow> ret ()
      | Inr dcs \<Rightarrow>
          bindM (GetRemoteClientSets kl dcs) (\<lambda>r.
          case r of
            Inl err \<Rightarrow> ret ()
          | Inr clientSets \<Rightarrow>
              bindM (reading (rl_LookupEnv L DefaultClusterNameKey)) (\<lambda>n.
              case n of
                None \<Rightarrow> ret ()
              | Some defaultClusterName \<Rightarrow>
                  let clientSets = amapPut defaultClusterName dcs clientSets;
                      aws = \<lparr>aws_secretName = [], aws_mgmtClusterName = [], aws_clientSets = [],
                             aws_clusterCredentials = []\<rparr>;
                      mirror = \<lparr>rms_credName = [], rms_mgmtClusterName = [], rms_clientSets = [],
                                rms_clusterCredentials = []\<rparr> in
                  bindM (aws_Init L defaultClusterName clientSets aws) (\<lambda>(_, aws).
                  bindM (mirror_Init mapRange defaultClusterName clientSets mirror) (\<lambda>(_, mirror).
                  bindM (aws_IsActive L aws) (\<lambda>active.
                  bindM (if active then bindM (aws_BroadcastCredentials mapRange mapKeys L aws) (\<lambda>_. ret ())
                         else ret ()) (\<lambda>_.
                  if mirror_IsActive mirror
                  then bindM (mirror_BroadcastCredentials mapRange mapKeys L mirror) (\<lambda>_. ret ())
                  else ret ()))))))) "

section \<open>What the clusters promise\<close>

text \<open>A secret that was written without an error is read back, and no other secret of any cluster and
  no config map changes.\<close>

definition secret_written ::
  "'x ClusterClientSet \<Rightarrow> string \<Rightarrow> string \<Rightarrow> Secret \<Rightarrow> 'x \<Rightarrow> 'x \<Rightarrow> bool" where
  "secret_written clientSets c ns s x x' \<longleftrightarrow>
     (\<forall>c' k' ns' n'. map_of clientSets c' = Some k' \<longrightarrow>
        cs_GetSecret k' ns' n' x' =
          (if c' = c \<and> ns' = ns \<and> n' = sec_Name s then Inr s else cs_GetSecret k' ns' n' x) \<and>
        cs_GetConfigMap k' ns' n' x' = cs_GetConfigMap k' ns' n' x)"

definition secret_stores :: "'x ClusterClientSet \<Rightarrow> bool" where
  "secret_stores clientSets \<longleftrightarrow>
     (\<forall>c k ns s x. map_of clientSets c = Some k \<longrightarrow>
        (fst (cs_CreateSecret k ns s x) = None \<longrightarrow>
           secret_written clientSets c ns s x (snd (cs_CreateSecret k ns s x))) \<and>
        (fst (cs_UpdateSecret k ns s x) = None \<longrightarrow>
           secret_written clientSets c ns s x (snd (cs_UpdateSecret k ns s x))) \<and>
        (\<forall>n. cs_GetSecret k ns n x = Inr s \<longrightarrow> sec_Name s = n))"

text \<open>What the API servers do with a write: \<open>acc\<close> says, for a state of the world, in which namespaces of
  which clusters secrets are accepted.  There, creating a secret that is missing and updating one that
  exists succeed; anywhere else, for instance in a namespace that does not exist or on a cluster that
  does not answer, the write is refused and nothing changes.  Writing secrets changes none of this.\<close>

definition storeSecret :: "'x Clientset \<Rightarrow> string \<Rightarrow> Secret \<Rightarrow> 'x \<Rightarrow> goerr option \<times> 'x" where
  "storeSecret k ns s x =
     (case cs_GetSecret k ns (sec_Name s) x of
        Inl _ \<Rightarrow> cs_CreateSecret k ns s x | Inr _ \<Rightarrow> cs_UpdateSecret k ns s x)"

definition answers_writes :: "'x ClusterClientSet \<Rightarrow> ('x \<Rightarrow> (string \<times> string) set) \<Rightarrow> bool" where
  "answers_writes clientSets acc \<longleftrightarrow>
     (\<forall>c k ns s x. map_of clientSets c = Some k \<longrightarrow>
        acc (snd (storeSecret k ns s x)) = acc x \<and>
        (if (c, ns) \<in> acc x then fst (storeSecret k ns s x) = None
         else \<exists>e. storeSecret k ns s x = (Some e, x)))"

lemma stored:
  assumes "secret_stores cs" "answers_writes cs acc" "map_of cs c = Some k" "(c, ns) \<in> acc x"
  shows "fst (storeSecret k ns s x) = None \<and> acc (snd (storeSecret k ns s x)) = acc x \<and>
    secret_written cs c ns s x (snd (storeSecret k ns s x))"
proof -
  from assms(2-4) have "fst (storeSecret k ns s x) = None" "acc (snd (storeSecret k ns s x)) = acc x"
    unfolding answers_writes_def by metis+
  moreover from this assms(1,3) have "secret_written cs c ns s x (snd (storeSecret k ns s x))"
    unfolding secret_stores_def storeSecret_def by (auto split: sum.splits)
  ultimately show ?thesis by simp
qed

lemma refused:
  assumes "answers_writes cs acc" "map_of cs c = Some k" "(c, ns) \<notin> acc x"
  shows "\<exists>e. storeSecret k ns s x = (Some e, x)"
  using assms unfolding answers_writes_def by metis

section \<open>Delivery\<close>

text \<open>How the worlds before and after a delivery compare: \<open>todo\<close> are the cluster and namespace pairs
  that were due, \<open>cfg\<close> the configuration of each cluster.  A due secret that the API server accepts
  carries the configuration of its cluster and has otherwise the entries it had; every other secret and
  all config maps are as before.\<close>

definition entry :: "goerr + Secret \<Rightarrow> string \<rightharpoonup> string" where
  "entry r = (case r of Inl _ \<Rightarrow> Map.empty | Inr s \<Rightarrow> mapGet (sec_Data s))"

definition carries :: "goerr + Secret \<Rightarrow> string \<Rightarrow> goerr + Secret \<Rightarrow> bool" where
  "carries new json old \<longleftrightarrow> entry new = (entry old)(DockerConfigJsonKey \<mapsto> json)"

definition delivered ::
  "'x ClusterClientSet \<Rightarrow> ('x \<Rightarrow> (string \<times> string) set) \<Rightarrow> string \<Rightarrow> (string \<Rightarrow> string) \<Rightarrow>
     (string \<times> string) set \<Rightarrow> 'x \<Rightarrow> 'x \<Rightarrow> bool" where
  "delivered clientSets acc name cfg todo x x' \<longleftrightarrow> acc x' = acc x \<and>
     (\<forall>c k ns n. map_of clientSets c = Some k \<longrightarrow>
        cs_GetConfigMap k ns n x' = cs_GetConfigMap k ns n x \<and>
        (if n = name \<and> (c, ns) \<in> todo \<inter> acc x
         then carries (cs_GetSecret k ns n x') (cfg c) (cs_GetSecret k ns n x)
         else cs_GetSecret k ns n x' = cs_GetSecret k ns n x))"

text \<open>Updating a secret without data would assign to a nil map; the maps of the cluster are finite.\<close>

definition good_objects :: "'x ClusterClientSet \<Rightarrow> string \<Rightarrow> 'x \<Rightarrow> bool" where
  "good_objects clientSets name x \<longleftrightarrow>
     (\<forall>c k ns. map_of clientSets c = Some k \<longrightarrow>
        (\<forall>s. cs_GetSecret k ns name x = Inr s \<longrightarrow> sec_Data s \<noteq> None) \<and>
        (\<forall>n cm f. cs_GetConfigMap k ns n x = Inr cm \<longrightarrow> cm_Data cm = Some f \<longrightarrow> finite (dom f)))"

lemma delivered_refl [simp]: "delivered cs acc name cfg {} x x"
  by (simp add: delivered_def)

lemma entry_simps [simp]:
  "entry (Inl e) = Map.empty" "entry (Inr s) = mapGet (sec_Data s)"
  by (simp_all add: entry_def)

lemma mapGet_fun [simp]: "mapGet (Some f) = f" "mapGet None = Map.empty"
  by (simp_all add: fun_eq_iff)

lemma carries_trans: "carries b j a \<Longrightarrow> carries c j b \<Longrightarrow> carries c j a"
  by (simp add: carries_def)

lemma carries_Some: "carries new j old \<Longrightarrow> entry new DockerConfigJsonKey = Some j"
  by (simp add: carries_def)

lemma entry_Some_data: "entry r key = Some v \<Longrightarrow> r = Inr s \<Longrightarrow> sec_Data s \<noteq> None"
  by (auto simp: mapGet_def split: option.splits)

lemma deliveredD:
  assumes "delivered cs acc name cfg todo x x'" "map_of cs c = Some k"
  shows "cs_GetConfigMap k ns n x' = cs_GetConfigMap k ns n x"
    and "if n = name \<and> (c, ns) \<in> todo \<inter> acc x
      then carries (cs_GetSecret k ns n x') (cfg c) (cs_GetSecret k ns n x)
      else cs_GetSecret k ns n x' = cs_GetSecret k ns n x"
  using assms unfolding delivered_def by blast+

lemma delivered_acc: "delivered cs acc name cfg todo x x' \<Longrightarrow> acc x' = acc x"
  by (simp add: delivered_def)

lemma delivered_trans:
  assumes "delivered cs acc name cfg S x x'" "delivered cs acc name cfg T x' x''"
  shows "delivered cs acc name cfg (S \<union> T) x x''"
  unfolding delivered_def
proof (intro conjI allI impI)
  show "acc x'' = acc x" using assms [THEN delivered_acc] by simp
  fix c k ns n assume k: "map_of cs c = Some k"
  show "cs_GetConfigMap k ns n x'' = cs_GetConfigMap k ns n x"
    using deliveredD(1) [OF assms(1) k] deliveredD(1) [OF assms(2) k] by simp
  show "if n = name \<and> (c, ns) \<in> (S \<union> T) \<inter> acc x
     then carries (cs_GetSecret k ns n x'') (cfg c) (cs_GetSecret k ns n x)
     else cs_GetSecret k ns n x'' = cs_GetSecret k ns n x"
    using deliveredD(2) [OF assms(1) k, of n ns] deliveredD(2) [OF assms(2) k, of n ns]
    by (auto simp: delivered_acc [OF assms(1)] split: if_splits intro: carries_trans)
qed

lemma delivered_data:
  assumes d: "delivered cs acc name cfg S x x'" and data: "good_objects cs name x"
  shows "good_objects cs name x'"
  unfolding good_objects_def
proof (intro allI impI conjI)
  fix c k ns s assume k: "map_of cs c = Some k" and s: "cs_GetSecret k ns name x' = Inr s"
  show "sec_Data s \<noteq> None"
  proof (cases "(c, ns) \<in> S \<inter> acc x")
    case True
    with d k have "carries (cs_GetSecret k ns name x') (cfg c) (cs_GetSecret k ns name x)"
      by (auto simp: delivered_def)
    with s show ?thesis by (metis carries_Some entry_Some_data)
  next
    case False
    with d k s have "cs_GetSecret k ns name x = Inr s" by (auto simp: delivered_def)
    with data k show ?thesis unfolding good_objects_def by blast
  qed
next
  fix c k ns n cm f
  assume "map_of cs c = Some k" "cs_GetConfigMap k ns n x' = Inr cm" "cm_Data cm = Some f"
  with d data show "finite (dom f)"
    unfolding delivered_def good_objects_def by metis
qed

lemma secret_written_read:
  "secret_written cs c ns s x x' \<Longrightarrow> map_of cs c = Some k \<Longrightarrow> cs_GetSecret k ns (sec_Name s) x' = Inr s"
  by (simp add: secret_written_def)

lemma written_delivered:
  assumes "secret_written cs c ns s x x'" "sec_Name s = name" "map_of cs c = Some k" "(c, ns) \<in> acc x"
    and "carries (Inr s) (cfg c) (cs_GetSecret k ns name x)" and "acc x' = acc x"
  shows "delivered cs acc name cfg {(c, ns)} x x'"
  using assms unfolding delivered_def secret_written_def by auto

lemma refused_delivered: "(c, ns) \<notin> acc x \<Longrightarrow> delivered cs acc name cfg {(c, ns)} x x"
  by (simp add: delivered_def)

text \<open>Creating a secret that is missing, or updating one that exists: one write, of a secret with the
  old entries overridden by the new ones.\<close>

lemma store_eq:
  assumes laws: "secret_stores cs" and k: "map_of cs c = Some k" and data: "good_objects cs name x"
  shows "\<exists>s. sec_Name s = name \<and> mapGet (sec_Data s) = entry (cs_GetSecret k ns name x) ++ d \<and>
    bindM (k8s_GetSecret k name ns) (\<lambda>r.
       case r of
         Inl _ \<Rightarrow> k8s_CreateSecret k name ns (Some d)
       | Inr secret \<Rightarrow> k8s_UpdateSecret k ns secret d) x = call (storeSecret k ns s) x"
proof (cases "cs_GetSecret k ns name x")
  case (Inl e)
  let ?s = "\<lparr>sec_Name = name, sec_Namespace = ns, sec_Type = SecretTypeDockerConfigJson, sec_Data = Some d\<rparr>"
  from Inl show ?thesis
    by (auto simp: k8s_GetSecret_def k8s_CreateSecret_def storeSecret_def bindM_def call_def
        intro!: exI [of _ ?s])
next
  case (Inr s)
  then obtain f where f: "sec_Data s = Some f" "sec_Name s = name"
    using data laws(1) k unfolding good_objects_def secret_stores_def by blast
  let ?s = "s\<lparr>sec_Data := Some (f ++ d)\<rparr>"
  from Inr f show ?thesis
    by (auto simp: k8s_GetSecret_def k8s_UpdateSecret_def storeSecret_def bindM_def call_def
        intro!: exI [of _ ?s])
qed

lemma store_data:
  assumes laws: "secret_stores cs" "answers_writes cs acc" and k: "map_of cs c = Some k"
    and data: "good_objects cs name x" and acc: "(c, ns) \<in> acc x"
  shows "runs (bindM (k8s_GetSecret k name ns) (\<lambda>r.
       case r of
         Inl _ \<Rightarrow> k8s_CreateSecret k name ns (Some d)
       | Inr secret \<Rightarrow> k8s_UpdateSecret k ns secret d))
     (\<lambda>e x'. e = None \<and> acc x' = acc x \<and> (\<exists>s. sec_Name s = name \<and> secret_written cs c ns s x x' \<and>
        mapGet (sec_Data s) = entry (cs_GetSecret k ns name x) ++ d)) x"
proof -
  obtain s where s: "sec_Name s = name" "mapGet (sec_Data s) = entry (cs_GetSecret k ns name x) ++ d"
    and eq: "bindM (k8s_GetSecret k name ns) (\<lambda>r.
       case r of
         Inl _ \<Rightarrow> k8s_CreateSecret k name ns (Some d)
       | Inr secret \<Rightarrow> k8s_UpdateSecret k ns secret d) x = call (storeSecret k ns s) x"
    using store_eq [OF laws(1) k data] by blast
  have e: "call (storeSecret k ns s) x = (Ret (fst (storeSecret k ns s x)), snd (storeSecret k ns s x))"
    by (simp add: call_def prod.case_eq_if)
  from stored [OF laws k acc, of s]
  have "fst (storeSecret k ns s x) = None" "acc (snd (storeSecret k ns s x)) = acc x"
    and "secret_written cs c ns s x (snd (storeSecret k ns s x))"
    by blast+
  with s show ?thesis unfolding runs_def eq e by auto
qed

lemma broadcast_one:
  assumes laws: "secret_stores cs" "answers_writes cs acc" and k: "map_of cs c = Some k"
    and data: "good_objects cs name x"
  shows "runs (bindM (k8s_GetSecret k name ns) (\<lambda>r.
       case r of
         Inl _ \<Rightarrow> k8s_CreateSecret k name ns (Some [DockerConfigJsonKey \<mapsto> cfg c])
       | Inr secret \<Rightarrow> k8s_UpdateSecret k ns secret [DockerConfigJsonKey \<mapsto> cfg c]))
     (\<lambda>_ x'. delivered cs acc name cfg {(c, ns)} x x') x"
proof (cases "(c, ns) \<in> acc x")
  case True
  have "delivered cs acc name cfg {(c, ns)} x x'"
    if "acc x' = acc x" "sec_Name s = name" "secret_written cs c ns s x x'"
      "mapGet (sec_Data s) = entry (cs_GetSecret k ns name x) ++ [DockerConfigJsonKey \<mapsto> cfg c]" for x' s
    by (rule written_delivered [where acc = acc, OF that(3,2) k True _ that(1)])
      (simp add: carries_def that(4))
  then show ?thesis
    by (intro runs_mono [OF store_data [OF assms True]]) blast
next
  case False
  obtain s where eq: "bindM (k8s_GetSecret k name ns) (\<lambda>r.
       case r of
         Inl _ \<Rightarrow> k8s_CreateSecret k name ns (Some [DockerConfigJsonKey \<mapsto> cfg c])
       | Inr secret \<Rightarrow> k8s_UpdateSecret k ns secret [DockerConfigJsonKey \<mapsto> cfg c]) x = call (storeSecret k ns s) x"
    using store_eq [OF laws(1) k data] by blast
  show ?thesis
    unfolding runs_def eq using refused [OF laws(2) k False, of s] refused_delivered [of c ns acc x, OF False]
    by (auto simp: call_def)
qed

lemma broadcastLoop_delivers:
  assumes laws: "secret_stores cs" "answers_writes cs acc" and k: "map_of cs c = Some k"
  shows "good_objects cs name x \<Longrightarrow>
    runs (broadcastLoop k name (cfg c) nss) (\<lambda>_ x'. delivered cs acc name cfg (Pair c ` set nss) x x') x"
proof (induction nss arbitrary: x)
  case (Cons ns nss)
  have "runs (broadcastLoop k name (cfg c) nss)
      (\<lambda>_ x''. delivered cs acc name cfg (Pair c ` set (ns # nss)) x x'') x'"
    if d: "delivered cs acc name cfg {(c, ns)} x x'" for x'
    using Cons.IH [OF delivered_data [OF d Cons.prems]]
    by (rule runs_mono) (use delivered_trans [OF d] in auto)
  with broadcast_one [OF laws k Cons.prems, of ns cfg] show ?case
    by (auto simp flip: bindM_assoc intro: runs_mono)
qed simp

text \<open>The namespaces a cluster has packages in: the keys of its config map on the management cluster.\<close>

definition namespacesOf :: "'x Clientset \<Rightarrow> string \<Rightarrow> 'x \<Rightarrow> string set" where
  "namespacesOf k c x =
     (case cs_GetConfigMap k (NamespacePrefix @ c) rfConfigMapName x of
        Inl _ \<Rightarrow> {}
      | Inr cm \<Rightarrow> (case cm_Data cm of None \<Rightarrow> {} | Some f \<Rightarrow> dom f))"

text \<open>Ranging over a finite map visits its keys.\<close>

definition ranges :: "((string \<rightharpoonup> string) \<Rightarrow> string list) \<Rightarrow> bool" where
  "ranges mapKeys \<longleftrightarrow> (\<forall>f. finite (dom f) \<longrightarrow> set (mapKeys f) = dom f)"

lemma Broadcast_delivers:
  assumes laws: "secret_stores cs" "answers_writes cs acc"
    and k: "map_of cs c = Some k" and m: "map_of cs mgmt = Some km"
    and keys: "ranges mapKeys" and data: "good_objects cs name x"
  shows "runs (BroadcastDockerAuthConfig mapKeys (cfg c) (map_of cs mgmt) (map_of cs c) name c)
    (\<lambda>_ x'. delivered cs acc name cfg (Pair c ` namespacesOf km c x) x x') x"
proof -
  note loop = broadcastLoop_delivers [where cfg = cfg, OF laws k data]
  have fin: "finite (dom f)" if "cs_GetConfigMap km ns n x = Inr cm" "cm_Data cm = Some f" for ns n cm f
    using data m that unfolding good_objects_def by blast
  have keysOf: "finite (dom f) \<Longrightarrow> set (mapKeys f) = dom f" for f
    using keys by (simp add: ranges_def)
  show ?thesis
    using loop
    by (auto simp: BroadcastDockerAuthConfig_def theClientSet_def getNamespacesFromConfigMap_def
        k8s_GetConfigMap_def namespacesOf_def k m keysOf [OF fin, symmetric]
        simp del: set_empty broadcastLoop.simps list.set(2) split: sum.split option.split list.split)
qed

definition dueNamespaces :: "'x Clientset \<Rightarrow> string set \<Rightarrow> 'x \<Rightarrow> (string \<times> string) set" where
  "dueNamespaces k clusters x = {(c, ns). c \<in> clusters \<and> ns \<in> namespacesOf k c x}"

lemma dueNamespaces_simps [simp]:
  "dueNamespaces k {} x = {}"
  "dueNamespaces k (insert c cs) x = Pair c ` namespacesOf k c x \<union> dueNamespaces k cs x"
  by (auto simp: dueNamespaces_def)

lemma delivered_due:
  "delivered cs acc name cfg S x x' \<Longrightarrow> map_of cs mgmt = Some km \<Longrightarrow>
     dueNamespaces km C x' = dueNamespaces km C x"
  by (auto simp: delivered_def dueNamespaces_def namespacesOf_def)

text \<open>The cluster after the first: what was delivered before stays.\<close>

lemma delivered_step:
  assumes "delivered cs acc name cfg (Pair c ` namespacesOf km c x) x x'" "map_of cs mgmt = Some km"
    and "delivered cs acc name cfg (dueNamespaces km C x') x' x''"
  shows "delivered cs acc name cfg (dueNamespaces km (insert c C) x) x x''"
  using delivered_trans [OF assms(1) assms(3)] delivered_due [OF assms(1,2)] by simp

lemma broadcast_then:
  assumes laws: "secret_stores cs" "answers_writes cs acc"
    and m: "map_of cs mgmt = Some km" and keys: "ranges mapKeys"
    and c: "map_of cs c \<noteq> None" and data: "good_objects cs name x"
    and rest: "\<And>x'. good_objects cs name x' \<Longrightarrow>
      runs next (\<lambda>r x''. r = v \<and> delivered cs acc name cfg (dueNamespaces km C x') x' x'') x'"
  shows "runs (bindM (BroadcastDockerAuthConfig mapKeys (cfg c) (map_of cs mgmt) (map_of cs c) name c) (\<lambda>_. next))
    (\<lambda>r x''. r = v \<and> delivered cs acc name cfg (dueNamespaces km (insert c C) x) x x'') x"
proof -
  from c obtain k where k: "map_of cs c = Some k" by auto
  have "runs next (\<lambda>r x''. r = v \<and> delivered cs acc name cfg (dueNamespaces km (insert c C) x) x x'') x'"
    if d: "delivered cs acc name cfg (Pair c ` namespacesOf km c x) x x'" for x'
    using rest [OF delivered_data [OF d data]] delivered_step [OF d m] by (auto intro: runs_mono)
  then show ?thesis
    unfolding runs_simps by (rule runs_mono [OF Broadcast_delivers [where cfg = cfg, OF laws k m keys data]])
qed

lemma aws_broadcastLoop_delivers:
  assumes laws: "secret_stores cs" "answers_writes cs acc" and m: "map_of cs mgmt = Some km"
    and keys: "ranges mapKeys"
    and aws: "aws_clientSets aws = cs" "aws_mgmtClusterName aws = mgmt" "aws_secretName aws = name"
    and known: "\<forall>c\<in>set cns. map_of cs c \<noteq> None \<and>
      rl_Marshal L (CreateDockerAuthConfig (the (map_of (aws_clusterCredentials aws) c))) = Inr (cfg c)"
    and data: "good_objects cs name x"
  shows "runs (aws_broadcastLoop mapKeys L aws cns)
    (\<lambda>e x'. e = None \<and> delivered cs acc name cfg (dueNamespaces km (set cns) x) x x') x"
  using known data
proof (induction cns arbitrary: x)
  case (Cons c cns)
  then show ?case
    using broadcast_then [where cfg = cfg, OF laws m keys _ Cons.prems(2) Cons.IH, of c]
    by (simp add: aws Let_def)
qed simp

text \<open>The data of the mounted secret after the loop of the registry mirror.\<close>

definition mounted :: "'x RegistryMirrorSecret \<Rightarrow> (string \<Rightarrow> string) \<Rightarrow> string list \<Rightarrow> (string \<rightharpoonup> string) \<Rightarrow> (string \<rightharpoonup> string)"
  where "mounted mirror cfg cns data =
    foldl (\<lambda>d c. mountData (rms_mgmtClusterName mirror) c (hd (the (map_of (rms_clusterCredentials mirror) c)))
                   (cfg c) d) data cns"

lemma mirror_broadcastLoop_delivers:
  assumes laws: "secret_stores cs" "answers_writes cs acc" and m: "map_of cs mgmt = Some km"
    and keys: "ranges mapKeys"
    and mirror: "rms_clientSets mirror = cs" "rms_mgmtClusterName mirror = mgmt" "rms_credName mirror = name"
    and known: "\<forall>c\<in>set cns. map_of cs c \<noteq> None \<and> the (map_of (rms_clusterCredentials mirror) c) \<noteq> [] \<and>
      rl_Marshal L (CreateDockerAuthConfig (the (map_of (rms_clusterCredentials mirror) c))) = Inr (cfg c)"
    and data: "good_objects cs name x"
  shows "runs (mirror_broadcastLoop mapKeys L mirror cns d)
    (\<lambda>r x'. r = Inr (mounted mirror cfg cns d) \<and> delivered cs acc name cfg (dueNamespaces km (set cns) x) x x') x"
  using known data
proof (induction cns arbitrary: x d)
  case (Cons c cns)
  then obtain cred creds where h: "the (map_of (rms_clusterCredentials mirror) c) = cred # creds"
    by (auto simp: neq_Nil_conv)
  with Cons show ?case
    using broadcast_then [where cfg = cfg, OF laws m keys _ Cons.prems(2) Cons.IH, of c]
    by (simp add: mirror Let_def mounted_def)
qed (simp add: mounted_def)

section \<open>The mounted secret\<close>

lemma key_neq [simp]:
  "c @ ''_insecure'' \<noteq> c' @ ''_ca.crt''" "c @ ''_ca.crt'' \<noteq> c' @ ''_insecure''"
  "c @ ''_insecure'' \<noteq> ''config.json''" "c @ ''_ca.crt'' \<noteq> ''config.json''"
  "''config.json'' \<noteq> c @ ''_insecure''" "''config.json'' \<noteq> c @ ''_ca.crt''"
  "c @ ''_insecure'' \<noteq> DockerConfigJsonKey" "c @ ''_ca.crt'' \<noteq> DockerConfigJsonKey"
  "DockerConfigJsonKey \<noteq> c @ ''_insecure''" "DockerConfigJsonKey \<noteq> c @ ''_ca.crt''"
  "''config.json'' \<noteq> DockerConfigJsonKey" "DockerConfigJsonKey \<noteq> ''config.json''"
  by (auto simp: DockerConfigJsonKey_def dest!: arg_cong [where f = last])

lemma mountData_lookup [simp]:
  "mountData mgmt c cred json d (c' @ ''_insecure'') =
     (if c' = c \<and> crd_Insecure cred = ''true'' then Some ''true'' else d (c' @ ''_insecure''))"
  "mountData mgmt c cred json d (c' @ ''_ca.crt'') =
     (if c' = c \<and> crd_CA cred \<noteq> [] then Some (crd_CA cred) else d (c' @ ''_ca.crt''))"
  "mountData mgmt c cred json d ''config.json'' = Some json"
  "mountData mgmt c cred json d DockerConfigJsonKey =
     (if c = mgmt then Some json else d DockerConfigJsonKey)"
  by (simp_all add: mountData_def Let_def)

definition firstCred :: "'x RegistryMirrorSecret \<Rightarrow> string \<Rightarrow> rfCredential" where
  "firstCred mirror c = hd (the (map_of (rms_clusterCredentials mirror) c))"

lemma mounted_lookup:
  "mounted mirror cfg cns d (c @ ''_insecure'') =
     (if c \<in> set cns \<and> crd_Insecure (firstCred mirror c) = ''true'' then Some ''true'' else d (c @ ''_insecure''))"
  "mounted mirror cfg cns d (c @ ''_ca.crt'') =
     (if c \<in> set cns \<and> crd_CA (firstCred mirror c) \<noteq> [] then Some (crd_CA (firstCred mirror c))
      else d (c @ ''_ca.crt''))"
  "mounted mirror cfg cns d ''config.json'' = (if cns = [] then d ''config.json'' else Some (cfg (last cns)))"
  "mounted mirror cfg cns d DockerConfigJsonKey =
     (if rms_mgmtClusterName mirror \<in> set cns then Some (cfg (rms_mgmtClusterName mirror)) else d DockerConfigJsonKey)"
  by (induction cns rule: rev_induct) (auto simp: mounted_def firstCred_def)

lemma delivered_entry:
  assumes "delivered cs acc name cfg S x x'" "map_of cs c = Some k"
  shows "entry (cs_GetSecret k ns name x') = entry (cs_GetSecret k ns name x) \<or>
    entry (cs_GetSecret k ns name x') = (entry (cs_GetSecret k ns name x))(DockerConfigJsonKey \<mapsto> cfg c)"
  using assms unfolding delivered_def carries_def by metis

lemma mirror_BroadcastCredentials_mounts:
  fixes mirror :: "'x RegistryMirrorSecret"
  assumes laws: "secret_stores cs" "answers_writes cs acc" and m: "map_of cs mgmt = Some km"
    and keys: "ranges mapKeys" and range: "\<And>xs. set (mapRange xs) = set xs"
    and mirror: "rms_clientSets mirror = cs" "rms_mgmtClusterName mirror = mgmt" "rms_credName mirror = credName"
    and known: "\<forall>c\<in>fst ` set (rms_clusterCredentials mirror). map_of cs c \<noteq> None \<and>
      the (map_of (rms_clusterCredentials mirror) c) \<noteq> [] \<and>
      rl_Marshal L (CreateDockerAuthConfig (the (map_of (rms_clusterCredentials mirror) c))) = Inr (cfg c)"
    and self: "mgmt \<in> fst ` set (rms_clusterCredentials mirror)"
    and data: "good_objects cs credName x" and acc: "(mgmt, PackagesNamespace) \<in> acc x"
  shows "runs (mirror_BroadcastCredentials mapRange mapKeys L mirror)
    (\<lambda>e x'. e = None \<and> entry (cs_GetSecret km PackagesNamespace credName x') =
       entry (cs_GetSecret km PackagesNamespace credName x) ++
       mounted mirror cfg (mapRange (map fst (rms_clusterCredentials mirror))) Map.empty) x"
proof -
  let ?cns = "mapRange (map fst (rms_clusterCredentials mirror))"
  let ?d = "mounted mirror cfg ?cns Map.empty"
  have K: "?d DockerConfigJsonKey = Some (cfg mgmt)"
    using self by (simp add: mounted_lookup mirror range)
  have loop: "runs (mirror_broadcastLoop mapKeys L mirror ?cns Map.empty)
      (\<lambda>r x'. r = Inr ?d \<and> delivered cs acc credName cfg (dueNamespaces km (set ?cns) x) x x') x"
    by (rule mirror_broadcastLoop_delivers [OF laws m keys mirror _ data]) (use known in \<open>simp add: range\<close>)
  have old: "entry (cs_GetSecret km PackagesNamespace credName x') ++ ?d =
      entry (cs_GetSecret km PackagesNamespace credName x) ++ ?d"
    if "delivered cs acc credName cfg S x x'" for x' S
    using delivered_entry [OF that m, of PackagesNamespace] K by (auto simp: fun_eq_iff map_add_def split: option.split)
  have "runs (bindM (k8s_GetSecret km credName PackagesNamespace) (\<lambda>r. case r of
         Inl _ \<Rightarrow> k8s_CreateSecret km credName PackagesNamespace (Some ?d)
       | Inr secret \<Rightarrow> k8s_UpdateSecret km PackagesNamespace secret ?d))
      (\<lambda>e x''. e = None \<and> entry (cs_GetSecret km PackagesNamespace credName x'') =
        entry (cs_GetSecret km PackagesNamespace credName x) ++ ?d) x'"
    if d: "delivered cs acc credName cfg S x x'" for x' S
    by (rule runs_mono [OF store_data [OF laws m delivered_data [OF d data]]], use delivered_acc [OF d] acc in simp)
      (use secret_written_read [OF _ m] in \<open>force simp: old [OF d]\<close>)
  then show ?thesis
    unfolding mirror_BroadcastCredentials_def runs_simps
    by (intro runs_mono [OF loop]) (auto simp: K mirror m theClientSet_def Let_def)
qed

lemma aws_BroadcastCredentials_delivers:
  assumes laws: "secret_stores cs" "answers_writes cs acc" and m: "map_of cs mgmt = Some km"
    and keys: "ranges mapKeys" and range: "\<And>xs. set (mapRange xs) = set xs"
    and aws: "aws_clientSets aws = cs" "aws_mgmtClusterName aws = mgmt" "aws_secretName aws = name"
    and creds: "getCredentials L x = (Ret (Inr creds), x1)"
    and json: "rl_Marshal L (CreateDockerAuthConfig creds) = Inr json"
    and data: "good_objects cs name x1"
  shows "runs (aws_BroadcastCredentials mapRange mapKeys L aws)
    (\<lambda>r x'. fst r = None \<and> delivered cs acc name (\<lambda>_. json) (dueNamespaces km (fst ` set cs) x1) x1 x') x"
proof -
  let ?cc = "map (\<lambda>(c, _). (c, creds)) cs"
  have cc: "map_of cs c \<noteq> None \<and> map_of ?cc c = Some creds" if "c \<in> fst ` set cs" for c
    using that by (induction cs) auto
  have r: "aws_GetClusterCredentials L cs x = (Ret (Inr ?cc), x1)"
    by (simp add: aws_GetClusterCredentials_def bindM_def creds)
  have fsts: "set (map fst ?cc) = fst ` set cs" by force
  have known: "\<forall>c\<in>set (mapRange (map fst ?cc)). map_of cs c \<noteq> None \<and>
      rl_Marshal L (CreateDockerAuthConfig (the (map_of ?cc c))) = Inr json"
    unfolding range fsts using cc json by (metis option.sel)
  have "runs (aws_broadcastLoop mapKeys L (aws\<lparr>aws_clusterCredentials := ?cc\<rparr>) (mapRange (map fst ?cc)))
      (\<lambda>e x'. e = None \<and> delivered cs acc name (\<lambda>_. json) (dueNamespaces km (set (mapRange (map fst ?cc))) x1) x1 x') x1"
    by (rule aws_broadcastLoop_delivers [OF laws m keys _ _ _ _ data])
      (use known in \<open>simp_all add: aws\<close>)
  then show ?thesis
    unfolding range fsts
    by (simp add: aws_BroadcastCredentials_def aws runs_def [of "aws_GetClusterCredentials L cs"] r Let_def)
qed

section \<open>Docker configurations\<close>

text \<open>The last credential of a registry counts.\<close>

lemma CreateDockerAuthConfig_snoc [simp]:
  "CreateDockerAuthConfig (creds @ [cred]) =
     (CreateDockerAuthConfig creds)(crd_Registry cred \<mapsto> credentialAuth cred)"
  "CreateDockerAuthConfig [] = Map.empty"
  by (simp_all add: CreateDockerAuthConfig_def)

lemma CreateDockerAuthConfig_lookup:
  "CreateDockerAuthConfig creds r =
     map_option credentialAuth (find (\<lambda>cred. crd_Registry cred = r) (rev creds))"
  by (induction creds rule: rev_induct) auto

lemma credentialAuth_decodes:
  "b64DecodeString (da_Auth (credentialAuth cred)) =
     Inr (da_Username (credentialAuth cred) @ '':'' @ da_Password (credentialAuth cred))"
  by (simp add: credentialAuth_def Let_def)

text \<open>A token that ECR issues for a user and a password without colons.\<close>

definition ecrAuth :: "string \<times> string \<times> string \<Rightarrow> authData" where
  "ecrAuth = (\<lambda>(user, pass, endpoint).
     \<lparr>ad_Token = Some (b64EncodeToString (user @ '':'' @ pass)), ad_Endpoint = Some endpoint\<rparr>)"

definition ecrCredential :: "string \<times> string \<times> string \<Rightarrow> rfCredential" where
  "ecrCredential = (\<lambda>(user, pass, endpoint). \<lparr>crd_Registry = endpoint, crd_Username = user,
     crd_Password = pass, crd_CA = [], crd_Insecure = []\<rparr>)"

lemma tokenCredentials_ecrAuth:
  assumes "\<forall>(u, p, e)\<in>set ts. CHR '':'' \<notin> set u \<and> CHR '':'' \<notin> set p"
  shows "tokenCredentials (map ecrAuth ts) = Ret (Inr (map ecrCredential ts))"
  using assms
proof (induction ts)
  case (Cons t ts)
  obtain u p e where t: "t = (u, p, e)" by (cases t)
  with Cons have "Split (u @ CHR '':'' # p) CHR '':'' = [u, p]"
    by (simp add: Split_append_sep Split_no_sep)
  with Cons t show ?case by (simp add: ecrAuth_def ecrCredential_def)
qed simp

end
