(* ===== verification/Refresher_Scenario.thy ===== *)
theory Refresher_Scenario
  imports Token_Refresher "HOL-Library.List_Lexorder" "HOL-Library.Char_ord"
begin

text \<open>
  Two clusters in memory for the token refresher: the secrets of both by cluster, namespace and name,
  and the config maps of the management cluster.  It shows that the hypotheses about API servers and
  libraries can hold.
\<close>

record rworld =
  rw_secrets :: "string \<times> string \<times> string \<rightharpoonup> Secret"
  rw_maps :: "string \<rightharpoonup> ConfigMap"

text \<open>The namespaces of the two clusters.\<close>

definition memNamespaces :: "(string \<times> string) set" where
  "memNamespaces = {(''w1'', ''default''), (''w1'', ''apps''), (''mgmt'', ''default''), (''mgmt'', ''apps''),
     (''mgmt'', PackagesNamespace), (''mgmt'', ''eksa-packages-w1'')}"

definition memStore :: "string \<Rightarrow> string \<Rightarrow> Secret \<Rightarrow> rworld writes" where
  "memStore c ns s w =
     (if (c, ns) \<in> memNamespaces then (None, w\<lparr>rw_secrets := (rw_secrets w)((c, ns, sec_Name s) \<mapsto> s)\<rparr>)
      else (Some (Errorf ''namespaces not found''), w))"

definition memCluster :: "string \<Rightarrow> rworld Clientset" where
  "memCluster c =
     \<lparr>cs_GetConfigMap = (\<lambda>ns n w. case rw_maps w ns of None \<Rightarrow> Inl (Errorf ''not found'') | Some m \<Rightarrow> Inr m),
      cs_UpdateConfigMap = (\<lambda>ns m w. (None, w\<lparr>rw_maps := (rw_maps w)(ns \<mapsto> m)\<rparr>)),
      cs_GetCronJob = (\<lambda>_ _ w. Inl (Errorf ''not found'')),
      cs_CreateJob = (\<lambda>_ _ w. (None, w)),
      cs_ListJobs = (\<lambda>_ _ w. Inr []),
      cs_DeleteJob = (\<lambda>_ _ w. (None, w)),
      cs_GetSecret = (\<lambda>ns n w. case rw_secrets w (c, ns, n) of
          None \<Rightarrow> Inl (Errorf ''not found'') | Some s \<Rightarrow> Inr (s\<lparr>sec_Name := n\<rparr>)),
      cs_CreateSecret = memStore c,
      cs_UpdateSecret = memStore c,
      cs_ListNamespaces = (\<lambda>w. Inr [''default'', ''eksa-packages-w1''])\<rparr>"

definition memSets :: "rworld ClusterClientSet" where
  "memSets = [(''w1'', memCluster ''w1''), (''mgmt'', memCluster ''mgmt'')]"

lemma memSets_Some [simp]:
  "map_of memSets c = Some k \<longleftrightarrow> c \<in> {''w1'', ''mgmt''} \<and> k = memCluster c"
  by (auto simp: memSets_def)

lemma memSets_stores: "secret_stores memSets"
  by (auto simp: secret_stores_def secret_written_def memCluster_def memStore_def split: option.split)

lemma memSets_answers: "answers_writes memSets (\<lambda>_. memNamespaces)"
  by (auto simp: answers_writes_def storeSecret_def memCluster_def memStore_def split: sum.split)

definition memKeys :: "(string \<rightharpoonup> string) \<Rightarrow> string list" where
  "memKeys f = sorted_list_of_set (dom f)"

lemma memKeys_ranges: "ranges memKeys"
  by (simp add: ranges_def memKeys_def)

text \<open>ECR answers with one credential, and the configuration is encoded as the password of its
  registry.\<close>

definition memToken :: "string \<times> string \<times> string" where
  "memToken = (''AWS'', ''pw'', ''reg'')"

definition memLib :: "rworld refresherLib" where
  "memLib =
     \<lparr>rl_LookupEnv = (\<lambda>v w. if v = envRegionName then Some ''us-east-1'' else None),
      rl_Setenv = (\<lambda>v s w. (None, w)),
      rl_ReadFile = (\<lambda>_ _. Inl (Errorf ''not found'')),
      rl_NewSession = (\<lambda>_. None),
      rl_AssumeRole = (\<lambda>_ _ _ _ _. Inl (Errorf ''denied'')),
      rl_AuthToken = (\<lambda>_ _. Inr (Some (map ecrAuth [memToken]))),
      rl_Marshal = (\<lambda>conf. Inr (case conf ''reg'' of None \<Rightarrow> [] | Some a \<Rightarrow> da_Password a))\<rparr>"

definition memAws :: "rworld AwsSecret" where
  "memAws = \<lparr>aws_secretName = ''ecr-token'', aws_mgmtClusterName = ''mgmt'', aws_clientSets = memSets,
     aws_clusterCredentials = []\<rparr>"

text \<open>One package namespace in each cluster, beside the placeholder that every config map starts with,
  whose namespace does not exist; the mirror secret has been mounted with an insecure registry
  before.\<close>

definition memMap :: "string \<Rightarrow> ConfigMap" where
  "memMap ns = \<lparr>cm_Name = rfConfigMapName, cm_Namespace = ns, cm_Data = Some [''apps'' \<mapsto> ''hello'',
     ''emissary-system'' \<mapsto> ''eksa-package-placeholder'']\<rparr>"

definition memMounted :: Secret where
  "memMounted = \<lparr>sec_Name = credName, sec_Namespace = PackagesNamespace, sec_Type = SecretTypeDockerConfigJson,
     sec_Data = Some [''w1_insecure'' \<mapsto> ''true'']\<rparr>"

definition memRefresh :: rworld where
  "memRefresh = \<lparr>rw_secrets = [(''mgmt'', PackagesNamespace, credName) \<mapsto> memMounted],
     rw_maps = [NamespacePrefix @ ''w1'' \<mapsto> memMap ''w1'', NamespacePrefix @ ''mgmt'' \<mapsto> memMap ''mgmt'']\<rparr>"

lemma memRefresh_good: "good_objects memSets name memRefresh"
  by (auto simp: good_objects_def memCluster_def memRefresh_def memMap_def memMounted_def split: option.splits if_splits)

lemma mem_getCredentials: "getCredentials memLib w = (Ret (Inr [ecrCredential memToken]), w)"
proof -
  have "tokenCredentials (map ecrAuth [memToken]) = Ret (Inr (map ecrCredential [memToken]))"
    by (rule tokenCredentials_ecrAuth) (simp add: memToken_def)
  then show ?thesis
    by (simp add: getCredentials_def memLib_def bindM_def)
qed

lemma mem_namespaces:
  "namespacesOf (memCluster ''mgmt'') ''w1'' memRefresh = {''apps'', ''emissary-system''}"
  "namespacesOf (memCluster ''mgmt'') ''mgmt'' memRefresh = {''apps'', ''emissary-system''}"
  by (auto simp: namespacesOf_def memCluster_def memRefresh_def memMap_def)

text \<open>A registry mirror with a credential per cluster; the one of the workload cluster is secure now.\<close>

definition memMirrorCred :: "string \<Rightarrow> rfCredential" where
  "memMirrorCred c = \<lparr>crd_Registry = ''reg'', crd_Username = ''u'', crd_Password = c, crd_CA = ''ca'',
     crd_Insecure = ''false''\<rparr>"

definition memMirror :: "rworld RegistryMirrorSecret" where
  "memMirror = \<lparr>rms_credName = credName, rms_mgmtClusterName = ''mgmt'', rms_clientSets = memSets,
     rms_clusterCredentials = [(''mgmt'', [memMirrorCred ''mgmt'']), (''w1'', [memMirrorCred ''w1''])]\<rparr>"

end
