(* ===== verification/Credential_Provider.thy ===== *)
theory Credential_Provider
  imports Kube Base64
begin

text \<open>
  \<^verbatim>\<open>credentialproviderpackage\<close>: the daemon that sets up the credential provider of the kubelet on a
  node.  \<^verbatim>\<open>awscred\<close> finds or writes the AWS configuration, a configurator (Linux or Bottlerocket) installs
  it, and \<^verbatim>\<open>main\<close> drives the configurator.  The operating system, \<^verbatim>\<open>semver.Compare\<close>, the HTTP API of
  Bottlerocket and the JSON encoder are parameters.  A receiver that a method changes is the private
  half of the state.  File modes are decimal: 256, 384, 420 and 448 are the octal 400, 600, 644 and 700.
\<close>

section \<open>The operating system\<close>

record process =
  proc_Pid :: int
  proc_Executable :: string

record 'x osLib =
  os_Getenv :: "string \<Rightarrow> 'x \<Rightarrow> string"
  os_Stat :: "string \<Rightarrow> 'x \<Rightarrow> goerr option"
  os_ReadFile :: "string \<Rightarrow> 'x \<Rightarrow> goerr + string"
  os_WriteFile :: "string \<Rightarrow> string \<Rightarrow> nat \<Rightarrow> 'x writes"
  os_Open :: "string \<Rightarrow> 'x \<Rightarrow> goerr option"
  os_Create :: "string \<Rightarrow> 'x writes"
  io_Copy :: "string \<Rightarrow> string \<Rightarrow> 'x writes"
  os_Close :: "string \<Rightarrow> 'x writes"
  os_Chmod :: "string \<Rightarrow> nat \<Rightarrow> 'x writes"
  ps_Processes :: "'x \<Rightarrow> goerr + process list"
  sys_Kill :: "int \<Rightarrow> nat \<Rightarrow> 'x writes"
  semver_Compare :: "string \<Rightarrow> string \<Rightarrow> int"

definition NL :: string where "NL = [CHR 0x0A]"

definition quoted :: "string \<Rightarrow> string" where
  "quoted s = [CHR 0x22] @ s @ [CHR 0x22]"

section \<open>Options\<close>

record CredentialProviderConfigOptions =
  cpo_ImagePatterns :: "string list"
  cpo_DefaultCacheDuration :: string

definition DefaultImagePattern :: string where "DefaultImagePattern = ''*.dkr.ecr.*.amazonaws.com''"
definition DefaultCacheDuration :: string where "DefaultCacheDuration = ''30m''"

definition GetProxyEnvironment :: "'x osLib \<Rightarrow> 'x \<Rightarrow> (string \<rightharpoonup> string)" where
  "GetProxyEnvironment L x =
     (let put = (\<lambda>v m. if os_Getenv L v x \<noteq> [] then m(v \<mapsto> os_Getenv L v x) else m)
      in put ''NO_PROXY'' (put ''HTTPS_PROXY'' (put ''HTTP_PROXY'' Map.empty)))"

definition createCredentialProviderConfigOptions :: "'x osLib \<Rightarrow> 'x \<Rightarrow> CredentialProviderConfigOptions" where
  "createCredentialProviderConfigOptions L x =
     (let v = os_Getenv L ''MATCH_IMAGES'' x;
          imagePatternsValues = (if v = [] then DefaultImagePattern else v);
          d = os_Getenv L ''DEFAULT_CACHE_DURATION'' x
      in \<lparr>cpo_ImagePatterns = Split imagePatternsValues CHR '','',
          cpo_DefaultCacheDuration = (if d = [] then DefaultCacheDuration else d)\<rparr>)"

section \<open>AWS credentials\<close>

definition configSecretPath :: string where "configSecretPath = ''/secrets/aws-creds/config''"
definition accessKeySecretPath :: string where "accessKeySecretPath = ''/secrets/aws-creds/AWS_ACCESS_KEY_ID''"
definition secretAccessKeySecretPath :: string where
  "secretAccessKeySecretPath = ''/secrets/aws-creds/AWS_SECRET_ACCESS_KEY''"
definition sessionTokenSecretPath :: string where
  "sessionTokenSecretPath = ''/secrets/aws-creds/AWS_SESSION_TOKEN''"
definition regionSecretPath :: string where "regionSecretPath = ''/secrets/aws-creds/REGION''"
definition createConfigPath :: string where "createConfigPath = ''/config''"

text \<open>The text of the configuration; the line of the session token is there when there is one.\<close>

definition awsConfigText :: "string \<Rightarrow> string \<Rightarrow> string option \<Rightarrow> string \<Rightarrow> string" where
  "awsConfigText accessKey secretAccessKey sessionToken region =
     NL @ ''[default]'' @ NL @
     ''aws_access_key_id='' @ accessKey @ NL @
     ''aws_secret_access_key='' @ secretAccessKey @ NL @
     (case sessionToken of None \<Rightarrow> [] | Some t \<Rightarrow> ''aws_session_token='' @ t @ NL) @
     ''region='' @ region @ NL"

definition generateAwsConfigSecret ::
  "'x osLib \<Rightarrow> string \<Rightarrow> string \<Rightarrow> string \<Rightarrow> string \<Rightarrow> 'x \<Rightarrow> goerr + string" where
  "generateAwsConfigSecret L accessKeyPath secretAccessKeyPath sessionTokenPath regionPath x =
     (case os_ReadFile L accessKeyPath x of
        Inl err \<Rightarrow> Inl err
      | Inr accessKeyByte \<Rightarrow>
          (case os_ReadFile L secretAccessKeyPath x of
             Inl err \<Rightarrow> Inl err
           | Inr secretAccessKeyByte \<Rightarrow>
               (case os_ReadFile L regionPath x of
                  Inl err \<Rightarrow> Inl err
                | Inr regionByte \<Rightarrow>
                    let accessKey = TrimQuotes accessKeyByte;
                        secretAccessKey = TrimQuotes secretAccessKeyByte;
                        region = TrimQuotes regionByte;
                        missing = (case os_Stat L sessionTokenPath x of None \<Rightarrow> False | Some e \<Rightarrow> IsNotFound e)
                    in if \<not> missing
                       then (case os_ReadFile L sessionTokenPath x of
                               Inl err \<Rightarrow> Inl err
                             | Inr t \<Rightarrow> Inr (awsConfigText accessKey secretAccessKey (Some (TrimQuotes t)) region))
                       else Inr (awsConfigText accessKey secretAccessKey None region))))"

text \<open>The error of \<^verbatim>\<open>generateAwsConfigSecret\<close> is overwritten by that of \<^verbatim>\<open>os.WriteFile\<close>; beside an error the
  text is empty.\<close>

definition GetAwsConfigPath :: "'x osLib \<Rightarrow> ('x, string \<times> goerr option) gom" where
  "GetAwsConfigPath L =
     bindM (reading (os_Stat L configSecretPath)) (\<lambda>st.
     case st of
       None \<Rightarrow> ret (configSecretPath, None)
     | Some e \<Rightarrow>
         if IsNotFound e
         then bindM (reading (generateAwsConfigSecret L accessKeySecretPath secretAccessKeySecretPath
                        sessionTokenSecretPath regionSecretPath)) (\<lambda>r.
              let awsConfig = (case r of Inl _ \<Rightarrow> [] | Inr s \<Rightarrow> s) in
              bindM (call (os_WriteFile L createConfigPath awsConfig 256)) (\<lambda>err.
              ret (createConfigPath, err)))
         else ret (configSecretPath, None))"

section \<open>Linux\<close>

definition binPath :: string where "binPath = ''/eksa-binaries/''"
definition basePath :: string where "basePath = ''/eksa-packages/''"
definition credOutFile :: string where "credOutFile = ''aws-creds''"
definition mountedExtraArgs :: string where "mountedExtraArgs = ''/node-files/kubelet-extra-args''"
definition ubuntuLegacyExtraArgs :: string where
  "ubuntuLegacyExtraArgs = ''/node-files/ubuntu-legacy-kubelet-extra-args''"
definition credProviderFile :: string where "credProviderFile = ''credential-provider-config.yaml''"
definition ecrCredProviderBinary :: string where "ecrCredProviderBinary = ''ecr-credential-provider''"
definition iamRolesSigningBinary :: string where "iamRolesSigningBinary = ''aws_signing_helper''"

record linuxOS =
  lx_profile :: string
  lx_extraArgsPath :: string
  lx_legacyExtraArgsPath :: string
  lx_basePath :: string
  lx_config :: CredentialProviderConfigOptions

definition zeroOptions :: CredentialProviderConfigOptions where
  "zeroOptions = \<lparr>cpo_ImagePatterns = [], cpo_DefaultCacheDuration = []\<rparr>"

definition NewLinuxConfigurator :: linuxOS where
  "NewLinuxConfigurator = \<lparr>lx_profile = [], lx_extraArgsPath = mountedExtraArgs,
     lx_legacyExtraArgsPath = ubuntuLegacyExtraArgs, lx_basePath = basePath, lx_config = zeroOptions\<rparr>"

definition getApiVersion :: "'x osLib \<Rightarrow> 'x \<Rightarrow> string" where
  "getApiVersion L x =
     (let k8sVersion = os_Getenv L ''K8S_VERSION'' x;
          apiVersion = ''v1'';
          apiVersion = (if semver_Compare L k8sVersion ''v1.25'' \<le> 0 then ''v1alpha1'' else apiVersion)
      in if k8sVersion = [] then ''v1'' else apiVersion)"

text \<open>The deferred close reports its error if there is no other.\<close>

definition copyWithPermissons :: "'x osLib \<Rightarrow> string \<Rightarrow> string \<Rightarrow> nat \<Rightarrow> ('x, goerr option) gom" where
  "copyWithPermissons L srcpath dstpath permission =
     bindM (reading (os_Open L srcpath)) (\<lambda>r.
     case r of
       Some err \<Rightarrow> ret (Some err)
     | None \<Rightarrow>
         bindM (call (os_Create L dstpath)) (\<lambda>w.
         case w of
           Some err \<Rightarrow> ret (Some err)
         | None \<Rightarrow>
             bindM (bindM (call (io_Copy L dstpath srcpath)) (\<lambda>e.
                    case e of
                      Some err \<Rightarrow> ret (Some err)
                    | None \<Rightarrow> call (os_Chmod L dstpath permission))) (\<lambda>err.
             bindM (call (os_Close L dstpath)) (\<lambda>c.
             ret (if err = None then c else err)))))"

text \<open>One binary: the copy and the second \<^verbatim>\<open>Chmod\<close>.\<close>

definition copyBinary :: "'x osLib \<Rightarrow> string \<Rightarrow> string \<Rightarrow> ('x, goerr option) gom" where
  "copyBinary L srcPath dstPath =
     bindM (copyWithPermissons L srcPath dstPath 448) (\<lambda>e.
     case e of
       Some err \<Rightarrow> ret (Some err)
     | None \<Rightarrow> call (os_Chmod L dstPath 448))"

definition copyBinaries :: "'x osLib \<Rightarrow> ('x, goerr + string) gom" where
  "copyBinaries L =
     bindM (reading (getApiVersion L)) (\<lambda>apiVersion.
     bindM (copyBinary L (binPath @ apiVersion @ ''/'' @ ecrCredProviderBinary)
              (basePath @ ecrCredProviderBinary)) (\<lambda>e.
     case e of
       Some err \<Rightarrow> ret (Inl err)
     | None \<Rightarrow>
         bindM (copyBinary L (binPath @ iamRolesSigningBinary) (basePath @ iamRolesSigningBinary)) (\<lambda>e.
         case e of
           Some err \<Rightarrow> ret (Inl err)
         | None \<Rightarrow> ret (Inr ('' --image-credential-provider-bin-dir='' @ basePath)))))"

text \<open>The embedded template \<^verbatim>\<open>credential-provider-config.yaml\<close> as executed on the values of
  \<^verbatim>\<open>createConfig\<close>; a template ranges over a map in the order of its keys.\<close>

definition proxyKeys :: "string list" where
  "proxyKeys = [''HTTPS_PROXY'', ''HTTP_PROXY'', ''NO_PROXY'']"

definition credProviderTemplate ::
  "string \<Rightarrow> string list \<Rightarrow> string \<Rightarrow> string \<Rightarrow> string \<Rightarrow> string \<Rightarrow> (string \<rightharpoonup> string) \<Rightarrow> string" where
  "credProviderTemplate apiVersion imagePattern cacheDuration profile config home proxy =
     ''apiVersion: kubelet.config.k8s.io/'' @ apiVersion @ NL @
     ''kind: CredentialProviderConfig'' @ NL @
     ''providers:'' @ NL @
     ''  - name: ecr-credential-provider'' @ NL @
     ''    matchImages:'' @ concat (map (\<lambda>val. NL @ ''      - '' @ quoted val) imagePattern) @ NL @
     ''    defaultCacheDuration: '' @ quoted cacheDuration @ NL @
     ''    apiVersion: credentialprovider.kubelet.k8s.io/'' @ apiVersion @ NL @
     ''    env:'' @ NL @
     ''      - name: AWS_PROFILE'' @ NL @
     ''        value: '' @ profile @ NL @
     ''      - name: AWS_CONFIG_FILE'' @ NL @
     ''        value: '' @ config @ NL @
     ''      - name: PATH'' @ NL @
     ''        value: /usr/local/sbin:/usr/local/bin:/usr/sbin:/usr/bin:/sbin:/bin:/eksa-packages'' @ NL @
     ''      - name: HOME'' @ NL @
     ''        value: '' @ home @
     concat (map (\<lambda>key. case proxy key of
                      None \<Rightarrow> []
                    | Some value \<Rightarrow> NL @ ''      - name: '' @ key @ NL @ ''        value: '' @ quoted value)
                  proxyKeys) @ NL"

definition createConfig :: "'x osLib \<Rightarrow> linuxOS \<Rightarrow> ('x, goerr + string) gom" where
  "createConfig L c =
     bindM (reading (getApiVersion L)) (\<lambda>apiVersion.
     bindM (reading (GetProxyEnvironment L)) (\<lambda>proxy.
     let dstPath = lx_basePath c @ credProviderFile;
         bytes = credProviderTemplate apiVersion (cpo_ImagePatterns (lx_config c))
                   (cpo_DefaultCacheDuration (lx_config c)) (lx_profile c) (basePath @ credOutFile) basePath proxy
     in bindM (call (os_WriteFile L dstPath bytes 384)) (\<lambda>e.
        case e of
          Some err \<Rightarrow> ret (Inl err)
        | None \<Rightarrow> ret (Inr ('' --image-credential-provider-config='' @ dstPath)))))"

text \<open>Errors are logged, and the argument is empty then.\<close>

definition argOf :: "goerr + string \<Rightarrow> string" where
  "argOf r = (case r of Inl _ \<Rightarrow> [] | Inr v \<Rightarrow> v)"

definition updateKubeletArguments :: "'x osLib \<Rightarrow> linuxOS \<Rightarrow> string \<Rightarrow> ('x, string) gom" where
  "updateKubeletArguments L c line =
     bindM (createConfig L c) (\<lambda>r.
     let args = (if \<not> Contains line ''image-credential-provider-config'' then argOf r else []) in
     bindM (copyBinaries L) (\<lambda>r.
     ret (if \<not> Contains line ''image-credential-provider-bin-dir'' then args @ argOf r else args)))"

fun updateLines :: "'x osLib \<Rightarrow> linuxOS \<Rightarrow> string list \<Rightarrow> ('x, bool \<times> string list) gom" where
  "updateLines L c [] = ret (False, [])"
| "updateLines L c (line # lines) =
     (if HasPrefix line ''KUBELET_EXTRA_ARGS''
      then bindM (updateKubeletArguments L c line) (\<lambda>args.
           bindM (updateLines L c lines) (\<lambda>(_, lines').
           ret (True, (if args \<noteq> [] then line @ args @ NL else line) # lines')))
      else bindM (updateLines L c lines) (\<lambda>(found, lines').
           ret (found, line # lines')))"

definition updateConfigFile :: "'x osLib \<Rightarrow> linuxOS \<Rightarrow> string \<Rightarrow> ('x, goerr option) gom" where
  "updateConfigFile L c configPath =
     bindM (reading (os_ReadFile L configPath)) (\<lambda>r.
     case r of
       Inl err \<Rightarrow> ret (Some err)
     | Inr file \<Rightarrow>
         bindM (updateLines L c (Split file CHR 0x0A)) (\<lambda>(found, lines).
         bindM (if found then ret lines
                else let line = ''KUBELET_EXTRA_ARGS='' in
                     bindM (updateKubeletArguments L c line) (\<lambda>args.
                     ret (lines @ [line @ args]))) (\<lambda>lines.
         call (os_WriteFile L configPath (Join lines NL) 420))))"

definition lx_Initialize :: "CredentialProviderConfigOptions \<Rightarrow> (linuxOS \<times> 'x, unit) gom" where
  "lx_Initialize config = bindM getPriv (\<lambda>c. putPriv (c\<lparr>lx_config := config\<rparr>))"

definition lx_UpdateAWSCredentials ::
  "'x osLib \<Rightarrow> string \<Rightarrow> string \<Rightarrow> (linuxOS \<times> 'x, goerr option) gom" where
  "lx_UpdateAWSCredentials L sourcePath profile =
     bindM getPriv (\<lambda>c.
     bindM (putPriv (c\<lparr>lx_profile := profile\<rparr>)) (\<lambda>_.
     onWorld (copyWithPermissons L sourcePath (lx_basePath c @ credOutFile) 384)))"

definition lx_UpdateCredentialProvider :: "'x osLib \<Rightarrow> string \<Rightarrow> (linuxOS \<times> 'x, goerr option) gom" where
  "lx_UpdateCredentialProvider L profile =
     bindM getPriv (\<lambda>c.
     onWorld (bindM (updateConfigFile L c mountedExtraArgs) (\<lambda>e.
       case e of
         Some err \<Rightarrow> ret (Some (Errorf (''failed to update kubelet args: '' @ err_msg err)))
       | None \<Rightarrow>
           bindM (reading (os_Stat L ubuntuLegacyExtraArgs)) (\<lambda>st.
           if st = None
           then bindM (updateConfigFile L c ubuntuLegacyExtraArgs) (\<lambda>e.
                ret (map_option (\<lambda>err. Errorf (''failed to update legacy kubelet args for ubuntu: '' @ err_msg err)) e))
           else ret None))))"

definition findKubeletProcess :: "'x osLib \<Rightarrow> 'x \<Rightarrow> goerr + process" where
  "findKubeletProcess L x =
     (case ps_Processes L x of
        Inl err \<Rightarrow> Inl err
      | Inr processList \<Rightarrow>
          (case find (\<lambda>p. proc_Executable p = ''kubelet'') processList of
             None \<Rightarrow> Inl (Errorf ''cannot find Kubelet Process'')
           | Some p \<Rightarrow> Inr p))"

definition SIGHUP :: nat where "SIGHUP = 1"

definition killProcess :: "'x osLib \<Rightarrow> process \<Rightarrow> ('x, goerr option) gom" where
  "killProcess L process = call (sys_Kill L (proc_Pid process) SIGHUP)"

definition lx_CommitChanges :: "'x osLib \<Rightarrow> (linuxOS \<times> 'x, goerr option) gom" where
  "lx_CommitChanges L =
     onWorld (bindM (reading (findKubeletProcess L)) (\<lambda>r.
       case r of
         Inl err \<Rightarrow> ret (Some err)
       | Inr process \<Rightarrow> killProcess L process))"

section \<open>Bottlerocket\<close>

record bottleRocket =
  br_baseURL :: string
  br_config :: CredentialProviderConfigOptions

record awsCred =
  ac_Config :: string
  ac_Profile :: string
  ac_Region :: string

record ecrCredentialProvider =
  ecp_CacheDuration :: string
  ecp_Enabled :: bool
  ecp_ImagePatterns :: "string list"
  ecp_Environment :: "string \<rightharpoonup> string"

record brVersion =
  brv_VariantID :: string
  brv_VersionID :: string

record httpResponse =
  resp_StatusCode :: int
  resp_Status :: string
  resp_Body :: "goerr + string"

text \<open>\<open>br_ModeType\<close> is the type of a file: whether it is a socket, and how the type prints.  Requests
  have a method, a URL, a content type and a body.\<close>

record 'x brLib =
  br_ModeType :: "string \<Rightarrow> 'x \<Rightarrow> goerr + (bool \<times> string)"
  http_Do :: "string \<Rightarrow> string \<Rightarrow> string \<Rightarrow> string \<Rightarrow> 'x \<Rightarrow> (goerr + httpResponse) \<times> 'x"
  json_awsCred :: "awsCred \<Rightarrow> goerr + string"
  json_provider :: "ecrCredentialProvider \<Rightarrow> goerr + string"
  json_version :: "string \<Rightarrow> goerr + brVersion"

definition createCredentialsPayload :: "'x brLib \<Rightarrow> string \<Rightarrow> string \<Rightarrow> goerr + string" where
  "createCredentialsPayload B content profile =
     json_awsCred B \<lparr>ac_Config = content, ac_Profile = profile, ac_Region = []\<rparr>"

definition createCredentialProviderPayload ::
  "'x osLib \<Rightarrow> 'x brLib \<Rightarrow> CredentialProviderConfigOptions \<Rightarrow> 'x \<Rightarrow> goerr + string" where
  "createCredentialProviderPayload L B config x =
     json_provider B \<lparr>ecp_CacheDuration = cpo_DefaultCacheDuration config, ecp_Enabled = True,
       ecp_ImagePatterns = cpo_ImagePatterns config, ecp_Environment = GetProxyEnvironment L x\<rparr>"

definition sendSettingsSetRequest :: "'x brLib \<Rightarrow> bottleRocket \<Rightarrow> string \<Rightarrow> ('x, goerr option) gom" where
  "sendSettingsSetRequest B b payload =
     bindM (call (http_Do B ''PATCH'' (br_baseURL b @ ''settings'') ''application/json'' payload)) (\<lambda>r.
     case r of
       Inl err \<Rightarrow> ret (Some err)
     | Inr respPatch \<Rightarrow>
         if resp_StatusCode respPatch \<noteq> 204
         then ret (Some (Errorf (''failed patch request: '' @ resp_Status respPatch)))
         else ret None)"

definition commitChanges :: "'x brLib \<Rightarrow> bottleRocket \<Rightarrow> ('x, goerr option) gom" where
  "commitChanges B b =
     bindM (call (http_Do B ''POST'' (br_baseURL b @ ''tx/commit_and_apply'') ''application/json'' [])) (\<lambda>r.
     case r of
       Inl err \<Rightarrow> ret (Some err)
     | Inr resp \<Rightarrow>
         if resp_StatusCode resp \<noteq> 200
         then ret (Some (Errorf (''failed to commit changes: '' @ resp_Status resp)))
         else ret None)"

definition br_CommitChanges :: "'x brLib \<Rightarrow> (bottleRocket \<times> 'x, goerr option) gom" where
  "br_CommitChanges B = bindM getPriv (\<lambda>b. onWorld (commitChanges B b))"

definition br_Initialize :: "CredentialProviderConfigOptions \<Rightarrow> (bottleRocket \<times> 'x, unit) gom" where
  "br_Initialize config = bindM getPriv (\<lambda>b. putPriv (b\<lparr>br_config := config\<rparr>))"

definition br_UpdateAWSCredentials ::
  "'x osLib \<Rightarrow> 'x brLib \<Rightarrow> string \<Rightarrow> string \<Rightarrow> (bottleRocket \<times> 'x, goerr option) gom" where
  "br_UpdateAWSCredentials L B path profile =
     bindM getPriv (\<lambda>b.
     onWorld (bindM (reading (os_ReadFile L path)) (\<lambda>r.
       case r of
         Inl err \<Rightarrow> ret (Some err)
       | Inr data \<Rightarrow>
           (case createCredentialsPayload B (b64EncodeToString data) profile of
              Inl err \<Rightarrow> ret (Some err)
            | Inr payload \<Rightarrow>
                bindM (sendSettingsSetRequest B b payload) (\<lambda>e.
                case e of
                  Some err \<Rightarrow> ret (Some err)
                | None \<Rightarrow> commitChanges B b)))))"

definition br_UpdateCredentialProvider ::
  "'x osLib \<Rightarrow> 'x brLib \<Rightarrow> string \<Rightarrow> (bottleRocket \<times> 'x, goerr option) gom" where
  "br_UpdateCredentialProvider L B profile =
     bindM getPriv (\<lambda>b.
     onWorld (bindM (reading (createCredentialProviderPayload L B (br_config b))) (\<lambda>r.
       case r of
         Inl err \<Rightarrow> ret (Some err)
       | Inr payload \<Rightarrow> sendSettingsSetRequest B b payload)))"

definition supportedVersion :: "(string \<Rightarrow> string \<Rightarrow> int) \<Rightarrow> brVersion \<Rightarrow> bool" where
  "supportedVersion compare osVersion =
     (let allowedVersions = ''v1.11.0'';
          allowedVersions =
            (if brv_VariantID osVersion \<noteq> []
             then let variantSemVar = ''v'' @ last (Split (brv_VariantID osVersion) CHR ''-'')
                  in if compare variantSemVar ''v1.25'' \<ge> 0 then ''v1.13.0'' else allowedVersions
             else allowedVersions)
      in compare (''v'' @ brv_VersionID osVersion) allowedVersions > 0)"

definition isSupportedBRVersion :: "'x osLib \<Rightarrow> 'x brLib \<Rightarrow> bottleRocket \<Rightarrow> ('x, goerr + bool) gom" where
  "isSupportedBRVersion L B b =
     bindM (call (http_Do B ''GET'' (br_baseURL b @ ''?prefix=os'') [] [])) (\<lambda>r.
     case r of
       Inl err \<Rightarrow> ret (Inl err)
     | Inr respGet \<Rightarrow>
         if resp_StatusCode respGet \<noteq> 200
         then ret (Inl (Errorf (''failed GET request: '' @ resp_Status respGet)))
         else (case resp_Body respGet of
                 Inl err \<Rightarrow> ret (Inl err)
               | Inr valueBody \<Rightarrow>
                   (case json_version B valueBody of
                      Inl err \<Rightarrow> ret (Inl err)
                    | Inr osVersion \<Rightarrow> ret (Inr (supportedVersion (semver_Compare L) osVersion)))))"

definition NewBottleRocketConfigurator ::
  "'x osLib \<Rightarrow> 'x brLib \<Rightarrow> string \<Rightarrow> ('x, goerr + bottleRocket) gom" where
  "NewBottleRocketConfigurator L B socketPath =
     bindM (reading (br_ModeType B socketPath)) (\<lambda>st.
     case st of
       Inl err \<Rightarrow> ret (Inl err)
     | Inr (isSocket, modeType) \<Rightarrow>
         if \<not> isSocket
         then ret (Inl (Errorf (''Unexpected type '' @ modeType @ '' expected socket'' @ NL)))
         else let br = \<lparr>br_baseURL = ''http://localhost/'', br_config = zeroOptions\<rparr> in
              bindM (isSupportedBRVersion L B br) (\<lambda>v.
              case v of
                Inl err \<Rightarrow> ret (Inl (Errorf (''error retrieving BR version '' @ err_msg err)))
              | Inr valid \<Rightarrow>
                  if \<not> valid then ret (Inl (Errorf ''unsupported BR version <nil>''))
                  else ret (Inr br)))"

section \<open>The interface of a configurator, and the program\<close>

record ('c, 'x) Configurator =
  cfg_Initialize :: "CredentialProviderConfigOptions \<Rightarrow> ('c \<times> 'x, unit) gom"
  cfg_UpdateAWSCredentials :: "string \<Rightarrow> string \<Rightarrow> ('c \<times> 'x, goerr option) gom"
  cfg_UpdateCredentialProvider :: "string \<Rightarrow> ('c \<times> 'x, goerr option) gom"
  cfg_CommitChanges :: "('c \<times> 'x, goerr option) gom"

definition linuxConfigurator :: "'x osLib \<Rightarrow> (linuxOS, 'x) Configurator" where
  "linuxConfigurator L =
     \<lparr>cfg_Initialize = lx_Initialize, cfg_UpdateAWSCredentials = lx_UpdateAWSCredentials L,
      cfg_UpdateCredentialProvider = lx_UpdateCredentialProvider L, cfg_CommitChanges = lx_CommitChanges L\<rparr>"

definition bottleRocketConfigurator :: "'x osLib \<Rightarrow> 'x brLib \<Rightarrow> (bottleRocket, 'x) Configurator" where
  "bottleRocketConfigurator L B =
     \<lparr>cfg_Initialize = br_Initialize, cfg_UpdateAWSCredentials = br_UpdateAWSCredentials L B,
      cfg_UpdateCredentialProvider = br_UpdateCredentialProvider L B, cfg_CommitChanges = br_CommitChanges B\<rparr>"

definition bottleRocketName :: string where "bottleRocketName = ''bottlerocket''"
definition socketPath :: string where "socketPath = ''/run/api.sock''"
definition awsProfile :: string where "awsProfile = ''eksa-packages''"
definition credWatchData :: string where "credWatchData = ''/secrets/aws-creds/..data''"

text \<open>The part of \<^verbatim>\<open>main\<close> that drives the configurator; an error ends the process.\<close>

definition configureNode ::
  "('c, 'x) Configurator \<Rightarrow> CredentialProviderConfigOptions \<Rightarrow> string \<Rightarrow> string \<Rightarrow> ('c \<times> 'x, goerr option) gom" where
  "configureNode configurator config secretPath profile =
     bindM (cfg_Initialize configurator config) (\<lambda>_.
     bindM (cfg_UpdateAWSCredentials configurator secretPath profile) (\<lambda>e.
     case e of
       Some err \<Rightarrow> ret (Some err)
     | None \<Rightarrow>
         bindM (cfg_UpdateCredentialProvider configurator profile) (\<lambda>e.
         case e of
           Some err \<Rightarrow> ret (Some err)
         | None \<Rightarrow> cfg_CommitChanges configurator)))"

text \<open>Running the methods of an object that a program has just made.\<close>

definition withObject :: "'c \<Rightarrow> ('c \<times> 'x, 'a) gom \<Rightarrow> ('x, 'a \<times> 'c) gom" where
  "withObject c m = (\<lambda>x. case m (c, x) of
      (Ret r, (c', x')) \<Rightarrow> (Ret (r, c'), x')
    | (Panic p, (c', x')) \<Rightarrow> (Panic p, x'))"

datatype nodeOS = LinuxNode linuxOS | BottlerocketNode bottleRocket

text \<open>Up to the point where the process waits for new credentials: the fatal error, or the
  configurator and the profile it goes on with.  Lower case is that of ASCII letters.\<close>

definition provider_main :: "'x osLib \<Rightarrow> 'x brLib \<Rightarrow> ('x, goerr + nodeOS \<times> string) gom" where
  "provider_main L B =
     bindM (reading (os_Getenv L ''OS_TYPE'')) (\<lambda>osEnv.
     let osType = map toLowerByte osEnv in
     if osType = [] then ret (Inl (Errorf ''Missing Environment Variable OS_TYPE''))
     else
       bindM (GetAwsConfigPath L) (\<lambda>(secretPath, e).
       case e of
         Some err \<Rightarrow> ret (Inl err)
       | None \<Rightarrow>
           bindM (reading (os_Getenv L ''AWS_PROFILE'')) (\<lambda>p.
           let profile = (if p = [] then awsProfile else p) in
           bindM (reading (createCredentialProviderConfigOptions L)) (\<lambda>config.
           if osType = bottleRocketName
           then bindM (NewBottleRocketConfigurator L B socketPath) (\<lambda>n.
                case n of
                  Inl err \<Rightarrow> ret (Inl err)
                | Inr b \<Rightarrow>
                    bindM (withObject b (configureNode (bottleRocketConfigurator L B) config secretPath profile)) (\<lambda>(e, b').
                    ret (case e of Some err \<Rightarrow> Inl err | None \<Rightarrow> Inr (BottlerocketNode b', profile))))
           else bindM (withObject NewLinuxConfigurator (configureNode (linuxConfigurator L) config secretPath profile)) (\<lambda>(e, c').
                ret (case e of Some err \<Rightarrow> Inl err | None \<Rightarrow> Inr (LinuxNode c', profile)))))))"

text \<open>The handler of a create event in the watched directory.\<close>

definition onCreate ::
  "'x osLib \<Rightarrow> ('c, 'x) Configurator \<Rightarrow> string \<Rightarrow> string \<Rightarrow> ('c \<times> 'x, goerr option) gom" where
  "onCreate L configurator profile name =
     (if name = credWatchData
      then bindM (onWorld (GetAwsConfigPath L)) (\<lambda>(secretPath, e).
           case e of
             Some err \<Rightarrow> ret (Some err)
           | None \<Rightarrow> cfg_UpdateAWSCredentials configurator secretPath profile)
      else ret None)"

text \<open>The loop that follows the watcher: what it receives from the two channels, in order.  The end of
  the list is the point up to which the process has run; a fatal error ends it.\<close>

datatype received = Event bool string | WatchError goerr | Closed

fun watchLoop ::
  "'x osLib \<Rightarrow> ('c, 'x) Configurator \<Rightarrow> string \<Rightarrow> received list \<Rightarrow> ('c \<times> 'x, goerr option) gom" where
  "watchLoop L configurator profile [] = ret None"
| "watchLoop L configurator profile (Closed # rs) = ret None"
| "watchLoop L configurator profile (WatchError err # rs) = watchLoop L configurator profile rs"
| "watchLoop L configurator profile (Event create name # rs) =
     bindM (if create then onCreate L configurator profile name else ret None) (\<lambda>e.
     case e of
       Some err \<Rightarrow> ret (Some err)
     | None \<Rightarrow> watchLoop L configurator profile rs)"

section \<open>The contract of a configurator\<close>

text \<open>No method of a configurator panics, whatever the node answers; then neither does the program.\<close>

definition noPanic :: "('w, 'a) gom \<Rightarrow> bool" where
  "noPanic m \<longleftrightarrow> (\<forall>w. runs m (\<lambda>_ _. True) w)"

lemma total_simps [simp]:
  "noPanic (ret x)" "noPanic (reading f)" "noPanic (call g)" "noPanic getPriv" "noPanic (putPriv d)"
  "noPanic (onWorld n) = noPanic n"
  by (auto simp: noPanic_def runs_def onWorld_def putPriv_def getPriv_def split: prod.splits go.splits)

lemma total_bindM [intro]: "noPanic m \<Longrightarrow> (\<And>x. noPanic (k x)) \<Longrightarrow> noPanic (bindM m k)"
  by (auto simp: noPanic_def intro: runs_mono)

lemma total_case_option [intro]: "noPanic n \<Longrightarrow> (\<And>y. noPanic (s y)) \<Longrightarrow> noPanic (case r of None \<Rightarrow> n | Some y \<Rightarrow> s y)"
  by (cases r) auto

lemma total_case_sum [intro]:
  "(\<And>e. noPanic (l e)) \<Longrightarrow> (\<And>y. noPanic (s y)) \<Longrightarrow> noPanic (case r of Inl e \<Rightarrow> l e | Inr y \<Rightarrow> s y)"
  by (cases r) auto

lemma total_case_prod [intro]: "(\<And>a b. noPanic (m a b)) \<Longrightarrow> noPanic (case p of (a, b) \<Rightarrow> m a b)"
  by (cases p) auto

lemma total_if [intro]: "noPanic m \<Longrightarrow> noPanic n \<Longrightarrow> noPanic (if b then m else n)"
  by simp

lemma total_withObject [intro]: "noPanic m \<Longrightarrow> noPanic (withObject c m)"
  unfolding noPanic_def
proof (intro allI)
  fix x assume "\<forall>w. runs m (\<lambda>_ _. True) w"
  then obtain r c' x' where "m (c, x) = (Ret r, (c', x'))"
    by (metis runsE surj_pair)
  then show "runs (withObject c m) (\<lambda>_ _. True) x"
    by (simp add: runs_def withObject_def)
qed

lemmas total_rules = total_bindM total_case_option total_case_sum total_case_prod total_if total_withObject

lemma GetAwsConfigPath_total: "noPanic (GetAwsConfigPath L)"
  unfolding GetAwsConfigPath_def Let_def by (intro total_rules total_simps)

locale configurator =
  fixes cfg :: "('c, 'x) Configurator"
  assumes Initialize_total: "noPanic (cfg_Initialize cfg config)"
    and UpdateAWSCredentials_total: "noPanic (cfg_UpdateAWSCredentials cfg path profile)"
    and UpdateCredentialProvider_total: "noPanic (cfg_UpdateCredentialProvider cfg profile)"
    and CommitChanges_total: "noPanic (cfg_CommitChanges cfg)"
begin

lemma configureNode_total: "noPanic (configureNode cfg config path profile)"
  unfolding configureNode_def
  by (intro total_rules total_simps Initialize_total UpdateAWSCredentials_total
      UpdateCredentialProvider_total CommitChanges_total)

lemma onCreate_total: "noPanic (onCreate L cfg profile name)"
  unfolding onCreate_def
  by (intro total_rules total_simps UpdateAWSCredentials_total) (simp add: GetAwsConfigPath_total)

lemma watchLoop_total: "noPanic (watchLoop L cfg profile rs)"
proof (induction rs)
  case (Cons r rs)
  then show ?case
    by (cases r) (auto simp only: watchLoop.simps total_simps intro!: total_rules onCreate_total)
qed (simp only: watchLoop.simps total_simps)

end

lemma copyWithPermissons_total: "noPanic (copyWithPermissons L src dst perm)"
  unfolding copyWithPermissons_def by (intro total_rules total_simps)

lemma updateKubeletArguments_total: "noPanic (updateKubeletArguments L c line)"
  unfolding updateKubeletArguments_def createConfig_def copyBinaries_def copyBinary_def Let_def
  by (intro total_rules total_simps copyWithPermissons_total)

lemma updateLines_total: "noPanic (updateLines L c lines)"
proof (induction lines)
  case (Cons line lines)
  then show ?case
    unfolding updateLines.simps by (intro total_rules total_simps updateKubeletArguments_total)
qed (simp only: updateLines.simps total_simps)

lemma updateConfigFile_total: "noPanic (updateConfigFile L c path)"
  unfolding updateConfigFile_def Let_def
  by (intro total_rules total_simps updateLines_total updateKubeletArguments_total)

interpretation lx: configurator "linuxConfigurator L" for L
proof
  show "noPanic (cfg_Initialize (linuxConfigurator L) config)" for config
    by (simp add: linuxConfigurator_def lx_Initialize_def total_bindM)
  show "noPanic (cfg_UpdateAWSCredentials (linuxConfigurator L) path profile)" for path profile
    by (simp add: linuxConfigurator_def lx_UpdateAWSCredentials_def total_bindM copyWithPermissons_total)
  show "noPanic (cfg_UpdateCredentialProvider (linuxConfigurator L) profile)" for profile
    by (auto simp: linuxConfigurator_def lx_UpdateCredentialProvider_def intro!: total_rules updateConfigFile_total)
  show "noPanic (cfg_CommitChanges (linuxConfigurator L))"
    by (auto simp: linuxConfigurator_def lx_CommitChanges_def killProcess_def intro!: total_rules)
qed

lemmas br_requests = sendSettingsSetRequest_def commitChanges_def

interpretation br: configurator "bottleRocketConfigurator L B" for L B
proof
  show "noPanic (cfg_Initialize (bottleRocketConfigurator L B) config)" for config
    by (simp add: bottleRocketConfigurator_def br_Initialize_def total_bindM)
  show "noPanic (cfg_UpdateAWSCredentials (bottleRocketConfigurator L B) path profile)" for path profile
    by (auto simp: bottleRocketConfigurator_def br_UpdateAWSCredentials_def br_requests intro!: total_rules)
  show "noPanic (cfg_UpdateCredentialProvider (bottleRocketConfigurator L B) profile)" for profile
    by (auto simp: bottleRocketConfigurator_def br_UpdateCredentialProvider_def br_requests intro!: total_rules)
  show "noPanic (cfg_CommitChanges (bottleRocketConfigurator L B))"
    by (auto simp: bottleRocketConfigurator_def br_CommitChanges_def br_requests intro!: total_rules)
qed

lemma NewBottleRocketConfigurator_total: "noPanic (NewBottleRocketConfigurator L B path)"
  unfolding NewBottleRocketConfigurator_def isSupportedBRVersion_def Let_def
  by (intro total_rules total_simps)

lemma provider_main_total: "noPanic (provider_main L B)"
  unfolding provider_main_def Let_def
  by (intro total_rules total_simps GetAwsConfigPath_total NewBottleRocketConfigurator_total
      lx.configureNode_total br.configureNode_total)

text \<open>An unreadable key is not reported: the path of an empty configuration is returned.\<close>

lemma GetAwsConfigPath_loses_error:
  assumes "os_Stat L configSecretPath x = Some e" "IsNotFound e"
    and "generateAwsConfigSecret L accessKeySecretPath secretAccessKeySecretPath sessionTokenSecretPath
           regionSecretPath x = Inl err"
    and "fst (os_WriteFile L createConfigPath [] 256 x) = None"
  shows "GetAwsConfigPath L x = (Ret (createConfigPath, None), snd (os_WriteFile L createConfigPath [] 256 x))"
  using assms by (simp add: GetAwsConfigPath_def bindM_def)

section \<open>The arguments of the kubelet\<close>

text \<open>What the argument file becomes when nothing fails.\<close>

definition configArg :: "linuxOS \<Rightarrow> string" where
  "configArg c = '' --image-credential-provider-config='' @ lx_basePath c @ credProviderFile"

definition binArg :: string where
  "binArg = '' --image-credential-provider-bin-dir='' @ basePath"

definition kubeletArgs :: "linuxOS \<Rightarrow> string \<Rightarrow> string" where
  "kubeletArgs c line =
     (if Contains line ''image-credential-provider-config'' then [] else configArg c) @
     (if Contains line ''image-credential-provider-bin-dir'' then [] else binArg)"

definition newLine :: "linuxOS \<Rightarrow> string \<Rightarrow> string" where
  "newLine c line =
     (if HasPrefix line ''KUBELET_EXTRA_ARGS'' \<and> kubeletArgs c line \<noteq> []
      then line @ kubeletArgs c line @ NL else line)"

definition newText :: "linuxOS \<Rightarrow> string \<Rightarrow> string" where
  "newText c text =
     (let lines = Split text CHR 0x0A;
          new = ''KUBELET_EXTRA_ARGS=''
      in Join (map (newLine c) lines @
               (if \<exists>line\<in>set lines. HasPrefix line ''KUBELET_EXTRA_ARGS'' then [] else [new @ kubeletArgs c new])) NL)"

text \<open>A file is configured when it has a line of arguments and all such lines have both flags.\<close>

definition configured :: "string \<Rightarrow> bool" where
  "configured text \<longleftrightarrow>
     (let args = filter (\<lambda>line. HasPrefix line ''KUBELET_EXTRA_ARGS'') (Split text CHR 0x0A)
      in args \<noteq> [] \<and> (\<forall>line\<in>set args. Contains line ''image-credential-provider-config'' \<and>
                          Contains line ''image-credential-provider-bin-dir''))"

lemma arg_flags:
  "Contains (configArg c) ''image-credential-provider-config''"
  "Contains binArg ''image-credential-provider-bin-dir''"
  unfolding Contains_iff
  by (rule exI [of _ "'' --''"], simp add: configArg_def binArg_def)+

lemma kubeletArgs_flags:
  "Contains (line @ kubeletArgs c line) ''image-credential-provider-config''"
  "Contains (line @ kubeletArgs c line) ''image-credential-provider-bin-dir''"
  using arg_flags by (simp_all add: kubeletArgs_def)

lemma kubeletArgs_no_newline: "CHR 0x0A \<notin> set (lx_basePath c) \<Longrightarrow> CHR 0x0A \<notin> set (kubeletArgs c line)"
  by (simp add: kubeletArgs_def configArg_def binArg_def credProviderFile_def basePath_def)

lemma newText_configured_id: "configured text \<Longrightarrow> newText c text = text"
proof -
  assume conf: "configured text"
  then have "kubeletArgs c line = []"
    if "line \<in> set (Split text CHR 0x0A)" "HasPrefix line ''KUBELET_EXTRA_ARGS''" for line
    using that by (auto simp: configured_def kubeletArgs_def Let_def)
  then have "map (newLine c) (Split text CHR 0x0A) = Split text CHR 0x0A"
    by (intro map_idI) (auto simp: newLine_def)
  moreover have "\<exists>line\<in>set (Split text CHR 0x0A). HasPrefix line ''KUBELET_EXTRA_ARGS''"
    using conf by (auto simp: configured_def Let_def filter_empty_conv)
  ultimately show "newText c text = text"
    by (simp add: newText_def NL_def Join_Split)
qed

lemma newLine_Split:
  assumes "CHR 0x0A \<notin> set line" "CHR 0x0A \<notin> set (lx_basePath c)"
  shows "Split (newLine c line) CHR 0x0A =
    (if HasPrefix line ''KUBELET_EXTRA_ARGS'' \<and> kubeletArgs c line \<noteq> []
     then [line @ kubeletArgs c line, []] else [line])"
  using assms kubeletArgs_no_newline [of c line] Split_append_sep [of "CHR 0x0A" "line @ kubeletArgs c line" "[]"]
  by (auto simp: newLine_def NL_def Split_no_sep)

lemma newText_configured:
  assumes base: "CHR 0x0A \<notin> set (lx_basePath c)"
  shows "configured (newText c text)"
proof -
  let ?p = "''KUBELET_EXTRA_ARGS''" and ?new = "''KUBELET_EXTRA_ARGS=''"
  let ?lines = "Split text CHR 0x0A"
  let ?extra = "if \<exists>line\<in>set ?lines. HasPrefix line ?p then [] else [?new @ kubeletArgs c ?new]"
  have split: "Split (newText c text) CHR 0x0A =
      concat (map (\<lambda>l. Split (newLine c l) CHR 0x0A) ?lines) @ ?extra"
    using kubeletArgs_no_newline [OF base, of ?new]
    by (simp add: newText_def NL_def Split_Join_concat Let_def comp_def Split_no_sep)
  have empty: "\<not> HasPrefix [] ?p" by (simp add: HasPrefix_def)
  have line: "\<forall>l\<in>set (Split (newLine c line) CHR 0x0A). HasPrefix l ?p \<longrightarrow>
      Contains l ''image-credential-provider-config'' \<and> Contains l ''image-credential-provider-bin-dir''"
    "HasPrefix line ?p \<Longrightarrow> \<exists>l\<in>set (Split (newLine c line) CHR 0x0A). HasPrefix l ?p"
    if "line \<in> set ?lines" for line
    using newLine_Split [OF Split_elems [OF that] base] kubeletArgs_flags [of line c] empty
    by (auto simp: HasPrefix_append2)
  have some: "\<exists>l\<in>set (Split (newText c text) CHR 0x0A). HasPrefix l ?p"
  proof (cases "\<exists>line\<in>set ?lines. HasPrefix line ?p")
    case True
    with line(2) show ?thesis unfolding split by fastforce
  next
    case False
    moreover have "HasPrefix (?new @ kubeletArgs c ?new) ?p" by (simp add: HasPrefix_def)
    ultimately show ?thesis unfolding split by simp
  qed
  have "\<forall>l\<in>set (Split (newText c text) CHR 0x0A). HasPrefix l ?p \<longrightarrow>
      Contains l ''image-credential-provider-config'' \<and> Contains l ''image-credential-provider-bin-dir''"
    using line(1) kubeletArgs_flags [of ?new c] unfolding split by (auto split: if_splits)
  with some show ?thesis
    by (auto simp: configured_def Let_def filter_empty_conv)
qed

text \<open>The file system of the node: a file that was written is read back, and every write concerns the
  file it names.\<close>

definition node_files :: "'x osLib \<Rightarrow> bool" where
  "node_files L \<longleftrightarrow>
     (\<forall>p s m x. (fst (os_WriteFile L p s m x) = None \<longrightarrow> os_ReadFile L p (snd (os_WriteFile L p s m x)) = Inr s)) \<and>
     (\<forall>p q s m x. q \<noteq> p \<longrightarrow>
        os_ReadFile L q (snd (os_WriteFile L p s m x)) = os_ReadFile L q x \<and>
        os_ReadFile L q (snd (os_Create L p x)) = os_ReadFile L q x \<and>
        os_ReadFile L q (snd (io_Copy L p s x)) = os_ReadFile L q x \<and>
        os_ReadFile L q (snd (os_Close L p x)) = os_ReadFile L q x \<and>
        os_ReadFile L q (snd (os_Chmod L p m x)) = os_ReadFile L q x)"

definition node_accepts :: "'x osLib \<Rightarrow> bool" where
  "node_accepts L \<longleftrightarrow>
     (\<forall>p s m x. fst (os_WriteFile L p s m x) = None \<and> os_Open L p x = None \<and> fst (os_Create L p x) = None \<and>
        fst (io_Copy L p s x) = None \<and> fst (os_Close L p x) = None \<and> fst (os_Chmod L p m x) = None)"

definition outFiles :: "linuxOS \<Rightarrow> string set" where
  "outFiles c = {lx_basePath c @ credProviderFile, basePath @ ecrCredProviderBinary, basePath @ iamRolesSigningBinary}"

lemma node_keeps:
  assumes "node_files L" "q \<noteq> p"
  shows "os_ReadFile L q (snd (os_WriteFile L p s m x)) = os_ReadFile L q x"
    "os_ReadFile L q (snd (os_Create L p x)) = os_ReadFile L q x"
    "os_ReadFile L q (snd (io_Copy L p s x)) = os_ReadFile L q x"
    "os_ReadFile L q (snd (os_Close L p x)) = os_ReadFile L q x"
    "os_ReadFile L q (snd (os_Chmod L p m x)) = os_ReadFile L q x"
  using assms by (simp_all add: node_files_def)

lemma node_ok:
  assumes "node_accepts L"
  shows "fst (os_WriteFile L p s m x) = None" "os_Open L p x = None" "fst (os_Create L p x) = None"
    "fst (io_Copy L p s x) = None" "fst (os_Close L p x) = None" "fst (os_Chmod L p m x) = None"
  using assms by (simp_all add: node_accepts_def)

lemma copyBinary_ok:
  assumes "node_files L" "node_accepts L" "q \<noteq> dst"
  shows "runs (copyBinary L src dst) (\<lambda>e x'. e = None \<and> os_ReadFile L q x' = os_ReadFile L q x) x"
  by (simp add: copyBinary_def copyWithPermissons_def node_ok [OF assms(2)] node_keeps [OF assms(1,3)])

lemma updateKubeletArguments_ok:
  assumes laws: "node_files L" "node_accepts L" and q: "q \<notin> outFiles c"
  shows "runs (updateKubeletArguments L c line)
    (\<lambda>args x'. args = kubeletArgs c line \<and> os_ReadFile L q x' = os_ReadFile L q x) x"
proof -
  from q have d: "q \<noteq> lx_basePath c @ credProviderFile" "q \<noteq> basePath @ ecrCredProviderBinary"
    "q \<noteq> basePath @ iamRolesSigningBinary" by (auto simp: outFiles_def)
  have bins: "runs (copyBinaries L) (\<lambda>r x'. r = Inr binArg \<and> os_ReadFile L q x' = os_ReadFile L q y) y" for y
    unfolding copyBinaries_def runs_simps
    by (rule runs_mono [OF copyBinary_ok [OF laws d(2)]])
      (auto simp: binArg_def intro!: runs_mono [OF copyBinary_ok [OF laws d(3)]])
  have conf: "runs (createConfig L c) (\<lambda>r x'. r = Inr (configArg c) \<and> os_ReadFile L q x' = os_ReadFile L q x) x"
    by (simp add: createConfig_def Let_def node_ok [OF laws(2)] node_keeps [OF laws(1) d(1)] configArg_def)
  show ?thesis
    unfolding updateKubeletArguments_def runs_simps Let_def
    by (rule runs_mono [OF conf]) (auto intro!: runs_mono [OF bins] simp: argOf_def kubeletArgs_def)
qed

lemma updateLines_ok:
  assumes laws: "node_files L" "node_accepts L" and q: "q \<notin> outFiles c"
  shows "runs (updateLines L c lines)
    (\<lambda>r x'. r = (\<exists>line\<in>set lines. HasPrefix line ''KUBELET_EXTRA_ARGS'', map (newLine c) lines) \<and>
       os_ReadFile L q x' = os_ReadFile L q x) x"
proof (induction lines arbitrary: x)
  case (Cons line lines)
  show ?case
    unfolding updateLines.simps
    by (auto simp: newLine_def intro!: runs_mono [OF updateKubeletArguments_ok [OF assms]] runs_mono [OF Cons.IH])
qed simp

lemma updateConfigFile_ok:
  assumes laws: "node_files L" "node_accepts L" and q: "path \<notin> outFiles c"
    and old: "os_ReadFile L path x = Inr text"
  shows "runs (updateConfigFile L c path) (\<lambda>e x'. e = None \<and> os_ReadFile L path x' = Inr (newText c text)) x"
proof -
  have stored: "os_ReadFile L path (snd (os_WriteFile L path s m y)) = Inr s" for s m y
    using laws node_ok(1) [OF laws(2)] by (simp add: node_files_def)
  show ?thesis
    unfolding updateConfigFile_def Let_def
    by (auto simp: old newText_def Let_def stored node_ok [OF laws(2)]
        intro!: runs_mono [OF updateLines_ok [OF laws q]] runs_mono [OF updateKubeletArguments_ok [OF laws q]])
qed

end
