(* ===== verification/Bundle_Generator.thy ===== *)
theory Bundle_Generator
  imports Signature Kube
begin

text \<open>
  \<^verbatim>\<open>generatebundlefile\<close>: the program that makes and signs a bundle from an input file.  ECR is only read,
  so its answers are a function of the request; the listing of images follows the tokens of ECR and
  may never end, which is the value \<open>None\<close> of \<open>Describe\<close> and of everything that calls it.  A Go time
  is a number of nanoseconds since the zero time.  Helm, the file system, the decoders, KMS and STS are
  parameters.
\<close>

section \<open>The input\<close>

record Tag =
  tag_Name :: string

record Project =
  pr_Name :: string
  pr_Registry :: string
  pr_Repository :: string
  pr_Versions :: "Tag list"
  pr_WorkloadOnly :: bool

record Org =
  org_Org :: string
  org_Projects :: "Project list"

record Input =
  in_Packages :: "Org list"
  in_Name :: string
  in_KubernetesVersion :: string
  in_MinVersion :: string

definition Matches :: "Project \<Rightarrow> string \<Rightarrow> string list" where
  "Matches project tag = filter (\<lambda>v. v = tag) (map tag_Name (pr_Versions project))"

section \<open>Helpers\<close>

text \<open>\<^verbatim>\<open>ecrtypes.ImageDetail\<close>: pointers are options, and a nil slice of tags is the empty one.\<close>

record ImageDetail =
  id_PushedAt :: "int option"
  id_Digest :: "string option"
  id_Tags :: "string list"
  id_MediaType :: "string option"

definition zeroDetail :: ImageDetail where
  "zeroDetail = \<lparr>id_PushedAt = None, id_Digest = None, id_Tags = [], id_MediaType = None\<rparr>"

definition ociManifest :: string where
  "ociManifest = ''application/vnd.oci.image.manifest.v1+json''"

definition sourceVersion :: "string \<Rightarrow> string \<Rightarrow> SourceVersion" where
  "sourceVersion name digest = zeroVersion\<lparr>sv_Name := name, sv_Digest := digest\<rparr>"

fun removeDuplicatesFrom :: "string set \<Rightarrow> SourceVersion list \<Rightarrow> SourceVersion list" where
  "removeDuplicatesFrom k [] = []"
| "removeDuplicatesFrom k (i # s) =
     (if sv_Name i \<in> k then removeDuplicatesFrom k s
      else sourceVersion (sv_Name i) (sv_Digest i) # removeDuplicatesFrom (insert (sv_Name i) k) s)"

definition removeDuplicates :: "SourceVersion list \<Rightarrow> SourceVersion list" where
  "removeDuplicates s = removeDuplicatesFrom {} s"

fun removeStringSlice :: "string list \<Rightarrow> string \<Rightarrow> string list" where
  "removeStringSlice [] item = []"
| "removeStringSlice (other # l) item = (if other = item then l else other # removeStringSlice l item)"

definition deleteEmptyStringSlice :: "string list \<Rightarrow> string list" where
  "deleteEmptyStringSlice s = filter (\<lambda>str. str \<noteq> []) s"

definition splitECRName :: "string \<Rightarrow> goerr + string \<times> string" where
  "splitECRName s =
     (let chartNameList = Split s CHR ''/''
      in if length chartNameList > 1 then Inr (Join (tl chartNameList) ''/'', last chartNameList)
         else Inl (Errorf ''parsing chartName, check the input URI is a valid ECR URI''))"

text \<open>An image is listed once per matching tag.\<close>

definition ImageTagFilter :: "ImageDetail list \<Rightarrow> string \<Rightarrow> ImageDetail list" where
  "ImageTagFilter details version =
     concat (map (\<lambda>detail. map (\<lambda>_. detail)
       (filter (\<lambda>tag. HasPrefix tag version \<and> Contains tag ''latest'') (id_Tags detail))) details)"

fun latestLoop :: "ImageDetail \<Rightarrow> ImageDetail list \<Rightarrow> ImageDetail go" where
  "latestLoop latest [] = Ret latest"
| "latestLoop latest (detail # details) =
     (if id_PushedAt detail = None \<or> id_Digest detail = None \<or> id_Tags detail = []
      then latestLoop latest details
      else (case id_MediaType detail of
              None \<Rightarrow> Panic ''nil pointer dereference''
            | Some mt \<Rightarrow>
                if mt \<noteq> ociManifest then latestLoop latest details
                else if the (id_PushedAt latest) < the (id_PushedAt detail) then latestLoop detail details
                else latestLoop latest details))"

text \<open>The loop starts with the zero image and a push time, so that the comparison with the zero image
  never holds.\<close>

definition getLatestImageSha :: "ImageDetail list \<Rightarrow> (goerr + SourceVersion) go" where
  "getLatestImageSha details =
     (case latestLoop (zeroDetail\<lparr>id_PushedAt := Some 0\<rparr>) details of
        Panic p \<Rightarrow> Panic p
      | Ret latest \<Rightarrow>
          if latest = zeroDetail then Ret (Inl (Errorf ''error no images found''))
          else (case id_Tags latest of
                  [] \<Rightarrow> Panic ''index out of range''
                | tag # _ \<Rightarrow>
                    (case id_Digest latest of
                       None \<Rightarrow> Panic ''nil pointer dereference''
                     | Some digest \<Rightarrow> Ret (Inr (sourceVersion tag digest)))))"

section \<open>ECR\<close>

datatype imageId = ByTag string | ByDigest string

record DescribeImagesInput =
  di_Repository :: string
  di_ImageIds :: "imageId list"
  di_NextToken :: "string option"

text \<open>An answer is a page of images and the token of the next page, if any; the authorization data
  are the tokens.\<close>

record ecrApi =
  ec_DescribeImages :: "DescribeImagesInput \<Rightarrow> goerr + ImageDetail list \<times> string option"
  ec_AuthorizationData :: "goerr + string option list"

definition describeErr :: "goerr \<Rightarrow> goerr" where
  "describeErr err = Errorf (''unable to complete DescribeImagesRequest to ECR: '' @ err_msg err)"

partial_function (option) Describe :: "ecrApi \<Rightarrow> DescribeImagesInput \<Rightarrow> (goerr + ImageDetail list) option" where
  "Describe c describeInput =
     (case ec_DescribeImages c describeInput of
        Inl err \<Rightarrow> Some (Inl (describeErr err))
      | Inr (images, nextToken) \<Rightarrow>
          (case nextToken of
             None \<Rightarrow> Some (Inr images)
           | Some t \<Rightarrow>
               Option.bind (Describe c (describeInput\<lparr>di_NextToken := Some t\<rparr>)) (\<lambda>next.
               Some (Inr (images @ (case next of Inl _ \<Rightarrow> [] | Inr nextdetails \<Rightarrow> nextdetails))))))"

text \<open>The versions for a tag that was asked for by name.\<close>

fun taggedVersions :: "string \<Rightarrow> ImageDetail list \<Rightarrow> SourceVersion list go" where
  "taggedVersions name [] = Ret []"
| "taggedVersions name (images # rest) =
     (case id_MediaType images of
        None \<Rightarrow> Panic ''nil pointer dereference''
      | Some mt \<Rightarrow>
          if mt \<noteq> ociManifest \<or> id_Tags images = [] then taggedVersions name rest
          else (case id_Digest images of
                  None \<Rightarrow> Panic ''nil pointer dereference''
                | Some digest \<Rightarrow>
                    (case taggedVersions name rest of
                       Panic p \<Rightarrow> Panic p
                     | Ret vs \<Rightarrow> Ret (sourceVersion name digest # vs))))"

definition latestOf :: "ecrApi \<Rightarrow> string \<Rightarrow> string \<Rightarrow> (goerr + SourceVersion list) go option" where
  "latestOf c repository version =
     Option.bind (Describe c \<lparr>di_Repository = repository, di_ImageIds = [], di_NextToken = None\<rparr>) (\<lambda>r.
     Some (case r of
             Inl err \<Rightarrow> Ret (Inl (describeErr err))
           | Inr details \<Rightarrow>
               (case getLatestImageSha (ImageTagFilter details version) of
                  Panic p \<Rightarrow> Panic p
                | Ret (Inl err) \<Rightarrow> Ret (Inl err)
                | Ret (Inr sha) \<Rightarrow> Ret (Inr [sha]))))"

definition shaForTag :: "ecrApi \<Rightarrow> string \<Rightarrow> string \<Rightarrow> (goerr + SourceVersion list) go option" where
  "shaForTag c repository name =
     (if \<not> HasSuffix name ''latest''
      then Option.bind (Describe c \<lparr>di_Repository = repository, di_ImageIds = [ByTag name], di_NextToken = None\<rparr>) (\<lambda>r.
           Some (case r of
                   Inl err \<Rightarrow> Ret (Inl (describeErr err))
                 | Inr details \<Rightarrow>
                     (case taggedVersions name details of
                        Panic p \<Rightarrow> Panic p
                      | Ret vs \<Rightarrow> Ret (Inr vs))))
      else if name = ''latest'' then latestOf c repository []
      else if HasSuffix name ''-latest'' then latestOf c repository (upTo name ''-latest'')
      else Some (Ret (Inr [])))"

fun shaForTags :: "ecrApi \<Rightarrow> string \<Rightarrow> Tag list \<Rightarrow> (goerr + SourceVersion list) go option" where
  "shaForTags c repository [] = Some (Ret (Inr []))"
| "shaForTags c repository (tag # tags) =
     Option.bind (shaForTag c repository (tag_Name tag)) (\<lambda>r.
     case r of
       Panic p \<Rightarrow> Some (Panic p)
     | Ret (Inl err) \<Rightarrow> Some (Ret (Inl err))
     | Ret (Inr vs) \<Rightarrow>
         Option.bind (shaForTags c repository tags) (\<lambda>r.
         Some (case r of
                 Panic p \<Rightarrow> Panic p
               | Ret (Inl err) \<Rightarrow> Ret (Inl err)
               | Ret (Inr vs') \<Rightarrow> Ret (Inr (vs @ vs')))))"

definition GetShaForInputs :: "ecrApi \<Rightarrow> Project \<Rightarrow> (goerr + SourceVersion list) go option" where
  "GetShaForInputs c project =
     map_option (\<lambda>r. case r of
         Panic p \<Rightarrow> Panic p
       | Ret (Inl err) \<Rightarrow> Ret (Inl err)
       | Ret (Inr vs) \<Rightarrow> Ret (Inr (removeDuplicates vs)))
     (shaForTags c (pr_Repository project) (pr_Versions project))"

definition tagOfDetail :: "string \<Rightarrow> ImageDetail \<Rightarrow> string go" where
  "tagOfDetail substringTag detail =
     (let tags = removeStringSlice (id_Tags detail) ''latest''
      in case find (\<lambda>tag. HasSuffix tag substringTag) tags of
           Some tag \<Rightarrow> Ret tag
         | None \<Rightarrow> (case tags of [] \<Rightarrow> Panic ''index out of range'' | tag # _ \<Rightarrow> Ret tag))"

definition tagFromSha :: "ecrApi \<Rightarrow> string \<Rightarrow> string \<Rightarrow> string \<Rightarrow> (goerr + string) go option" where
  "tagFromSha c repository sha substringTag =
     (if repository = [] \<or> sha = []
      then Some (Ret (Inl (Errorf ''empty repository, or sha passed to the function'')))
      else Option.bind (Describe c \<lparr>di_Repository = repository, di_ImageIds = [ByDigest sha], di_NextToken = None\<rparr>) (\<lambda>r.
           Some (case r of
                   Inl err \<Rightarrow>
                     if Contains (err_msg err) ''does not exist within the repository'' then Ret (Inr [])
                     else Ret (Inl (Errorf (''looking up image details '' @ err_msg err)))
                 | Inr details \<Rightarrow>
                     (case find (\<lambda>detail. id_Tags detail \<noteq> []) details of
                        None \<Rightarrow> Ret (Inr [])
                      | Some detail \<Rightarrow>
                          (case tagOfDetail substringTag detail of
                             Panic p \<Rightarrow> Panic p
                           | Ret tag \<Rightarrow> Ret (Inr tag))))))"

definition GetAuthToken :: "ecrApi \<Rightarrow> (goerr + string) go" where
  "GetAuthToken c =
     (case ec_AuthorizationData c of
        Inl err \<Rightarrow> Ret (Inl err)
      | Inr [] \<Rightarrow> Panic ''index out of range''
      | Inr (None # _) \<Rightarrow> Panic ''nil pointer dereference''
      | Inr (Some token # _) \<Rightarrow> Ret (Inr token))"

record ecrClient =
  ecr_api :: ecrApi
  ecr_AuthConfig :: string

definition NewECRClient :: "ecrApi \<Rightarrow> bool \<Rightarrow> (goerr + ecrClient) go" where
  "NewECRClient client needsCreds =
     (if needsCreds
      then (case GetAuthToken client of
              Panic p \<Rightarrow> Panic p
            | Ret (Inl err) \<Rightarrow> Ret (Inl err)
            | Ret (Inr authorizationToken) \<Rightarrow>
                Ret (Inr \<lparr>ecr_api = client, ecr_AuthConfig = authorizationToken\<rparr>))
      else Ret (Inr \<lparr>ecr_api = client, ecr_AuthConfig = []\<rparr>))"

text \<open>\<^verbatim>\<open>NewStsClient\<close>; the account of the caller is a pointer.\<close>

definition NewStsClient :: "goerr + string option \<Rightarrow> bool \<Rightarrow> (goerr + string) go" where
  "NewStsClient identity account =
     (if account
      then (case identity of
              Inl err \<Rightarrow> Ret (Inl err)
            | Inr None \<Rightarrow> Panic ''nil pointer dereference''
            | Inr (Some a) \<Rightarrow>
                if a \<noteq> [] then Ret (Inr a) else Ret (Inl (Errorf ''empty Account ID from stslookup call'')))
      else Ret (Inr []))"

section \<open>Bundles\<close>

definition Excludes :: string where
  "Excludes = ''LnNwZWMucGFja2FnZXNbXS5zb3VyY2UucmVnaXN0cnkKLnNwZWMucGFja2FnZXNbXS5zb3VyY2UucmVwb3NpdG9yeQo=''"

definition FullSignatureAnnotation :: string where
  "FullSignatureAnnotation = pathJoin [dom_Name EksaDomain, SignatureAnnotation]"

definition FullExcludesAnnotation :: string where
  "FullExcludesAnnotation = pathJoin [dom_Name EksaDomain, ExcludesAnnotation]"

definition DefaultExcludesAnnotation :: "(string, string) gomap" where
  "DefaultExcludesAnnotation = Some [FullExcludesAnnotation \<mapsto> Excludes]"

definition groupVersion :: string where "groupVersion = ''packages.eks.amazonaws.com/v1alpha1''"

text \<open>The annotations are the map in the variable \<^verbatim>\<open>DefaultExcludesAnnotation\<close>, which is shared and not
  copied: \<open>defaults\<close> is what it holds at the time.\<close>

definition AddMetadata :: "(string, string) gomap \<Rightarrow> PackageBundleSpec \<Rightarrow> string \<Rightarrow> PackageBundle" where
  "AddMetadata defaults s name =
     zeroBundle\<lparr>pb_Kind := PackageBundleKind, pb_APIVersion := groupVersion, pb_Name := name,
       pb_Namespace := PackageNamespace, pb_Annotations := defaults, pb_Spec := s\<rparr>"

definition NewBundleGenerate :: "string \<Rightarrow> PackageBundle" where
  "NewBundleGenerate name =
     AddMetadata DefaultExcludesAnnotation \<lparr>pbs_Packages =
        [\<lparr>bp_Name = ''sample-package'',
          bp_Source = \<lparr>src_Registry = [], src_Repository = ''sample-Repository'',
             src_Versions = [sourceVersion ''v0.0''
               ''sha256:da25f5fdff88c259bb2ce7c0f1e9edddaf102dc4fb9cf5159ad6b902b5194e66'']\<rparr>,
          bp_WorkloadOnly = False\<rparr>],
        pbs_MinVersion = []\<rparr> name"

definition printTags :: "Tag list \<Rightarrow> string" where
  "printTags tags = ''['' @ Join (map (\<lambda>t. ''{'' @ tag_Name t @ ''}'') tags) '' '' @ '']''"

definition NewPackageFromInput :: "ecrApi \<Rightarrow> Project \<Rightarrow> (goerr + BundlePackage) go option" where
  "NewPackageFromInput c project =
     map_option (\<lambda>r. case r of
         Panic p \<Rightarrow> Panic p
       | Ret (Inl err) \<Rightarrow> Ret (Inl err)
       | Ret (Inr versionList) \<Rightarrow>
           if length versionList < 1
           then Ret (Inl (Errorf (''unable to find SHA sum for given input tag '' @ printTags (pr_Versions project))))
           else Ret (Inr \<lparr>bp_Name = pr_Name project,
                          bp_Source = \<lparr>src_Registry = pr_Registry project,
                             src_Repository = pr_Repository project, src_Versions = versionList\<rparr>,
                          bp_WorkloadOnly = pr_WorkloadOnly project\<rparr>))
     (if Contains (pr_Registry project) ''amazonaws.com'' then GetShaForInputs c project
      else Some (Ret (Inr [])))"

fun packagesFromProjects :: "ecrApi \<Rightarrow> Project list \<Rightarrow> (goerr + BundlePackage list) go option" where
  "packagesFromProjects c [] = Some (Ret (Inr []))"
| "packagesFromProjects c (project # projects) =
     Option.bind (NewPackageFromInput c project) (\<lambda>r.
     case r of
       Panic p \<Rightarrow> Some (Panic p)
     | Ret (Inl err) \<Rightarrow> Some (Ret (Inl err))
     | Ret (Inr pkg) \<Rightarrow>
         Option.bind (packagesFromProjects c projects) (\<lambda>r.
         Some (case r of
                 Panic p \<Rightarrow> Panic p
               | Ret (Inl err) \<Rightarrow> Ret (Inl err)
               | Ret (Inr pkgs) \<Rightarrow> Ret (Inr (pkg # pkgs)))))"

text \<open>The clock: the seconds since the epoch and the date, which \<^verbatim>\<open>Format\<close> prints with four, two and two
  digits.\<close>

record clock =
  clk_Unix :: int
  clk_Year :: nat
  clk_Month :: nat
  clk_Day :: nat

definition twoDigits :: "nat \<Rightarrow> string" where
  "twoDigits n = (if n < 10 then ''0'' else []) @ natString n"

definition fourDigits :: "nat \<Rightarrow> string" where
  "fourDigits n = (if n < 1000 then ''0'' else []) @ (if n < 100 then ''0'' else []) @ twoDigits n"

definition formatDate :: "clock \<Rightarrow> string" where
  "formatDate t = fourDigits (clk_Year t) @ ''-'' @ twoDigits (clk_Month t) @ ''-'' @ twoDigits (clk_Day t)"

text \<open>A Kubernetes version without a dot has no second part.\<close>

definition NewBundleFromInput ::
  "ecrApi \<Rightarrow> clock \<Rightarrow> Input \<Rightarrow> (goerr + PackageBundleSpec \<times> string) go option" where
  "NewBundleFromInput c currentTime input =
     (if in_Name input = [] \<or> in_KubernetesVersion input = []
      then Some (Ret (Inl (Errorf ''empty input field from `Name` or `KubernetesVersion`'')))
      else
        let version = Split (in_KubernetesVersion input) CHR ''.'' in
        if length version < 2 then Some (Panic ''index out of range'')
        else
          let name = ''v1-'' @ version ! 1 @ ''-'' @ formatDate currentTime @ ''-'' @ Sprint (clk_Unix currentTime) in
          map_option (\<lambda>r. case r of
              Panic p \<Rightarrow> Panic p
            | Ret (Inl err) \<Rightarrow> Ret (Inl err)
            | Ret (Inr pkgs) \<Rightarrow> Ret (Inr (\<lparr>pbs_Packages = pkgs, pbs_MinVersion = in_MinVersion input\<rparr>, name)))
          (packagesFromProjects c (concat (map org_Projects (in_Packages input)))))"

section \<open>Signing\<close>

definition GetBundleSignature ::
  "('q, 'v, 'k) sigLib \<Rightarrow> (string \<Rightarrow> string \<Rightarrow> goerr + string) \<Rightarrow> PackageBundle \<Rightarrow> string \<Rightarrow> goerr + string" where
  "GetBundleSignature S kmsSign bundle key =
     (case GetDigest S bundle EksaDomain of
        Inl err \<Rightarrow> Inl err
      | Inr (digest, _) \<Rightarrow>
          (case kmsSign key digest of
             Inl err \<Rightarrow> Inl err
           | Inr signature \<Rightarrow> Inr (b64EncodeToString signature)))"

text \<open>The end of \<^verbatim>\<open>cmdGenerate\<close> before the file is written: metadata, excludes, signature.  The
  annotations of the bundle are afterwards what the shared map holds.\<close>

definition signBundle ::
  "('q, 'v, 'k) sigLib \<Rightarrow> (string \<Rightarrow> string \<Rightarrow> goerr + string) \<Rightarrow> (string, string) gomap \<Rightarrow>
     PackageBundleSpec \<Rightarrow> string \<Rightarrow> string \<Rightarrow> (goerr + PackageBundle) go" where
  "signBundle S kmsSign defaults spec name key =
     (let b = AddMetadata defaults spec name in
      case mapPut (pb_Annotations b) FullExcludesAnnotation Excludes of
        Panic p \<Rightarrow> Panic p
      | Ret annotations \<Rightarrow>
          let b = b\<lparr>pb_Annotations := annotations\<rparr> in
          (case GetBundleSignature S kmsSign b key of
             Inl err \<Rightarrow> Ret (Inl err)
           | Inr signature \<Rightarrow>
               (case mapPut (pb_Annotations b) FullSignatureAnnotation signature of
                  Panic p \<Rightarrow> Panic p
                | Ret annotations \<Rightarrow> Ret (Inr (b\<lparr>pb_Annotations := annotations\<rparr>)))))"

section \<open>Files\<close>

record Image =
  img_Repository :: string
  img_Tag :: string
  img_Digest :: string

record Requires =
  rq_Kind :: string
  rq_Images :: "Image list"
  rq_Schema :: string
  rq_Dependencies :: "string list"

definition zeroInput :: Input where
  "zeroInput = \<lparr>in_Packages = [], in_Name = [], in_KubernetesVersion = [], in_MinVersion = []\<rparr>"

definition zeroRequires :: Requires where
  "zeroRequires = \<lparr>rq_Kind = [], rq_Images = [], rq_Schema = [], rq_Dependencies = []\<rparr>"

text \<open>The libraries of the generator.  Decoders fill the value they are given; \<open>gl_Stat\<close> says whether a
  file is a directory; \<open>gl_LocateChart\<close> is Helm's lookup of a chart at a version.\<close>

record ('q, 'v, 'k, 'x) generatorLib =
  gl_sig :: "('q, 'v, 'k) sigLib"
  gl_kmsSign :: "string \<Rightarrow> string \<Rightarrow> goerr + string"
  gl_Now :: "'x \<Rightarrow> clock"
  gl_ReadFile :: "string \<Rightarrow> 'x \<Rightarrow> goerr + string"
  gl_Stat :: "string \<Rightarrow> 'x \<Rightarrow> goerr + bool"
  gl_MkdirAll :: "string \<Rightarrow> 'x writes"
  gl_WriteFile :: "string \<Rightarrow> string \<Rightarrow> 'x writes"
  gl_CreateTemp :: "string \<Rightarrow> 'x \<Rightarrow> (goerr + string) \<times> 'x"
  gl_Fprint :: "string \<Rightarrow> string \<Rightarrow> 'x writes"
  gl_Remove :: "string \<Rightarrow> 'x writes"
  gl_RemoveAll :: "string \<Rightarrow> 'x writes"
  gl_ExpandFile :: "string \<Rightarrow> string \<Rightarrow> 'x writes"
  gl_NewClient :: "string \<Rightarrow> goerr option"
  gl_CfgInit :: "'x \<Rightarrow> goerr option"
  gl_LocateChart :: "string \<Rightarrow> string \<Rightarrow> 'x \<Rightarrow> (goerr + string) \<times> 'x"
  gl_Input :: "string \<Rightarrow> Input \<Rightarrow> goerr + Input"
  gl_InputStrict :: "string \<Rightarrow> Input \<Rightarrow> goerr + Input"
  gl_Requires :: "string \<Rightarrow> Requires \<Rightarrow> goerr + Requires"
  gl_RequiresStrict :: "string \<Rightarrow> Requires \<Rightarrow> goerr + Requires"
  gl_BundleStrict :: "string \<Rightarrow> goerr + PackageBundle"
  gl_AuthJson :: "(string \<rightharpoonup> string) \<Rightarrow> goerr + string"
  gl_JsonMarshal :: "PackageBundle \<Rightarrow> goerr + string"
  gl_JsonUnmarshal :: "string \<Rightarrow> goerr + (string \<rightharpoonup> val)"
  gl_YamlMarshal :: "(string \<rightharpoonup> val) \<Rightarrow> goerr + string"

definition YamlSeparator :: string where
  "YamlSeparator = [CHR 0x0A] @ ''---'' @ [CHR 0x0A]"

text \<open>The validation loops: the first error of a list of validations.\<close>

fun firstError :: "('a \<Rightarrow> goerr option) list \<Rightarrow> 'a \<Rightarrow> goerr option" where
  "firstError [] x = None"
| "firstError (v # vs) x = (case v x of Some err \<Rightarrow> Some err | None \<Rightarrow> firstError vs x)"

text \<open>The loops over the documents of a file return in the first turn, so only the first document is
  read.  The texts of the errors are shortened to their cause.\<close>

definition ParseInputConfig ::
  "('q, 'v, 'k, 'x) generatorLib \<Rightarrow> string \<Rightarrow> Input \<Rightarrow> 'x \<Rightarrow> goerr + Input" where
  "ParseInputConfig L fileName inputConfig x =
     (case gl_ReadFile L (pathClean fileName) x of
        Inl err \<Rightarrow> Inl (Errorf (''unable to read file due to: '' @ err_msg err))
      | Inr content \<Rightarrow>
          let c = upTo content YamlSeparator in
          (case gl_Input L c inputConfig of
             Inl err \<Rightarrow> Inl (Errorf (''unable to parse '' @ fileName @ err_msg err))
           | Inr inputConfig \<Rightarrow>
               (case gl_InputStrict L c inputConfig of
                  Inl err \<Rightarrow> Inl (Errorf (''unable to UnmarshalStrict '' @ fileName @ err_msg err))
                | Inr inputConfig \<Rightarrow> Inr inputConfig)))"

definition ValidateInputNotEmpty :: "Input \<Rightarrow> goerr option" where
  "ValidateInputNotEmpty inputConfig =
     (if length (in_Packages inputConfig) < 1
      then Some (Errorf ''should use non-empty list of projects for input'') else None)"

definition validateInputConfigName :: "Input \<Rightarrow> goerr option" where
  "validateInputConfigName inputConfig =
     (case ValidateInputNotEmpty inputConfig of Some err \<Rightarrow> Some err | None \<Rightarrow> None)"

definition inputConfigValidations :: "(Input \<Rightarrow> goerr option) list" where
  "inputConfigValidations = [validateInputConfigName]"

definition ValidateInputConfigContent :: "Input \<Rightarrow> goerr option" where
  "ValidateInputConfigContent inputConfig = firstError inputConfigValidations inputConfig"

definition ValidateInputConfig :: "('q, 'v, 'k, 'x) generatorLib \<Rightarrow> string \<Rightarrow> 'x \<Rightarrow> goerr + Input" where
  "ValidateInputConfig L fileName x =
     (case ParseInputConfig L fileName zeroInput x of
        Inl err \<Rightarrow> Inl err
      | Inr inputconfig \<Rightarrow>
          (case ValidateInputConfigContent inputconfig of
             Some err \<Rightarrow> Inl err
           | None \<Rightarrow> Inr inputconfig))"

definition ParseBundle :: "('q, 'v, 'k, 'x) generatorLib \<Rightarrow> string \<Rightarrow> 'x \<Rightarrow> goerr + PackageBundle" where
  "ParseBundle L filename x =
     (case gl_ReadFile L (pathClean filename) x of
        Inl err \<Rightarrow> Inl (wrapErr (''reading package bundle file '' @ filename @ '': '') err)
      | Inr content \<Rightarrow>
          (case gl_BundleStrict L (upTo content YamlSeparator) of
             Inl err \<Rightarrow> Inl (wrapErr (''unmarshaling package bundle from '' @ filename @ '': '') err)
           | Inr b \<Rightarrow> Inr b))"

definition ValidateBundleNoSignature :: "PackageBundle \<Rightarrow> goerr option" where
  "ValidateBundleNoSignature b =
     (if length (pbs_Packages (pb_Spec b)) < 1
      then Some (Errorf ''should use non-empty list of projects for input'') else None)"

definition validateBundleName :: "PackageBundle \<Rightarrow> goerr option" where
  "validateBundleName b =
     (case ValidateBundleNoSignature b of Some err \<Rightarrow> Some err | None \<Rightarrow> None)"

definition bundleValidations :: "(PackageBundle \<Rightarrow> goerr option) list" where
  "bundleValidations = [validateBundleName]"

definition ValidateBundleContent :: "PackageBundle \<Rightarrow> goerr option" where
  "ValidateBundleContent b = firstError bundleValidations b"

definition ValidateBundle :: "('q, 'v, 'k, 'x) generatorLib \<Rightarrow> string \<Rightarrow> 'x \<Rightarrow> goerr + PackageBundle" where
  "ValidateBundle L fileName x =
     (case ParseBundle L fileName x of
        Inl err \<Rightarrow> Inl err
      | Inr b \<Rightarrow> (case ValidateBundleContent b of Some err \<Rightarrow> Inl err | None \<Rightarrow> Inr b))"

section \<open>Charts\<close>

text \<open>\<^verbatim>\<open>NewHelm\<close>: the registry client with the credentials of a file, and the Helm configuration.\<close>

definition gen_NewHelm :: "('q, 'v, 'k, 'x) generatorLib \<Rightarrow> string \<Rightarrow> 'x \<Rightarrow> goerr option" where
  "gen_NewHelm L authfile x =
     (case gl_NewClient L authfile of
        Some err \<Rightarrow> Some (wrapErr ''creating registry client while initializing helm driver: '' err)
      | None \<Rightarrow>
          (case gl_CfgInit L x of
             Some err \<Rightarrow> Some (wrapErr ''initializing helm driver: '' err)
           | None \<Rightarrow> None))"

definition PullHelmChart ::
  "('q, 'v, 'k, 'x) generatorLib \<Rightarrow> string \<Rightarrow> string \<Rightarrow> ('x, goerr + string) gom" where
  "PullHelmChart L name version =
     (if name = [] \<or> version = []
      then ret (Inl (Errorf ''empty input for PullHelmChart, check flags''))
      else
        let name = (if \<not> HasPrefix name ''oci://'' then ''oci://'' @ name else name);
            msg = ''running the Helm LocateChart command, you might need run an AWS ECR Login: '' in
        bindM (call (gl_LocateChart L name version)) (\<lambda>r.
        case r of
          Inl err \<Rightarrow> ret (Inl (wrapErr msg err))
        | Inr chartPath \<Rightarrow>
            if chartPath = [] then ret (Inl (Errorf (msg @ ''%!w(<nil>)''))) else ret (Inr chartPath)))"

definition UnTarHelmChart ::
  "('q, 'v, 'k, 'x) generatorLib \<Rightarrow> string \<Rightarrow> string \<Rightarrow> string \<Rightarrow> ('x, goerr option) gom" where
  "UnTarHelmChart L chartRef chartPath dest =
     (if chartRef = [] \<or> chartPath = [] \<or> dest = []
      then ret (Some (Errorf ''empty input value given for UnTarHelmChart''))
      else
        bindM (reading (gl_Stat L dest)) (\<lambda>st.
        bindM (case st of
                 Inr _ \<Rightarrow> ret None
               | Inl err \<Rightarrow>
                   if IsNotFound err
                   then bindM (reading (gl_Stat L chartPath)) (\<lambda>st.
                        case st of
                          Inl _ \<Rightarrow>
                            bindM (call (gl_MkdirAll L chartPath)) (\<lambda>e.
                            ret (map_option (wrapErr ''failed to untar (mkdir): '') e))
                        | Inr _ \<Rightarrow>
                            ret (Some (Errorf (''failed to untar: a file or directory with the name '' @ dest @
                                         '' already exists''))))
                   else ret (Some (Errorf (''failed UnTarHelmChart: '' @ err_msg err)))) (\<lambda>e.
        case e of
          Some err \<Rightarrow> ret (Some err)
        | None \<Rightarrow> call (gl_ExpandFile L dest chartRef))))"

text \<open>After an error other than a missing file there is no file information.\<close>

definition hasRequires :: "('q, 'v, 'k, 'x) generatorLib \<Rightarrow> string \<Rightarrow> 'x \<Rightarrow> (goerr + string) go" where
  "hasRequires L helmdir x =
     (let requires = pathJoin [helmdir, ''requires.yaml'']
      in case gl_Stat L requires x of
           Inl err \<Rightarrow> if IsNotFound err then Ret (Inl err) else Panic ''nil pointer dereference''
         | Inr True \<Rightarrow> Ret (Inl (Errorf ''found Dir, not requires.yaml file''))
         | Inr False \<Rightarrow> Ret (Inr requires))"

definition parseHelmRequires ::
  "('q, 'v, 'k, 'x) generatorLib \<Rightarrow> string \<Rightarrow> Requires \<Rightarrow> 'x \<Rightarrow> goerr + Requires" where
  "parseHelmRequires L fileName helmrequires x =
     (case gl_ReadFile L fileName x of
        Inl err \<Rightarrow> Inl (Errorf (''unable to read file due to: '' @ err_msg err))
      | Inr content \<Rightarrow>
          let c = upTo content YamlSeparator in
          (case gl_Requires L c helmrequires of
             Inl err \<Rightarrow> Inl (Errorf (''unable to parse '' @ fileName @ err_msg err))
           | Inr helmrequires \<Rightarrow>
               (case gl_RequiresStrict L c helmrequires of
                  Inl err \<Rightarrow> Inl (Errorf (''unable to UnmarshalStrict '' @ err_msg err))
                | Inr helmrequires \<Rightarrow> Inr helmrequires)))"

definition validateHelmRequiresNotEmpty :: "Requires \<Rightarrow> goerr option" where
  "validateHelmRequiresNotEmpty helmrequires =
     (if length (rq_Images helmrequires) < 1
      then Some (Errorf ''should use non-empty list of images for requires'') else None)"

definition validateHelmRequiresName :: "Requires \<Rightarrow> goerr option" where
  "validateHelmRequiresName helmrequires =
     (case validateHelmRequiresNotEmpty helmrequires of Some err \<Rightarrow> Some err | None \<Rightarrow> None)"

definition helmRequiresValidations :: "(Requires \<Rightarrow> goerr option) list" where
  "helmRequiresValidations = [validateHelmRequiresName]"

definition validateHelmRequiresContent :: "Requires \<Rightarrow> goerr option" where
  "validateHelmRequiresContent helmrequires = firstError helmRequiresValidations helmrequires"

definition validateHelmRequires :: "('q, 'v, 'k, 'x) generatorLib \<Rightarrow> string \<Rightarrow> 'x \<Rightarrow> goerr + Requires" where
  "validateHelmRequires L fileName x =
     (case parseHelmRequires L fileName zeroRequires x of
        Inl err \<Rightarrow> Inl err
      | Inr helmrequires \<Rightarrow>
          (case validateHelmRequiresContent helmrequires of
             Some err \<Rightarrow> Inl err
           | None \<Rightarrow> Inr helmrequires))"

section \<open>The command\<close>

text \<open>What the requirements of a chart add to the first version of its package; the registry comes
  from the bundle controller later.\<close>

definition applyRequires :: "Requires \<Rightarrow> BundlePackage \<Rightarrow> BundlePackage go" where
  "applyRequires r charts =
     (case src_Versions (bp_Source charts) of
        [] \<Rightarrow> Panic ''index out of range''
      | v # vs \<Rightarrow>
          let v = v\<lparr>sv_Images := map (\<lambda>image. \<lparr>vi_Repository = img_Repository image, vi_Digest = img_Digest image\<rparr>) (rq_Images r)\<rparr>;
              v = (if length (deleteEmptyStringSlice (rq_Dependencies r)) > 0
                   then v\<lparr>sv_Dependencies := rq_Dependencies r\<rparr> else v);
              v = v\<lparr>sv_Schema := rq_Schema r\<rparr>
          in Ret (charts\<lparr>bp_Source := (bp_Source charts)\<lparr>src_Versions := v # vs, src_Registry := []\<rparr>\<rparr>))"

text \<open>One turn of the loop over the packages; an error ends the process.  The directory of the unpacked
  chart, which is removed when the command returns, is part of the result.\<close>

definition fillPackage ::
  "('q, 'v, 'k, 'x) generatorLib \<Rightarrow> string \<Rightarrow> BundlePackage \<Rightarrow> ('x, goerr + BundlePackage \<times> string) gom" where
  "fillPackage L pwd charts =
     (case src_Versions (bp_Source charts) of
        [] \<Rightarrow> panic ''index out of range''
      | v # _ \<Rightarrow>
          let fullURI = src_Registry (bp_Source charts) @ ''/'' @ src_Repository (bp_Source charts) in
          bindM (PullHelmChart L fullURI (sv_Name v)) (\<lambda>r.
          case r of
            Inl err \<Rightarrow> ret (Inl err)
          | Inr chartPath \<Rightarrow>
              (case splitECRName fullURI of
                 Inl err \<Rightarrow> ret (Inl err)
               | Inr (chartName, helmname) \<Rightarrow>
                   bindM (UnTarHelmChart L chartPath chartName (pathJoin [pwd, chartName])) (\<lambda>e.
                   case e of
                     Some err \<Rightarrow> ret (Inl err)
                   | None \<Rightarrow>
                       let helmDest = pathJoin [pwd, chartName, helmname] in
                       bindM (\<lambda>x. (hasRequires L helmDest x, x)) (\<lambda>r.
                       case r of
                         Inl err \<Rightarrow> ret (Inl err)
                       | Inr f \<Rightarrow>
                           bindM (reading (validateHelmRequires L f)) (\<lambda>r.
                           case r of
                             Inl err \<Rightarrow> ret (Inl err)
                           | Inr helmRequires \<Rightarrow>
                               bindM (ofGo (applyRequires helmRequires charts)) (\<lambda>p.
                               ret (Inr (p, helmDest)))))))))"

fun fillPackages ::
  "('q, 'v, 'k, 'x) generatorLib \<Rightarrow> string \<Rightarrow> BundlePackage list \<Rightarrow>
     ('x, goerr + BundlePackage list \<times> string list) gom" where
  "fillPackages L pwd [] = ret (Inr ([], []))"
| "fillPackages L pwd (p # ps) =
     bindM (fillPackage L pwd p) (\<lambda>r.
     case r of
       Inl err \<Rightarrow> ret (Inl err)
     | Inr (p', dest) \<Rightarrow>
         bindM (fillPackages L pwd ps) (\<lambda>r.
         case r of
           Inl err \<Rightarrow> ret (Inl err)
         | Inr (ps', dests) \<Rightarrow> ret (Inr (p' # ps', dest # dests))))"

definition NewAuthFile ::
  "('q, 'v, 'k, 'x) generatorLib \<Rightarrow> (string \<rightharpoonup> string) \<Rightarrow> ('x, goerr + string) gom" where
  "NewAuthFile L dockerstruct =
     (case gl_AuthJson L dockerstruct of
        Inl err \<Rightarrow> ret (Inl (wrapErr ''marshalling docker auth file to json '' err))
      | Inr jsonbytes \<Rightarrow>
          bindM (call (gl_CreateTemp L ''dockerAuth'')) (\<lambda>f.
          case f of
            Inl err \<Rightarrow> ret (Inl (wrapErr ''creating tempfile '' err))
          | Inr name \<Rightarrow> bindM (call (gl_Fprint L name jsonbytes)) (\<lambda>_. ret (Inr name))))"

text \<open>\<^verbatim>\<open>DockerAuthFile.Remove\<close>; the deferred removal's error is not looked at.\<close>

definition authFile_Remove :: "('q, 'v, 'k, 'x) generatorLib \<Rightarrow> string \<Rightarrow> ('x, goerr option) gom" where
  "authFile_Remove L authfile =
     (if authfile = [] then ret (Some (Errorf ''no Authfile in DockerAuthFile given''))
      else bindM (call (gl_Remove L authfile)) (\<lambda>_. ret None))"

definition generatedMetadataFields :: "string list" where
  "generatedMetadataFields =
     [''creationTimestamp'', ''generation'', ''managedFields'', ''uid'', ''resourceVersion'']"

definition serializeBundle :: "('q, 'v, 'k, 'x) generatorLib \<Rightarrow> PackageBundle \<Rightarrow> (goerr + string) go" where
  "serializeBundle L b =
     (case gl_JsonMarshal L b of
        Inl err \<Rightarrow> Ret (Inl err)
      | Inr out \<Rightarrow>
          (case gl_JsonUnmarshal L out of
             Inl err \<Rightarrow> Ret (Inl err)
           | Inr raw \<Rightarrow>
               let raw = raw(''status'' := None) in
               (case raw ''metadata'' of
                  Some (VMap meta) \<Rightarrow>
                    Ret (gl_YamlMarshal L (raw(''metadata'' \<mapsto>
                      VMap (filter (\<lambda>(f, _). f \<notin> set generatedMetadataFields) meta))))
                | _ \<Rightarrow> Panic ''interface conversion'')))"

definition DefaultTmpFolder :: string where "DefaultTmpFolder = ''generated''"

text \<open>\<^verbatim>\<open>NewWriter\<close> and \<^verbatim>\<open>Write\<close>.\<close>

definition NewWriter :: "('q, 'v, 'k, 'x) generatorLib \<Rightarrow> string \<Rightarrow> ('x, goerr option) gom" where
  "NewWriter L dir =
     (let newFolder = pathJoin [dir, DefaultTmpFolder] in
      bindM (reading (gl_Stat L newFolder)) (\<lambda>st.
      case st of
        Inr _ \<Rightarrow> ret None
      | Inl err \<Rightarrow>
          if IsNotFound err
          then bindM (call (gl_MkdirAll L newFolder)) (\<lambda>e.
               ret (map_option (\<lambda>err. Errorf (''error creating directory ['' @ dir @ '']: '' @ err_msg err)) e))
          else ret None))"

definition writer_Write :: "('q, 'v, 'k, 'x) generatorLib \<Rightarrow> string \<Rightarrow> string \<Rightarrow> string \<Rightarrow> ('x, goerr option) gom" where
  "writer_Write L dir fileName content =
     (let filePath = pathJoin [dir, fileName] in
      bindM (call (gl_WriteFile L filePath content)) (\<lambda>e.
      ret (map_option (\<lambda>err. Errorf (''error writing to file ['' @ filePath @ '']: '' @ err_msg err)) e)))"

record Options =
  opt_inputFile :: string
  opt_outputFolder :: string
  opt_key :: string

text \<open>Without an input file the YAML files below the working directory are used; \<open>walked\<close> are the paths
  the walk visits, or its error.\<close>

definition ValidateInput :: "Options \<Rightarrow> goerr + string list \<Rightarrow> goerr + string list" where
  "ValidateInput opts walked =
     (if opt_inputFile opts \<noteq> [] then Inr [opt_inputFile opts]
      else map_sum id (filter (\<lambda>path. HasSuffix path ''.yaml'' \<and> \<not> Contains path ''output/'')) walked)"

definition defaultRegion :: string where "defaultRegion = ''us-west-2''"

definition registryAuth :: "string \<Rightarrow> string \<Rightarrow> (string \<rightharpoonup> string)" where
  "registryAuth accountID authConfig =
     [accountID @ ''.dkr.ecr.'' @ defaultRegion @ ''.amazonaws.com'' \<mapsto> authConfig]"

text \<open>The part of the loop over the files before ECR is asked: the input and the file with the
  credentials for Helm.\<close>

definition prepareFile ::
  "('q, 'v, 'k, 'x) generatorLib \<Rightarrow> (string \<rightharpoonup> string) \<Rightarrow> string \<Rightarrow> ('x, goerr + Input \<times> string) gom" where
  "prepareFile L auth f =
     bindM (reading (ValidateInputConfig L f)) (\<lambda>r.
     case r of
       Inl err \<Rightarrow> ret (Inl err)
     | Inr inputs \<Rightarrow>
         bindM (NewAuthFile L auth) (\<lambda>r.
         case r of
           Inl err \<Rightarrow> ret (Inl err)
         | Inr authfile \<Rightarrow>
             if authfile = [] then ret (Inl (Errorf ''Unable create AuthFile''))
             else bindM (reading (gen_NewHelm L authfile)) (\<lambda>e.
                  case e of
                    Some err \<Rightarrow> ret (Inl err)
                  | None \<Rightarrow> ret (Inr (inputs, authfile)))))"

text \<open>The part after it; the private half of the state is the shared map of annotations.\<close>

definition finishFile ::
  "('q, 'v, 'k, 'x) generatorLib \<Rightarrow> string \<Rightarrow> Options \<Rightarrow> string \<Rightarrow> PackageBundleSpec \<Rightarrow> string \<Rightarrow>
     ((string, string) gomap \<times> 'x, goerr + string list) gom" where
  "finishFile L pwd opts authfile spec name =
     bindM (onWorld (fillPackages L pwd (pbs_Packages spec))) (\<lambda>r.
     case r of
       Inl err \<Rightarrow> ret (Inl err)
     | Inr (pkgs, dests) \<Rightarrow>
         bindM (onWorld (authFile_Remove L authfile)) (\<lambda>e.
         case e of
           Some err \<Rightarrow> ret (Inl err)
         | None \<Rightarrow>
             bindM getPriv (\<lambda>defaults.
             bindM (ofGo (signBundle (gl_sig L) (gl_kmsSign L) defaults (spec\<lparr>pbs_Packages := pkgs\<rparr>) name (opt_key opts))) (\<lambda>r.
             case r of
               Inl err \<Rightarrow> ret (Inl err)
             | Inr b \<Rightarrow>
                 bindM (putPriv (pb_Annotations b)) (\<lambda>_.
                 bindM (ofGo (serializeBundle L b)) (\<lambda>r.
                 case r of
                   Inl err \<Rightarrow> ret (Inl err)
                 | Inr yml \<Rightarrow>
                     let outputDir = pathJoin [pwd, opt_outputFolder opts] in
                     bindM (onWorld (NewWriter L outputDir)) (\<lambda>e.
                     case e of
                       Some err \<Rightarrow> ret (Inl err)
                     | None \<Rightarrow>
                         bindM (onWorld (writer_Write L outputDir ''bundle.yaml'' yml)) (\<lambda>e.
                         case e of
                           Some err \<Rightarrow> ret (Inl err)
                         | None \<Rightarrow> ret (Inr dests)))))))))"

definition generateFile ::
  "('q, 'v, 'k, 'x) generatorLib \<Rightarrow> ecrClient \<Rightarrow> string \<Rightarrow> string \<Rightarrow> Options \<Rightarrow> string \<Rightarrow>
     (string, string) gomap \<times> 'x \<Rightarrow> ((goerr + string list) go \<times> ((string, string) gomap \<times> 'x)) option" where
  "generateFile L ecr accountID pwd opts f w =
     (case onWorld (prepareFile L (registryAuth accountID (ecr_AuthConfig ecr)) f) w of
        (Panic p, w') \<Rightarrow> Some (Panic p, w')
      | (Ret (Inl err), w') \<Rightarrow> Some (Ret (Inl err), w')
      | (Ret (Inr (inputs, authfile)), w') \<Rightarrow>
          (case NewBundleFromInput (ecr_api ecr) (gl_Now L (snd w')) inputs of
             None \<Rightarrow> None
           | Some (Panic p) \<Rightarrow> Some (Panic p, w')
           | Some (Ret (Inl err)) \<Rightarrow> Some (Ret (Inl err), w')
           | Some (Ret (Inr (spec, name))) \<Rightarrow> Some (finishFile L pwd opts authfile spec name w')))"

fun generateFiles ::
  "('q, 'v, 'k, 'x) generatorLib \<Rightarrow> ecrClient \<Rightarrow> string \<Rightarrow> string \<Rightarrow> Options \<Rightarrow> string list \<Rightarrow>
     (string, string) gomap \<times> 'x \<Rightarrow> ((goerr + string list) go \<times> ((string, string) gomap \<times> 'x)) option" where
  "generateFiles L ecr accountID pwd opts [] w = Some (Ret (Inr []), w)"
| "generateFiles L ecr accountID pwd opts (f # files) w =
     (case generateFile L ecr accountID pwd opts f w of
        None \<Rightarrow> None
      | Some (Panic p, w') \<Rightarrow> Some (Panic p, w')
      | Some (Ret (Inl err), w') \<Rightarrow> Some (Ret (Inl err), w')
      | Some (Ret (Inr dests), w') \<Rightarrow>
          map_option (\<lambda>(r, w''). (case r of
              Panic p \<Rightarrow> Panic p
            | Ret (Inl err) \<Rightarrow> Ret (Inl err)
            | Ret (Inr dests') \<Rightarrow> Ret (Inr (dests @ dests')), w''))
          (generateFiles L ecr accountID pwd opts files w'))"

text \<open>The deferred removals run in the reverse order when the command returns; an error in between
  ends the process without them.\<close>

fun removeAll :: "('q, 'v, 'k, 'x) generatorLib \<Rightarrow> string list \<Rightarrow> ('x, unit) gom" where
  "removeAll L [] = ret ()"
| "removeAll L (d # ds) = bindM (call (gl_RemoveAll L d)) (\<lambda>_. removeAll L ds)"

text \<open>\<open>cwd\<close> is the result of \<^verbatim>\<open>os.Getwd\<close>, \<open>awsConfig\<close> the error of \<^verbatim>\<open>config.LoadDefaultConfig\<close>.  An
  error that \<^verbatim>\<open>cmdGenerate\<close> returns and one on which it exits with status 1 itself are the same
  result: \<^verbatim>\<open>main\<close> exits with status 1 on both.\<close>

definition cmdGenerate ::
  "('q, 'v, 'k, 'x) generatorLib \<Rightarrow> ecrApi \<Rightarrow> goerr + string option \<Rightarrow> goerr option \<Rightarrow> goerr + string list \<Rightarrow>
     goerr + string \<Rightarrow> Options \<Rightarrow> 'x \<Rightarrow> (goerr option go \<times> 'x) option" where
  "cmdGenerate L ecr identity awsConfig walked cwd opts x =
     (case cwd of
        Inl err \<Rightarrow> Some (Ret (Some err), x)
      | Inr pwd \<Rightarrow>
     (case ValidateInput opts walked of
        Inl err \<Rightarrow> Some (Ret (Some err), x)
      | Inr files \<Rightarrow>
     (case awsConfig of
        Some err \<Rightarrow> Some (Ret (Some err), x)
      | None \<Rightarrow>
          (case NewECRClient ecr True of
             Panic p \<Rightarrow> Some (Panic p, x)
           | Ret (Inl err) \<Rightarrow> Some (Ret (Some err), x)
           | Ret (Inr client) \<Rightarrow>
               (case NewStsClient identity True of
                  Panic p \<Rightarrow> Some (Panic p, x)
                | Ret (Inl err) \<Rightarrow> Some (Ret (Some err), x)
                | Ret (Inr accountID) \<Rightarrow>
                    map_option (\<lambda>(r, (_, x')). case r of
                        Panic p \<Rightarrow> (Panic p, x')
                      | Ret (Inl err) \<Rightarrow> (Ret (Some err), x')
                      | Ret (Inr dests) \<Rightarrow> bindM (removeAll L (rev dests)) (\<lambda>_. ret None) x')
                    (generateFiles L client accountID pwd opts files (DefaultExcludesAnnotation, x)))))))"

definition cmdGenerateSample :: "('q, 'v, 'k) sigLib \<Rightarrow> (string \<Rightarrow> 'x writes) \<Rightarrow> ('x, goerr option) gom" where
  "cmdGenerateSample S w_Write =
     (case GetDigest S (NewBundleGenerate ''generatesample'') EksaDomain of
        Inl err \<Rightarrow> ret (Some (wrapErr ''generating bundle digest: '' err))
      | Inr (_, yml) \<Rightarrow>
          bindM (call (w_Write yml)) (\<lambda>e. ret (map_option (wrapErr ''writing sample bundle data: '') e)))"

section \<open>The newest image\<close>

text \<open>Images that can be chosen; the media type is looked at only for those that have the rest.\<close>

definition candidate :: "ImageDetail \<Rightarrow> bool" where
  "candidate d \<longleftrightarrow> id_PushedAt d \<noteq> None \<and> id_Digest d \<noteq> None \<and> id_Tags d \<noteq> []"

definition usable :: "ImageDetail \<Rightarrow> bool" where
  "usable d \<longleftrightarrow> candidate d \<and> id_MediaType d = Some ociManifest"

definition pushed :: "ImageDetail \<Rightarrow> int" where
  "pushed d = the (id_PushedAt d)"

lemma latestLoop_newest:
  assumes "\<forall>d\<in>set ds. candidate d \<longrightarrow> id_MediaType d \<noteq> None"
  shows "\<exists>l. latestLoop latest ds = Ret l \<and> pushed latest \<le> pushed l \<and>
    (\<forall>d\<in>set ds. usable d \<longrightarrow> pushed d \<le> pushed l) \<and>
    (l = latest \<or> (l \<in> set ds \<and> usable l \<and> pushed latest < pushed l))"
  using assms
proof (induction ds arbitrary: latest)
  case (Cons d ds)
  then have media: "\<forall>d\<in>set ds. candidate d \<longrightarrow> id_MediaType d \<noteq> None" by simp
  show ?case
  proof (cases "usable d \<and> pushed latest < pushed d")
    case True
    then have "latestLoop latest (d # ds) = latestLoop d ds"
      by (auto simp: usable_def candidate_def pushed_def)
    with Cons.IH [OF media, of d] True show ?thesis by auto
  next
    case False
    with Cons.prems have "latestLoop latest (d # ds) = latestLoop latest ds"
      by (auto simp: usable_def candidate_def pushed_def)
    with Cons.IH [OF media, of latest] False show ?thesis by auto
  qed
qed simp

lemma getLatestImageSha_cases:
  assumes media: "\<forall>d\<in>set ds. candidate d \<longrightarrow> id_MediaType d \<noteq> None"
  obtains (newest) d where "d \<in> set ds" "usable d" "0 < pushed d" "\<forall>d'\<in>set ds. usable d' \<longrightarrow> pushed d' \<le> pushed d"
      "getLatestImageSha ds = Ret (Inr (sourceVersion (hd (id_Tags d)) (the (id_Digest d))))"
    | (none) "\<forall>d\<in>set ds. usable d \<longrightarrow> pushed d \<le> 0" "getLatestImageSha ds = Panic ''index out of range''"
proof -
  let ?z = "zeroDetail\<lparr>id_PushedAt := Some 0\<rparr>"
  have z: "pushed ?z = 0" "?z \<noteq> zeroDetail" "id_Tags ?z = []"
    by (simp_all add: pushed_def zeroDetail_def)
  from latestLoop_newest [OF media, of ?z] obtain l where l: "latestLoop ?z ds = Ret l"
    "\<forall>d\<in>set ds. usable d \<longrightarrow> pushed d \<le> pushed l"
    "l = ?z \<or> (l \<in> set ds \<and> usable l \<and> 0 < pushed l)" unfolding z by blast
  from l(3) show thesis
  proof
    assume "l = ?z"
    with l z none show thesis by (simp add: getLatestImageSha_def)
  next
    assume u: "l \<in> set ds \<and> usable l \<and> 0 < pushed l"
    then obtain t ts d where ts: "id_Tags l = t # ts" "id_Digest l = Some d"
      by (auto simp: usable_def candidate_def neq_Nil_conv)
    moreover from ts have "l \<noteq> zeroDetail" by (auto simp: zeroDetail_def)
    ultimately have "getLatestImageSha ds = Ret (Inr (sourceVersion (hd (id_Tags l)) (the (id_Digest l))))"
      using l(1) by (simp add: getLatestImageSha_def)
    with u l(2) newest show thesis by blast
  qed
qed

text \<open>The versions of a package have distinct names, and the first digest of a name is kept.\<close>

lemma removeDuplicatesFrom_names:
  "distinct (map sv_Name (removeDuplicatesFrom k vs)) \<and>
   set (map sv_Name (removeDuplicatesFrom k vs)) = set (map sv_Name vs) - k"
  by (induction k vs rule: removeDuplicatesFrom.induct) (auto simp: sourceVersion_def)

lemma removeDuplicatesFrom_first:
  assumes "v \<in> set (removeDuplicatesFrom k vs)"
  shows "\<exists>u. find (\<lambda>u. sv_Name u = sv_Name v) vs = Some u \<and> sv_Digest v = sv_Digest u"
  using assms
proof (induction k vs rule: removeDuplicatesFrom.induct)
  case (2 k i s)
  have "sv_Name v \<notin> k"
    using 2(3) removeDuplicatesFrom_names [of k "i # s"] by auto
  with 2 removeDuplicatesFrom_names [of "insert (sv_Name i) k" s] show ?case
    by (auto simp: sourceVersion_def split: if_splits)
qed simp

section \<open>Listing images\<close>

inductive pages :: "ecrApi \<Rightarrow> DescribeImagesInput \<Rightarrow> ImageDetail list \<Rightarrow> bool" for c where
  last_page: "ec_DescribeImages c i = Inr (images, None) \<Longrightarrow> pages c i images"
| next_page: "ec_DescribeImages c i = Inr (images, Some t) \<Longrightarrow> pages c (i\<lparr>di_NextToken := Some t\<rparr>) rest \<Longrightarrow>
    pages c i (images @ rest)"

text \<open>A listing whose tokens end is complete; an error after the first page cuts it short without
  notice.\<close>

lemma Describe_pages: "pages c i images \<Longrightarrow> Describe c i = Some (Inr images)"
  by (induction rule: pages.induct) (simp_all add: Describe.simps)

lemma Describe_cut_short:
  assumes "ec_DescribeImages c i = Inr (images, Some t)"
    and "ec_DescribeImages c (i\<lparr>di_NextToken := Some t\<rparr>) = Inl err"
  shows "Describe c i = Some (Inr images)"
  using assms by (simp add: Describe.simps [of c i] Describe.simps [of c "i\<lparr>di_NextToken := Some t\<rparr>"])

section \<open>Generated names\<close>

definition inputMinor :: "Input \<Rightarrow> string" where
  "inputMinor input = Split (in_KubernetesVersion input) CHR ''.'' ! 1"

lemma lookup_cases:
  obtains (diverges) "r = None" | (panics) p where "r = Some (Panic p)"
    | (fails) e where "r = Some (Ret (Inl e))" | (finds) v where "r = Some (Ret (Inr v))"
  by (metis go.exhaust not_Some_eq sum.exhaust)

lemma NewBundleFromInput_name:
  assumes "NewBundleFromInput c t input = Some (Ret (Inr (spec, name)))"
  shows "name = ''v1-'' @ inputMinor input @ ''-'' @ formatDate t @ ''-'' @ Sprint (clk_Unix t)"
  using assms
  by (cases "packagesFromProjects c (concat (map org_Projects (in_Packages input)))" rule: lookup_cases)
    (auto simp: NewBundleFromInput_def inputMinor_def Let_def split: if_splits)

lemma fourDigits_year: "1000 \<le> y \<Longrightarrow> fourDigits y = natString y"
  by (simp add: fourDigits_def twoDigits_def)

text \<open>Of a generated name the code reads the minor version and the year.\<close>

lemma getMajorMinorBuild_generated:
  assumes "NewBundleFromInput c t input = Some (Ret (Inr (spec, pb_Name b)))"
    and minor: "inputMinor input = natString m" "m < 9223372036854775808"
    and year: "1000 \<le> clk_Year t" "clk_Year t < 9223372036854775808"
  shows "getMajorMinorBuild b = (1, int m, int (clk_Year t), None)"
proof -
  obtain rest where n: "pb_Name b = ''v1'' @ CHR ''-'' # natString m @ CHR ''-'' # natString (clk_Year t) @ CHR ''-'' # rest"
    using NewBundleFromInput_name [OF assms(1)] by (auto simp: minor formatDate_def fourDigits_year [OF year(1)])
  have "Split (pb_Name b) CHR ''-'' = ''v1'' # natString m # natString (clk_Year t) # Split rest CHR ''-''"
    unfolding n by (simp add: Split_append_sep dash_not_digit)
  moreover have "natString 1 = ''1''" by code_simp
  then have "Atoi ''1'' = (1, None)" using Atoi_natString [of 1] by simp
  moreover have "TrimPrefix ''v1'' ''v'' = ''1''" by code_simp
  ultimately show ?thesis
    using Atoi_natString [OF minor(2)] Atoi_natString [OF year(2)] by (simp add: getMajorMinorBuild_def)
qed

section \<open>Signed bundles\<close>

text \<open>What the query of the signature promises, for the fields that the generator excludes and on a
  bundle that is annotated with them: of the annotations it keeps those for includes and excludes, so
  that adding a signature does not change its result.  (On a bundle without annotations it would: the
  signed one has an empty map of annotations left, the unsigned one none.)\<close>

definition ignores_signature :: "('q, 'v, 'k) sigLib \<Rightarrow> bool" where
  "ignores_signature S \<longleftrightarrow>
     (\<forall>excludes q b a s. decodeSelectors S Excludes = Inr excludes \<longrightarrow>
        sl_ParseQuery S (renderQuery (excludes @ AlwaysExcluded) EksaDomain) = Inr q \<longrightarrow>
        pb_Annotations b = Some a \<longrightarrow> a FullExcludesAnnotation = Some Excludes \<longrightarrow>
        sl_Run S q (b\<lparr>pb_Annotations := Some (a(FullSignatureAnnotation \<mapsto> s))\<rparr>) = sl_Run S q b)"

text \<open>The key that KMS signs with belongs to the public key of the code.\<close>

definition key_pair :: "('q, 'v, 'k) sigLib \<Rightarrow> (string \<Rightarrow> string \<Rightarrow> goerr + string) \<Rightarrow> string \<Rightarrow> bool" where
  "key_pair S kmsSign key \<longleftrightarrow>
     (\<exists>der k. b64DecodeString PublicKey = Inr der \<and> sl_ParsePKIX S der = Inr (Some k) \<and>
        (\<forall>digest sig. kmsSign key digest = Inr sig \<longrightarrow> sig \<noteq> [] \<and> sl_VerifyASN1 S k digest sig))"

lemma annotation_names:
  "FullSignatureAnnotation = ''eksa.aws.com/signature''" "FullExcludesAnnotation = ''eksa.aws.com/excludes''"
  "dom_Name EksaDomain = DomainName" "dom_Pubkey EksaDomain = PublicKey"
  by (simp_all add: FullSignatureAnnotation_def FullExcludesAnnotation_def EksaDomain_def)

lemma metadata_signed:
  assumes "pb_Annotations b = Some a"
  shows "GetMetadataInformation S (b\<lparr>pb_Annotations := Some (a(FullSignatureAnnotation \<mapsto> s))\<rparr>) EksaDomain =
    map_sum id (\<lambda>(_, excludes). (s, excludes)) (GetMetadataInformation S b EksaDomain)"
  using assms by (simp add: GetMetadataInformation_def annotation_names mapGetStr_def Let_def split: option.split sum.split)

lemma GetDigest_signed:
  assumes "ignores_signature S" "pb_Annotations b = Some a" "a FullExcludesAnnotation = Some Excludes"
  shows "GetDigest S (b\<lparr>pb_Annotations := Some (a(FullSignatureAnnotation \<mapsto> s))\<rparr>) EksaDomain = GetDigest S b EksaDomain"
proof (cases "GetMetadataInformation S b EksaDomain")
  case (Inr r)
  obtain s0 excludes where r: "r = (s0, excludes)" by (cases r)
  have decode: "decodeSelectors S Excludes = Inr excludes"
    using Inr assms(2,3)
    by (auto simp: r GetMetadataInformation_def annotation_names Let_def split: sum.splits)
  show ?thesis
  proof (cases "sl_ParseQuery S (renderQuery (excludes @ AlwaysExcluded) EksaDomain)")
    case (Inr q)
    with assms decode have "sl_Run S q (b\<lparr>pb_Annotations := Some (a(FullSignatureAnnotation \<mapsto> s))\<rparr>) = sl_Run S q b"
      unfolding ignores_signature_def by blast
    then show ?thesis
      by (simp add: GetDigest_def metadata_signed [OF assms(2)] \<open>GetMetadataInformation S b EksaDomain = Inr r\<close> r Inr)
  qed (simp add: GetDigest_def metadata_signed [OF assms(2)] Inr r)
qed (simp add: GetDigest_def metadata_signed [OF assms(2)])

lemma signBundle_verifies:
  assumes sign: "signBundle S kmsSign (Some a) spec name key = Ret (Inr b)"
    and laws: "ignores_signature S" "key_pair S kmsSign key"
  shows "pb_Name b = name \<and> pb_Spec b = spec \<and> (\<exists>d y. ValidateSignature S b EksaDomain = Ret (Inr (True, d, y)))"
proof -
  let ?b = "(AddMetadata (Some a) spec name)\<lparr>pb_Annotations := Some (a(FullExcludesAnnotation \<mapsto> Excludes))\<rparr>"
  have ann: "pb_Annotations ?b = Some (a(FullExcludesAnnotation \<mapsto> Excludes))" by simp
  from sign obtain d y sig where g: "GetDigest S ?b EksaDomain = Inr (d, y)" "kmsSign key d = Inr sig"
    and b: "b = ?b\<lparr>pb_Annotations := Some ((a(FullExcludesAnnotation \<mapsto> Excludes))(FullSignatureAnnotation \<mapsto> b64EncodeToString sig))\<rparr>"
    by (auto simp: signBundle_def GetBundleSignature_def AddMetadata_def Let_def split: sum.splits)
  from laws(2) g(2) obtain der k where k: "b64DecodeString PublicKey = Inr der" "sl_ParsePKIX S der = Inr (Some k)"
    "sig \<noteq> []" "sl_VerifyASN1 S k d sig" unfolding key_pair_def by blast
  have "GetDigest S b EksaDomain = Inr (d, y)"
    using GetDigest_signed [OF laws(1) ann] g(1) unfolding b by simp
  moreover obtain e excludes where "GetMetadataInformation S ?b EksaDomain = Inr (e, excludes)"
    using g(1) by (auto simp: GetDigest_def split: sum.splits)
  then have "GetMetadataInformation S b EksaDomain = Inr (b64EncodeToString sig, excludes)"
    unfolding b by (simp only: metadata_signed [OF ann] map_sum.simps prod.case)
  moreover have "b64EncodeToString sig \<noteq> []"
    using k(3) b64Encode_nonempty by (metis list.exhaust)
  ultimately have "ValidateSignature S b EksaDomain = Ret (Inr (True, d, y))"
    using k by (simp add: ValidateSignature_def annotation_names)
  then show ?thesis by (simp add: b AddMetadata_def)
qed

text \<open>What a chart's requirements change.\<close>

lemma applyRequires_ok:
  assumes "src_Versions (bp_Source p) = v # vs"
  shows "\<exists>v'. applyRequires r p = Ret (p\<lparr>bp_Source := \<lparr>src_Registry = [],
      src_Repository = src_Repository (bp_Source p), src_Versions = v' # vs\<rparr>\<rparr>) \<and>
    sv_Name v' = sv_Name v \<and> sv_Digest v' = sv_Digest v \<and> sv_Schema v' = rq_Schema r \<and>
    length (sv_Images v') = length (rq_Images r)"
  using assms unfolding applyRequires_def Let_def by (cases "bp_Source p") (auto simp del: length_greater_0_conv)

end
