(* ===== verification/Generator_Main.thy ===== *)
theory Generator_Main
  imports Bundle_Generator
begin

text \<open>
  \<^verbatim>\<open>generatebundlefile/main.go\<close>, \<^verbatim>\<open>options.go\<close> and the rest of \<^verbatim>\<open>filewriter.go\<close>: the command line and
  the exit status of the generator.  The second half shows that a run returns whenever the listings of
  ECR end, and which bundles it can build.
\<close>

section \<open>The command line\<close>

text \<open>The flags as given; the parser is that of \<^verbatim>\<open>flag\<close> with \<^verbatim>\<open>ExitOnError\<close>.\<close>

record givenFlags =
  gf_generateSample :: "bool option"
  gf_input :: "string option"
  gf_output :: "string option"
  gf_key :: "string option"
  gf_bundle :: "string option"

record allOptions =
  ao_generateSample :: bool
  ao_bundleFile :: string
  ao_options :: Options

definition orDefault :: "'a option \<Rightarrow> 'a \<Rightarrow> 'a" where
  "orDefault v d = (case v of None \<Rightarrow> d | Some x \<Rightarrow> x)"

definition NewOptions :: "givenFlags \<Rightarrow> allOptions" where
  "NewOptions fs =
     \<lparr>ao_generateSample = orDefault (gf_generateSample fs) False,
      ao_bundleFile = orDefault (gf_bundle fs) [],
      ao_options = \<lparr>opt_inputFile = orDefault (gf_input fs) [], opt_outputFolder = orDefault (gf_output fs) ''output'',
         opt_key = orDefault (gf_key fs) ''k''\<rparr>\<rparr>"

text \<open>\<open>openFile\<close> opens a file for writing, and creates it where there is none; \<open>overwrite\<close> writes at its
  start.  The result is the exit status.\<close>

definition generator_main ::
  "('q, 'v, 'k, 'x) generatorLib \<Rightarrow> ecrApi \<Rightarrow> goerr + string option \<Rightarrow> goerr option \<Rightarrow> goerr + string list \<Rightarrow>
     goerr + string \<Rightarrow> (string \<Rightarrow> 'x writes) \<Rightarrow> (string \<Rightarrow> string \<Rightarrow> 'x writes) \<Rightarrow> allOptions \<Rightarrow> 'x \<Rightarrow> (int go \<times> 'x) option" where
  "generator_main L ecr identity awsConfig walked cwd openFile overwrite opts x =
     (if ao_generateSample opts then
        let outputFilename = pathJoin [opt_outputFolder (ao_options opts), ''bundle.yaml''] in
        Some (bindM (call (openFile outputFilename)) (\<lambda>e.
              case e of
                Some err \<Rightarrow> ret 1
              | None \<Rightarrow>
                  bindM (cmdGenerateSample (gl_sig L) (overwrite outputFilename)) (\<lambda>e.
                  ret (if e \<noteq> None then 1 else 0))) x)
      else
        map_option (\<lambda>(r, x'). (case r of
            Panic p \<Rightarrow> Panic p
          | Ret e \<Rightarrow> Ret (if e \<noteq> None then 1 else 0), x'))
        (cmdGenerate L ecr identity awsConfig walked cwd (ao_options opts) x))"

section \<open>File writer\<close>

text \<open>The other functions of the writer, whose only field is its directory.\<close>

record GeneratorFileOptions =
  gfo_Permissions :: nat

definition gen_defaultFileOptions :: GeneratorFileOptions where
  "gen_defaultFileOptions = \<lparr>gfo_Permissions = 511\<rparr>"

definition gen_PersistentFile :: "GeneratorFileOptions \<Rightarrow> GeneratorFileOptions" where
  "gen_PersistentFile op' = op'\<lparr>gfo_Permissions := 511\<rparr>"

definition writer_WithDir :: "('q, 'v, 'k, 'x) generatorLib \<Rightarrow> string \<Rightarrow> string \<Rightarrow> ('x, goerr option) gom" where
  "writer_WithDir L dir sub = NewWriter L (pathJoin [dir, sub])"

definition writer_CleanUp :: "('q, 'v, 'k, 'x) generatorLib \<Rightarrow> string \<Rightarrow> ('x, unit) gom" where
  "writer_CleanUp L dir =
     bindM (reading (gl_Stat L dir)) (\<lambda>st.
     case st of
       Inl _ \<Rightarrow> ret ()
     | Inr _ \<Rightarrow> bindM (call (gl_RemoveAll L dir)) (\<lambda>_. ret ()))"

text \<open>The separator comes first, and the resources follow without any between them.\<close>

definition ConcatYamlResources :: "string \<Rightarrow> string list \<Rightarrow> string" where
  "ConcatYamlResources separator resources = separator @ concat resources"

section \<open>Listings that end\<close>

inductive listingEnds :: "ecrApi \<Rightarrow> DescribeImagesInput \<Rightarrow> bool" for c where
  refused: "ec_DescribeImages c i = Inl err \<Longrightarrow> listingEnds c i"
| ended: "ec_DescribeImages c i = Inr (images, None) \<Longrightarrow> listingEnds c i"
| more: "ec_DescribeImages c i = Inr (images, Some t) \<Longrightarrow> listingEnds c (i\<lparr>di_NextToken := Some t\<rparr>) \<Longrightarrow>
    listingEnds c i"

lemma Describe_returns: "listingEnds c i \<Longrightarrow> \<exists>r. Describe c i = Some r"
proof (induction rule: listingEnds.induct)
  case (more i images t)
  then show ?case by (subst Describe.simps) auto
qed (subst Describe.simps, simp)+

lemma Describe_ended: "Describe c i = Some r \<Longrightarrow> listingEnds c i"
proof (rule Describe.raw_induct [of "\<lambda>c i r. listingEnds c i"])
  fix f and c :: ecrApi and i r
  assume IH: "\<And>c i r. f c i = Some r \<Longrightarrow> listingEnds c i"
    and step: "(case ec_DescribeImages c i of
        Inl err \<Rightarrow> Some (Inl (describeErr err))
      | Inr (images, nextToken) \<Rightarrow>
          (case nextToken of
             None \<Rightarrow> Some (Inr images)
           | Some t \<Rightarrow>
               Option.bind (f c (i\<lparr>di_NextToken := Some t\<rparr>)) (\<lambda>next.
               Some (Inr (images @ (case next of Inl _ \<Rightarrow> [] | Inr nextdetails \<Rightarrow> nextdetails)))))) = Some r"
  show "listingEnds c i"
  proof (cases "ec_DescribeImages c i")
    case (Inl err)
    then show ?thesis by (rule listingEnds.refused)
  next
    case (Inr page)
    obtain images token where page: "page = (images, token)" by (cases page)
    show ?thesis
    proof (cases token)
      case None
      with Inr page show ?thesis by (simp add: listingEnds.ended)
    next
      case (Some t)
      with step Inr page obtain next' where "f c (i\<lparr>di_NextToken := Some t\<rparr>) = Some next'"
        by (auto simp: bind_eq_Some_conv)
      then have "listingEnds c (i\<lparr>di_NextToken := Some t\<rparr>)" by (rule IH)
      with Inr page Some show ?thesis by (auto intro: listingEnds.more)
    qed
  qed
qed

lemma Describe_terminates: "Describe c i \<noteq> None \<longleftrightarrow> listingEnds c i"
  using Describe_returns Describe_ended by (metis not_None_eq)

text \<open>A token that leads back to itself is followed for ever.\<close>

lemma listing_cycle:
  assumes "\<And>i. di_Repository i = repo \<Longrightarrow> \<exists>images t. ec_DescribeImages c i = Inr (images, Some t)"
  shows "di_Repository i = repo \<Longrightarrow> \<not> listingEnds c i"
proof
  assume "listingEnds c i" and "di_Repository i = repo"
  then show False
    by (induction rule: listingEnds.induct) (use assms in \<open>force+\<close>)
qed

text \<open>The listings of a project.\<close>

definition projectEnds :: "ecrApi \<Rightarrow> Project \<Rightarrow> bool" where
  "projectEnds c project \<longleftrightarrow>
     (\<forall>ids. listingEnds c \<lparr>di_Repository = pr_Repository project, di_ImageIds = ids, di_NextToken = None\<rparr>)"

lemma bind_Some_None: "Option.bind m (\<lambda>r. Some (g r)) = None \<longleftrightarrow> m = None"
  by (cases m) simp_all

lemma shaForTag_returns:
  assumes "\<And>ids. listingEnds c \<lparr>di_Repository = repository, di_ImageIds = ids, di_NextToken = None\<rparr>"
  shows "shaForTag c repository name \<noteq> None"
proof -
  have "Describe c \<lparr>di_Repository = repository, di_ImageIds = ids, di_NextToken = None\<rparr> \<noteq> None" for ids
    using assms Describe_terminates by blast
  then show ?thesis by (simp add: shaForTag_def latestOf_def bind_Some_None del: not_None_eq)
qed

lemma shaForTags_returns:
  assumes "\<And>ids. listingEnds c \<lparr>di_Repository = repository, di_ImageIds = ids, di_NextToken = None\<rparr>"
  shows "shaForTags c repository tags \<noteq> None"
proof (induction tags)
  case (Cons tag tags)
  obtain r where "shaForTag c repository (tag_Name tag) = Some r"
    using shaForTag_returns [OF assms] by blast
  with Cons show ?case by (cases r) (auto split: sum.split)
qed simp

lemma packagesFromProjects_returns:
  "\<forall>p\<in>set projects. projectEnds c p \<Longrightarrow> packagesFromProjects c projects \<noteq> None"
proof (induction projects)
  case (Cons p projects)
  have "NewPackageFromInput c p \<noteq> None"
    using shaForTags_returns [of c "pr_Repository p" "pr_Versions p"] Cons.prems
    by (auto simp: NewPackageFromInput_def GetShaForInputs_def projectEnds_def)
  then obtain r where "NewPackageFromInput c p = Some r" by blast
  with Cons show ?case by (cases r) (auto split: sum.split)
qed simp

lemma NewBundleFromInput_returns:
  assumes "\<forall>p\<in>set (concat (map org_Projects (in_Packages input))). projectEnds c p"
  shows "NewBundleFromInput c t input \<noteq> None"
  using packagesFromProjects_returns [OF assms] by (auto simp: NewBundleFromInput_def Let_def)

section \<open>The bundles a run can build\<close>

text \<open>A version stands for an OCI manifest that ECR lists for the repository; it carries no schema and no
  images, since these are filled in from the chart.\<close>

definition listedVersion :: "ecrApi \<Rightarrow> string \<Rightarrow> SourceVersion \<Rightarrow> bool" where
  "listedVersion c repository v \<longleftrightarrow>
     v = sourceVersion (sv_Name v) (sv_Digest v) \<and>
     (\<exists>ids images d. Describe c \<lparr>di_Repository = repository, di_ImageIds = ids, di_NextToken = None\<rparr> =
        Some (Inr images) \<and> d \<in> set images \<and> id_Digest d = Some (sv_Digest v) \<and> id_Tags d \<noteq> [] \<and>
        id_MediaType d = Some ociManifest)"

definition packageOf :: "ecrApi \<Rightarrow> Project \<Rightarrow> BundlePackage \<Rightarrow> bool" where
  "packageOf c project pkg \<longleftrightarrow>
     bp_Name pkg = pr_Name project \<and> bp_WorkloadOnly pkg = pr_WorkloadOnly project \<and>
     src_Registry (bp_Source pkg) = pr_Registry project \<and>
     src_Repository (bp_Source pkg) = pr_Repository project \<and>
     Contains (pr_Registry project) ''amazonaws.com'' \<and>
     src_Versions (bp_Source pkg) \<noteq> [] \<and> distinct (map sv_Name (src_Versions (bp_Source pkg))) \<and>
     (\<forall>v\<in>set (src_Versions (bp_Source pkg)). listedVersion c (pr_Repository project) v)"

lemma sourceVersion_simps [simp]:
  "sv_Name (sourceVersion n d) = n" "sv_Digest (sourceVersion n d) = d"
  by (simp_all add: sourceVersion_def)

lemma listedVersion_intro:
  assumes "Describe c \<lparr>di_Repository = repository, di_ImageIds = ids, di_NextToken = None\<rparr> = Some (Inr images)"
    and "d \<in> set images" "id_Digest d = Some digest" "id_Tags d \<noteq> []" "id_MediaType d = Some ociManifest"
  shows "listedVersion c repository (sourceVersion name digest)"
  using assms by (auto simp: listedVersion_def)

lemma latestLoop_choice: "latestLoop latest ds = Ret l \<Longrightarrow> l = latest \<or> (l \<in> set ds \<and> usable l)"
  by (induction latest ds rule: latestLoop.induct)
    (auto simp: usable_def candidate_def split: if_splits option.splits)

lemma getLatestImageSha_choice:
  assumes "getLatestImageSha ds = Ret (Inr sha)"
  shows "\<exists>d\<in>set ds. usable d \<and> sha = sourceVersion (hd (id_Tags d)) (the (id_Digest d))"
proof -
  from assms obtain l where l: "latestLoop (zeroDetail\<lparr>id_PushedAt := Some 0\<rparr>) ds = Ret l" "id_Tags l \<noteq> []"
    "sha = sourceVersion (hd (id_Tags l)) (the (id_Digest l))"
    by (auto simp: getLatestImageSha_def split: go.splits if_splits list.splits option.splits)
  from latestLoop_choice [OF l(1)] l(2,3) show ?thesis by (auto simp: zeroDetail_def)
qed

lemma ImageTagFilter_subset: "set (ImageTagFilter ds version) \<subseteq> set ds"
  by (auto simp: ImageTagFilter_def)

lemma Describe_cases:
  obtains (diverges) "r = None" | (fails) e where "r = Some (Inl e)" | (lists) images where "r = Some (Inr images)"
  by (metis not_Some_eq sum.exhaust)

lemma go_sum_cases:
  obtains (panics) p where "r = Panic p" | (fails) e where "r = Ret (Inl e)" | (finds) v where "r = Ret (Inr v)"
  by (metis go.exhaust sum.exhaust)

lemma latestOf_listed:
  assumes "latestOf c repository version = Some (Ret (Inr vs))" and "v \<in> set vs"
  shows "listedVersion c repository v"
proof -
  let ?r = "Describe c \<lparr>di_Repository = repository, di_ImageIds = [], di_NextToken = None\<rparr>"
  from assms obtain images where images: "?r = Some (Inr images)"
    by (cases ?r rule: Describe_cases) (auto simp: latestOf_def)
  with assms have sha: "getLatestImageSha (ImageTagFilter images version) = Ret (Inr v)"
    by (cases "getLatestImageSha (ImageTagFilter images version)" rule: go_sum_cases) (auto simp: latestOf_def)
  from getLatestImageSha_choice [OF sha] ImageTagFilter_subset [of images version] obtain d where
      "d \<in> set images" "usable d" "v = sourceVersion (hd (id_Tags d)) (the (id_Digest d))" by blast
  with images show ?thesis by (auto intro: listedVersion_intro simp: usable_def candidate_def)
qed

lemma taggedVersions_listed:
  assumes "taggedVersions name ds = Ret vs" and "v \<in> set vs"
  shows "\<exists>d\<in>set ds. id_Digest d = Some (sv_Digest v) \<and> id_Tags d \<noteq> [] \<and> id_MediaType d = Some ociManifest \<and>
    v = sourceVersion name (sv_Digest v)"
  using assms
proof (induction name ds arbitrary: vs rule: taggedVersions.induct)
  case (2 name d ds)
  then obtain mt where mt: "id_MediaType d = Some mt" by (auto split: option.splits)
  show ?case
  proof (cases "mt \<noteq> ociManifest \<or> id_Tags d = []")
    case True
    with 2(1) [OF mt True] 2(3,4) mt show ?thesis by auto
  next
    case False
    with 2(3) mt obtain digest ws where dig: "id_Digest d = Some digest" and ws: "taggedVersions name ds = Ret ws"
      and vs: "vs = sourceVersion name digest # ws" by (auto split: option.splits go.splits)
    with 2(2) [OF mt False dig ws] 2(4) False mt show ?thesis by auto
  qed
qed simp

lemma shaForTag_listed:
  assumes "shaForTag c repository name = Some (Ret (Inr vs))" and "v \<in> set vs"
  shows "listedVersion c repository v"
proof (cases "HasSuffix name ''latest''")
  case True
  with assms show ?thesis by (auto simp: shaForTag_def split: if_splits dest: latestOf_listed)
next
  case False
  let ?r = "Describe c \<lparr>di_Repository = repository, di_ImageIds = [ByTag name], di_NextToken = None\<rparr>"
  from assms(1) False obtain images where images: "?r = Some (Inr images)"
    by (cases ?r rule: Describe_cases) (auto simp: shaForTag_def)
  with assms(1) False have tagged: "taggedVersions name images = Ret vs"
    by (cases "taggedVersions name images") (auto simp: shaForTag_def)
  from taggedVersions_listed [OF tagged assms(2)] obtain d where d: "d \<in> set images"
    "id_Digest d = Some (sv_Digest v)" "id_Tags d \<noteq> []" "id_MediaType d = Some ociManifest"
    and v: "v = sourceVersion name (sv_Digest v)" by blast
  from listedVersion_intro [OF images d] v show ?thesis by metis
qed

lemma shaForTags_listed:
  "shaForTags c repository tags = Some (Ret (Inr vs)) \<Longrightarrow> v \<in> set vs \<Longrightarrow> listedVersion c repository v"
proof (induction tags arbitrary: vs)
  case (Cons tag tags)
  from Cons.prems(1) obtain ws us where parts: "shaForTag c repository (tag_Name tag) = Some (Ret (Inr ws))"
    "shaForTags c repository tags = Some (Ret (Inr us))" "vs = ws @ us"
    by (cases "shaForTag c repository (tag_Name tag)" rule: lookup_cases;
        cases "shaForTags c repository tags" rule: lookup_cases) auto
  with Cons.IH Cons.prems(2) shaForTag_listed show ?case by auto
qed simp

lemma removeDuplicatesFrom_listed:
  "\<forall>v\<in>set vs. listedVersion c repository v \<Longrightarrow> v \<in> set (removeDuplicatesFrom k vs) \<Longrightarrow> listedVersion c repository v"
proof (induction k vs rule: removeDuplicatesFrom.induct)
  case (2 k i s)
  have "sourceVersion (sv_Name i) (sv_Digest i) = i" using 2(3) by (simp add: listedVersion_def)
  with 2 show ?case by (auto split: if_splits)
qed simp

lemma NewPackageFromInput_package:
  assumes "NewPackageFromInput c project = Some (Ret (Inr pkg))"
  shows "packageOf c project pkg"
proof -
  from assms have aws: "Contains (pr_Registry project) ''amazonaws.com''"
    by (rule contrapos_pp) (simp add: NewPackageFromInput_def del: Contains.simps)
  with assms obtain vs where vs: "GetShaForInputs c project = Some (Ret (Inr vs))" "vs \<noteq> []"
    and pkg: "pkg = \<lparr>bp_Name = pr_Name project, bp_Source = \<lparr>src_Registry = pr_Registry project,
      src_Repository = pr_Repository project, src_Versions = vs\<rparr>, bp_WorkloadOnly = pr_WorkloadOnly project\<rparr>"
    by (cases "GetShaForInputs c project" rule: lookup_cases)
      (auto simp: NewPackageFromInput_def simp del: Contains.simps split: if_splits)
  from vs obtain us where us: "shaForTags c (pr_Repository project) (pr_Versions project) = Some (Ret (Inr us))"
    "vs = removeDuplicatesFrom {} us"
    by (cases "shaForTags c (pr_Repository project) (pr_Versions project)" rule: lookup_cases)
      (auto simp: GetShaForInputs_def removeDuplicates_def)
  with shaForTags_listed [OF us(1)] removeDuplicatesFrom_listed [of us c "pr_Repository project" _ "{}"]
  have "\<forall>v\<in>set vs. listedVersion c (pr_Repository project) v" by blast
  with aws vs(2) us(2) pkg removeDuplicatesFrom_names [of "{}" us] show ?thesis
    by (simp add: packageOf_def del: Contains.simps)
qed

lemma packagesFromProjects_packages:
  "packagesFromProjects c projects = Some (Ret (Inr pkgs)) \<Longrightarrow> list_all2 (packageOf c) projects pkgs"
proof (induction projects arbitrary: pkgs)
  case (Cons project projects)
  from Cons.prems obtain pkg rest where "NewPackageFromInput c project = Some (Ret (Inr pkg))"
    "packagesFromProjects c projects = Some (Ret (Inr rest))" "pkgs = pkg # rest"
    by (cases "NewPackageFromInput c project" rule: lookup_cases;
        cases "packagesFromProjects c projects" rule: lookup_cases) auto
  with Cons.IH NewPackageFromInput_package show ?case by auto
qed simp

lemma NewBundleFromInput_packages:
  assumes "NewBundleFromInput c t input = Some (Ret (Inr (spec, name)))"
  shows "list_all2 (packageOf c) (concat (map org_Projects (in_Packages input))) (pbs_Packages spec) \<and>
    pbs_MinVersion spec = in_MinVersion input"
proof -
  let ?r = "packagesFromProjects c (concat (map org_Projects (in_Packages input)))"
  from assms obtain pkgs where "?r = Some (Ret (Inr pkgs))"
    and "spec = \<lparr>pbs_Packages = pkgs, pbs_MinVersion = in_MinVersion input\<rparr>"
    by (cases ?r rule: lookup_cases) (auto simp: NewBundleFromInput_def Let_def split: if_splits)
  with packagesFromProjects_packages show ?thesis by auto
qed

end
