(* ===== verification/File_Reader.thy ===== *)
theory File_Reader
  imports Prelude
begin

text \<open>
  \<^verbatim>\<open>pkg/file\<close>: reading the resource of one kind from a file of several YAML documents, which the
  signature tooling and the tests use.  The YAML decoder and the two accessors of a resource for its
  kind are parameters; a decoder fills the resource it is given.
\<close>

section \<open>Definitions\<close>

definition yamlSeparator :: string where
  "yamlSeparator = [CHR 0x0A] @ ''---'' @ [CHR 0x0A]"

record 'c KindAccessor =
  ka_MetaKind :: "'c \<Rightarrow> string"
  ka_ExpectedKind :: "'c \<Rightarrow> string"
  ka_Unmarshal :: "string \<Rightarrow> 'c \<Rightarrow> goerr + 'c"
  ka_UnmarshalStrict :: "string \<Rightarrow> 'c \<Rightarrow> goerr + 'c"

record FileReader =
  fr_fileName :: string
  fr_clusterConfigs :: "string \<rightharpoonup> string"

definition NewFileReader :: "string \<Rightarrow> FileReader" where
  "NewFileReader fileName = \<lparr>fr_fileName = fileName, fr_clusterConfigs = Map.empty\<rparr>"

definition sliceYAML :: "(string \<Rightarrow> goerr + string) \<Rightarrow> FileReader \<Rightarrow> goerr + string list" where
  "sliceYAML readFile reader =
     (case readFile (fr_fileName reader) of
        Inl err \<Rightarrow> Inl err
      | Inr content \<Rightarrow> Inr (SplitOn content yamlSeparator))"

text \<open>One resource is filled by all documents in turn.\<close>

fun initializeLoop ::
  "'c KindAccessor \<Rightarrow> string list \<Rightarrow> FileReader \<Rightarrow> 'c \<Rightarrow> goerr option \<times> FileReader \<times> 'c" where
  "initializeLoop K [] reader clusterConfig = (None, reader, clusterConfig)"
| "initializeLoop K (config # yamls) reader clusterConfig =
     (case ka_Unmarshal K config clusterConfig of
        Inl err \<Rightarrow>
          (Some (Errorf (''error parsing <'' @ fr_fileName reader @ ''>:'' @ [CHR 0x0A] @ config)), reader, clusterConfig)
      | Inr clusterConfig \<Rightarrow>
          initializeLoop K yamls
            (reader\<lparr>fr_clusterConfigs := (fr_clusterConfigs reader)(ka_MetaKind K clusterConfig \<mapsto> config)\<rparr>)
            clusterConfig)"

definition fr_Initialize ::
  "(string \<Rightarrow> goerr + string) \<Rightarrow> 'c KindAccessor \<Rightarrow> FileReader \<Rightarrow> 'c \<Rightarrow> goerr option \<times> FileReader \<times> 'c" where
  "fr_Initialize readFile K reader clusterConfig =
     (case sliceYAML readFile reader of
        Inl err \<Rightarrow>
          (Some (Errorf (''reading <'' @ fr_fileName reader @ ''>: '' @ err_msg err)), reader, clusterConfig)
      | Inr yamls \<Rightarrow> initializeLoop K yamls reader clusterConfig)"

definition ParseByteSlice :: "'c KindAccessor \<Rightarrow> string \<Rightarrow> 'c \<Rightarrow> goerr + 'c" where
  "ParseByteSlice K data clusterConfig = ka_UnmarshalStrict K data clusterConfig"

definition fr_Parse :: "'c KindAccessor \<Rightarrow> FileReader \<Rightarrow> 'c \<Rightarrow> goerr + 'c" where
  "fr_Parse K reader clusterConfig =
     (case fr_clusterConfigs reader (ka_ExpectedKind K clusterConfig) of
        Some v \<Rightarrow> ParseByteSlice K v clusterConfig
      | None \<Rightarrow> Inl (Errorf (''could not find <'' @ ka_ExpectedKind K clusterConfig @
                       ''> in cluster configuration '' @ fr_fileName reader)))"

section \<open>The generic map\<close>

text \<open>\<^verbatim>\<open>utils.Map\<close>: a slice of zero values that the loop fills by index.\<close>

fun mapLoop :: "('t \<Rightarrow> 'o) \<Rightarrow> nat \<Rightarrow> 't list \<Rightarrow> 'o list \<Rightarrow> 'o list" where
  "mapLoop mapper i [] out = out"
| "mapLoop mapper i (v # vs) out = mapLoop mapper (Suc i) vs (out[i := mapper v])"

definition utils_Map :: "'o \<Rightarrow> 't list \<Rightarrow> ('t \<Rightarrow> 'o) \<Rightarrow> 'o list" where
  "utils_Map zero xs mapper = mapLoop mapper 0 xs (replicate (length xs) zero)"

section \<open>Facts\<close>

text \<open>The documents are the file without the separators, and what the reader stores are documents of
  the file.\<close>

lemma sliceYAML_joins: "sliceYAML readFile reader = Inr yamls \<Longrightarrow> readFile (fr_fileName reader) = Inr (Join yamls yamlSeparator)"
  by (auto simp: sliceYAML_def Join_SplitOn split: sum.splits)

lemma initializeLoop_stores:
  "initializeLoop K yamls reader c = (None, reader', c') \<Longrightarrow> fr_fileName reader' = fr_fileName reader \<and>
     ran (fr_clusterConfigs reader') \<subseteq> ran (fr_clusterConfigs reader) \<union> set yamls"
proof (induction K yamls reader c rule: initializeLoop.induct)
  case (2 K config yamls reader c)
  then show ?case
    by (fastforce split: sum.splits simp: ran_def split: if_splits)
qed simp

lemma mapLoop_fills:
  "length out = i + length vs \<Longrightarrow> mapLoop mapper i vs out = take i out @ map mapper vs"
proof (induction mapper i vs out rule: mapLoop.induct)
  case (2 mapper i v vs out)
  then have "i < length out" by simp
  then have "take (Suc i) (out[i := mapper v]) = take i out @ [mapper v]"
    by (simp add: take_Suc_conv_app_nth)
  with 2 show ?case by simp
qed simp

lemma utils_Map_map: "utils_Map zero xs mapper = map mapper xs"
  by (simp add: utils_Map_def mapLoop_fills)

end
