(* ===== verification/Tools_Scenario.thy ===== *)
theory Tools_Scenario
  imports Credential_Provider Generator_Main File_Reader Scenario
begin

text \<open>
  A node and an ECR registry in memory, on which the properties of the credential provider package and
  of the bundle generator are evaluated.
\<close>

section \<open>A node\<close>

text \<open>A world is the content of the files.\<close>

definition memNode :: "(string \<rightharpoonup> string) osLib" where
  "memNode =
     \<lparr>os_Getenv = (\<lambda>_ _. []),
      os_Stat = (\<lambda>p x. case x p of None \<Rightarrow> Some missing | Some _ \<Rightarrow> None),
      os_ReadFile = (\<lambda>p x. case x p of None \<Rightarrow> Inl missing | Some s \<Rightarrow> Inr s),
      os_WriteFile = (\<lambda>p s _ x. (None, x(p \<mapsto> s))),
      os_Open = (\<lambda>_ _. None),
      os_Create = (\<lambda>p x. (None, x(p \<mapsto> []))),
      io_Copy = (\<lambda>d s x. (None, x(d := x s))),
      os_Close = (\<lambda>_ x. (None, x)),
      os_Chmod = (\<lambda>_ _ x. (None, x)),
      ps_Processes = (\<lambda>_. Inr [\<lparr>proc_Pid = 7, proc_Executable = ''kubelet''\<rparr>]),
      sys_Kill = (\<lambda>_ _ x. (None, x)),
      semver_Compare = (\<lambda>_ _. 0)\<rparr>"

lemma memNode_files: "node_files memNode" "node_accepts memNode"
  by (auto simp: node_files_def node_accepts_def memNode_def)

lemma mountedExtraArgs_apart: "mountedExtraArgs \<notin> outFiles NewLinuxConfigurator"
  by (simp add: outFiles_def NewLinuxConfigurator_def mountedExtraArgs_def basePath_def)

section \<open>A registry\<close>

definition memImage :: "int \<Rightarrow> string \<Rightarrow> ImageDetail" where
  "memImage t tag = \<lparr>id_PushedAt = Some t, id_Digest = Some (''sha256:'' @ tag), id_Tags = [tag],
     id_MediaType = Some ociManifest\<rparr>"

definition memEcr :: ecrApi where
  "memEcr = \<lparr>ec_DescribeImages = (\<lambda>i. Inr ([memImage 5 ''1.0''], None)), ec_AuthorizationData = Inr [Some ''token'']\<rparr>"

text \<open>A registry whose pages never end.\<close>

definition cyclicEcr :: ecrApi where
  "cyclicEcr = \<lparr>ec_DescribeImages = (\<lambda>i. Inr ([], Some ''again'')), ec_AuthorizationData = Inr []\<rparr>"

definition memInput :: Input where
  "memInput = \<lparr>in_Packages = [\<lparr>org_Org = ''aws'', org_Projects =
       [\<lparr>pr_Name = ''hello'', pr_Registry = ''1.dkr.ecr.us-west-2.amazonaws.com'', pr_Repository = ''hello'',
         pr_Versions = [\<lparr>tag_Name = ''1.0''\<rparr>], pr_WorkloadOnly = False\<rparr>]\<rparr>],
     in_Name = ''v1-28'', in_KubernetesVersion = ''1.28'', in_MinVersion = []\<rparr>"

definition memSpec :: PackageBundleSpec where
  "memSpec = \<lparr>pbs_Packages = [\<lparr>bp_Name = ''hello'',
       bp_Source = \<lparr>src_Registry = ''1.dkr.ecr.us-west-2.amazonaws.com'', src_Repository = ''hello'',
         src_Versions = [sourceVersion ''1.0'' ''sha256:1.0'']\<rparr>, bp_WorkloadOnly = False\<rparr>], pbs_MinVersion = []\<rparr>"

definition memDay :: "nat \<Rightarrow> clock" where
  "memDay d = \<lparr>clk_Unix = 1700000000 + int d, clk_Year = 2024, clk_Month = 5, clk_Day = d\<rparr>"

definition memName :: "nat \<Rightarrow> string" where
  "memName d = ''v1-28-'' @ formatDate (memDay d) @ ''-'' @ Sprint (clk_Unix (memDay d))"

lemma mem_NewBundle: "NewBundleFromInput memEcr (memDay d) memInput = Some (Ret (Inr (memSpec, memName d)))"
proof -
  have reg: "Contains ''1.dkr.ecr.us-west-2.amazonaws.com'' ''amazonaws.com''" by code_simp
  have "\<not> HasSuffix ''1.0'' ''latest''" by code_simp
  moreover have "Describe memEcr i = Some (Inr [memImage 5 ''1.0''])" for i
    by (rule Describe_pages, rule last_page) (simp add: memEcr_def)
  ultimately have "shaForTag memEcr ''hello'' ''1.0'' = Some (Ret (Inr [sourceVersion ''1.0'' ''sha256:1.0'']))"
    by (simp add: shaForTag_def memImage_def)
  then have "packagesFromProjects memEcr (concat (map org_Projects (in_Packages memInput))) =
      Some (Ret (Inr (pbs_Packages memSpec)))"
    by (simp add: memInput_def memSpec_def NewPackageFromInput_def GetShaForInputs_def reg removeDuplicates_def
        sourceVersion_def del: Contains.simps)
  moreover have "Split ''1.28'' CHR ''.'' = [''1'', ''28'']" by code_simp
  ultimately show ?thesis
    by (simp add: NewBundleFromInput_def memName_def memSpec_def memInput_def)
qed

lemma mem_minor: "inputMinor memInput = natString 28"
  by (simp add: inputMinor_def memInput_def) code_simp

definition memKms :: "string \<Rightarrow> string \<Rightarrow> goerr + string" where
  "memKms key digest = (if digest = [] then Inl missing else Inr digest)"

lemma mem_key_pair: "key_pair memSig memKms key"
proof -
  have "\<not> isl (b64DecodeString PublicKey)" by code_simp
  then obtain der where "b64DecodeString PublicKey = Inr der"
    by (cases "b64DecodeString PublicKey") auto
  then show ?thesis by (auto simp: key_pair_def memSig_def memKms_def)
qed

lemma mem_ignores: "ignores_signature memSig"
  by (simp add: ignores_signature_def memSig_def)

lemma mem_signBundle:
  "\<exists>b. signBundle memSig memKms DefaultExcludesAnnotation memSpec (memName d) ''k'' = Ret (Inr b)"
proof -
  let ?b = "(AddMetadata DefaultExcludesAnnotation memSpec (memName d))\<lparr>pb_Annotations :=
    Some [FullExcludesAnnotation \<mapsto> Excludes]\<rparr>"
  have "\<not> isl (b64DecodeString Excludes)" by code_simp
  then obtain ss where "b64DecodeString Excludes = Inr ss"
    by (cases "b64DecodeString Excludes") auto
  then have "decodeSelectors memSig Excludes = Inr (filter_nonempty (Split ss CHR 0x0A))"
    using checkSelectors_None [of "\<lambda>_. Inr True"] by (simp add: decodeSelectors_def memSig_def Let_def)
  then have "GetMetadataInformation memSig ?b EksaDomain = Inr ([], filter_nonempty (Split ss CHR 0x0A))"
    by (simp add: GetMetadataInformation_def annotation_names mapGetStr_def Let_def)
  then have "GetDigest memSig ?b EksaDomain = Inr (memName d, memName d)"
    by (simp add: GetDigest_def memSig_def AddMetadata_def)
  then show ?thesis
    by (simp add: signBundle_def GetBundleSignature_def memKms_def memName_def DefaultExcludesAnnotation_def
        AddMetadata_def Let_def)
qed

end
