(* ===== verification/File_Writer.thy ===== *)
theory File_Writer
  imports Kube
begin

text \<open>
  \<^verbatim>\<open>credentialproviderpackage/pkg/filewriter\<close> and \<^verbatim>\<open>credentialproviderpackage/pkg/templater\<close>: a writer
  of files below a directory and its temporary directory, and the helpers that render templates and
  YAML into them.  The file system, the template engine and the YAML encoder are parameters.
\<close>

section \<open>File writer\<close>

record 'x fileLib =
  fl_Stat :: "string \<Rightarrow> 'x \<Rightarrow> goerr option"
  fl_MkdirAll :: "string \<Rightarrow> nat \<Rightarrow> 'x writes"
  fl_WriteFile :: "string \<Rightarrow> string \<Rightarrow> nat \<Rightarrow> 'x writes"
  fl_RemoveAll :: "string \<Rightarrow> 'x writes"
  fl_OpenFile :: "string \<Rightarrow> nat \<Rightarrow> 'x \<Rightarrow> (goerr + string) \<times> 'x"

record FileOptions =
  fo_IsTemp :: bool
  fo_Permissions :: nat

type_synonym FileOptionsFunc = "FileOptions \<Rightarrow> FileOptions"

definition ModePerm :: nat where "ModePerm = 511"
definition fwTmpFolder :: string where "fwTmpFolder = ''generated''"

definition defaultFileOptions :: FileOptions where
  "defaultFileOptions = \<lparr>fo_IsTemp = True, fo_Permissions = ModePerm\<rparr>"

definition Permission0600 :: FileOptionsFunc where
  "Permission0600 op' = op'\<lparr>fo_Permissions := 384\<rparr>"

definition PersistentFile :: FileOptionsFunc where
  "PersistentFile op' = op'\<lparr>fo_IsTemp := False\<rparr>"

record fileWriter =
  fw_dir :: string
  fw_tempDir :: string

definition fw_NewWriter :: "'x fileLib \<Rightarrow> string \<Rightarrow> ('x, goerr + fileWriter) gom" where
  "fw_NewWriter L dir =
     (let newFolder = pathJoin [dir, fwTmpFolder];
          w = \<lparr>fw_dir = dir, fw_tempDir = newFolder\<rparr> in
      bindM (reading (fl_Stat L newFolder)) (\<lambda>st.
      case st of
        None \<Rightarrow> ret (Inr w)
      | Some err \<Rightarrow>
          if IsNotFound err then
            bindM (call (fl_MkdirAll L newFolder ModePerm)) (\<lambda>e.
            case e of
              Some err \<Rightarrow> ret (Inl (Errorf (''creating directory ['' @ dir @ '']: '' @ err_msg err)))
            | None \<Rightarrow> ret (Inr w))
          else ret (Inr w)))"

record writeOptions =
  wo_BasePath :: string
  wo_Permissions :: nat

definition buildOptions :: "fileWriter \<Rightarrow> FileOptionsFunc list \<Rightarrow> writeOptions" where
  "buildOptions w opts =
     (let op' = fold (\<lambda>fn op'. fn op') opts defaultFileOptions;
          basePath = (if fo_IsTemp op' then fw_tempDir w else fw_dir w)
      in \<lparr>wo_BasePath = basePath, wo_Permissions = fo_Permissions op'\<rparr>)"

definition fw_Write ::
  "'x fileLib \<Rightarrow> fileWriter \<Rightarrow> string \<Rightarrow> string \<Rightarrow> FileOptionsFunc list \<Rightarrow> ('x, goerr + string) gom" where
  "fw_Write L w fileName content opts =
     (let opts' = buildOptions w opts;
          filePath = pathJoin [wo_BasePath opts', fileName] in
      bindM (call (fl_WriteFile L filePath content (wo_Permissions opts'))) (\<lambda>e.
      case e of
        Some err \<Rightarrow> ret (Inl (Errorf (''writing to file ['' @ filePath @ '']: '' @ err_msg err)))
      | None \<Rightarrow> ret (Inr filePath)))"

definition fw_WithDir :: "'x fileLib \<Rightarrow> fileWriter \<Rightarrow> string \<Rightarrow> ('x, goerr + fileWriter) gom" where
  "fw_WithDir L w dir = fw_NewWriter L (pathJoin [fw_dir w, dir])"

definition fw_removeIfThere :: "'x fileLib \<Rightarrow> string \<Rightarrow> ('x, unit) gom" where
  "fw_removeIfThere L dir =
     bindM (reading (fl_Stat L dir)) (\<lambda>e.
     if e = None then bindM (call (fl_RemoveAll L dir)) (\<lambda>_. ret ()) else ret ())"

definition fw_CleanUp :: "'x fileLib \<Rightarrow> fileWriter \<Rightarrow> ('x, unit) gom" where
  "fw_CleanUp L w = fw_removeIfThere L (fw_dir w)"

definition fw_CleanUpTemp :: "'x fileLib \<Rightarrow> fileWriter \<Rightarrow> ('x, unit) gom" where
  "fw_CleanUpTemp L w = fw_removeIfThere L (fw_tempDir w)"

text \<open>The path is returned beside the error.\<close>

definition fw_Create ::
  "'x fileLib \<Rightarrow> fileWriter \<Rightarrow> string \<Rightarrow> FileOptionsFunc list \<Rightarrow> ('x, (goerr + string) \<times> string) gom" where
  "fw_Create L w name opts =
     (let opts' = buildOptions w opts;
          path = pathJoin [wo_BasePath opts', name] in
      bindM (call (fl_OpenFile L path (wo_Permissions opts'))) (\<lambda>fh. ret (fh, path)))"

section \<open>Templates\<close>

text \<open>\<^verbatim>\<open>indent\<close>: the padding before every line.\<close>

definition tpl_indent :: "nat \<Rightarrow> string \<Rightarrow> string" where
  "tpl_indent spaces v =
     (let pad = replicate spaces CHR '' '' in
      pad @ concat (map (\<lambda>c. if c = CHR 0x0A then CHR 0x0A # pad else [c]) v))"

text \<open>The template engine: parsing a text with the two functions of the map, and executing it.\<close>

record ('t, 'd) templateLib =
  tl_Parse :: "(nat \<Rightarrow> string \<Rightarrow> string) \<Rightarrow> (string list \<Rightarrow> string \<Rightarrow> string) \<Rightarrow> string \<Rightarrow> goerr + 't"
  tl_Execute :: "'t \<Rightarrow> 'd \<Rightarrow> goerr + string"

definition tpl_Execute :: "('t, 'd) templateLib \<Rightarrow> string \<Rightarrow> 'd \<Rightarrow> goerr + string" where
  "tpl_Execute T templateContent data =
     (case tl_Parse T tpl_indent Join templateContent of
        Inl err \<Rightarrow> Inl (Errorf (''parsing template: '' @ err_msg err))
      | Inr temp \<Rightarrow>
          (case tl_Execute T temp data of
             Inl err \<Rightarrow> Inl (Errorf (''substituting values for template: '' @ err_msg err))
           | Inr buf \<Rightarrow> Inr buf))"

definition WriteBytesToFile ::
  "'x fileLib \<Rightarrow> fileWriter \<Rightarrow> string \<Rightarrow> string \<Rightarrow> FileOptionsFunc list \<Rightarrow> ('x, goerr + string) gom" where
  "WriteBytesToFile L w content fileName f =
     bindM (fw_Write L w fileName content f) (\<lambda>r.
     case r of
       Inl err \<Rightarrow> ret (Inl (Errorf (''writing template file: '' @ err_msg err)))
     | Inr writtenFilePath \<Rightarrow> ret (Inr writtenFilePath))"

definition WriteToFile ::
  "('t, 'd) templateLib \<Rightarrow> 'x fileLib \<Rightarrow> fileWriter \<Rightarrow> string \<Rightarrow> 'd \<Rightarrow> string \<Rightarrow> FileOptionsFunc list \<Rightarrow>
     ('x, goerr + string) gom" where
  "WriteToFile T L w templateContent data fileName f =
     (case tpl_Execute T templateContent data of
        Inl err \<Rightarrow> ret (Inl err)
      | Inr bytes \<Rightarrow>
          bindM (fw_Write L w fileName bytes f) (\<lambda>r.
          case r of
            Inl err \<Rightarrow> ret (Inl (Errorf (''writing template file: '' @ err_msg err)))
          | Inr writtenFilePath \<Rightarrow> ret (Inr writtenFilePath)))"

section \<open>YAML\<close>

definition objectSeparator :: string where
  "objectSeparator = [CHR 0x0A] @ ''---'' @ [CHR 0x0A]"

definition AppendYamlResources :: "string list \<Rightarrow> string" where
  "AppendYamlResources resources = concat (map (\<lambda>resource. resource @ objectSeparator) resources)"

fun marshalObjects :: "('o \<Rightarrow> goerr + string) \<Rightarrow> 'o list \<Rightarrow> goerr + string list" where
  "marshalObjects marshal [] = Inr []"
| "marshalObjects marshal (obj # objs) =
     (case marshal obj of
        Inl err \<Rightarrow> Inl (Errorf (''failed to marshal object: '' @ err_msg err))
      | Inr b \<Rightarrow> map_sum id ((#) b) (marshalObjects marshal objs))"

definition ObjectsToYaml :: "('o \<Rightarrow> goerr + string) \<Rightarrow> 'o list \<Rightarrow> goerr + string" where
  "ObjectsToYaml marshal objs = map_sum id AppendYamlResources (marshalObjects marshal objs)"

text \<open>A partial YAML document is a map to values of which \<open>None\<close> is nil; \<open>zeroOfType\<close> is
  \<^verbatim>\<open>reflect.Zero(reflect.TypeOf(x))\<close>.\<close>

definition isZeroVal :: "('v \<Rightarrow> 'v) \<Rightarrow> 'v option \<Rightarrow> bool" where
  "isZeroVal zeroOfType x = (case x of None \<Rightarrow> True | Some v \<Rightarrow> v = zeroOfType v)"

definition AddIfNotZero ::
  "('v \<Rightarrow> 'v) \<Rightarrow> (string, 'v option) gomap \<Rightarrow> string \<Rightarrow> 'v option \<Rightarrow> (string, 'v option) gomap go" where
  "AddIfNotZero zeroOfType p k v = (if \<not> isZeroVal zeroOfType v then mapPut p k v else Ret p)"

definition ToYaml :: "((string, 'v) gomap \<Rightarrow> goerr + string) \<Rightarrow> (string, 'v) gomap \<Rightarrow> goerr + string" where
  "ToYaml marshal p = (case marshal p of Inl err \<Rightarrow> Inl err | Inr b \<Rightarrow> Inr b)"

section \<open>Facts\<close>

text \<open>Indenting pads every line and leaves the lines apart.\<close>

lemma indent_rest:
  "Split (u @ concat (map (\<lambda>c. if c = CHR 0x0A then CHR 0x0A # pad else [c]) v)) CHR 0x0A =
     (u @ hd (Split v CHR 0x0A)) # map ((@) pad) (tl (Split v CHR 0x0A))"
  if "CHR 0x0A \<notin> set u" "CHR 0x0A \<notin> set pad" for u
  using that(1)
proof (induction v arbitrary: u)
  case Nil
  then show ?case by (simp add: Split_no_sep)
next
  case (Cons c v)
  show ?case
  proof (cases "c = CHR 0x0A")
    case True
    have "Split (u @ CHR 0x0A # pad @ concat (map (\<lambda>c. if c = CHR 0x0A then CHR 0x0A # pad else [c]) v)) CHR 0x0A =
        u # (pad @ hd (Split v CHR 0x0A)) # map ((@) pad) (tl (Split v CHR 0x0A))"
      using Cons.IH [OF that(2)] Cons.prems by (simp add: Split_append_sep)
    moreover have "map ((@) pad) (Split v CHR 0x0A) = (pad @ hd (Split v CHR 0x0A)) # map ((@) pad) (tl (Split v CHR 0x0A))"
      by (cases "Split v CHR 0x0A") (auto simp: Split_nonempty [THEN notE])
    ultimately show ?thesis using True by simp
  next
    case False
    have "Split (c # v) CHR 0x0A = (c # hd (Split v CHR 0x0A)) # tl (Split v CHR 0x0A)"
      using False by (cases "Split v CHR 0x0A") (auto simp: Split_nonempty [THEN notE])
    then show ?thesis
      using Cons.IH [of "u @ [c]"] Cons.prems False by simp
  qed
qed

lemma tpl_indent_lines:
  "Split (tpl_indent n v) CHR 0x0A = map ((@) (replicate n CHR '' '')) (Split v CHR 0x0A)"
proof -
  have "CHR 0x0A \<notin> set (replicate n CHR '' '')" by simp
  from indent_rest [OF this this, of v] show ?thesis
    unfolding tpl_indent_def Let_def by (cases "Split v CHR 0x0A") (auto simp: Split_nonempty [THEN notE])
qed

text \<open>A file lands below the temporary directory unless it is asked to persist.\<close>

lemma buildOptions_simps:
  "buildOptions w [] = \<lparr>wo_BasePath = fw_tempDir w, wo_Permissions = ModePerm\<rparr>"
  "wo_BasePath (buildOptions w (opts @ [PersistentFile])) = fw_dir w"
  "wo_Permissions (buildOptions w (opts @ [Permission0600])) = 384"
  by (simp_all add: buildOptions_def defaultFileOptions_def PersistentFile_def Permission0600_def Let_def)

definition files_readback :: "'x fileLib \<Rightarrow> (string \<Rightarrow> 'x \<Rightarrow> string option) \<Rightarrow> bool" where
  "files_readback L content \<longleftrightarrow>
     (\<forall>p s m x. fst (fl_WriteFile L p s m x) = None \<longrightarrow> content p (snd (fl_WriteFile L p s m x)) = Some s)"

lemma fw_Write_readback:
  assumes "files_readback L content" "fw_Write L w name s opts x = (Ret (Inr path), x')"
  shows "path = pathJoin [wo_BasePath (buildOptions w opts), name] \<and> content path x' = Some s"
  using assms by (auto simp: fw_Write_def Let_def files_readback_def split: option.splits)

text \<open>The resources are read back from the document that is written for them, as long as none of them
  has a line that starts with the separator.\<close>

lemma marker_free:
  assumes free: "\<not> Contains r ([CHR 0x0A] @ ''---'')"
  shows "upTo (r @ objectSeparator @ t) objectSeparator = r"
  using free
proof (induction r)
  case Nil
  then show ?case by (simp add: objectSeparator_def HasPrefix_def)
next
  case (Cons c r)
  have r: "\<not> Contains r ([CHR 0x0A] @ ''---'')" and pre: "\<not> HasPrefix (c # r) ([CHR 0x0A] @ ''---'')"
    using Cons.prems by auto
  have "\<not> HasPrefix ((c # r) @ objectSeparator @ t) objectSeparator"
    using pre by (cases r; cases "tl r"; cases "tl (tl r)"; cases "tl (tl (tl r))")
      (auto simp: HasPrefix_def objectSeparator_def)
  with Cons.IH [OF r] show ?case by simp
qed

lemma AppendYamlResources_split:
  assumes "\<forall>r\<in>set rs. \<not> Contains r ([CHR 0x0A] @ ''---'')"
  shows "SplitOn (AppendYamlResources rs) objectSeparator = rs @ [[]]"
  using assms
proof (induction rs)
  case Nil
  then show ?case by (simp add: AppendYamlResources_def SplitOn.simps objectSeparator_def)
next
  case (Cons r rs)
  let ?t = "AppendYamlResources rs"
  have s: "AppendYamlResources (r # rs) = r @ objectSeparator @ ?t" by (simp add: AppendYamlResources_def)
  have u: "upTo (r @ objectSeparator @ ?t) objectSeparator = r"
    using Cons.prems by (intro marker_free) simp
  have c: "Contains (r @ objectSeparator @ ?t) objectSeparator" unfolding Contains_iff by blast
  have n: "objectSeparator \<noteq> []" by (simp add: objectSeparator_def)
  show ?case
    unfolding s by (subst SplitOn.simps) (use Cons u c n in simp)
qed

end
