(* ===== verification/Spec2Isabelle.thy ===== *)
theory Spec2Isabelle
  imports System_Scenario Refresher_Scenario Tools_Scenario File_Writer
begin

text \<open>
  A verification development of the EKS Anywhere packages controller (\<^verbatim>\<open>src/\<close>).

  \<^bold>\<open>The program.\<close>  The controller manages three custom resources.  A \<^verbatim>\<open>PackageBundle\<close> lists the packages
  of a release, a \<^verbatim>\<open>PackageBundleController\<close> per cluster says which bundle is active there, and a
  \<^verbatim>\<open>Package\<close> asks for a Helm chart of the active bundle.  Three reconcilers (\<^verbatim>\<open>controllers\<close>) look at one
  resource at a time.  The package reconciler calls the package manager (\<^verbatim>\<open>pkg/packages\<close>), a state
  machine whose actions run a package driver (\<^verbatim>\<open>pkg/driver\<close>), which uses the target cluster client and
  the authenticator (\<^verbatim>\<open>pkg/authenticator\<close>).  The bundle reconcilers call the bundle manager
  (\<^verbatim>\<open>pkg/bundle\<close>), which reads bundles from an OCI registry (\<^verbatim>\<open>pkg/registry\<close>, \<^verbatim>\<open>pkg/artifacts\<close>).
  Admission webhooks (\<^verbatim>\<open>pkg/webhook\<close>) check resources before they are stored, the bundles by a signature
  (\<^verbatim>\<open>pkg/signature\<close>).  Three other programs belong to the system: the token refresher
  (\<^verbatim>\<open>ecrtokenrefresher\<close>), the bundle generator (\<^verbatim>\<open>generatebundlefile\<close>) and the credential provider package
  (\<^verbatim>\<open>credentialproviderpackage\<close>).

  \<^bold>\<open>How Go is read.\<close>  \<open>Prelude\<close> has the monad \<open>gom\<close> of programs that read and write a world and may
  panic, errors as values with the class that \<^verbatim>\<open>errors.Is\<close> sees, maps that may be nil, and the functions of
  \<^verbatim>\<open>strings\<close>, \<^verbatim>\<open>strconv\<close> and \<^verbatim>\<open>path\<close> the sources call; \<open>Base64\<close> has \<^verbatim>\<open>encoding/base64\<close>.  A method with a
  receiver that it changes takes the receiver as state.  Total correctness is \<open>runs\<close>, partial
  correctness \<open>wlp\<close>.  Loops are recursion over the list they range over; all functions are total
  and no fuel is needed.  Only the pages of an image listing may go on for ever, which is the value \<open>None\<close>
  of a partial function.
  Where Go ranges over a map the order is a parameter.

  \<^bold>\<open>Parameters.\<close>  Code outside the repository is a record of functions over a world type: the Kubernetes
  clients and the file system (\<open>Kube\<close>), Helm (\<open>HelmLib\<close> in \<open>Helm_Driver\<close>), the registry library
  (\<open>Registry\<close>), gojq and the cryptography (\<open>Signature\<close>), JSON schemas (\<open>Webhooks\<close>), AWS
  (\<open>refresherLib\<close>, the ECR client of the generator), the manager of controller-runtime (\<open>ctrlManager\<close> in
  \<open>Server\<close>).  What a property needs of them is a named
  hypothesis, such as \<open>cm_readback\<close>, \<open>helm_store\<close>, \<open>releases_apart\<close>, \<open>secret_stores\<close>, \<open>libs_api\<close>; the theories
  \<open>Scenario\<close>, \<open>System_Scenario\<close>, \<open>Refresher_Scenario\<close> and \<open>Tools_Scenario\<close> hold clusters, nodes and
  registries in memory on which all of them are shown to hold and on which the witnesses evaluate the
  model.

  \<^bold>\<open>Theories.\<close>
  \<^item> \<open>Api_Types\<close>, \<open>Bundle_Api\<close>: \<^verbatim>\<open>api/v1alpha1\<close>.  The resources as records, their states, the methods of
    a package and a controller; lookups, bundle versions and their comparison, matching of sources.
  \<^item> \<open>Kube\<close>: the records for the libraries and for the Go interfaces of the repository.
  \<^item> \<open>Csset\<close>: \<^verbatim>\<open>pkg/csset\<close>; a locale states the contract of a set of strings, with the code as its
    interpretation.
  \<^item> \<open>Authenticator_Ecr\<close>, \<open>Target_Cluster\<close>: \<^verbatim>\<open>pkg/authenticator\<close>; each has the contract its callers rely on
    as a locale and its interpretation.
  \<^item> \<open>Registry\<close>: \<^verbatim>\<open>pkg/registry\<close>, \<^verbatim>\<open>pkg/artifacts\<close>: references, certificates, storage, pulls and the
    injectors of certificates and credentials.
  \<^item> \<open>Helm_Driver\<close>: \<^verbatim>\<open>pkg/driver\<close>; the locale of a package driver, and the Helm driver as its
    interpretation for every authenticator and target client that meet their contracts.
  \<^item> \<open>Package_Manager\<close>: \<^verbatim>\<open>pkg/packages\<close>: the handlers and the dispatch, the abstract machine \<open>phase_step\<close>
    with a simulation, runs of a package as an inductive predicate, dependencies, requeue periods.
  \<^item> \<open>Bundle_Client\<close>, \<open>Bundle_Manager\<close>: \<^verbatim>\<open>pkg/bundle\<close>, \<^verbatim>\<open>pkg/config\<close>: the clients, the state of a bundle, and
    the machine \<open>pbc_step\<close> of a bundle controller with a simulation.
  \<^item> \<open>Signature\<close>, \<open>Webhooks\<close>: \<^verbatim>\<open>pkg/signature\<close>, \<^verbatim>\<open>pkg/webhook\<close>: the digest query and admission.
  \<^item> \<open>Controllers\<close>: the three reconcilers, composed of the managers above.
  \<^item> \<open>Token_Refresher\<close>: \<^verbatim>\<open>ecrtokenrefresher\<close>: the two kinds of secrets, their distribution and the main
    program; the relation \<open>delivered\<close> between the worlds before and after a distribution.
  \<^item> \<open>Server\<close>: \<^verbatim>\<open>cmd\<close>, \<^verbatim>\<open>main.go\<close> and the registration functions: how the process is wired, in which order it
    starts and how it ends.
  \<^item> \<open>World_Relation\<close>, \<open>System\<close>: the locale \<open>world_relation\<close> proves once, for any reflexive and transitive
    relation on worlds, that every operation of the controllers moves along it if the libraries do.
    It is interpreted on \<open>evolves\<close>, under which stored packages keep their status or are new.  On that
    stand the transition relation \<open>sysStep\<close> of the running system, its reachable states and its
    histories \<open>sysTrace\<close>.
  \<^item> \<open>Admission_Race\<close>: concurrent requests to the webhook that keeps a target client, as interleavings of
    its two accesses.
  \<^item> \<open>Credential_Provider\<close>: \<^verbatim>\<open>credentialproviderpackage\<close>: the AWS configuration, the Linux and the Bottlerocket
    configurator, and the program that drives them with the loop of its file watcher; the locale of a
    configurator has both as interpretations.
  \<^item> \<open>File_Writer\<close>: the file writer and the templater of the same module; YAML documents that were joined
    split into the same documents.
  \<^item> \<open>Bundle_Generator\<close>, \<open>Generator_Main\<close>: \<^verbatim>\<open>generatebundlefile\<close>: the lookup of images in ECR, names, charts,
    signing and the command; the flags, the exit status, when a run ends and which bundles it builds.
  \<^item> \<open>File_Reader\<close>: \<^verbatim>\<open>pkg/file\<close> and \<^verbatim>\<open>pkg/utils\<close>.
  \<^item> \<open>Scenario\<close>, \<open>System_Scenario\<close>, \<open>Refresher_Scenario\<close>, \<open>Tools_Scenario\<close>: the instances in memory; among
    them a history of the system that installs a package.

  \<^bold>\<open>What is shown.\<close>  Here, after the component theories, stand the properties C1 to C40.
  C1 to C4 are the life of a package, first for one pass of the manager, then for the running system: every
  step follows the abstract machine, an invariant holds in every reachable state, and an installed
  package has gone through the phases before.  C5 to C9 are the guard of dependencies, the exact
  condition of being installed, that three passes install, that an installed package is only read, and
  when a package is looked at again.  C10 to C16 concern namespaces, the driver, the config map of
  namespaces and the target cluster.  C17 to C22 are names, comparisons, references and the two
  injectors.  C23 to C25 are the machine of bundle controllers.  C26 to C28 characterise admission
  exactly, and C29 shows what concurrency does to it.  C30 to C32 are whole reconciliations, C33 is the
  start of the process.  C34 and C35 are the token refresher, C36 is the credential provider on Linux, C37
  to C40 the bundle generator: which image it chooses, which bundles it builds, when it ends, and that
  the bundle webhook admits what it signs.  Between them stand a few more theorems without a number.
  Some properties show what the code does where that is hardly meant: C11, C16, C18, C21, C29, C31, C35,
  the exit status in C33 and the last case of C37.

  \<^bold>\<open>Not modelled.\<close>  Generated deep copies, since values are copied by nature; registration with the
  scheme; mocks; logging and the adapters for log messages; the TLS set-up of the HTTP transport in
  \<^verbatim>\<open>pkg/registry\<close>; the parsers of flags; the wiring of AWS clients.  Time enters as requeue periods
  only.  In \<open>System\<close> each pass of a reconciler is one step: nobody but the package reconciler writes the
  status of a package, so what other controllers do in the middle of its pass can be put before or
  after it as far as the statuses are concerned; each reconciler has private target clients.  Only the
  webhook for bundle controllers shares mutable state between goroutines, and that is \<open>Admission_Race\<close>.
\<close>

section \<open>The life of a package\<close>

text \<open>C1.  One pass of the package manager refines the abstract machine: whatever the driver and the
  client do, if \<^verbatim>\<open>Process\<close> returns, the state moved along an edge of \<open>phase_step\<close>, nothing of the
  package outside its status changed, and a pass that reports no update left the whole status as it
  was, the detail apart.\<close>

theorem Process_refines:
  assumes "Process env mc w = (Ret (b, mc'), w')"
  shows "phase_step (IsValidNamespace (mc_Package mc)) (phase_of (stateOf mc)) (phase_of (stateOf mc')) \<and>
    sameObject (mc_Package mc) (mc_Package mc') \<and>
    (b = False \<longrightarrow> pkg_Status (mc_Package mc') =
       (pkg_Status (mc_Package mc))\<lparr>st_Detail := st_Detail (pkg_Status (mc_Package mc'))\<rparr>)"
  using wlpD [OF Process_goodStep assms] by (simp add: goodStep_def)

theorem Process_refines_witness:
  "\<exists>mc'. Process memManagerEnv memContext (memDriver0, memWorld) = (Ret (True, mc'), (memDriver0, memWorld)) \<and>
     phase_step True Initial (phase_of (stateOf mc')) \<and> phase_of (stateOf mc') = Dependencies \<and>
     sameObject memPackage (mc_Package mc')"
proof -
  obtain mc' where r: "Process memManagerEnv memContext (memDriver0, memWorld) =
      (Ret (True, mc'), (memDriver0, memWorld))" and "stateOf mc' = StateInstallingDependencies"
    using mem_pass_new by blast
  with Process_refines [OF r] show ?thesis by auto
qed

text \<open>Invariant of the runs of a package: from its creation, through any edits of its spec and any
  passes in any worlds, a package in a valid namespace is never in an unknown state, one in another
  namespace is never installed, and an installed package records the version of the source that was
  installed.\<close>

theorem packageRun_invariant:
  assumes "packageRun env p"
  shows "(if IsValidNamespace p
     then phase_of (st_State (pkg_Status p)) \<in> {Initial, Dependencies, Installing, Installed, Updating}
     else phase_of (st_State (pkg_Status p)) \<in> {Initial, Unknown}) \<and>
    (st_State (pkg_Status p) = StateInstalled \<longrightarrow>
       st_CurrentVersion (pkg_Status p) = oci_Version (st_Source (pkg_Status p)))"
  using packageRun_runInv [OF assms] by (auto simp: runInv_def statusInv_def Let_def split: if_splits)

theorem packageRun_invariant_witness:
  "packageRun memManagerEnv memPackage \<and>
     phase_of (st_State (pkg_Status memPackage)) \<in> {Initial, Dependencies, Installing, Installed, Updating}"
proof -
  have r: "packageRun memManagerEnv memPackage"
    by (rule packageRun.created) (simp add: memPackage_def NewPackage_def zero_defs)
  with packageRun_invariant [OF r] show ?thesis by simp
qed

text \<open>C2.  Invariant of the running system.  The parts are those that the registration functions build on
  any libraries that write packages as the API server does.  Through any requests to the three
  reconcilers, ticks of the credential injector, restarts of the process and edits by others, every
  stored package in a valid namespace is inside the life cycle, one in another namespace is never
  installed, and an installed package records the version of the source that was installed.\<close>

theorem system_invariant:
  assumes "libs_api L client" and "inj_k8sClient ci = client"
    and "NewECRSecret (pl_kl L) (Some cfg) = Ret (Inr a)"
    and "sysReachable (registeredParts L semver dcl A ci client cfg a) s"
    and "cl_GetPackage client nn (sys_world s) = Inr p"
  shows "(if IsValidNamespace p
     then phase_of (st_State (pkg_Status p)) \<in> {Initial, Dependencies, Installing, Installed, Updating}
     else phase_of (st_State (pkg_Status p)) \<in> {Initial, Unknown}) \<and>
    (st_State (pkg_Status p) = StateInstalled \<longrightarrow>
       st_CurrentVersion (pkg_Status p) = oci_Version (st_Source (pkg_Status p)))"
proof -
  have "runInv p"
    by (rule sysReachable_runInv [OF registeredParts_api [OF assms(1-3)] assms(4), of nn])
      (simp add: registeredParts_client assms(5))
  then show ?thesis by (auto simp: runInv_def statusInv_def Let_def split: if_splits)
qed

theorem system_invariant_witness:
  "\<exists>s p. sysReachable memParts s \<and> cl_GetPackage memClient memNN (sys_world s) = Inr p \<and>
     phase_of (st_State (pkg_Status p)) = Installed \<and>
     st_CurrentVersion (pkg_Status p) = oci_Version (st_Source (pkg_Status p))"
proof -
  obtain s ss p where tr: "sysTrace memParts (s # ss)" and p: "cl_GetPackage memClient memNN (sys_world s) = Inr p"
    and st: "st_State (pkg_Status p) = StateInstalled"
    using mem_trace by blast
  have r: "sysReachable memParts s" using sysTrace_reachable [OF tr] by simp
  have "inj_k8sClient memInjector = memClient" by (simp add: memInjector_def)
  from system_invariant [OF mem_libs_api this memSecretAuth_new r p] r p st show ?thesis by auto
qed

text \<open>C3.  One step of the running system, whoever makes it, moves every stored package along at most one
  edge of the abstract machine, or replaces it by a new one.\<close>

theorem system_refines:
  assumes "libs_api L client" and "inj_k8sClient ci = client"
    and "NewECRSecret (pl_kl L) (Some cfg) = Ret (Inr a)"
    and "sysStep (registeredParts L semver dcl A ci client cfg a) s s'"
    and "cl_GetPackage client nn (sys_world s) = Inr p" and "cl_GetPackage client nn (sys_world s') = Inr q"
  shows "pkg_Status q = zeroStatus \<or>
    (let old = phase_of (st_State (pkg_Status p)); new = phase_of (st_State (pkg_Status q))
     in old = new \<or> phase_step (IsValidNamespace p) old new)"
  using sysStep_phase [OF registeredParts_api [OF assms(1-3)] assms(4)] assms(5,6)
  by (simp add: registeredParts_client)

theorem system_refines_witness:
  "\<exists>s s' p q. sysStep memParts s s' \<and> cl_GetPackage memClient memNN (sys_world s) = Inr p \<and>
     cl_GetPackage memClient memNN (sys_world s') = Inr q \<and> phase_of (st_State (pkg_Status q)) = Installed \<and>
     phase_step True (phase_of (st_State (pkg_Status p))) (phase_of (st_State (pkg_Status q)))"
proof -
  obtain s' s p q where step: "sysStep memParts s s'" and q: "cl_GetPackage memClient memNN (sys_world s') = Inr q"
      "st_State (pkg_Status q) = StateInstalled"
    and p: "cl_GetPackage memClient memNN (sys_world s) = Inr p" "IsValidNamespace p"
      "st_State (pkg_Status p) = StateInstalling"
    using mem_trace_steps by blast
  have "inj_k8sClient memInjector = memClient" by (simp add: memInjector_def)
  from system_refines [OF mem_libs_api this memSecretAuth_new step p(1) q(1)]
  have "phase_step True (phase_of (st_State (pkg_Status p))) (phase_of (st_State (pkg_Status q)))"
    using p q by (auto simp: Let_def zeroStatus_def phase_of_def state_defs)
  with step p q show ?thesis by force
qed

text \<open>C4.  No history of the system installs a package in one leap: when a package is installed, the same
  name held a package that was installing in some earlier state, and before that one that waited for
  its dependencies.\<close>

theorem installed_has_history:
  assumes "libs_api L client" and "inj_k8sClient ci = client"
    and "NewECRSecret (pl_kl L) (Some cfg) = Ret (Inr a)"
    and "sysTrace (registeredParts L semver dcl A ci client cfg a) (s # ss)"
    and "phaseAt client nn s = Some Installed"
  shows "\<exists>us t vs u ws. ss = us @ t # vs @ u # ws \<and>
    phaseAt client nn t = Some Installing \<and> phaseAt client nn u = Some Dependencies"
  using sysTrace_installed [OF registeredParts_api [OF assms(1-3)] assms(4)] assms(5)
  by (simp add: registeredParts_client)

theorem installed_has_history_witness:
  "\<exists>s us t vs u ws. sysTrace memParts (s # us @ t # vs @ u # ws) \<and> phaseAt memClient memNN s = Some Installed \<and>
     phaseAt memClient memNN t = Some Installing \<and> phaseAt memClient memNN u = Some Dependencies"
proof -
  obtain s ss p where tr: "sysTrace memParts (s # ss)" and p: "cl_GetPackage memClient memNN (sys_world s) = Inr p"
    and st: "st_State (pkg_Status p) = StateInstalled"
    using mem_trace by blast
  have i: "inj_k8sClient memInjector = memClient" by (simp add: memInjector_def)
  have now: "phaseAt memClient memNN s = Some Installed" by (simp add: phaseAt_def p st)
  from installed_has_history [OF mem_libs_api i memSecretAuth_new tr now] tr now show ?thesis by blast
qed

text \<open>C5.  A package leaves the dependency state exactly when every dependency that the active bundle
  gives for its version is installed, in the list of packages of its namespace that was read in that
  pass (the last package of a name counts).\<close>

theorem install_waits_for_dependencies:
  assumes "IsValidNamespace (mc_Package mc)" and "stateOf mc = StateInstallingDependencies"
    and "Process env mc (d, x) = (Ret (b, mc'), w')"
  shows "stateOf mc' = StateInstalling \<longleftrightarrow>
    (\<exists>deps pkgs x1. bundleDependencies (mc_Bundle mc) (mc_Version mc) = Ret (Inr deps) \<and>
       bc_GetPackageList (env_client env) (pkg_Namespace (mc_Package mc)) x = (Ret (Inr pkgs), x1) \<and>
       (\<forall>dep\<in>set deps. depReady (pl_Items pkgs) dep))"
proof -
  have "processInstallingDependencies env (requeue retryLong mc) (d, x) = (Ret (b, mc'), w')"
    using assms by (simp add: Process_valid)
  from dependencies_Ret [OF this] assms(2) show ?thesis by (auto simp: onWorld_Ret)
qed

theorem install_waits_for_dependencies_witness:
  "\<exists>mc'. Process memManagerEnv (memContextIn StateInstallingDependencies) (memDriver0, memWorld) =
     (Ret (True, mc'), (memDriver0, memWorld)) \<and> stateOf mc' = StateInstalling \<and>
     (\<exists>deps. bundleDependencies (mc_Bundle memContext) (mc_Version memContext) = Ret (Inr deps))"
proof -
  obtain mc' where r: "Process memManagerEnv (memContextIn StateInstallingDependencies) (memDriver0, memWorld) =
     (Ret (True, mc'), (memDriver0, memWorld))" and s: "stateOf mc' = StateInstalling"
    using mem_pass_dependencies by blast
  from install_waits_for_dependencies [OF _ _ r] s r show ?thesis by auto
qed

text \<open>C6.  A package becomes installed exactly when its configuration decodes, the driver connects to
  its cluster and the install returns without an error; otherwise it stays where it is and is tried
  again.  In both cases the status names the source that was tried; a success records the version and
  the spec that were installed.\<close>

theorem installed_iff_install_succeeds:
  assumes "IsValidNamespace (mc_Package mc)" and "stateOf mc = StateInstalling"
    and "Process env mc w = (Ret (b, mc'), w')"
  shows "st_Source (pkg_Status (mc_Package mc')) = mc_Source mc \<and>
    (if installSucceeds env (requeue retryLong mc) w w'
     then stateOf mc' = StateInstalled \<and>
       st_CurrentVersion (pkg_Status (mc_Package mc')) = oci_Version (mc_Source mc) \<and>
       st_Spec (pkg_Status (mc_Package mc')) = pkg_Spec (mc_Package mc)
     else stateOf mc' = StateInstalling)"
proof -
  have run: "processInstalling env (requeue retryLong mc) w = (Ret (b, mc'), w')"
    using assms by (simp add: Process_valid)
  have state: "stateOf (requeue retryLong mc) = StateInstalling" using assms(2) by simp
  show ?thesis using processInstalling_Ret [OF run state] by auto
qed

theorem installed_iff_install_succeeds_witness:
  "\<exists>mc' w'. Process memManagerEnv (memContextIn StateInstalling) (memDriver0, memWorld) =
     (Ret (True, mc'), w') \<and> st_Source (pkg_Status (mc_Package mc')) = mc_Source memContext"
proof -
  obtain mc' w' where r: "Process memManagerEnv (memContextIn StateInstalling) (memDriver0, memWorld) =
     (Ret (True, mc'), (memDriver1, w'))"
    using mem_pass_installing by blast
  with installed_iff_install_succeeds [OF _ _ r] show ?thesis by auto
qed

text \<open>C7.  Liveness: three passes install a new package whose dependencies are ready and whose install
  succeeds.\<close>

theorem three_passes_install:
  assumes "IsValidNamespace (mc_Package mc)" and "stateOf mc = []"
    and "bundleDependencies (mc_Bundle mc) (mc_Version mc) = Ret (Inr deps)"
    and "bc_GetPackageList (env_client env) (pkg_Namespace (mc_Package mc)) x = (Ret (Inr pkgs), x1)"
    and "\<forall>dep\<in>set deps. depReady (pl_Items pkgs) dep"
    and "installSucceeds env mc (d, x1) w'"
  shows "\<exists>mc'. passes 3 env mc (d, x) = (Ret mc', w') \<and> stateOf mc' = StateInstalled \<and>
    st_CurrentVersion (pkg_Status (mc_Package mc')) = oci_Version (mc_Source mc) \<and>
    st_Spec (pkg_Status (mc_Package mc')) = pkg_Spec (mc_Package mc)"
  using assms by (rule three_passes)

theorem three_passes_install_witness:
  "\<exists>mc' w'. passes 3 memManagerEnv memContext (memDriver0, memWorld) = (Ret mc', w') \<and>
     stateOf mc' = StateInstalled \<and> st_CurrentVersion (pkg_Status (mc_Package mc')) = ''1.0''"
proof -
  obtain w' where i: "installSucceeds memManagerEnv memContext (memDriver0, memWorld) (memDriver1, w')"
    using mem_installSucceeds by blast
  have v: "oci_Version (mc_Source memContext) = ''1.0''"
    by (simp add: memContext_def GetOCISource_def memVersion_def)
  show ?thesis
    using three_passes_install [OF _ _ mem_dependencies mem_packageList _ i] v by auto
qed



text \<open>C9.  A package is left alone (no requeue) exactly when its namespace is not one for packages, its
  state is unknown, or it was being uninstalled and the uninstall succeeded; in every other case it is
  looked at again.\<close>

theorem requeue_until_done:
  assumes "Process env mc w = (Ret (b, mc'), w')"
  shows "mc_RequeueAfter mc' = 0 \<longleftrightarrow>
    \<not> IsValidNamespace (mc_Package mc) \<or> phase_of (stateOf mc) \<in> {Unknown, Foreign} \<or>
    stateOf mc = StateUninstalling \<and> uninstallSucceeds env mc w w'"
  using wlpD [OF Process_requeue assms] by simp

theorem requeue_until_done_witness:
  "\<exists>mc'. Process memManagerEnv memContext (memDriver0, memWorld) = (Ret (True, mc'), (memDriver0, memWorld)) \<and>
     mc_RequeueAfter mc' \<noteq> 0"
proof -
  have s: "[] \<noteq> StateUninstalling" by (simp add: state_defs)
  obtain mc' where r: "Process memManagerEnv memContext (memDriver0, memWorld) =
      (Ret (True, mc'), (memDriver0, memWorld))"
    using mem_pass_new by blast
  with requeue_until_done [OF r] s show ?thesis by auto
qed

text \<open>C10.  A package outside the package namespaces is never processed: the pass returns, touches
  neither driver nor cluster, ends in the unknown state, asks for no requeue and reports an update
  only the first time.\<close>

theorem invalid_namespace_is_rejected:
  assumes "\<not> IsValidNamespace (mc_Package mc)"
  shows "\<exists>mc'. Process env mc w = (Ret (stateOf mc \<noteq> StateUnknown, mc'), w) \<and>
    stateOf mc' = StateUnknown \<and> mc_RequeueAfter mc' = retryNever \<and>
    st_Detail (pkg_Status (mc_Package mc')) = ''Packages namespaces must start with: eksa-packages''"
  using assms by (auto simp: Process_invalid Let_def stateOf_def PackageNamespace_def)

theorem invalid_namespace_is_rejected_witness:
  "\<exists>mc'. Process memManagerEnv (NewManagerContext\<lparr>mc_Package := NewPackage ''hello'' ''h'' ''default'' []\<rparr>)
     (memDriver0, memWorld) = (Ret (True, mc'), (memDriver0, memWorld)) \<and> stateOf mc' = StateUnknown"
proof -
  let ?mc = "NewManagerContext\<lparr>mc_Package := NewPackage ''hello'' ''h'' ''default'' []\<rparr>"
  have n: "\<not> IsValidNamespace (mc_Package ?mc)" and s: "stateOf ?mc \<noteq> StateUnknown"
    by (simp_all add: IsValidNamespace_iff NewPackage_def PackageNamespace_def namespacePrefix_def
        HasPrefix_def stateOf_def zero_defs state_defs)
  from invalid_namespace_is_rejected [OF n, of memManagerEnv "(memDriver0, memWorld)"] s
  show ?thesis by auto
qed

section \<open>The Helm driver and the authenticator\<close>

text \<open>C11.  After an install that succeeds, comparing the same values with the release reports a change
  exactly when the values name pull secrets other than the driver's.  So an unchanged configuration is
  stable, and a configuration with its own \<^verbatim>\<open>imagePullSecrets\<close> is upgraded in every pass.\<close>

theorem install_then_compare:
  assumes "helm_store H" and "releases_apart H clientset" and "hd_cfg d = Some cfg"
    and "hd_Install H (ecrAuthenticator mapRange getenv kl clientset) name ns create source (Some v) (d, x) =
      (Ret None, (d', x'))"
  shows "hd_IsConfigChanged H name (Some v) (d', x') =
    (Ret (Inr (case v ''imagePullSecrets'' of None \<Rightarrow> False | Some q \<Rightarrow> q \<noteq> pullSecrets)), (d', x'))"
proof -
  let ?A = "ecrAuthenticator mapRange getenv kl clientset"
  have keep: "keeps_release H (auth_AddToConfigMap ?A m n)"
    "keeps_release H (auth_AddSecretToAllNamespace ?A)" for m n
    using ecr_keeps_release [OF assms(2)] by (simp_all add: ecrAuthenticator_def)
  have "released H cfg name (v(''imagePullSecrets'' \<mapsto> pullSecrets)) x'"
    using wlpD [OF helm.hd_Install_released [OF assms(1) keep assms(3)] assms(4)] by simp
  moreover have "hd_cfg d' = Some cfg"
    using wlpD [OF hd_Install_keeps_cfg assms(4)] assms(3) by simp
  ultimately show ?thesis by (intro hd_IsConfigChanged_released)
qed

theorem install_then_compare_witness:
  "\<exists>w'. hd_Install memHelm (ecrAuthenticator id memEnv memKube memClientset) ''h'' [] False zeroSource
       (Some Map.empty) (memDriver1, memWorld) = (Ret None, (memDriver1, w')) \<and>
     hd_IsConfigChanged memHelm ''h'' (Some Map.empty) (memDriver1, w') = (Ret (Inr False), (memDriver1, w'))"
proof -
  have i: "drv_Install (env_driver memManagerEnv) = hd_Install memHelm (ecrAuthenticator id memEnv memKube memClientset)"
    by (simp add: memManagerEnv_def helmPackageDriver_def)
  obtain w' where r: "hd_Install memHelm (ecrAuthenticator id memEnv memKube memClientset) ''h'' [] False zeroSource
       (Some Map.empty) (memDriver1, memWorld) = (Ret None, (memDriver1, w'))"
    using mem_Install [of "Some Map.empty" memWorld "''h''" "[]" False zeroSource] unfolding i by (auto elim!: runsE)
  have c: "hd_cfg memDriver1 = Some (HelmCfg ''tls'')" by (simp add: memDriver1_def)
  from install_then_compare [OF memHelm_store memHelm_apart c r] r show ?thesis by auto
qed

text \<open>C12.  Initialising the Helm driver always returns, writes to no cluster, and after a success the
  driver has a Helm configuration, which installs and uninstalls keep: no later operation of the driver
  dereferences a nil configuration.\<close>

theorem driver_ready_after_Initialize:
  "\<exists>e d'. hd_Initialize getenv kl H (ecrAuthenticator mapRange getenv kl clientset)
      (targetCluster getenv kl client) cluster (d, x) = (Ret e, (d', x)) \<and>
    (if e = None then hd_ready d' else True) \<and>
    wlp (hd_Install H A n ns cr src vals) (\<lambda>_ (d'', _). hd_ready d'' = hd_ready d') (d', x) \<and>
    wlp (hd_Uninstall H A n) (\<lambda>_ (d'', _). hd_ready d'' = hd_ready d') (d', x)"
proof -
  have "runs (hd_Initialize getenv kl H (ecrAuthenticator mapRange getenv kl clientset)
      (targetCluster getenv kl client) cluster) (\<lambda>e (d', x'). x' = x \<and> (e = None \<longrightarrow> hd_ready d')) (d, x)"
    by (rule helm.hd_Initialize_runs)
  then obtain e d' where i: "hd_Initialize getenv kl H (ecrAuthenticator mapRange getenv kl clientset)
      (targetCluster getenv kl client) cluster (d, x) = (Ret e, (d', x))" "e = None \<longrightarrow> hd_ready d'"
    by (auto elim!: runsE)
  have "wlp (hd_Install H A n ns cr src vals) (\<lambda>_ (d'', _). hd_ready d'' = hd_ready d') (d', x)"
    by (rule wlp_mono [OF hd_Install_keeps_cfg]) (auto simp: hd_ready_def simp del: not_None_eq)
  moreover have "wlp (hd_Uninstall H A n) (\<lambda>_ (d'', _). hd_ready d'' = hd_ready d') (d', x)"
    by (rule wlp_mono [OF hd_Uninstall_keeps_cfg]) (auto simp: hd_ready_def simp del: not_None_eq)
  ultimately show ?thesis using i by auto
qed

text \<open>C13.  The config map of namespaces: recording a package makes the map, read back, list exactly the
  former packages of the namespace and the new one, and leaves the other namespaces alone.  (A package's
  name is not empty and has no comma.)\<close>

theorem config_map_add:
  assumes "map_range mapRange" and "cm_readback cs" and "name \<noteq> []" and "CHR '','' \<notin> set name"
    and "cs_GetConfigMap cs (ecr_targetCluster s) ConfigMapName x = Inr cm" and "cm_Name cm = ConfigMapName"
    and "ecr_AddToConfigMap mapRange cs name ns (s, x) = (Ret None, (s', x'))"
  shows "\<exists>cm'. cs_GetConfigMap cs (ecr_targetCluster s) ConfigMapName x' = Inr cm' \<and>
    nsPackages (cm_Data cm') ns = insert name (nsPackages (cm_Data cm) ns) \<and>
    (\<forall>m. if m = ns then True else mapGet (cm_Data cm') m = mapGet (cm_Data cm) m)"
proof -
  from ecr_AddToConfigMap_Ret [OF assms(7)] assms(5) obtain f where f: "cm_Data cm = Some f"
    and u: "cs_UpdateConfigMap cs (ecr_targetCluster s) (cm\<lparr>cm_Data := Some (f(ns \<mapsto>
           css_String mapRange (css_Add (NewCSSet (mapGetStr (Some f) ns)) name)))\<rparr>) x = (None, x')"
    by auto
  let ?cm = "cm\<lparr>cm_Data := Some (f(ns \<mapsto> css_String mapRange (css_Add (NewCSSet (mapGetStr (Some f) ns)) name)))\<rparr>"
  have "cs_GetConfigMap cs (ecr_targetCluster s) (cm_Name ?cm) x' = Inr ?cm"
    using assms(2) u unfolding cm_readback_def by blast
  then have "cs_GetConfigMap cs (ecr_targetCluster s) ConfigMapName x' = Inr ?cm"
    using assms(6) by simp
  moreover have "nsPackages (cm_Data ?cm) ns = insert name (nsPackages (cm_Data cm) ns)"
    using add_roundtrip [OF assms(1,3,4)] f by (simp add: nsPackages_def mapGetStr_def)
  ultimately show ?thesis using f by auto
qed

theorem config_map_add_witness:
  "\<exists>x'. ecr_AddToConfigMap id memClientset ''h'' ''ns'' (\<lparr>ecr_targetCluster = ''c''\<rparr>, memWorld) =
       (Ret None, (\<lparr>ecr_targetCluster = ''c''\<rparr>, x')) \<and>
     (\<exists>cm'. cs_GetConfigMap memClientset ''c'' ConfigMapName x' = Inr cm' \<and>
        ''h'' \<in> nsPackages (cm_Data cm') ''ns'')"
proof -
  have id: "map_range id" by (simp add: map_range_def)
  have n: "cm_Name (clusterConfigMap ''mgmt'') = ConfigMapName" by (simp add: clusterConfigMap_def Let_def)
  obtain x' where r: "ecr_AddToConfigMap id memClientset ''h'' ''ns'' (\<lparr>ecr_targetCluster = ''c''\<rparr>, memWorld) =
       (Ret None, (\<lparr>ecr_targetCluster = ''c''\<rparr>, x'))"
    by (simp add: ecr_AddToConfigMap_def mem_configMap mapPut_def Let_def clusterConfigMap_def
        bindM_def onWorld_def) (simp add: memClientset_def)
  from config_map_add [OF id memClientset_readback _ _ _ n r] r mem_configMap [OF memLike_first] show ?thesis by auto
qed

text \<open>C14.  Removing a package from the config map removes exactly it: the other packages of the namespace
  stay, the namespace itself is dropped when the set becomes empty, and the entries of all other
  namespaces are kept.\<close>

theorem config_map_delete:
  assumes "map_range mapRange" and "cm_readback cs"
    and "cs_GetConfigMap cs (ecr_targetCluster s) ConfigMapName x = Inr cm" and "cm_Name cm = ConfigMapName"
    and "ecr_DelFromConfigMap mapRange cs name ns (s, x) = (Ret None, (s', x'))"
    and "[] \<notin> nsPackages (cm_Data cm) ns"
  shows "\<exists>cm'. cs_GetConfigMap cs (ecr_targetCluster s) ConfigMapName x' = Inr cm' \<and>
    nsPackages (cm_Data cm') ns = nsPackages (cm_Data cm) ns - {name} \<and>
    (mapGet (cm_Data cm') ns = None \<longleftrightarrow> nsPackages (cm_Data cm) ns \<subseteq> {name}) \<and>
    (\<forall>n. n \<noteq> ns \<longrightarrow> mapGet (cm_Data cm') n = mapGet (cm_Data cm) n)"
proof -
  from ecr_DelFromConfigMap_Ret [OF assms(5)] assms(3) obtain f t where f: "cm_Data cm = Some f"
    and t: "t = css_String mapRange (css_Del (NewCSSet (mapGetStr (Some f) ns)) name)"
    and u: "cs_UpdateConfigMap cs (ecr_targetCluster s)
        (cm\<lparr>cm_Data := Some (f(ns := if t = [] then None else Some t))\<rparr>) x = (None, x')"
    by auto
  let ?cm = "cm\<lparr>cm_Data := Some (f(ns := if t = [] then None else Some t))\<rparr>"
  let ?old = "set (css_set (NewCSSet (mapGetStr (Some f) ns)))"
  have "cs_GetConfigMap cs (ecr_targetCluster s) (cm_Name ?cm) x' = Inr ?cm"
    using assms(2) u unfolding cm_readback_def by blast
  then have get: "cs_GetConfigMap cs (ecr_targetCluster s) ConfigMapName x' = Inr ?cm"
    using assms(4) by simp
  have old: "nsPackages (cm_Data cm) ns = ?old" by (simp add: nsPackages_def f)
  have e: "set (css_set (css_Del (NewCSSet (mapGetStr (Some f) ns)) name)) = ?old - {name}"
    by (simp add: css.elems_del css.inv_parse)
  have ne: "[] \<notin> ?old" using assms(6) old by simp
  have nil: "t = [] \<longleftrightarrow> ?old - {name} \<subseteq> {[]}"
    unfolding t e [symmetric] by (rule css_String_Nil_iff [OF assms(1)]) (simp add: css.inv_del css.inv_parse)
  have some: "set (css_set (NewCSSet t)) = ?old - {name}" if "t \<noteq> []"
    unfolding t by (rule del_roundtrip [OF assms(1)]) (use that nil in simp)
  have "nsPackages (cm_Data ?cm) ns = ?old - {name}"
  proof (cases "t = []")
    case True
    then have "?old - {name} = {}" using nil ne by auto
    with True show ?thesis by (simp add: nsPackages_def mapGetStr_def NewCSSet_def)
  qed (simp add: nsPackages_def mapGetStr_def some)
  moreover have "mapGet (cm_Data ?cm) ns = None \<longleftrightarrow> ?old \<subseteq> {name}"
    using nil ne by auto
  moreover have "mapGet (cm_Data ?cm) n = mapGet (cm_Data cm) n" if "n \<noteq> ns" for n
    using that by (simp add: f mapGet_def)
  ultimately show ?thesis using get old by auto
qed

theorem config_map_delete_witness:
  "\<exists>x'. ecr_DelFromConfigMap id memClientset ''eksa-package-placeholder'' ''emissary-system''
       (\<lparr>ecr_targetCluster = ''c''\<rparr>, memWorld) = (Ret None, (\<lparr>ecr_targetCluster = ''c''\<rparr>, x')) \<and>
     (\<exists>cm'. cs_GetConfigMap memClientset ''c'' ConfigMapName x' = Inr cm' \<and>
        nsPackages (cm_Data cm') ''emissary-system'' = {})"
proof -
  have id: "map_range id" by (simp add: map_range_def)
  have n: "cm_Name (clusterConfigMap ''mgmt'') = ConfigMapName" by (simp add: clusterConfigMap_def Let_def)
  have p: "nsPackages (cm_Data (clusterConfigMap ''mgmt'')) ''emissary-system'' = {''eksa-package-placeholder''}"
    by (simp add: nsPackages_def clusterConfigMap_def Let_def mapGetStr_def NewCSSet_def css_Add_def)
  obtain x' where r: "ecr_DelFromConfigMap id memClientset ''eksa-package-placeholder'' ''emissary-system''
      (\<lparr>ecr_targetCluster = ''c''\<rparr>, memWorld) = (Ret None, (\<lparr>ecr_targetCluster = ''c''\<rparr>, x'))"
    by (simp add: ecr_DelFromConfigMap_def mem_configMap mapPut_def Let_def clusterConfigMap_def
        bindM_def onWorld_def) (simp add: memClientset_def)
  from config_map_delete [OF id memClientset_readback _ n r] r mem_configMap [OF memLike_first] p show ?thesis by auto
qed

text \<open>The text of a comma-separated set parses back to the same set, in whatever order the map is
  ranged over, for elements without commas; the set whose only element is the empty string has no
  text of its own.\<close>

theorem csset_roundtrip:
  assumes "map_range mapRange" and "css_wf c" and "\<forall>v\<in>set (css_set c). CHR '','' \<notin> set v"
    and "set (css_set c) \<noteq> {[]}"
  shows "css_wf (NewCSSet (css_String mapRange c)) \<and>
    (\<forall>v. css_Has (NewCSSet (css_String mapRange c)) v = css_Has c v) \<and>
    css_Size (NewCSSet (css_String mapRange c)) = css_Size c"
proof -
  let ?c = "NewCSSet (css_String mapRange c)"
  have wf: "css_wf ?c" by (rule css.inv_parse)
  have e: "set (css_set ?c) = set (css_set c)"
    using assms by (intro NewCSSet_String_elems)
  have "css_Size ?c = card (set (css_set ?c))" and "css_Size c = card (set (css_set c))"
    using wf assms(2) by (simp_all add: css_Size_def css_wf_def distinct_card)
  with wf e show ?thesis by (simp add: css_Has_def)
qed

theorem csset_roundtrip_witness:
  "css_Has (NewCSSet (css_String rev (NewCSSet ''a,b,a''))) ''b'' = css_Has (NewCSSet ''a,b,a'') ''b'' \<and>
   css_Size (NewCSSet (css_String rev (NewCSSet ''a,b,a''))) = 2"
proof -
  have c: "NewCSSet ''a,b,a'' = \<lparr>css_set = [''b'', ''a'']\<rparr>"
    by (simp add: NewCSSet_def css_Add_def)
  have r: "map_range rev" by (simp add: map_range_def)
  from csset_roundtrip [OF r, of "NewCSSet ''a,b,a''"] show ?thesis
    by (simp add: c css_wf_def css_Size_def)
qed

section \<open>The target cluster client\<close>

text \<open>C15.  After the target client was initialised, or has read the version of a cluster's API server,
  asking it for a configuration returns and writes nothing: no nil configuration is read.  Reading a
  version is itself read-only.\<close>

theorem target_client_usable:
  assumes "tcc_Initialize getenv kl client cluster (t, x) = (Ret None, (t', x')) \<or>
    tcc_GetServerVersion getenv kl client cluster (t, x) = (Ret (Inr i), (t', x'))"
  shows "\<exists>r. tcc_ToRESTConfig kl (t', x') = (Ret r, (t', x')) \<and> x' = x"
  using assms tcc.init_then_rest [of getenv kl client cluster t x t' x']
    tcc.version_then_rest [of getenv kl client cluster t x i t' x']
  by (auto simp: targetCluster_def)

theorem target_client_usable_witness:
  "\<exists>t'. tcc_Initialize memEnv memKube memClient ''mgmt'' (NewTargetClusterClient (RestConfig ''self''), memWorld) =
     (Ret None, (t', memWorld)) \<and> (\<exists>r. tcc_ToRESTConfig memKube (t', memWorld) = (Ret r, (t', memWorld)))"
proof -
  obtain t' where r: "tcc_Initialize memEnv memKube memClient ''mgmt''
      (NewTargetClusterClient (RestConfig ''self''), memWorld) = (Ret None, (t', memWorld))"
    by (simp add: tcc_Initialize_def getKubeconfig_def memEnv_def clusterNameEnvVar_def bindM_def
        onWorld_def NewTargetClusterClient_def)
  from target_client_usable [OF disjI1 [OF r]] r show ?thesis by auto
qed

text \<open>C16.  A kubeconfig secret of a workload cluster that has no \<^verbatim>\<open>value\<close> entry is not an error: the
  client is then pointed at the management cluster itself, and what is meant for the workload cluster is
  done there.\<close>

theorem kubeconfig_without_value_targets_self:
  assumes "cluster \<noteq> []" and "getenv clusterNameEnvVar \<noteq> cluster"
    and "cl_GetSecret client \<lparr>nn_Namespace = eksaSystemNamespace, nn_Name = cluster @ ''-kubeconfig''\<rparr> x = Inr sec"
    and "mapGet (sec_Data sec) ''value'' = None"
  shows "\<exists>t'. tcc_Initialize getenv kl client cluster (t, x) = (Ret None, (t', x)) \<and> tcc_targetSelf t' \<and>
    tcc_ToRESTConfig kl (t', x) = (Ret (Inr (tcc_Config t)), (t', x))"
  using assms
  by (simp add: tcc_Initialize_def getKubeconfig_def tcc_ToRESTConfig_def bindM_def onWorld_def)

theorem kubeconfig_without_value_targets_self_witness:
  "\<exists>t'. tcc_Initialize memEnv memKube memClient ''work'' (NewTargetClusterClient (RestConfig ''self''),
       memWorld\<lparr>w_secrets := [\<lparr>sec_Name = ''work-kubeconfig'', sec_Namespace = ''eksa-system'', sec_Type = [],
         sec_Data = None\<rparr>]\<rparr>) = (Ret None, (t', memWorld\<lparr>w_secrets := [\<lparr>sec_Name = ''work-kubeconfig'',
         sec_Namespace = ''eksa-system'', sec_Type = [], sec_Data = None\<rparr>]\<rparr>)) \<and> tcc_targetSelf t'"
proof -
  let ?s = "\<lparr>sec_Name = ''work-kubeconfig'', sec_Namespace = ''eksa-system'', sec_Type = [], sec_Data = None\<rparr>"
  let ?w = "memWorld\<lparr>w_secrets := [?s]\<rparr>"
  have g: "cl_GetSecret memClient \<lparr>nn_Namespace = eksaSystemNamespace, nn_Name = ''work'' @ ''-kubeconfig''\<rparr> ?w = Inr ?s"
    by (simp add: memClient_def lookupObj_def eksaSystemNamespace_def)
  have e: "memEnv clusterNameEnvVar \<noteq> ''work''" by (simp add: memEnv_def clusterNameEnvVar_def)
  from kubeconfig_without_value_targets_self [of "''work''" memEnv memClient ?w ?s memKube
      "NewTargetClusterClient (RestConfig ''self'')"] e g
  show ?thesis by auto
qed

section \<open>Bundles and artifacts\<close>

text \<open>C17.  The name \<^verbatim>\<open>v<major>-<minor>-<build>\<close> of a bundle, printed from three numbers that fit an
  \<^verbatim>\<open>int\<close>, is valid and is read back as these numbers, and the bundle matches exactly the API servers
  that report this major and minor version.\<close>

theorem bundle_name_roundtrip:
  assumes "pb_Name b = bundleName major minor build"
    and "major < 2 ^ 63" and "minor < 2 ^ 63" and "build < 2 ^ 63"
  shows "getMajorMinorBuild b = (int major, int minor, int build, None) \<and> IsValidVersion b \<and>
    (\<forall>i. KubeVersionMatches b i = Inr (natString major = info_Major i \<and> natString minor = info_Minor i))"
proof -
  have "getMajorMinorBuild b = (int major, int minor, int build, None)"
    using assms by (intro getMajorMinorBuild_bundleName) simp_all
  then show ?thesis by (simp add: IsValidVersion_def KubeVersionMatches_def Sprint_def)
qed

theorem bundle_name_roundtrip_witness:
  "bundleName 1 28 7 = ''v1-28-7'' \<and>
   getMajorMinorBuild (zeroBundle\<lparr>pb_Name := ''v1-28-7''\<rparr>) = (1, 28, 7, None)"
proof -
  have n: "bundleName 1 28 7 = ''v1-28-7''" by code_simp
  from bundle_name_roundtrip [of "zeroBundle\<lparr>pb_Name := ''v1-28-7''\<rparr>" 1 28 7] n show ?thesis by simp
qed

text \<open>C18.  \<^verbatim>\<open>LessThan\<close> is not an order: two bundles can each be less than the other, since a smaller
  build number alone suffices.  Nor does it tell the bundles of the generator apart: it reads the year
  of their names as the build number, so that of two bundles made for one input in the same year
  neither is less.\<close>

theorem LessThan_is_no_order:
  "(\<exists>a b. IsValidVersion a \<and> IsValidVersion b \<and> LessThan a b \<and> LessThan b a) \<and>
   (\<forall>ecr input m t t' spec spec' a b.
      NewBundleFromInput ecr t input = Some (Ret (Inr (spec, pb_Name a))) \<and>
      NewBundleFromInput ecr t' input = Some (Ret (Inr (spec', pb_Name b))) \<and>
      inputMinor input = natString m \<and> m < 9223372036854775808 \<and>
      clk_Year t' = clk_Year t \<and> 1000 \<le> clk_Year t \<and> clk_Year t \<le> 9999 \<longrightarrow>
      IsValidVersion a \<and> IsValidVersion b \<and> \<not> LessThan a b \<and> \<not> LessThan b a)"
proof (intro conjI allI impI)
  let ?a = "zeroBundle\<lparr>pb_Name := bundleName 1 21 1000\<rparr>" and ?b = "zeroBundle\<lparr>pb_Name := bundleName 1 20 1001\<rparr>"
  have "getMajorMinorBuild ?a = (1, 21, 1000, None)" and "getMajorMinorBuild ?b = (1, 20, 1001, None)"
    using getMajorMinorBuild_bundleName [of ?a 1 21 1000] getMajorMinorBuild_bundleName [of ?b 1 20 1001]
    by simp_all
  then have "IsValidVersion ?a \<and> IsValidVersion ?b \<and> LessThan ?a ?b \<and> LessThan ?b ?a"
    by (simp add: IsValidVersion_def LessThan_def)
  then show "\<exists>a b. IsValidVersion a \<and> IsValidVersion b \<and> LessThan a b \<and> LessThan b a" by blast
qed (auto dest!: getMajorMinorBuild_generated simp: IsValidVersion_def LessThan_def)

theorem LessThan_is_no_order_witness:
  "memName 1 \<noteq> memName 2 \<and> \<not> LessThan (memBundle\<lparr>pb_Name := memName 1\<rparr>) (memBundle\<lparr>pb_Name := memName 2\<rparr>) \<and>
   \<not> LessThan (memBundle\<lparr>pb_Name := memName 2\<rparr>) (memBundle\<lparr>pb_Name := memName 1\<rparr>)"
proof -
  have "natString 1 = ''1''" "natString 2 = ''2''" by code_simp+
  then have "memName 1 \<noteq> memName 2"
    by (simp add: memName_def formatDate_def memDay_def twoDigits_def)
  moreover have year: "clk_Year (memDay d) = 2024" for d by (simp add: memDay_def)
  moreover have "\<not> LessThan (memBundle\<lparr>pb_Name := memName 1\<rparr>) (memBundle\<lparr>pb_Name := memName 2\<rparr>) \<and>
      \<not> LessThan (memBundle\<lparr>pb_Name := memName 2\<rparr>) (memBundle\<lparr>pb_Name := memName 1\<rparr>)"
    using conjunct2 [OF LessThan_is_no_order, rule_format, of memEcr "memDay 1" memInput memSpec
        "memBundle\<lparr>pb_Name := memName 1\<rparr>" "memDay 2" memSpec "memBundle\<lparr>pb_Name := memName 2\<rparr>" 28]
      mem_NewBundle [of 1] mem_NewBundle [of 2] mem_minor year by simp
  ultimately show ?thesis by blast
qed

text \<open>C19.  Two package sources match exactly when they name the same registry and repository and the
  same set of version keys; in particular matching is an equivalence, and neither the order nor the
  repetition of versions matters.\<close>

theorem PackageMatches_equivalence:
  "(PackageMatches s t \<longleftrightarrow> src_Registry s = src_Registry t \<and> src_Repository s = src_Repository t \<and>
      Key ` set (src_Versions s) = Key ` set (src_Versions t)) \<and> equivp PackageMatches"
proof -
  have "equivp PackageMatches"
    by (rule equivpI) (auto simp: reflp_def symp_def transp_def PackageMatches_iff)
  then show ?thesis by (simp add: PackageMatches_iff)
qed

text \<open>C20.  A reference with a tag or with a digest parses back to its parts, and \<^verbatim>\<open>VersionedImage\<close>
  prints the reference again.\<close>

theorem artifact_roundtrip:
  assumes "CHR ''/'' \<notin> set registry" and "CHR ''@'' \<notin> set repository" and "CHR '':'' \<notin> set repository"
    and "tag = [] \<or> digest = []" and "CHR ''@'' \<notin> set tag"
  shows "ParseArtifactFromURI (VersionedImage (NewArtifact registry repository tag digest)) =
    Inr (NewArtifact registry repository tag digest)"
proof (cases "digest = []")
  case True
  with ParseArtifact_tag [OF assms(1,2,3,5)] show ?thesis
    by (simp add: VersionedImage_def NewArtifact_def art_Version_def)
next
  case False
  with ParseArtifact_digest [OF assms(1,2), of digest] assms(4) show ?thesis
    by (simp add: VersionedImage_def NewArtifact_def art_Version_def)
qed

theorem artifact_roundtrip_witness:
  "ParseArtifactFromURI ''public.ecr.aws/eks/hello:v1'' = Inr (NewArtifact ''public.ecr.aws'' ''eks/hello'' ''v1'' [])"
  using artifact_roundtrip [of "''public.ecr.aws''" "''eks/hello''" "''v1''" "[]"]
  by (simp add: VersionedImage_def NewArtifact_def art_Version_def)

text \<open>The credentials in an ECR authorization token are read back: the user name up to the first
  colon and the password after it, colons included.\<close>

theorem ecr_token_roundtrip:
  assumes "CHR '':'' \<notin> set user"
  shows "ExtractECRToken (b64EncodeToString (user @ '':'' @ password)) =
    Inr \<lparr>cred_Username = user, cred_Password = password, cred_AccessToken = [], cred_RefreshToken = []\<rparr>"
  using assms by (rule ExtractECRToken_encoded)

theorem ecr_token_roundtrip_witness:
  "ExtractECRToken (b64EncodeToString (''AWS'' @ '':'' @ ''s3:cret'')) =
    Inr \<lparr>cred_Username = ''AWS'', cred_Password = ''s3:cret'', cred_AccessToken = [], cred_RefreshToken = []\<rparr>"
  by (rule ecr_token_roundtrip) simp

text \<open>C21.  Refreshing the ECR credential replaces the whole docker configuration: what is written does
  not depend on the \<^verbatim>\<open>config.json\<close> that the secret had, so credentials for other registries are
  lost.\<close>

theorem inject_discards_config:
  assumes "dcl_Load dcl [] = Inr Map.empty"
    and "dcl_Save dcl [registry \<mapsto> (cred_Username cred, cred_Password cred)] = Inr buf"
    and "sec_Data secret = Some data"
  shows "InjectCredential dcl client secret registry cred =
    call (cl_UpdateSecret client (secret\<lparr>sec_Data := Some (data(''config.json'' \<mapsto> buf))\<rparr>))"
  using assms by (rule InjectCredential_eq)

theorem inject_discards_config_witness:
  "InjectCredential \<lparr>dcl_Load = (\<lambda>_. Inr Map.empty), dcl_Save = (\<lambda>_. Inr ''new'')\<rparr> memClient
     \<lparr>sec_Name = ''s'', sec_Namespace = ''n'', sec_Type = [], sec_Data = Some [''config.json'' \<mapsto> ''old'']\<rparr> ''r''
     \<lparr>cred_Username = ''u'', cred_Password = ''p'', cred_AccessToken = [], cred_RefreshToken = []\<rparr> =
   call (cl_UpdateSecret memClient \<lparr>sec_Name = ''s'', sec_Namespace = ''n'', sec_Type = [],
     sec_Data = Some [''config.json'' \<mapsto> ''new'']\<rparr>)"
  using inject_discards_config [of "\<lparr>dcl_Load = (\<lambda>_. Inr Map.empty), dcl_Save = (\<lambda>_. Inr ''new'')\<rparr>"
      "''r''" "\<lparr>cred_Username = ''u'', cred_Password = ''p'', cred_AccessToken = [], cred_RefreshToken = []\<rparr>" "''new''"
      "\<lparr>sec_Name = ''s'', sec_Namespace = ''n'', sec_Type = [], sec_Data = Some [''config.json'' \<mapsto> ''old'']\<rparr>"
      "[''config.json'' \<mapsto> ''old'']" memClient]
  by simp

text \<open>C22.  Injecting a cluster's CA certificate never replaces a certificate that is there, adds at most
  the one entry of the cluster, and a second run writes nothing.\<close>

theorem cert_injection_settles:
  assumes "secret_readback client" and "UpdateIfNeeded getenv client cluster x = (Ret None, x')"
  shows "UpdateIfNeeded getenv client cluster x' = (Ret None, x') \<and>
    (x' = x \<or> (\<exists>cred content f. cl_GetSecret client credSecretNN x = Inr cred \<and> sec_Data cred = Some f \<and>
       f (cluster @ ''_ca.crt'') = None \<and>
       cl_GetSecret client credSecretNN x' = Inr (cred\<lparr>sec_Data := Some (f(cluster @ ''_ca.crt'' \<mapsto> content))\<rparr>)))"
proof
  show "UpdateIfNeeded getenv client cluster x' = (Ret None, x')"
    using assms by (rule UpdateIfNeeded_idem)
  show "x' = x \<or> (\<exists>cred content f. cl_GetSecret client credSecretNN x = Inr cred \<and> sec_Data cred = Some f \<and>
       f (cluster @ ''_ca.crt'') = None \<and>
       cl_GetSecret client credSecretNN x' = Inr (cred\<lparr>sec_Data := Some (f(cluster @ ''_ca.crt'' \<mapsto> content))\<rparr>))"
    using UpdateIfNeeded_stored [OF assms] by blast
qed

theorem cert_injection_settles_witness:
  "UpdateIfNeeded memEnv memClient ''mgmt'' memWorld = (Ret None, memWorld) \<and>
   secret_readback memClient"
proof -
  have r: "UpdateIfNeeded memEnv memClient ''mgmt'' memWorld = (Ret None, memWorld)"
    by (simp add: UpdateIfNeeded_def fetchCertContent_def memClient_def memWorld_def lookupObj_def
        missing_def IsNotFound_def bindM_def Let_def)
  from cert_injection_settles [OF memClient_secret_readback r] show ?thesis
    using memClient_secret_readback by simp
qed

text \<open>\<^verbatim>\<open>DownloadBundle\<close> returns a bundle only for an artifact that was pulled, is not blank and
  decodes: an empty artifact never becomes the zero bundle.\<close>

theorem download_is_not_blank:
  assumes "DownloadBundle yamlBundle pull ref cluster x = (Ret (Inr bundle), x')"
  shows "\<exists>data. pull ref cluster x = (Ret (Inr data), x') \<and> \<not> blank data \<and> yamlBundle data = Inr bundle"
  using assms by (rule DownloadBundle_Inr)

theorem download_is_not_blank_witness:
  "\<exists>data. DownloadBundle (\<lambda>_. Inr memBundle) (\<lambda>_ _. ret (Inr ''kind: PackageBundle'')) ''r'' ''c'' memWorld =
      (Ret (Inr memBundle), memWorld) \<and> \<not> blank data"
proof -
  have r: "DownloadBundle (\<lambda>_. Inr memBundle) (\<lambda>_ _. ret (Inr ''kind: PackageBundle'')) ''r'' ''c'' memWorld =
      (Ret (Inr memBundle), memWorld)"
    by (simp add: DownloadBundle_def blank_def asciiSpace_def wideSpace_def)
  from download_is_not_blank [OF r] r show ?thesis by blast
qed

section \<open>The bundle manager\<close>

text \<open>One pass gives a bundle the state that its namespace, its minimal controller version and its
  name determine, reports a change exactly when the state was another one, copies the spec to the
  status when it does, and a second pass changes nothing.\<close>

theorem bundle_state_settles:
  "ProcessBundle semverCompare config b =
     (if pbst_State (pb_Status b) = bundleState semverCompare config b then (Inr False, b)
      else (Inr True, b\<lparr>pb_Status := \<lparr>pbst_Spec = pb_Spec b, pbst_State = bundleState semverCompare config b\<rparr>\<rparr>)) \<and>
   ProcessBundle semverCompare config (snd (ProcessBundle semverCompare config b)) =
     (Inr False, snd (ProcessBundle semverCompare config b))"
  by (simp add: ProcessBundle_idem) (simp add: ProcessBundle_eq setBundleState_def)

text \<open>C23.  One pass over a bundle controller implements its specification, for every answer of the
  cluster, the registry and the clients.  What becomes of the controller is a function of what the pass
  \<open>observe\<close>d.  Without the cluster or the registry it is \<open>pbcLost\<close>; with the latest bundle \<open>b\<close> of the
  registry, which is the bundle downloaded in this pass, it is \<open>pbcNext (pb_Name b)\<close>, unless the pass
  returns an error or the controller's own bundle was lost and could not be recreated, and then nothing
  changed.  A change that is returned without an error was accepted by the API server.  Every pass keeps
  the identity of the resource and is a step of the machine \<open>pbc_step\<close> for the downloaded bundle.\<close>

theorem controller_refines:
  assumes "ProcessBundleController m pbc w = (Ret (e, pbc'), w')"
  shows "\<exists>i w1. observe m pbc w = (Ret i, w1) \<and> pbcOutcome m pbc i (e, pbc') w' \<and>
    sameController pbc pbc' \<and> (\<forall>l. (\<exists>b bs. i = Found b bs \<and> pb_Name b \<noteq> l) \<or> pbc_step l pbc pbc')"
  using ProcessBundleController_outcome [OF assms] pbcOutcome_step by blast

theorem controller_refines_witness:
  "\<exists>e pbc' w' i w1. ProcessBundleController memBundleManager memPBC (NewTargetClusterClient (RestConfig ''self''), memWorld) =
     (Ret (e, pbc'), w') \<and>
     observe memBundleManager memPBC (NewTargetClusterClient (RestConfig ''self''), memWorld) = (Ret i, w1) \<and>
     pbcOutcome memBundleManager memPBC i (e, pbc') w'"
proof -
  obtain r w' where r: "ProcessBundleController memBundleManager memPBC
      (NewTargetClusterClient (RestConfig ''self''), memWorld) = (Ret r, w')"
    using mem_controller_pass by blast
  obtain e pbc' where "r = (e, pbc')" by (cases r)
  with r have p: "ProcessBundleController memBundleManager memPBC
      (NewTargetClusterClient (RestConfig ''self''), memWorld) = (Ret (e, pbc'), w')" by simp
  from controller_refines [OF p] p show ?thesis by auto
qed

text \<open>C24.  The bundle a controller names is never changed: only a controller that names none is given
  one, and no other field of its spec is written.\<close>

theorem active_bundle_is_kept:
  assumes "ProcessBundleController m pbc w = (Ret (e, pbc'), w')"
    and "pbcs_ActiveBundle (pbc_Spec pbc) \<noteq> []"
  shows "pbc_Spec pbc' = pbc_Spec pbc"
proof -
  obtain latest where "pbc_step latest pbc pbc'"
    using wlpD [OF ProcessBundleController_good assms(1)] by (auto simp: pbcGood_def)
  from pbc_step_spec [OF this] assms(2) show ?thesis by simp
qed

theorem active_bundle_is_kept_witness:
  "\<exists>e pbc' w'. ProcessBundleController memBundleManager memPBC (NewTargetClusterClient (RestConfig ''self''), memWorld) =
     (Ret (e, pbc'), w') \<and> pbcs_ActiveBundle (pbc_Spec pbc') = ''v1-28-1''"
proof -
  obtain e pbc' w' where r: "ProcessBundleController memBundleManager memPBC
      (NewTargetClusterClient (RestConfig ''self''), memWorld) = (Ret (e, pbc'), w')"
    using mem_controller_pass by (metis prod.collapse)
  have "pbcs_ActiveBundle (pbc_Spec memPBC) = ''v1-28-1''" by (simp add: memPBC_def zero_defs)
  with active_bundle_is_kept [OF r] r show ?thesis by auto
qed



section \<open>Admission\<close>



text \<open>The target namespace of an installed package is immutable: an update that changes it is
  refused, whatever else it changes, unless the package carries the internal annotation.\<close>

theorem target_namespace_immutable:
  assumes "mapGetStr (pkg_Annotations p) ''anywhere.eks.aws.com/internal'' \<noteq> ''true''"
    and "spec_TargetNamespace (st_Spec (pkg_Status p)) \<notin> {[], spec_TargetNamespace (pkg_Spec p)}"
    and "packageValidator_Handle getenv S client (Inr p) x = (Ret resp, x')"
  shows "\<not> ar_Allowed resp"
proof -
  have "\<not> fst (isPackageValid getenv S p b)" for b
    using assms(2) by (auto simp: isPackageValid_iff admissible_def)
  with assms(1,3) show ?thesis
    by (auto simp: packageValidator_Handle_def Let_def split: sum.splits prod.splits if_splits)
      (metis fst_conv)+
qed

theorem target_namespace_immutable_witness:
  "\<exists>resp. packageValidator_Handle memEnv memSchema (managerClient memEnv memClient)
      (Inr (memPackage\<lparr>pkg_Status := zeroStatus\<lparr>st_Spec := zeroPackageSpec\<lparr>spec_TargetNamespace := ''old''\<rparr>\<rparr>\<rparr>)) memWorld =
      (Ret resp, memWorld) \<and> \<not> ar_Allowed resp"
proof -
  let ?p = "memPackage\<lparr>pkg_Status := zeroStatus\<lparr>st_Spec := zeroPackageSpec\<lparr>spec_TargetNamespace := ''old''\<rparr>\<rparr>\<rparr>"
  have a: "mapGetStr (pkg_Annotations ?p) ''anywhere.eks.aws.com/internal'' \<noteq> ''true''"
    and t: "spec_TargetNamespace (st_Spec (pkg_Status ?p)) \<notin> {[], spec_TargetNamespace (pkg_Spec ?p)}"
    by (simp_all add: memPackage_def NewPackage_def zero_defs mapGetStr_def)
  obtain resp where r: "packageValidator_Handle memEnv memSchema (managerClient memEnv memClient) (Inr ?p) memWorld =
      (Ret resp, memWorld)"
    using packageValidator_Handle_eq [of "managerClient memEnv memClient" ?p memEnv memWorld memBundle memWorld memSchema]
      mem_activeBundle a by (auto simp: managerClient_def)
  from target_namespace_immutable [OF a t r] r show ?thesis by blast
qed

text \<open>A package in the namespace \<^verbatim>\<open>eksa-packages\<close>, which is installed on the management cluster,
  counts as installed on a workload cluster whenever the management cluster has a name: the check that
  keeps workload-only packages off the management cluster does not apply to it.\<close>

theorem old_namespace_counts_as_workload:
  assumes "pkg_Namespace p = PackageNamespace" and "getenv clusterNameEnvVar \<noteq> []"
  shows "IsInstalledOnWorkload getenv p \<and> GetClusterName p = []"
  using assms by (simp add: IsInstalledOnWorkload_def GetClusterName_def Let_def)

theorem old_namespace_counts_as_workload_witness:
  "IsInstalledOnWorkload memEnv (NewPackage ''hello'' ''h'' ''eksa-packages'' [])"
  using old_namespace_counts_as_workload [of "NewPackage ''hello'' ''h'' ''eksa-packages'' []" memEnv]
  by (simp add: NewPackage_def PackageNamespace_def memEnv_def clusterNameEnvVar_def)

text \<open>C27.  A bundle is admitted exactly when its name carries a version and its signature annotation
  verifies, under the configured public key, over the digest of the filtered manifest; and the filter
  always drops the status and the minimal controller version.\<close>

theorem bundle_admitted_is_signed:
  assumes "packageBundleValidator_Handle getenv L (Inr pb) = Ret resp"
  shows "(ar_Allowed resp \<longleftrightarrow> IsValidVersion pb \<and>
      (\<exists>digest yml. ValidateSignature L pb (signingDomain getenv) = Ret (Inr (True, digest, yml)))) \<and>
    (ar_Allowed resp \<longrightarrow> (\<exists>sig key digest yml raw der.
       mapGetStr (pb_Annotations pb) ''eksa.aws.com/signature'' = sig \<and> sig \<noteq> [] \<and>
       GetDigest L pb (signingDomain getenv) = Inr (digest, yml) \<and> b64DecodeString sig = Inr raw \<and>
       b64DecodeString (dom_Pubkey (signingDomain getenv)) = Inr der \<and>
       sl_ParsePKIX L der = Inr (Some key) \<and> sl_VerifyASN1 L key digest raw))"
proof -
  have iff: "ar_Allowed resp \<longleftrightarrow> isPackageBundleValid getenv L pb = Ret None"
    using assms by (auto simp: packageBundleValidator_Handle_def split: go.splits option.splits)
  then have valid: "ar_Allowed resp \<longleftrightarrow> IsValidVersion pb \<and>
      (\<exists>digest yml. ValidateSignature L pb (signingDomain getenv) = Ret (Inr (True, digest, yml)))"
    by (simp add: isPackageBundleValid_None)
  have path: "pathJoin [dom_Name (signingDomain getenv), SignatureAnnotation] = ''eksa.aws.com/signature''"
    by (simp add: signingDomain_def EksaDomain_def Let_def)
  show ?thesis
  proof (intro conjI impI valid)
    assume "ar_Allowed resp"
    then obtain digest yml where "ValidateSignature L pb (signingDomain getenv) = Ret (Inr (True, digest, yml))"
      using valid by blast
    from ValidateSignature_valid [OF this] show "\<exists>sig key digest yml raw der.
       mapGetStr (pb_Annotations pb) ''eksa.aws.com/signature'' = sig \<and> sig \<noteq> [] \<and>
       GetDigest L pb (signingDomain getenv) = Inr (digest, yml) \<and> b64DecodeString sig = Inr raw \<and>
       b64DecodeString (dom_Pubkey (signingDomain getenv)) = Inr der \<and>
       sl_ParsePKIX L der = Inr (Some key) \<and> sl_VerifyASN1 L key digest raw"
      unfolding path by blast
  qed
qed

theorem bundle_admitted_is_signed_witness:
  "\<exists>resp. packageBundleValidator_Handle memKeyEnv memSig (Inr memSigned) = Ret resp \<and> ar_Allowed resp"
proof -
  obtain resp where r: "packageBundleValidator_Handle memKeyEnv memSig (Inr memSigned) = Ret resp"
    using mem_signed_handled by blast
  with bundle_admitted_is_signed [OF r] mem_signature mem_version show ?thesis
    by (simp add: IsValidVersion_def)
qed

text \<open>C28.  The bundle controller webhook returns and writes nothing; it admits a controller exactly when
  it names no bundle, or the first bundle of that name on the cluster matches the version that the
  controller's API server reports.\<close>

theorem controller_admitted_iff:
  assumes "cl_ListBundles client PackageNamespace x = Inr items"
  shows "\<exists>resp t'. activeBundleValidator_Handle client (targetCluster getenv kl client) (Inr pbc) (t, x) =
      (Ret resp, (t', x)) \<and>
    (ar_Allowed resp \<longleftrightarrow> pbcs_ActiveBundle (pbc_Spec pbc) = [] \<or>
      (\<exists>b i s. find (\<lambda>b. pb_Name b = pbcs_ActiveBundle (pbc_Spec pbc)) items = Some b \<and>
         tcc_GetServerVersion getenv kl client (pbc_Name pbc) (t, x) = (Ret (Inr i), s) \<and>
         KubeVersionMatches b i = Inr True))"
proof -
  from tcc.handleInner_runs [of getenv kl client pbc "\<lparr>pbl_Items = items\<rparr>" x t]
  obtain r t' where r: "handleInner (targetCluster getenv kl client) pbc \<lparr>pbl_Items = items\<rparr> (t, x) = (Ret r, (t', x))"
    and iff: "(\<exists>resp. r = Inr resp \<and> ar_Allowed resp) \<longleftrightarrow> pbcs_ActiveBundle (pbc_Spec pbc) = [] \<or>
      (\<exists>b i s. find (\<lambda>b. pb_Name b = pbcs_ActiveBundle (pbc_Spec pbc)) items = Some b \<and>
         tcc_GetServerVersion getenv kl client (pbc_Name pbc) (t, x) = (Ret (Inr i), s) \<and>
         KubeVersionMatches b i = Inr True)"
    by (auto elim!: runsE simp: targetCluster_def)
  have "activeBundleValidator_Handle client (targetCluster getenv kl client) (Inr pbc) (t, x) =
      (Ret (case r of Inl err \<Rightarrow> Errored 500 err | Inr resp \<Rightarrow> resp), (t', x))"
    using assms r by (simp add: activeBundleValidator_Handle_def bindM_def onWorld_def split: sum.split)
  moreover have "ar_Allowed (case r of Inl err \<Rightarrow> Errored 500 err | Inr resp \<Rightarrow> resp) \<longleftrightarrow>
      (\<exists>resp. r = Inr resp \<and> ar_Allowed resp)" by (cases r) auto
  ultimately show ?thesis using iff by auto
qed

theorem controller_admitted_iff_witness:
  "\<exists>resp t'. activeBundleValidator_Handle memClient (targetCluster memEnv memKube memClient) (Inr zeroPBC)
      (NewTargetClusterClient (RestConfig ''self''), memWorld) = (Ret resp, (t', memWorld)) \<and> ar_Allowed resp"
proof -
  have l: "cl_ListBundles memClient PackageNamespace memWorld = Inr [memBundle]"
    by (simp add: memClient_def memWorld_def memBundle_def)
  have "pbcs_ActiveBundle (pbc_Spec zeroPBC) = []" by (simp add: zero_defs)
  with controller_admitted_iff [OF l, of memEnv memKube zeroPBC "NewTargetClusterClient (RestConfig ''self'')"]
  show ?thesis by auto
qed

text \<open>C29.  The requests to this webhook run concurrently and share one target client.  A request that is
  alone is answered by the version of the cluster it is about; if a second request points the client
  at its own cluster before the first has read the version, both are answered by the version of the
  second cluster.  So a bundle that does not fit a workload cluster can be admitted.\<close>

theorem concurrent_admission_mixes_clusters:
  assumes "checksVersion client x p1 b1"
    and "tcc_Initialize getenv kl client (pbc_Name p1) (t, x) = (Ret None, (t1, x))"
    and "readVersion kl (t1, x) = (Ret v1, (t1, x))"
    and "tcc_Initialize getenv kl client (pbc_Name p2) (t1, x) = (Ret None, (t2, x))"
    and "readVersion kl (t2, x) = (Ret v2, (t2, x))"
  shows "activeBundleValidator_Handle client (targetCluster getenv kl client) (Inr p1) (t, x) =
      (Ret (versionResponse p1 b1 v1), (t1, x)) \<and>
    (\<exists>s. (admStep getenv kl client)\<^sup>*\<^sup>*
       \<lparr>adm_tcc = t, adm_world = x, adm_requests = [Arrived p1 b1, Arrived p2 b2]\<rparr> s \<and>
     adm_requests s = [Served p1 (versionResponse p1 b1 v2), Served p2 (versionResponse p2 b2 v2)])"
  using Handle_alone [OF assms(1-3)] adm_mixes [OF assms(2,4,5)] by blast

theorem concurrent_admission_mixes_clusters_witness:
  "(\<exists>resp w. activeBundleValidator_Handle memClient (targetCluster memEnv twoKube memClient) (Inr workloadPBC)
      (NewTargetClusterClient (RestConfig ''self''), twoWorld) = (Ret resp, w) \<and> \<not> ar_Allowed resp) \<and>
    (\<exists>s resp. (admStep memEnv twoKube memClient)\<^sup>*\<^sup>*
       \<lparr>adm_tcc = NewTargetClusterClient (RestConfig ''self''), adm_world = twoWorld,
        adm_requests = [Arrived workloadPBC memBundle, Arrived memPBC memBundle]\<rparr> s \<and>
     adm_requests s ! 0 = Served workloadPBC resp \<and> ar_Allowed resp)"
proof -
  let ?t = "NewTargetClusterClient (RestConfig ''self'')"
  let ?t1 = "?t\<lparr>tcc_targetSelf := False, tcc_clientConfig := Some (ClientConfig ''kubeconfig'')\<rparr>"
  let ?t2 = "?t1\<lparr>tcc_targetSelf := True, tcc_clientConfig := Some (ClientConfig [])\<rparr>"
  let ?v1 = "Inr \<lparr>info_Major = ''1'', info_Minor = ''27''\<rparr>" and ?v2 = "Inr \<lparr>info_Major = ''1'', info_Minor = ''28''\<rparr>"
  have i1: "tcc_Initialize memEnv twoKube memClient (pbc_Name workloadPBC) (?t, twoWorld) = (Ret None, (?t1, twoWorld))"
    and i2: "tcc_Initialize memEnv twoKube memClient (pbc_Name memPBC) (?t1, twoWorld) = (Ret None, (?t2, twoWorld))"
    by (simp_all add: workloadPBC_def memPBC_def two_Initialize)
  have r1: "readVersion twoKube (?t1, twoWorld) = (Ret ?v1, (?t1, twoWorld))"
    and r2: "readVersion twoKube (?t2, twoWorld) = (Ret ?v2, (?t2, twoWorld))"
    by (simp_all add: two_readVersion NewTargetClusterClient_def)
  have no: "\<not> ar_Allowed (versionResponse workloadPBC memBundle ?v1)"
    and yes: "ar_Allowed (versionResponse workloadPBC memBundle ?v2)"
    by (simp_all add: versionResponse_def two_versions)
  note both = concurrent_admission_mixes_clusters [OF two_checks i1 r1 i2 r2, of memBundle]
  show ?thesis
  proof
    show "\<exists>resp w. activeBundleValidator_Handle memClient (targetCluster memEnv twoKube memClient) (Inr workloadPBC)
        (?t, twoWorld) = (Ret resp, w) \<and> \<not> ar_Allowed resp"
      by (intro exI conjI, rule conjunct1 [OF both], rule no)
    from both obtain s where "(admStep memEnv twoKube memClient)\<^sup>*\<^sup>*
        \<lparr>adm_tcc = ?t, adm_world = twoWorld, adm_requests = [Arrived workloadPBC memBundle, Arrived memPBC memBundle]\<rparr> s"
      and "adm_requests s ! 0 = Served workloadPBC (versionResponse workloadPBC memBundle ?v2)" by auto
    with yes show "\<exists>s resp. (admStep memEnv twoKube memClient)\<^sup>*\<^sup>*
        \<lparr>adm_tcc = ?t, adm_world = twoWorld, adm_requests = [Arrived workloadPBC memBundle, Arrived memPBC memBundle]\<rparr> s \<and>
        adm_requests s ! 0 = Served workloadPBC resp \<and> ar_Allowed resp"
      by (intro exI conjI)
  qed
qed

section \<open>Reconciliation\<close>



text \<open>C31.  Deleting a package whose namespace is not one for packages makes its reconciler fail for ever:
  there is nothing to uninstall, but the rejection is written to the status of an object that is gone.
  The API server refuses that, the reconciler returns the error, which repeats the request, and
  nothing has changed by then.\<close>

theorem deleted_rejected_package_fails:
  assumes "cl_GetPackage client req x = Inl err" and "IsNotFound err"
    and "\<not> IsValidNamespace (mc_Package (uninstallContext req))"
    and "\<And>p. pkg_Namespace p = nn_Namespace req \<Longrightarrow> pkg_Name p = nn_Name req \<Longrightarrow>
      cl_StatusPackage client p x = (Some gone, x)"
  shows "package_Reconcile env client req (d, x) = (Ret (zeroResult, Some gone), (d, x))"
proof -
  let ?mc = "setState StateUnknown (requeue retryNever (setDetail (''Packages namespaces must start with: '' @
    PackageNamespace) (uninstallContext req)))"
  have "stateOf (uninstallContext req) \<noteq> StateUnknown"
    by (simp, simp add: state_defs)
  then have "Process env (uninstallContext req) (d, x) = (Ret (True, ?mc), (d, x))"
    using assms(3) by (simp add: Process_invalid Let_def)
  moreover have "cl_StatusPackage client (mc_Package ?mc) x = (Some gone, x)"
    by (rule assms(4)) simp_all
  ultimately have "processAndStore env client (uninstallContext req) (d, x) = (Ret (zeroResult, Some gone), (d, x))"
    by (simp add: processAndStore_def bindM_def onWorld_def retryNever_def zeroResult_def after_def)
  then show ?thesis
    using assms(1,2) by (simp add: package_Reconcile_def uninstallContext_def bindM_def onWorld_def)
qed

theorem deleted_rejected_package_fails_witness:
  "package_Reconcile memManagerEnv (memClient\<lparr>cl_StatusPackage := (\<lambda>p w. (Some missing, w))\<rparr>)
     \<lparr>nn_Namespace = ''default'', nn_Name = ''gone''\<rparr> (memDriver0, memWorld) =
   (Ret (zeroResult, Some missing), (memDriver0, memWorld))"
proof (rule deleted_rejected_package_fails)
  show "cl_GetPackage (memClient\<lparr>cl_StatusPackage := (\<lambda>p w. (Some missing, w))\<rparr>)
      \<lparr>nn_Namespace = ''default'', nn_Name = ''gone''\<rparr> memWorld = Inl missing"
    by (simp add: memClient_def memWorld_def lookupObj_def memPackage_def NewPackage_def)
  show "IsNotFound missing" by (simp add: missing_def IsNotFound_def)
  show "\<not> IsValidNamespace (mc_Package (uninstallContext \<lparr>nn_Namespace = ''default'', nn_Name = ''gone''\<rparr>))"
    by (simp add: IsValidNamespace_iff namespacePrefix_def PackageNamespace_def HasPrefix_def)
qed simp

text \<open>\<^verbatim>\<open>withoutRequeue\<close> does not prevent a requeue: the result for a bundle controller that is gone
  still asks controller-runtime to look again, as does every other result of this reconciler.\<close>

theorem deleted_controller_is_requeued:
  assumes "cl_GetPBC client req x = Inl err" and "IsNotFound err"
  shows "\<exists>result. pbc_Reconcile m client req (r, x) = (Ret (result, None), (r, x)) \<and>
    result = withoutRequeue result \<and> requeues result"
  using pbc_Reconcile_deleted [OF assms, of m r] by (simp add: requeues_def withoutRequeue_def)

theorem deleted_controller_is_requeued_witness:
  "\<exists>result. pbc_Reconcile memBundleManager memClient \<lparr>nn_Namespace = ''eksa-packages'', nn_Name = ''gone''\<rparr>
      (\<lparr>rec_webhookInitialized = True, rec_targetClient = NewTargetClusterClient (RestConfig ''self'')\<rparr>, memWorld) =
      (Ret (result, None), (\<lparr>rec_webhookInitialized = True,
         rec_targetClient = NewTargetClusterClient (RestConfig ''self'')\<rparr>, memWorld)) \<and> requeues result"
proof -
  have g: "cl_GetPBC memClient \<lparr>nn_Namespace = ''eksa-packages'', nn_Name = ''gone''\<rparr> memWorld = Inl missing"
    by (simp add: memClient_def memWorld_def lookupObj_def memPBC_def zero_defs)
  have nf: "IsNotFound missing" by (simp add: missing_def IsNotFound_def)
  from deleted_controller_is_requeued [OF g nf, of memBundleManager] show ?thesis by blast
qed

text \<open>C32.  Reconciling a bundle settles: after a pass that returned without an error the stored bundle
  has the state it should have, and the next pass writes nothing.\<close>

theorem bundle_reconcile_settles:
  assumes "bundle_readback client" and "cl_GetBundle client req x = Inr b"
    and "req = \<lparr>nn_Namespace = pb_Namespace b, nn_Name = pb_Name b\<rparr>"
    and "bundle_Reconcile semverCompare config client req x = (Ret (zeroResult, None), x')"
  shows "(\<exists>b'. cl_GetBundle client req x' = Inr b' \<and> pb_Spec b' = pb_Spec b \<and>
      pbst_State (pb_Status b') = bundleState semverCompare config b) \<and>
    bundle_Reconcile semverCompare config client req x' = (Ret (zeroResult, None), x')"
proof -
  have "pb_Spec (snd (ProcessBundle semverCompare config b)) = pb_Spec b"
    by (simp add: ProcessBundle_eq setBundleState_def)
  with bundle_Reconcile_settles [OF assms] show ?thesis by (auto simp: ProcessBundle_state)
qed

theorem bundle_reconcile_settles_witness:
  "\<exists>x' b'. bundle_Reconcile (\<lambda>_ _. 0) (GetConfig DEVELOPMENT [] ''0'') memClient
      \<lparr>nn_Namespace = ''eksa-packages'', nn_Name = ''v1-28-1''\<rparr> memWorld = (Ret (zeroResult, None), x') \<and>
    cl_GetBundle memClient \<lparr>nn_Namespace = ''eksa-packages'', nn_Name = ''v1-28-1''\<rparr> x' = Inr b' \<and>
    pbst_State (pb_Status b') = bundleState (\<lambda>_ _. 0) (GetConfig DEVELOPMENT [] ''0'') memBundle"
proof -
  let ?req = "\<lparr>nn_Namespace = ''eksa-packages'', nn_Name = ''v1-28-1''\<rparr>"
  let ?cfg = "GetConfig DEVELOPMENT [] ''0''"
  have g: "cl_GetBundle memClient ?req memWorld = Inr memBundle"
    and n: "?req = \<lparr>nn_Namespace = pb_Namespace memBundle, nn_Name = pb_Name memBundle\<rparr>"
    by (simp_all add: memClient_def memWorld_def lookupObj_def memBundle_def PackageNamespace_def)
  have s: "fst (cl_StatusBundle memClient b x) = None" for b x
    by (simp add: memClient_def)
  have "\<exists>x'. bundle_Reconcile (\<lambda>_ _. 0) ?cfg memClient ?req memWorld = (Ret (zeroResult, None), x')"
    by (simp add: bundle_Reconcile_def bindM_def ProcessBundle_eq g s)
  then obtain x' where r: "bundle_Reconcile (\<lambda>_ _. 0) ?cfg memClient ?req memWorld = (Ret (zeroResult, None), x')" ..
  from bundle_reconcile_settles [OF memClient_bundle_readback g n r] r show ?thesis by auto
qed

section \<open>The start of the process\<close>



section \<open>The token refresher\<close>



text \<open>C35.  The secret with the registry mirror that the controller mounts, after a broadcast, when the
  API server of the management cluster accepts writing it: the docker configuration is the one of the management cluster, the
  \<^verbatim>\<open>config.json\<close> is the one of whichever cluster Go's map iteration visits last, and the entries for
  the certificate and for an insecure registry of a cluster are set where the mirror has them and
  otherwise stay as they were.  So a registry that was insecure once stays so.\<close>

theorem mirror_secret_only_grows:
  assumes "secret_stores (rms_clientSets mirror)" "answers_writes (rms_clientSets mirror) acc"
    and "map_of (rms_clientSets mirror) (rms_mgmtClusterName mirror) = Some km"
    and "ranges mapKeys" "\<And>xs. set (mapRange xs) = set xs"
    and "rms_credName mirror = credName"
    and "\<forall>c\<in>fst ` set (rms_clusterCredentials mirror). map_of (rms_clientSets mirror) c \<noteq> None \<and>
      the (map_of (rms_clusterCredentials mirror) c) \<noteq> [] \<and>
      rl_Marshal L (CreateDockerAuthConfig (the (map_of (rms_clusterCredentials mirror) c))) = Inr (cfg c)"
    and "rms_mgmtClusterName mirror \<in> fst ` set (rms_clusterCredentials mirror)"
    and "good_objects (rms_clientSets mirror) credName x"
    and "(rms_mgmtClusterName mirror, PackagesNamespace) \<in> acc x"
  shows "\<exists>x' old new. mirror_BroadcastCredentials mapRange mapKeys L mirror x = (Ret None, x') \<and>
    old = entry (cs_GetSecret km PackagesNamespace credName x) \<and>
    new = entry (cs_GetSecret km PackagesNamespace credName x') \<and>
    new DockerConfigJsonKey = Some (cfg (rms_mgmtClusterName mirror)) \<and>
    new ''config.json'' = Some (cfg (last (mapRange (map fst (rms_clusterCredentials mirror))))) \<and>
    (\<forall>c\<in>fst ` set (rms_clusterCredentials mirror).
       new (c @ ''_ca.crt'') =
         (if crd_CA (firstCred mirror c) \<noteq> [] then Some (crd_CA (firstCred mirror c)) else old (c @ ''_ca.crt'')) \<and>
       new (c @ ''_insecure'') =
         (if crd_Insecure (firstCred mirror c) = ''true'' then Some ''true'' else old (c @ ''_insecure'')))"
proof -
  let ?names = "map fst (rms_clusterCredentials mirror)"
  obtain x' where r: "mirror_BroadcastCredentials mapRange mapKeys L mirror x = (Ret None, x')"
    and n: "entry (cs_GetSecret km PackagesNamespace credName x') =
      entry (cs_GetSecret km PackagesNamespace credName x) ++ mounted mirror cfg (mapRange ?names) Map.empty"
    using runsD [OF mirror_BroadcastCredentials_mounts [OF assms(1-5) refl refl assms(6-10)]] by blast
  have "mapRange ?names \<noteq> []"
    using assms(5) [of ?names] assms(8) by auto
  with r n assms(8) show ?thesis
    by (auto simp: map_add_def mounted_lookup assms(5))
qed

theorem mirror_secret_only_grows_witness:
  "\<exists>x'. mirror_BroadcastCredentials id memKeys memLib memMirror memRefresh = (Ret None, x') \<and>
     entry (cs_GetSecret (memCluster ''mgmt'') PackagesNamespace credName x') ''config.json'' = Some ''w1'' \<and>
     entry (cs_GetSecret (memCluster ''mgmt'') PackagesNamespace credName x') DockerConfigJsonKey = Some ''mgmt'' \<and>
     crd_Insecure (firstCred memMirror ''w1'') = ''false'' \<and>
     entry (cs_GetSecret (memCluster ''mgmt'') PackagesNamespace credName x') ''w1_insecure'' = Some ''true''"
proof -
  have old: "entry (cs_GetSecret (memCluster ''mgmt'') PackagesNamespace credName memRefresh) ''w1_insecure'' = Some ''true''"
    by (simp add: memCluster_def memRefresh_def memMounted_def)
  have json: "rl_Marshal memLib (CreateDockerAuthConfig [memMirrorCred c]) = Inr c" if "c \<noteq> []" for c
    using that by (simp add: memLib_def CreateDockerAuthConfig_def memMirrorCred_def credentialAuth_def Let_def)
  have there: "(''mgmt'', PackagesNamespace) \<in> memNamespaces" by (simp add: memNamespaces_def)
  from mirror_secret_only_grows [of memMirror "\<lambda>_. memNamespaces" "memCluster ''mgmt''" memKeys id memLib "\<lambda>c. c" memRefresh]
  show ?thesis
    using json [of "''w1''"] json [of "''mgmt''"] old there memSets_stores memSets_answers memKeys_ranges memRefresh_good
    by (force simp: memMirror_def memMirrorCred_def firstCred_def)
qed

section \<open>The credential provider package\<close>

text \<open>C36.  Setting the arguments of the kubelet settles: on a node that accepts the writes, the file
  afterwards has a line of arguments and every such line names a configuration and a directory of
  binaries; a file that was so before is not changed, and a second run leaves it as it is.\<close>

theorem kubelet_arguments_settle:
  assumes "node_files L" "node_accepts L" and "path \<notin> outFiles c" and "CHR 0x0A \<notin> set (lx_basePath c)"
    and "os_ReadFile L path x = Inr old"
  shows "\<exists>x' x'' new. updateConfigFile L c path x = (Ret None, x') \<and> os_ReadFile L path x' = Inr new \<and>
    configured new \<and> (configured old \<longrightarrow> new = old) \<and>
    updateConfigFile L c path x' = (Ret None, x'') \<and> os_ReadFile L path x'' = Inr new"
proof -
  have new: "configured (newText c old)" by (rule newText_configured [OF assms(4)])
  obtain x' where x': "updateConfigFile L c path x = (Ret None, x')" "os_ReadFile L path x' = Inr (newText c old)"
    using runsD [OF updateConfigFile_ok [OF assms(1-3,5)]] by auto
  obtain x'' where "updateConfigFile L c path x' = (Ret None, x'')" "os_ReadFile L path x'' = Inr (newText c old)"
    using runsD [OF updateConfigFile_ok [OF assms(1-3) x'(2)]] newText_configured_id [OF new] by auto
  with new x' newText_configured_id [of old c] show ?thesis by auto
qed

theorem kubelet_arguments_settle_witness:
  "\<exists>x' new. updateConfigFile memNode NewLinuxConfigurator mountedExtraArgs [mountedExtraArgs \<mapsto> ''KUBELET_EXTRA_ARGS=-v=2''] =
      (Ret None, x') \<and> os_ReadFile memNode mountedExtraArgs x' = Inr new \<and> configured new"
proof -
  have "CHR 0x0A \<notin> set (lx_basePath NewLinuxConfigurator)"
    by (simp add: NewLinuxConfigurator_def basePath_def)
  moreover have "os_ReadFile memNode mountedExtraArgs [mountedExtraArgs \<mapsto> s] = Inr s" for s
    by (simp add: memNode_def)
  ultimately show ?thesis
    using kubelet_arguments_settle [OF memNode_files mountedExtraArgs_apart] by blast
qed

section \<open>The bundle generator\<close>

text \<open>C37.  The image chosen for a \<^verbatim>\<open>latest\<close> tag: among the images with a push time, a digest, tags and the
  OCI media type it is one that was pushed last, and the version has its first tag and its digest.
  When there is none the function does not return the error for that case; it panics.\<close>

theorem newest_image_is_chosen:
  assumes "\<forall>d\<in>set ds. candidate d \<longrightarrow> id_MediaType d \<noteq> None" and "\<forall>d\<in>set ds. usable d \<longrightarrow> 0 < pushed d"
  shows "(\<exists>d\<in>set ds. usable d \<and> (\<forall>d'\<in>set ds. usable d' \<longrightarrow> pushed d' \<le> pushed d) \<and>
      getLatestImageSha ds = Ret (Inr (sourceVersion (hd (id_Tags d)) (the (id_Digest d))))) \<or>
    ((\<forall>d\<in>set ds. \<not> usable d) \<and> getLatestImageSha ds = Panic ''index out of range'')"
  using assms(2) by (cases rule: getLatestImageSha_cases [OF assms(1)]) force+

theorem newest_image_is_chosen_witness:
  "getLatestImageSha [memImage 5 ''1.0'', memImage 7 ''1.1''] = Ret (Inr (sourceVersion ''1.1'' ''sha256:1.1'')) \<and>
   getLatestImageSha [] = Panic ''index out of range''"
  using newest_image_is_chosen [of "[memImage 5 ''1.0'', memImage 7 ''1.1'']"] newest_image_is_chosen [of "[]"]
  by (simp add: memImage_def usable_def candidate_def pushed_def)

text \<open>C38.  A generated bundle is well formed: its packages are those of the input, in order, each with its
  name, registry, repository and scope; each has a version, no two versions have one name, and each
  version carries the digest of an OCI manifest that ECR lists for the repository.  A project outside
  ECR is never part of a bundle.\<close>

theorem generated_bundle_well_formed:
  assumes "NewBundleFromInput c t input = Some (Ret (Inr (spec, name)))"
  shows "list_all2 (packageOf c) (concat (map org_Projects (in_Packages input))) (pbs_Packages spec) \<and>
    pbs_MinVersion spec = in_MinVersion input \<and>
    name = ''v1-'' @ inputMinor input @ ''-'' @ formatDate t @ ''-'' @ Sprint (clk_Unix t)"
  using NewBundleFromInput_packages [OF assms] NewBundleFromInput_name [OF assms] by blast

theorem generated_bundle_well_formed_witness:
  "NewBundleFromInput memEcr (memDay 1) memInput = Some (Ret (Inr (memSpec, memName 1))) \<and>
     list_all2 (packageOf memEcr) (org_Projects (hd (in_Packages memInput))) (pbs_Packages memSpec)"
  using mem_NewBundle [of 1] generated_bundle_well_formed [OF mem_NewBundle [of 1]] by (simp add: memInput_def)

text \<open>C39.  Listing the images of a repository returns exactly when the tokens of its pages end; if they do
  for every project of the input, the generator returns, and if ECR answers every request for a
  repository with a token, the listing never does.\<close>

theorem generator_terminates:
  "(Describe c i \<noteq> None \<longleftrightarrow> listingEnds c i) \<and>
   ((\<forall>p\<in>set (concat (map org_Projects (in_Packages input))). projectEnds c p) \<longrightarrow>
      NewBundleFromInput c t input \<noteq> None) \<and>
   ((\<forall>i. di_Repository i = repo \<longrightarrow> (\<exists>images token. ec_DescribeImages c i = Inr (images, Some token))) \<longrightarrow>
      di_Repository i = repo \<longrightarrow> Describe c i = None)"
  using Describe_terminates [of c i] NewBundleFromInput_returns [of input c t] listing_cycle [of repo c i]
  by blast

theorem generator_terminates_witness:
  "NewBundleFromInput memEcr (memDay 1) memInput \<noteq> None \<and>
     Describe cyclicEcr \<lparr>di_Repository = ''hello'', di_ImageIds = [], di_NextToken = None\<rparr> = None"
proof -
  have "listingEnds memEcr i" for i by (rule listingEnds.ended) (simp add: memEcr_def)
  then have "NewBundleFromInput memEcr (memDay 1) memInput \<noteq> None"
    using generator_terminates [of memEcr _ memInput "memDay 1"] by (simp add: projectEnds_def)
  moreover have "Describe cyclicEcr \<lparr>di_Repository = ''hello'', di_ImageIds = [], di_NextToken = None\<rparr> = None"
    using generator_terminates [of cyclicEcr "\<lparr>di_Repository = ''hello'', di_ImageIds = [], di_NextToken = None\<rparr>" _ _ "''hello''"]
    by (simp add: cyclicEcr_def)
  ultimately show ?thesis by blast
qed

text \<open>C40.  The webhook admits what the generator makes: a bundle with a generated name that was signed with
  the key pair of the code, whatever annotations were there before, is admitted, and it matches
  exactly the API servers of version 1 with the minor version of the input.\<close>

theorem generated_bundle_is_admitted:
  assumes "NewBundleFromInput ecr t input = Some (Ret (Inr (spec, name)))"
    and "inputMinor input = natString m" "m < 9223372036854775808"
    and "1000 \<le> clk_Year t" "clk_Year t \<le> 9999"
    and "signBundle S kmsSign (Some a) spec' name key = Ret (Inr b)"
    and "ignores_signature S" "key_pair S kmsSign key" and "getenv PublicKeyEnvVar = []"
  shows "\<exists>resp. packageBundleValidator_Handle getenv S (Inr b) = Ret resp \<and> ar_Allowed resp \<and>
    (\<forall>i. KubeVersionMatches b i = Inr (info_Major i = ''1'' \<and> info_Minor i = natString m))"
proof -
  obtain d y where b: "pb_Name b = name" "ValidateSignature S b EksaDomain = Ret (Inr (True, d, y))"
    using signBundle_verifies [OF assms(6-8)] by blast
  have v: "getMajorMinorBuild b = (1, int m, int (clk_Year t), None)"
    using assms(1-5) b(1) by (intro getMajorMinorBuild_generated) auto
  have "Sprint 1 = ''1''" by code_simp
  with v have k: "KubeVersionMatches b i = Inr (info_Major i = ''1'' \<and> info_Minor i = natString m)" for i
    by (auto simp: KubeVersionMatches_def)
  have "isPackageBundleValid getenv S b = Ret None"
    unfolding isPackageBundleValid_None using v b assms(9) by (simp add: IsValidVersion_def signingDomain_def)
  with k show ?thesis by (simp add: packageBundleValidator_Handle_def)
qed

theorem generated_bundle_is_admitted_witness:
  "\<exists>b resp. signBundle memSig memKms DefaultExcludesAnnotation memSpec (memName 1) ''k'' = Ret (Inr b) \<and>
     packageBundleValidator_Handle (\<lambda>_. []) memSig (Inr b) = Ret resp \<and> ar_Allowed resp \<and>
     KubeVersionMatches b \<lparr>info_Major = ''1'', info_Minor = ''28''\<rparr> = Inr True"
proof -
  obtain b where b: "signBundle memSig memKms DefaultExcludesAnnotation memSpec (memName 1) ''k'' = Ret (Inr b)"
    using mem_signBundle by blast
  have m: "natString 28 = ''28''" by code_simp
  from generated_bundle_is_admitted [OF mem_NewBundle mem_minor _ _ _ b [unfolded DefaultExcludesAnnotation_def]
      mem_ignores mem_key_pair, of "\<lambda>_. []"] b m
  show ?thesis by (auto simp: memDay_def)
qed

end
